(* ===== verification/Prelude.thy ===== *)
theory Prelude
  imports Main
begin

text \<open>
  Shared vocabulary of the development: the types that stand for database identifiers, instants
  and money, the state-and-exception monad in which every service method is written, the
  collections of facts the component proofs share, and small facts on lists and options.

  A transaction body of the backend (a callback given to withTenantTransaction in
  backend/src/common/prisma/prisma.service.ts) reads and writes the database and may throw.
  It is modelled as a function from a state to either the error it throws or a result with the
  new state; throwing drops the new state, as the rolled-back transaction does.
\<close>

named_theorems tx_iff "when a transaction step returns normally, and with which state"
named_theorems tx_run "one-step evaluation of a transaction applied to a state"
named_theorems frame "which parts of the state a helper leaves alone"

section \<open>Names of the base types\<close>

type_synonym uuid = nat     \<comment> \<open>a row identifier; fresh ones come from a supply in the state\<close>
type_synonym instant = int  \<comment> \<open>milliseconds since the epoch, as Date.getTime() gives them\<close>
type_synonym cents = int    \<comment> \<open>a Decimal(12,2) column, in hundredths\<close>

text \<open>The em dash of the audit actions and messages, as its UTF-8 bytes.\<close>

definition dash :: string where
  "dash = [CHR 0xE2, CHR 0x80, CHR 0x94]"

section \<open>The transaction monad\<close>

type_synonym ('s, 'e, 'a) txn = "'s \<Rightarrow> 'e + ('a \<times> 's)"

definition ret :: "'a \<Rightarrow> ('s, 'e, 'a) txn" where
  "ret x = (\<lambda>s. Inr (x, s))"

definition throw :: "'e \<Rightarrow> ('s, 'e, 'a) txn" where
  "throw e = (\<lambda>s. Inl e)"

definition bind :: "('s, 'e, 'a) txn \<Rightarrow> ('a \<Rightarrow> ('s, 'e, 'b) txn) \<Rightarrow> ('s, 'e, 'b) txn" where
  "bind m f = (\<lambda>s. case m s of Inl e \<Rightarrow> Inl e | Inr r \<Rightarrow> f (fst r) (snd r))"

definition andThen :: "('s, 'e, 'a) txn \<Rightarrow> ('s, 'e, 'b) txn \<Rightarrow> ('s, 'e, 'b) txn" where
  "andThen m n = bind m (\<lambda>_. n)"

definition gets :: "('s \<Rightarrow> 'a) \<Rightarrow> ('s, 'e, 'a) txn" where
  "gets f = (\<lambda>s. Inr (f s, s))"

definition modify :: "('s \<Rightarrow> 's) \<Rightarrow> ('s, 'e, unit) txn" where
  "modify f = (\<lambda>s. Inr ((), f s))"

text \<open>The guard of a handler: \<^verbatim>\<open>if (bad) throw new SomeError(...)\<close>.\<close>

definition throw_if :: "bool \<Rightarrow> 'e \<Rightarrow> ('s, 'e, unit) txn" where
  "throw_if bad e = (if bad then throw e else ret ())"

text \<open>\<^verbatim>\<open>if (!row) throw new NotFoundError(...)\<close>, with the row in hand afterwards.\<close>

definition require :: "'a option \<Rightarrow> 'e \<Rightarrow> ('s, 'e, 'a) txn" where
  "require x e = (case x of None \<Rightarrow> throw e | Some v \<Rightarrow> ret v)"

definition run_when :: "bool \<Rightarrow> ('s, 'e, unit) txn \<Rightarrow> ('s, 'e, unit) txn" where
  "run_when b m = (if b then m else ret ())"

text \<open>A \<^verbatim>\<open>for (const x of xs) { ... }\<close> loop whose body may throw; the results are collected.\<close>

fun forM :: "'a list \<Rightarrow> ('a \<Rightarrow> ('s, 'e, 'b) txn) \<Rightarrow> ('s, 'e, 'b list) txn" where
  "forM [] f = ret []"
| "forM (x # xs) f = bind (f x) (\<lambda>y. bind (forM xs f) (\<lambda>ys. ret (y # ys)))"

lemma throw_if_cong [cong]: "b = b' \<Longrightarrow> throw_if b e = throw_if b' e"
  by simp

lemma require_cong [cong]: "x = y \<Longrightarrow> require x e = require y e"
  by simp

lemma ret_iff [tx_iff]: "ret x s = Inr r \<longleftrightarrow> r = (x, s)"
  by (auto simp: ret_def)

lemma throw_iff [tx_iff]: "throw e s = Inr r \<longleftrightarrow> False"
  by (simp add: throw_def)

lemma bind_iff [tx_iff]: "bind m f s = Inr r \<longleftrightarrow> (\<exists>x s'. m s = Inr (x, s') \<and> f x s' = Inr r)"
  by (auto simp: bind_def split: sum.splits)

lemma andThen_iff [tx_iff]: "andThen m n s = Inr r \<longleftrightarrow> (\<exists>x s'. m s = Inr (x, s') \<and> n s' = Inr r)"
  by (simp add: andThen_def bind_iff)

lemma gets_iff [tx_iff]: "gets f s = Inr r \<longleftrightarrow> r = (f s, s)"
  by (auto simp: gets_def)

lemma modify_iff [tx_iff]: "modify f s = Inr r \<longleftrightarrow> r = ((), f s)"
  by (auto simp: modify_def)

lemma throw_if_iff [tx_iff]: "throw_if b e s = Inr r \<longleftrightarrow> \<not> b \<and> r = ((), s)"
  by (auto simp: throw_if_def throw_def ret_def)

lemma require_iff [tx_iff]: "require x e s = Inr r \<longleftrightarrow> (\<exists>v. x = Some v \<and> r = (v, s))"
  by (auto simp: require_def throw_def ret_def split: option.splits)

lemma run_when_iff [tx_iff]: "run_when b m s = Inr r \<longleftrightarrow> (if b then m s = Inr r else r = ((), s))"
  by (auto simp: run_when_def ret_def)

lemma ret_run [tx_run]: "ret x s = Inr (x, s)"
  by (simp add: ret_def)

lemma throw_run [tx_run]: "throw e s = Inl e"
  by (simp add: throw_def)

lemma bind_run [tx_run]: "bind m f s = (case m s of Inl e \<Rightarrow> Inl e | Inr r \<Rightarrow> f (fst r) (snd r))"
  by (simp add: bind_def)

lemma andThen_run [tx_run]: "andThen m n s = (case m s of Inl e \<Rightarrow> Inl e | Inr r \<Rightarrow> n (snd r))"
  by (simp add: andThen_def bind_def)

lemma gets_run [tx_run]: "gets f s = Inr (f s, s)"
  by (simp add: gets_def)

lemma modify_run [tx_run]: "modify f s = Inr ((), f s)"
  by (simp add: modify_def)

lemma throw_if_run [tx_run]: "throw_if b e s = (if b then Inl e else Inr ((), s))"
  by (simp add: throw_if_def throw_def ret_def)

lemma require_run [tx_run]:
  "require x e s = (case x of None \<Rightarrow> Inl e | Some v \<Rightarrow> Inr (v, s))"
  by (simp add: require_def throw_def ret_def split: option.splits)

lemma run_when_run [tx_run]: "run_when b m s = (if b then m s else Inr ((), s))"
  by (simp add: run_when_def ret_def)

text \<open>Associativity: a helper's steps read as steps of the handler that calls it.\<close>

lemma tx_assoc:
  "bind (bind m f) g = bind m (\<lambda>x. bind (f x) g)"
  "andThen (bind m f) n = bind m (\<lambda>x. andThen (f x) n)"
  "bind (andThen m k) g = andThen m (bind k g)"
  "andThen (andThen m k) n = andThen m (andThen k n)"
  by (auto simp: bind_def andThen_def split: sum.split)

section \<open>Relations kept by a transaction\<close>

text \<open>
  A transaction keeps a relation between states when every normal return is related to the state
  it started from. For a reflexive and transitive relation this composes over the monad, so a
  property of a whole service method follows from its primitive steps. The locale is the
  interface; the components interpret it with "the audit log only grows", "the clock and the
  identifier supply only move forward", and so on.
\<close>

definition keeps :: "('s \<Rightarrow> 's \<Rightarrow> bool) \<Rightarrow> ('s, 'e, 'a) txn \<Rightarrow> bool" where
  "keeps R m \<longleftrightarrow> (\<forall>s x s'. m s = Inr (x, s') \<longrightarrow> R s s')"

lemma keepsD: "keeps R m \<Longrightarrow> m s = Inr (x, s') \<Longrightarrow> R s s'"
  by (auto simp: keeps_def)

locale state_relation =
  fixes R :: "'s \<Rightarrow> 's \<Rightarrow> bool"
  assumes R_refl: "R s s"
    and R_trans: "R s t \<Longrightarrow> R t u \<Longrightarrow> R s u"
begin

lemma keeps_ret: "keeps R (ret x)"
  by (simp add: keeps_def ret_iff R_refl)

lemma keeps_throw: "keeps R (throw e)"
  by (simp add: keeps_def throw_iff)

lemma keeps_gets: "keeps R (gets f)"
  by (simp add: keeps_def gets_iff R_refl)

lemma keeps_throw_if: "keeps R (throw_if b e)"
  by (simp add: keeps_def throw_if_iff R_refl)

lemma keeps_require: "keeps R (require x e)"
  by (auto simp: keeps_def require_iff R_refl)

lemma keeps_bind: "keeps R m \<Longrightarrow> (\<And>x. keeps R (f x)) \<Longrightarrow> keeps R (bind m f)"
  unfolding keeps_def bind_iff by (blast intro: R_trans)

lemma keeps_andThen: "keeps R m \<Longrightarrow> keeps R n \<Longrightarrow> keeps R (andThen m n)"
  by (simp add: andThen_def keeps_bind)

lemma keeps_run_when: "keeps R m \<Longrightarrow> keeps R (run_when b m)"
  by (simp add: run_when_def keeps_ret)

lemma keeps_modify: "(\<And>s. R s (f s)) \<Longrightarrow> keeps R (modify f)"
  by (simp add: keeps_def modify_iff)

lemma keeps_if: "keeps R m \<Longrightarrow> keeps R n \<Longrightarrow> keeps R (if b then m else n)"
  by simp

lemma keeps_case_option:
  "keeps R m \<Longrightarrow> (\<And>v. keeps R (f v)) \<Longrightarrow> keeps R (case x of None \<Rightarrow> m | Some v \<Rightarrow> f v)"
  by (cases x) simp_all

lemma keeps_case_prod: "(\<And>a b. keeps R (f a b)) \<Longrightarrow> keeps R (case p of (a, b) \<Rightarrow> f a b)"
  by (cases p) simp

lemma keeps_Let: "(\<And>v. keeps R (f v)) \<Longrightarrow> keeps R (let v = e in f v)"
  by simp

lemma keeps_forM: "(\<And>x. keeps R (f x)) \<Longrightarrow> keeps R (forM xs f)"
  by (induction xs) (simp_all add: keeps_ret keeps_bind)

lemmas keeps_intros =
  keeps_ret keeps_throw keeps_gets keeps_throw_if keeps_require keeps_bind keeps_andThen
  keeps_run_when keeps_if keeps_case_option keeps_case_prod keeps_Let keeps_forM

end

section \<open>JavaScript values the services test for truth\<close>

text \<open>A nullable string is falsy when it is null, undefined or empty.\<close>

fun truthy :: "string option \<Rightarrow> bool" where
  "truthy None = False"
| "truthy (Some v) = (v \<noteq> [])"

text \<open>\<^verbatim>\<open>a ?? b\<close> on a nullable value, and the effect of an undefined field in an update.\<close>

fun coalesce :: "'a option \<Rightarrow> 'a option \<Rightarrow> 'a option" where
  "coalesce None b = b"
| "coalesce (Some a) b = Some a"

lemma coalesce_None_right [simp]: "coalesce a None = a"
  by (cases a) simp_all

text \<open>\<^verbatim>\<open>String.prototype.trim\<close> on the blank characters an ASCII string can hold.\<close>

definition is_space :: "char \<Rightarrow> bool" where
  "is_space c \<longleftrightarrow> c \<in> {CHR 0x20, CHR 0x09, CHR 0x0A, CHR 0x0B, CHR 0x0C, CHR 0x0D}"

definition trim :: "string \<Rightarrow> string" where
  "trim v = rev (dropWhile is_space (rev (dropWhile is_space v)))"

definition lower_char :: "char \<Rightarrow> char" where
  "lower_char c = (let n = of_char c :: nat in if 65 \<le> n \<and> n \<le> 90 then char_of (n + 32) else c)"

definition toLowerCase :: "string \<Rightarrow> string" where
  "toLowerCase = map lower_char"

section \<open>Instants and dates\<close>

definition day_ms :: int where
  "day_ms = 86400000"

text \<open>
  Midnight UTC of an instant's day: what \<^verbatim>\<open>setUTCHours(0, 0, 0, 0)\<close> computes, and
  what a \<^verbatim>\<open>@db.Date\<close> column keeps of the instant written to it.
\<close>

definition start_of_day :: "instant \<Rightarrow> instant" where
  "start_of_day t = t - t mod day_ms"

lemma start_of_day_le: "start_of_day t \<le> t"
  by (simp add: start_of_day_def day_ms_def)

lemma start_of_day_idem [simp]: "start_of_day (start_of_day t) = start_of_day t"
  by (simp add: start_of_day_def mod_diff_right_eq)

lemma start_of_day_gt: "t < start_of_day t + day_ms"
  unfolding start_of_day_def day_ms_def by (simp add: algebra_simps)

section \<open>Text normalization\<close>

definition is_alnum :: "char \<Rightarrow> bool" where
  "is_alnum c \<longleftrightarrow> (let n = of_char c :: nat in (97 \<le> n \<and> n \<le> 122) \<or> (48 \<le> n \<and> n \<le> 57))"

text \<open>\<^verbatim>\<open>value.replace(/[^a-z0-9]+/g, ' ')\<close>; the flag says that a run is being replaced.\<close>

fun collapse :: "bool \<Rightarrow> string \<Rightarrow> string" where
  "collapse gap [] = []"
| "collapse gap (c # cs) =
     (if is_alnum c then c # collapse False cs
      else if gap then collapse True cs else CHR 0x20 # collapse True cs)"

definition normalize :: "string \<Rightarrow> string" where
  "normalize v = trim (collapse False (toLowerCase v))"

section \<open>Lists\<close>

lemma find_Some_iff':
  "List.find P xs = Some x \<Longrightarrow> x \<in> set xs \<and> P x"
  by (auto simp: find_Some_iff)

lemma find_None_all: "List.find P xs = None \<longleftrightarrow> (\<forall>x \<in> set xs. \<not> P x)"
  by (auto simp: find_None_iff)

lemma filter_map_id:
  "(\<And>x. x \<in> set xs \<Longrightarrow> P (f x) \<longleftrightarrow> P x) \<Longrightarrow> (\<And>x. x \<in> set xs \<Longrightarrow> P x \<Longrightarrow> f x = x) \<Longrightarrow>
     filter P (map f xs) = filter P xs"
  by (induction xs) auto

end
