(* ===== verification/Table.thy ===== *)
theory Table
  imports Prelude
begin

text \<open>
  A database table as a list of rows keyed by their identifier, in insertion order, with the
  operations Prisma performs on one: point lookup and update by key, search and bulk update and
  delete by a predicate. A locale states what the services rely on, and is interpreted on
  these operations; two more laws say how the rows of one tenant are framed by writes to
  another's.
\<close>

type_synonym 'a table = "(uuid \<times> 'a) list"

definition tbl_find :: "uuid \<Rightarrow> 'a table \<Rightarrow> 'a option" where
  "tbl_find k t = map_of t k"

definition tbl_ins :: "uuid \<Rightarrow> 'a \<Rightarrow> 'a table \<Rightarrow> 'a table" where
  "tbl_ins k r t = t @ [(k, r)]"

text \<open>Several insertions in a row, under consecutive keys.\<close>

definition tbl_insMany :: "uuid \<Rightarrow> 'a list \<Rightarrow> 'a table \<Rightarrow> 'a table" where
  "tbl_insMany n rs t = t @ List.enumerate n rs"

text \<open>Update by primary key: the key selects at most one row.\<close>

fun tbl_upd :: "uuid \<Rightarrow> ('a \<Rightarrow> 'a) \<Rightarrow> 'a table \<Rightarrow> 'a table" where
  "tbl_upd k f [] = []"
| "tbl_upd k f ((i, r) # t) = (if i = k then (i, f r) # t else (i, r) # tbl_upd k f t)"

definition tbl_updMany :: "(uuid \<Rightarrow> 'a \<Rightarrow> bool) \<Rightarrow> ('a \<Rightarrow> 'a) \<Rightarrow> 'a table \<Rightarrow> 'a table" where
  "tbl_updMany P f t = map (\<lambda>(i, r). if P i r then (i, f r) else (i, r)) t"

definition tbl_del :: "(uuid \<Rightarrow> 'a \<Rightarrow> bool) \<Rightarrow> 'a table \<Rightarrow> 'a table" where
  "tbl_del P t = filter (\<lambda>(i, r). \<not> P i r) t"

definition tbl_where :: "(uuid \<Rightarrow> 'a \<Rightarrow> bool) \<Rightarrow> 'a table \<Rightarrow> (uuid \<times> 'a) list" where
  "tbl_where P t = filter (\<lambda>(i, r). P i r) t"

definition tbl_first :: "(uuid \<Rightarrow> 'a \<Rightarrow> bool) \<Rightarrow> 'a table \<Rightarrow> (uuid \<times> 'a) option" where
  "tbl_first P t = List.find (\<lambda>(i, r). P i r) t"

definition keys :: "'a table \<Rightarrow> uuid set" where
  "keys t = fst ` set t"

text \<open>A table below a supply: keys are unique and none of them is still to be handed out.\<close>

definition table_ok :: "uuid \<Rightarrow> 'a table \<Rightarrow> bool" where
  "table_ok n t \<longleftrightarrow> distinct (map fst t) \<and> (\<forall>k \<in> set (map fst t). k < n)"

section \<open>Lookup after a write\<close>

lemma tbl_find_upd:
  "tbl_find i (tbl_upd k f t) = (if i = k then map_option f (tbl_find k t) else tbl_find i t)"
  unfolding tbl_find_def by (induction t) auto

lemma tbl_upd_same: "tbl_find k t = Some r \<Longrightarrow> f r = r \<Longrightarrow> tbl_upd k f t = t"
  unfolding tbl_find_def by (induction t) (auto split: if_splits)

lemma tbl_find_ins:
  "tbl_find k t = None \<Longrightarrow> tbl_find i (tbl_ins k r t) = (if i = k then Some r else tbl_find i t)"
  by (auto simp: tbl_find_def tbl_ins_def map_add_def split: option.splits)

lemma tbl_find_ins_old: "tbl_find i t = Some x \<Longrightarrow> tbl_find i (tbl_ins k r t) = Some x"
  by (simp add: tbl_find_def tbl_ins_def map_add_def split: option.splits)

lemma map_fst_tbl_upd [simp]: "map fst (tbl_upd k f t) = map fst t"
  by (induction t) auto

lemma map_fst_tbl_updMany [simp]: "map fst (tbl_updMany P f t) = map fst t"
  by (auto simp: tbl_updMany_def)

lemma tbl_find_updMany:
  "tbl_find i (tbl_updMany P f t) = map_option (\<lambda>r. if P i r then f r else r) (tbl_find i t)"
  unfolding tbl_find_def tbl_updMany_def by (induction t) auto

lemma tbl_find_fresh: "table_ok n t \<Longrightarrow> n \<le> k \<Longrightarrow> tbl_find k t = None"
  by (fastforce simp: table_ok_def tbl_find_def map_of_eq_None_iff)

lemma tbl_find_in_set: "tbl_find k t = Some r \<Longrightarrow> (k, r) \<in> set t"
  unfolding tbl_find_def by (rule map_of_SomeD)

lemma tbl_find_iff_set:
  "table_ok n t \<Longrightarrow> tbl_find k t = Some r \<longleftrightarrow> (k, r) \<in> set t"
  by (auto simp: table_ok_def tbl_find_def)

lemma set_tbl_upd_subset:
  "(i, r) \<in> set (tbl_upd k f t) \<Longrightarrow> (i, r) \<in> set t \<or> (i = k \<and> (\<exists>r0. (k, r0) \<in> set t \<and> r = f r0))"
  by (induction t) (auto split: if_splits)

lemma set_tbl_ins [simp]: "set (tbl_ins k r t) = insert (k, r) (set t)"
  by (simp add: tbl_ins_def)

lemma set_tbl_del: "set (tbl_del P t) = {(i, r). (i, r) \<in> set t \<and> \<not> P i r}"
  by (auto simp: tbl_del_def)

lemma set_tbl_updMany:
  "set (tbl_updMany P f t) = {(i, if P i r then f r else r) | i r. (i, r) \<in> set t}"
  by (force simp: tbl_updMany_def)

lemma tbl_where_iff: "(i, r) \<in> set (tbl_where P t) \<longleftrightarrow> (i, r) \<in> set t \<and> P i r"
  by (auto simp: tbl_where_def)

lemma tbl_first_SomeD: "tbl_first P t = Some (i, r) \<Longrightarrow> (i, r) \<in> set t \<and> P i r"
  unfolding tbl_first_def by (auto dest: find_Some_iff')

lemma tbl_first_None_iff: "tbl_first P t = None \<longleftrightarrow> (\<forall>(i, r) \<in> set t. \<not> P i r)"
  unfolding tbl_first_def by (auto simp: find_None_all)

lemma mem_tbl_upd:
  assumes "table_ok n t"
  shows "(i, x) \<in> set (tbl_upd k f t) \<longleftrightarrow>
    (if i = k then \<exists>r. (k, r) \<in> set t \<and> x = f r else (i, x) \<in> set t)"
proof -
  have "table_ok n (tbl_upd k f t)"
    using assms by (simp add: table_ok_def del: set_map)
  then show ?thesis
    by (auto simp: tbl_find_iff_set [symmetric] tbl_find_iff_set [OF assms, symmetric] tbl_find_upd)
qed

lemma table_ok_ins: "table_ok n t \<Longrightarrow> n \<le> k \<Longrightarrow> k < m \<Longrightarrow> table_ok m (tbl_ins k r t)"
  by (fastforce simp: table_ok_def tbl_ins_def)

lemma set_tbl_insMany: "(i, r) \<in> set (tbl_insMany n rs t) \<longleftrightarrow> (i, r) \<in> set t \<or> (\<exists>j < length rs. i = n + j \<and> r = rs ! j)"
  by (auto simp: tbl_insMany_def in_set_enumerate_eq nth_append) (metis add_diff_inverse_nat less_diff_conv2 not_less)+

lemma tbl_insMany_rows: "(i, r) \<in> set (tbl_insMany n rs t) \<Longrightarrow> (i, r) \<in> set t \<or> r \<in> set rs"
  by (auto simp: set_tbl_insMany)

lemma table_ok_insMany: "table_ok n t \<Longrightarrow> table_ok (n + length rs) (tbl_insMany n rs t)"
  by (fastforce simp: table_ok_def tbl_insMany_def)

lemma tbl_find_insMany_old: "tbl_find i t = Some x \<Longrightarrow> tbl_find i (tbl_insMany n rs t) = Some x"
  by (simp add: tbl_find_def tbl_insMany_def map_add_def split: option.splits)

lemma table_ok_upd [simp]: "table_ok n (tbl_upd k f t) \<longleftrightarrow> table_ok n t"
  by (simp add: table_ok_def del: set_map)

lemma table_ok_updMany [simp]: "table_ok n (tbl_updMany P f t) \<longleftrightarrow> table_ok n t"
  by (simp add: table_ok_def del: set_map)

lemma table_ok_del: "table_ok n t \<Longrightarrow> table_ok n (tbl_del P t)"
  by (auto simp: table_ok_def tbl_del_def distinct_map_filter)

lemma table_ok_mono: "table_ok n t \<Longrightarrow> n \<le> m \<Longrightarrow> table_ok m t"
  by (fastforce simp: table_ok_def)

lemma table_ok_Nil [simp]: "table_ok n []"
  by (simp add: table_ok_def)

section \<open>The interface the services rely on\<close>

text \<open>
  A keyed store: what a lookup returns after an insertion under an unused key and after an
  update, and that neither disturbs other keys.
\<close>

locale keyed_store =
  fixes find :: "'k \<Rightarrow> 't \<Rightarrow> 'r option"
    and ins :: "'k \<Rightarrow> 'r \<Rightarrow> 't \<Rightarrow> 't"
    and upd :: "'k \<Rightarrow> ('r \<Rightarrow> 'r) \<Rightarrow> 't \<Rightarrow> 't"
  assumes find_ins: "find k t = None \<Longrightarrow> find i (ins k r t) = (if i = k then Some r else find i t)"
    and find_upd: "find i (upd k f t) = (if i = k then map_option f (find k t) else find i t)"
begin

lemma find_ins_same: "find k t = None \<Longrightarrow> find k (ins k r t) = Some r"
  by (simp add: find_ins)

lemma find_upd_other: "i \<noteq> k \<Longrightarrow> find i (upd k f t) = find i t"
  by (simp add: find_upd)

lemma find_upd_same: "find k t = Some r \<Longrightarrow> find k (upd k f t) = Some (f r)"
  by (simp add: find_upd)

text \<open>Two writes to different rows commute, as far as lookups can tell.\<close>

lemma upd_commute: "i \<noteq> j \<Longrightarrow> find k (upd i f (upd j g t)) = find k (upd j g (upd i f t))"
  by (simp add: find_upd)

text \<open>A row that was just inserted is the one a following update rewrites.\<close>

lemma ins_then_upd:
  "find k t = None \<Longrightarrow> find i (upd k f (ins k r t)) = (if i = k then Some (f r) else find i t)"
  by (simp add: find_upd find_ins)

end

interpretation tbl: keyed_store tbl_find tbl_ins tbl_upd
  by unfold_locales (auto simp: tbl_find_upd tbl_find_ins)

section \<open>Rows of other tenants\<close>

text \<open>The rows of a table that do not belong to an organization, in order.\<close>

definition foreign :: "('a \<Rightarrow> 'o) \<Rightarrow> 'o \<Rightarrow> 'a table \<Rightarrow> 'a table" where
  "foreign org_of o' t = filter (\<lambda>(i, r). org_of r \<noteq> o') t"

lemma foreign_ins [simp]:
  "org_of r = o' \<Longrightarrow> foreign org_of o' (tbl_ins k r t) = foreign org_of o' t"
  by (simp add: foreign_def tbl_ins_def)

lemma foreign_insMany [simp]:
  "\<forall>r \<in> set rs. org_of r = o' \<Longrightarrow> foreign org_of o' (tbl_insMany n rs t) = foreign org_of o' t"
  by (auto simp: foreign_def tbl_insMany_def filter_empty_conv in_set_enumerate_eq)

lemma foreign_upd:
  assumes "tbl_find k t = Some r" and "org_of r = o'" and "org_of (f r) = o'"
  shows "foreign org_of o' (tbl_upd k f t) = foreign org_of o' t"
  using assms(1)
proof (induction t)
  case Nil
  then show ?case by (simp add: tbl_find_def)
next
  case (Cons p t)
  obtain i x where p: "p = (i, x)" by (cases p)
  show ?case
  proof (cases "i = k")
    case True
    then have "x = r" using Cons.prems p by (simp add: tbl_find_def)
    then have "p = (k, r)" using True p by simp
    then show ?thesis using assms(2,3) by (simp only: foreign_def tbl_upd.simps) simp
  next
    case False
    then have "foreign org_of o' (tbl_upd k f t) = foreign org_of o' t"
      using Cons p by (simp add: tbl_find_def)
    then show ?thesis using False p by (simp add: foreign_def)
  qed
qed

text \<open>The same fact in the form the simplifier discharges from what a handler looked up.\<close>

lemma foreign_upd_found [simp]:
  assumes "case tbl_find k t of None \<Rightarrow> True | Some r \<Rightarrow> org_of r = o' \<and> org_of (f r) = o'"
  shows "foreign org_of o' (tbl_upd k f t) = foreign org_of o' t"
proof (cases "tbl_find k t")
  case None
  then have "tbl_upd k f t = t"
    unfolding tbl_find_def by (induction t) (auto split: if_splits)
  then show ?thesis by simp
next
  case (Some r)
  then show ?thesis using assms by (intro foreign_upd [of k t r]) simp_all
qed

lemma foreign_updMany:
  assumes "\<And>i r. (i, r) \<in> set t \<Longrightarrow> P i r \<Longrightarrow> org_of r = o' \<and> org_of (f r) = o'"
  shows "foreign org_of o' (tbl_updMany P f t) = foreign org_of o' t"
  using assms
proof (induction t)
  case Nil
  then show ?case by (simp add: foreign_def tbl_updMany_def)
next
  case (Cons p t)
  obtain i r where p: "p = (i, r)" by (cases p)
  have IH: "foreign org_of o' (tbl_updMany P f t) = foreign org_of o' t"
    by (rule Cons.IH, rule Cons.prems) auto
  have "P i r \<Longrightarrow> org_of r = o' \<and> org_of (f r) = o'"
    using Cons.prems [of i r] p by auto
  then show ?case using IH p by (cases "P i r") (simp_all add: foreign_def tbl_updMany_def)
qed

lemma foreign_del:
  assumes "\<And>i r. (i, r) \<in> set t \<Longrightarrow> P i r \<Longrightarrow> org_of r = o'"
  shows "foreign org_of o' (tbl_del P t) = foreign org_of o' t"
  unfolding foreign_def tbl_del_def filter_filter
  by (rule filter_cong) (use assms in blast)+

lemma foreign_mem: "org_of r \<noteq> o' \<Longrightarrow> (i, r) \<in> set (foreign org_of o' t) \<longleftrightarrow> (i, r) \<in> set t"
  by (auto simp: foreign_def)

end
