(* ===== verification/Schema.thy ===== *)
theory Schema
  imports Table
begin

text \<open>
  The data model: the enumerations and tables of backend/prisma/schema.prisma that the modelled
  services read or write, the typed errors of backend/src/common/errors/app-error.ts, and the
  database state. A nullable column is an option; columns no modelled method reads or writes
  (geocoding results, load-board posting fields, address lines of the organization) are left
  out. Membership roles, a table of their own in the schema, are kept as the list of roles of
  the membership.
\<close>

section \<open>Errors\<close>

datatype app_error =
    ValidationError string
  | AuthenticationError string
  | PermissionError string
  | SelfReviewForbiddenError string
  | NotFoundError string
  | InvalidTransitionError string
  | EligibilityError string "string list"
  | ConflictError string "uuid list"
  | PodIncompleteWarningError string "uuid list"
  | BusinessRuleError string
  | CsrfError string
  | QueueError string   \<comment> \<open>an error of the queue client, not an AppError\<close>
  | StorageError string   \<comment> \<open>an error of the object-store client, not an AppError\<close>
  | ContextError string   \<comment> \<open>a plain Error: no request context\<close>
  | PrismaError string   \<comment> \<open>an error of the database client itself, not an AppError\<close>

fun httpStatus :: "app_error \<Rightarrow> nat" where
  "httpStatus (ValidationError _) = 400"
| "httpStatus (AuthenticationError _) = 401"
| "httpStatus (PermissionError _) = 403"
| "httpStatus (SelfReviewForbiddenError _) = 403"
| "httpStatus (NotFoundError _) = 404"
| "httpStatus (InvalidTransitionError _) = 409"
| "httpStatus (EligibilityError _ _) = 409"
| "httpStatus (ConflictError _ _) = 409"
| "httpStatus (PodIncompleteWarningError _ _) = 409"
| "httpStatus (BusinessRuleError _) = 422"
| "httpStatus (CsrfError _) = 403"
| "httpStatus (QueueError _) = 500"
| "httpStatus (StorageError _) = 500"
| "httpStatus (ContextError _) = 500"
| "httpStatus (PrismaError _) = 500"

section \<open>Enumerations\<close>

datatype load_status =
    BOOKED | CARRIER_SOURCING | CARRIER_ASSIGNED | RATE_CONFIRMATION | DISPATCHED
  | PICKUP | IN_TRANSIT | DELIVERED | CLOSED | CANCELLED

datatype stop_type = ST_PICKUP | ST_DELIVERY | ST_OTHER
datatype stop_status = SS_PENDING | SS_ARRIVED | SS_COMPLETED
datatype stop_purpose = STANDARD | RETURN
datatype pod_status = POD_NOT_RECEIVED | POD_PARTIAL | POD_COMPLETE
datatype risk_status = RISK_NORMAL | RISK_AT_RISK | RISK_DELAYED
datatype booking_source = BS_QUOTE | BS_DIRECT
datatype rate_source = MANUAL | RATE_AGREEMENT | MANUAL_OVERRIDE
datatype equipment_type = DRY_VAN | REEFER | FLATBED
datatype quote_status = QS_OPEN | QS_WON | QS_LOST
datatype customer_status = CU_PROSPECT | CU_ACTIVE | CU_INACTIVE | CU_BLOCKED
datatype carrier_status = CA_PENDING | CA_ACTIVE | CA_INACTIVE | CA_BLOCKED
datatype payment_terms = DUE_ON_RECEIPT | NET_15 | NET_30 | NET_45 | NET_60
datatype payment_terms_source = INHERITED | OVERRIDE
datatype coverage_type = AUTO_LIABILITY | CARGO
datatype sourcing_outcome =
    SO_ASSIGNED | SO_DECLINED | SO_NO_RESPONSE | SO_QUOTED | SO_REJECTED_AFTER_ASSIGNMENT
datatype on_time_status = OT_ON_TIME | OT_LATE | OT_UNKNOWN
datatype charge_side = CUSTOMER_SIDE | CARRIER_SIDE
datatype charge_source = ORIGINAL | ADJUSTMENT
datatype invoice_status = IV_DRAFT | IV_SENT | IV_PARTIALLY_PAID | IV_PAID | IV_VOID | IV_CREDITED
datatype adjustment_type = CREDIT | DEBIT
datatype carrier_payment_type = CPT_DEPOSIT | CPT_PARTIAL | CPT_BALANCE | CPT_ADJUSTMENT
datatype carrier_payment_status = CP_DRAFT | CP_PENDING_APPROVAL | CP_APPROVED | CP_PAID
datatype doc_entity_type =
    DE_LOAD | DE_STOP | DE_CUSTOMER | DE_CARRIER | DE_DRIVER | DE_TRUCK | DE_TRAILER
  | DE_INVOICE | DE_CARRIER_PAYMENT | DE_RATE_CONFIRMATION_INTAKE
datatype scan_status = SCAN_PENDING | SCAN_CLEAN | SCAN_INFECTED | SCAN_FAILED
datatype review_status =
    RV_NOT_APPLICABLE | RV_PENDING_REVIEW | RV_APPROVED | RV_REJECTED | RV_EXPIRED
datatype generation_status = GEN_PENDING | GEN_COMPLETE | GEN_FAILED
datatype role =
    ADMIN | OPERATIONS_MANAGER | DISPATCHER | SALES_BOOKING | ACCOUNTING | COMPLIANCE_REVIEWER
datatype membership_status =
    MS_PENDING_VERIFICATION | MS_INVITED | MS_ACTIVE | MS_INACTIVE | MS_EXPIRED | MS_CANCELLED
datatype subscription_status = SUB_TRIAL | SUB_ACTIVE | SUB_EXPIRED | SUB_CANCELLED
datatype sequence_type = SEQ_LOAD | SEQ_QUOTE | SEQ_INVOICE
datatype actor_type = HUMAN | SYSTEM | AI
datatype notification_type =
    COMPLIANCE_EXPIRING_30_DAY | COMPLIANCE_EXPIRING_15_DAY | COMPLIANCE_EXPIRING_7_DAY
  | NT_CHECK_CALL_OVERDUE | NT_CHECK_CALL_DUE_SOON | LOAD_LATE | NT_CARRIER_ASSIGNED
  | LOAD_CANCELLED | DOCUMENT_SCAN_QUARANTINED | COMPLIANCE_DOCUMENT_REJECTED
  | QUOTE_EXPIRED | INVITATION_EXPIRED

text \<open>The values an audit entry's JSON columns hold.\<close>

datatype json =
    JNull | JBool bool | JInt int | JMoney cents | JTime instant | JId uuid | JStr string
  | JArr "json list" | JObj "(string \<times> json) list"

fun JOpt :: "('a \<Rightarrow> json) \<Rightarrow> 'a option \<Rightarrow> json" where
  "JOpt f None = JNull"
| "JOpt f (Some v) = f v"

fun load_status_name :: "load_status \<Rightarrow> string" where
  "load_status_name BOOKED = ''BOOKED''"
| "load_status_name CARRIER_SOURCING = ''CARRIER_SOURCING''"
| "load_status_name CARRIER_ASSIGNED = ''CARRIER_ASSIGNED''"
| "load_status_name RATE_CONFIRMATION = ''RATE_CONFIRMATION''"
| "load_status_name DISPATCHED = ''DISPATCHED''"
| "load_status_name PICKUP = ''PICKUP''"
| "load_status_name IN_TRANSIT = ''IN_TRANSIT''"
| "load_status_name DELIVERED = ''DELIVERED''"
| "load_status_name CLOSED = ''CLOSED''"
| "load_status_name CANCELLED = ''CANCELLED''"

text \<open>
  The pipeline order of a load's life, as a linear order on its status: the order in which the
  enumeration declares the values.
\<close>

fun load_rank :: "load_status \<Rightarrow> nat" where
  "load_rank BOOKED = 0"
| "load_rank CARRIER_SOURCING = 1"
| "load_rank CARRIER_ASSIGNED = 2"
| "load_rank RATE_CONFIRMATION = 3"
| "load_rank DISPATCHED = 4"
| "load_rank PICKUP = 5"
| "load_rank IN_TRANSIT = 6"
| "load_rank DELIVERED = 7"
| "load_rank CLOSED = 8"
| "load_rank CANCELLED = 9"

lemma load_rank_inject: "load_rank a = load_rank b \<Longrightarrow> a = b"
  by (cases a; cases b) simp_all

instantiation load_status :: linorder
begin

definition less_eq_load_status :: "load_status \<Rightarrow> load_status \<Rightarrow> bool" where
  "a \<le> b \<longleftrightarrow> load_rank a \<le> load_rank b"

definition less_load_status :: "load_status \<Rightarrow> load_status \<Rightarrow> bool" where
  "a < b \<longleftrightarrow> load_rank a < load_rank b"

instance
  by standard (auto simp: less_eq_load_status_def less_load_status_def dest: load_rank_inject)

end

section \<open>Rows\<close>

record load_row =
  l_organizationId :: uuid
  l_loadNumber :: string
  l_customerId :: uuid
  l_bookingSource :: booking_source
  l_quoteId :: "uuid option"
  l_status :: load_status
  l_equipmentType :: equipment_type
  l_customerRate :: cents
  l_rateSource :: rate_source
  l_rateAgreementId :: "uuid option"
  l_customerPoNumber :: "string option"
  l_bolNumber :: "string option"
  l_pickupNumber :: "string option"
  l_customerReferenceNumber :: "string option"
  l_assignedCarrierId :: "uuid option"
  l_carrierRate :: "cents option"
  l_assignedDispatcherId :: "uuid option"
  l_podStatus :: pod_status
  l_riskStatus :: risk_status
  l_riskReason :: "string option"
  l_currentLocationCity :: "string option"
  l_currentLocationState :: "string option"
  l_currentLocationZip :: "string option"
  l_currentLocationUpdatedAt :: "instant option"
  l_currentEta :: "instant option"
  l_invoiced :: bool
  l_closedAt :: "instant option"
  l_closedByUserId :: "uuid option"
  l_cancelledAt :: "instant option"
  l_cancelledByUserId :: "uuid option"
  l_createdByUserId :: uuid
  l_createdAt :: instant
  l_returnForLoadId :: "uuid option"

record stop_row =
  s_organizationId :: uuid
  s_loadId :: uuid
  s_sequence :: int
  s_stopType :: stop_type
  s_stopPurpose :: stop_purpose
  s_customerLocationId :: "uuid option"
  s_companyName :: "string option"
  s_addressLine1 :: "string option"
  s_city :: string
  s_state :: string
  s_zip :: string
  s_appointmentDatetime :: "instant option"
  s_actualArrival :: "instant option"
  s_actualDeparture :: "instant option"
  s_status :: stop_status
  s_contactName :: "string option"
  s_contactPhone :: "string option"
  s_notes :: "string option"

record dispatch_row =   \<comment> \<open>keyed by the load\<close>
  d_organizationId :: uuid
  d_driverName :: string
  d_driverPhone :: string
  d_truckNumber :: string
  d_trailerNumber :: string
  d_sourceDriverId :: "uuid option"
  d_sourceTruckId :: "uuid option"
  d_sourceTrailerId :: "uuid option"
  d_dispatchedByUserId :: uuid
  d_dispatchedAt :: instant

record check_call_row =
  cc_organizationId :: uuid
  cc_loadId :: uuid
  cc_loggedByUserId :: uuid
  cc_occurredAt :: instant
  cc_contactMethod :: string
  cc_personContacted :: string
  cc_locationCity :: "string option"
  cc_locationState :: "string option"
  cc_locationZip :: "string option"
  cc_eta :: "instant option"
  cc_onTimeStatus :: on_time_status
  cc_notes :: "string option"

record sourcing_attempt_row =
  sa_organizationId :: uuid
  sa_loadId :: uuid
  sa_carrierId :: uuid
  sa_carrierRate :: "cents option"
  sa_outcome :: sourcing_outcome
  sa_rejectionReason :: "string option"
  sa_loggedByUserId :: uuid
  sa_loggedAt :: instant

record quote_row =
  q_organizationId :: uuid
  q_quoteNumber :: string
  q_customerId :: uuid
  q_equipmentType :: equipment_type
  q_customerRate :: cents
  q_rateSource :: rate_source
  q_rateAgreementId :: "uuid option"
  q_status :: quote_status
  q_lossReason :: "string option"
  q_expirationDate :: instant
  q_resultingLoadId :: "uuid option"
  q_createdByUserId :: uuid
  q_createdAt :: instant

record quote_stop_row =
  qs_organizationId :: uuid
  qs_quoteId :: uuid
  qs_sequence :: int
  qs_stopType :: stop_type
  qs_addressCity :: string
  qs_addressState :: string
  qs_addressZip :: string
  qs_appointmentNotes :: "string option"

record charge_type_row =
  ct_organizationId :: "uuid option"
  ct_code :: string
  ct_label :: string
  ct_isSystemDefault :: bool

record charge_row =
  ch_organizationId :: uuid
  ch_loadId :: uuid
  ch_side :: charge_side
  ch_chargeTypeId :: uuid
  ch_description :: "string option"
  ch_quantity :: cents
  ch_unitRate :: cents
  ch_amount :: cents
  ch_source :: charge_source
  ch_notes :: "string option"
  ch_createdByUserId :: uuid

record invoice_row =
  i_organizationId :: uuid
  i_invoiceNumber :: string
  i_customerId :: uuid
  i_status :: invoice_status
  i_sentAt :: "instant option"
  i_dueDate :: "instant option"
  i_total :: cents
  i_remainingBalance :: cents
  i_createdByUserId :: uuid
  i_createdAt :: instant

record invoice_load_row =
  il_organizationId :: uuid
  il_invoiceId :: uuid
  il_loadId :: uuid
  il_loadTotalAtInvoice :: cents

record invoice_line_item_row =
  li_organizationId :: uuid
  li_invoiceId :: uuid
  li_description :: string
  li_amount :: cents
  li_sourceLoadId :: "uuid option"
  li_sourceChargeLineItemId :: "uuid option"

record payment_row =
  p_organizationId :: uuid
  p_invoiceId :: uuid
  p_amount :: cents
  p_paymentDate :: instant
  p_method :: string
  p_referenceNumber :: "string option"
  p_notes :: "string option"
  p_recordedByUserId :: uuid

record adjustment_row =
  ad_organizationId :: uuid
  ad_invoiceId :: uuid
  ad_type :: adjustment_type
  ad_amount :: cents
  ad_reason :: string
  ad_adjustmentDate :: instant
  ad_createdByUserId :: uuid

record carrier_payment_row =
  cp_organizationId :: uuid
  cp_loadId :: uuid
  cp_carrierId :: uuid
  cp_amount :: cents
  cp_paymentType :: carrier_payment_type
  cp_method :: "string option"
  cp_referenceNumber :: "string option"
  cp_notes :: "string option"
  cp_status :: carrier_payment_status
  cp_preparedByUserId :: uuid
  cp_submittedAt :: "instant option"
  cp_approvedByUserId :: "uuid option"
  cp_approvedAt :: "instant option"
  cp_lastRejectedByUserId :: "uuid option"
  cp_lastRejectedAt :: "instant option"
  cp_lastRejectionReason :: "string option"
  cp_paidAt :: "instant option"
  cp_createdAt :: instant

record carrier_row =
  c_organizationId :: uuid
  c_legalName :: string
  c_dba :: "string option"
  c_mcNumber :: string
  c_dotNumber :: string
  c_addressLine1 :: string
  c_city :: string
  c_state :: string
  c_zip :: string
  c_primaryContactName :: string
  c_primaryContactPhone :: string
  c_primaryContactEmail :: string
  c_status :: carrier_status
  c_assignmentEligible :: bool
  c_ineligibilityReasons :: "string list option"
  c_createdByUserId :: uuid

record contact_row =   \<comment> \<open>of a carrier or of a customer\<close>
  ct_org :: uuid
  ct_parentId :: uuid
  ct_name :: string
  ct_email :: "string option"
  ct_phone :: "string option"
  ct_role :: string
  ct_isPrimary :: bool

record insurance_row =
  in_organizationId :: uuid
  in_carrierId :: uuid
  in_coverageType :: coverage_type
  in_coverageAmount :: cents
  in_insuranceCompany :: string
  in_agentContact :: "string option"
  in_effectiveDate :: instant
  in_expirationDate :: instant
  in_coiDocumentId :: uuid

record fmcsa_row =
  f_organizationId :: uuid
  f_carrierId :: uuid
  f_verificationDate :: instant
  f_resultStatus :: string
  f_verifiedByUserId :: uuid
  f_authorityInfo :: "string option"
  f_notes :: "string option"

record service_area_row =
  sv_organizationId :: uuid
  sv_carrierId :: uuid
  sv_type :: string
  sv_originCity :: "string option"
  sv_originState :: "string option"
  sv_destinationCity :: "string option"
  sv_destinationState :: "string option"
  sv_regionLabel :: "string option"
  sv_notes :: "string option"
  sv_createdByUserId :: uuid

record factoring_row =   \<comment> \<open>keyed by the carrier\<close>
  fi_organizationId :: uuid
  fi_usesFactoring :: bool
  fi_factoringCompany :: "string option"
  fi_remitToAddress :: "string option"
  fi_factoringContact :: "string option"
  fi_paymentInstructions :: "string option"
  fi_noaStatus :: "string option"
  fi_noaDocumentId :: "uuid option"

record driver_row =
  dr_organizationId :: uuid
  dr_carrierId :: uuid
  dr_firstName :: string
  dr_lastName :: string
  dr_phone :: string
  dr_email :: "string option"
  dr_licenseNumber :: "string option"
  dr_notes :: "string option"
  dr_active :: bool

record equipment_row =   \<comment> \<open>a truck or a trailer\<close>
  eq_organizationId :: uuid
  eq_carrierId :: uuid
  eq_unitNumber :: string
  eq_type :: equipment_type
  eq_make :: "string option"
  eq_model :: "string option"
  eq_year :: "int option"
  eq_vin :: "string option"
  eq_plate :: "string option"
  eq_notes :: "string option"
  eq_active :: bool

record document_type_row =
  dt_organizationId :: "uuid option"
  dt_code :: string
  dt_label :: string
  dt_requiresReview :: bool

record document_row =
  doc_organizationId :: uuid
  doc_documentFamilyId :: uuid
  doc_entityType :: doc_entity_type
  doc_entityId :: uuid
  doc_documentTypeId :: uuid
  doc_customTypeLabel :: "string option"
  doc_fileStorageKey :: string
  doc_fileName :: string
  doc_fileSizeBytes :: int
  doc_mimeType :: string
  doc_versionNumber :: int
  doc_isCurrentVersion :: bool
  doc_scanStatus :: scan_status
  doc_scannedAt :: "instant option"
  doc_scanProvider :: "string option"
  doc_reviewStatus :: "review_status option"
  doc_generationStatus :: "generation_status option"
  doc_reviewedByUserId :: "uuid option"
  doc_reviewedAt :: "instant option"
  doc_rejectionReason :: "string option"
  doc_expirationDate :: "instant option"
  doc_uploadedByUserId :: uuid
  doc_uploadedAt :: instant

record customer_row =
  cu_organizationId :: uuid
  cu_legalName :: string
  cu_billingAddressLine1 :: string
  cu_billingCity :: string
  cu_billingState :: string
  cu_billingZip :: string
  cu_billingCountry :: string
  cu_primaryContactName :: string
  cu_primaryContactEmail :: string
  cu_primaryContactPhone :: string
  cu_status :: customer_status
  cu_accountOwnerUserId :: "uuid option"
  cu_paymentTerms :: payment_terms
  cu_paymentTermsSource :: payment_terms_source
  cu_createdByUserId :: uuid

record customer_location_row =
  cl_organizationId :: uuid
  cl_customerId :: uuid
  cl_name :: string
  cl_addressLine1 :: string
  cl_city :: string
  cl_state :: string
  cl_zip :: string
  cl_country :: string
  cl_locationType :: string
  cl_contactName :: "string option"
  cl_contactPhone :: "string option"
  cl_contactEmail :: "string option"
  cl_operatingHours :: "string option"
  cl_appointmentRequirements :: "string option"
  cl_notes :: "string option"

record rate_agreement_row =
  ra_organizationId :: uuid
  ra_customerId :: uuid
  ra_originCity :: string
  ra_originState :: string
  ra_destinationCity :: string
  ra_destinationState :: string
  ra_equipmentType :: equipment_type
  ra_rate :: cents
  ra_rateType :: string
  ra_effectiveDate :: instant
  ra_expirationDate :: "instant option"
  ra_fuelSurchargeRules :: "string option"
  ra_notes :: "string option"

record organization_row =
  o_legalName :: string
  o_addressLine1 :: string
  o_city :: string
  o_state :: string
  o_zip :: string
  o_country :: string
  o_primaryContactName :: string
  o_primaryContactEmail :: string
  o_primaryContactPhone :: string
  o_defaultPaymentTerms :: "payment_terms option"
  o_subscriptionStatus :: subscription_status
  o_trialStartedAt :: "instant option"
  o_trialEndsAt :: "instant option"
  o_maxCarriers :: "nat option"
  o_maxDrivers :: "nat option"
  o_subscriptionConvertedAt :: "instant option"
  o_subscriptionConvertedByUserId :: "uuid option"
  o_createdByUserId :: uuid

record membership_row =
  m_organizationId :: uuid
  m_userId :: uuid
  m_status :: membership_status
  m_roles :: "role list"   \<comment> \<open>the rows of the table of membership roles, oldest first\<close>
  m_invitedByUserId :: "uuid option"
  m_invitedAt :: "instant option"
  m_invitationTokenHash :: "string option"
  m_invitationExpiresAt :: "instant option"
  m_activatedAt :: "instant option"
  m_deactivatedAt :: "instant option"
  m_deactivatedByUserId :: "uuid option"

record notification_row =
  n_organizationId :: uuid
  n_recipientUserId :: uuid
  n_type :: notification_type
  n_relatedEntityType :: "string option"
  n_relatedEntityId :: "uuid option"
  n_message :: string
  n_read :: bool
  n_createdAt :: instant

record load_draft_row =
  ld_organizationId :: uuid
  ld_createdByUserId :: uuid
  ld_customerId :: uuid
  ld_rateConfirmationDocumentId :: uuid
  ld_extractedData :: json
  ld_createdAt :: instant

record audit_row =
  a_organizationId :: uuid
  a_actorUserId :: "uuid option"
  a_actorType :: actor_type
  a_action :: string
  a_entityType :: string
  a_entityId :: uuid
  a_previousValue :: "json option"
  a_newValue :: "json option"
  a_reason :: "string option"
  a_correlationId :: "string option"
  a_createdAt :: instant

record event_row =
  e_organizationId :: uuid
  e_eventType :: string
  e_entityType :: string
  e_entityId :: uuid
  e_payload :: json
  e_actorUserId :: "uuid option"
  e_actorType :: actor_type
  e_correlationId :: "string option"
  e_occurredAt :: instant

text \<open>The request context of RequestContextStore, absent outside a request.\<close>

record request_context =
  rc_userId :: "uuid option"
  rc_requestId :: string
  rc_roles :: "role list"

section \<open>The database\<close>

record db =
  organizations :: "organization_row table"
  memberships :: "membership_row table"
  sequences :: "uuid \<times> sequence_type \<Rightarrow> nat option"
  audit_logs :: "audit_row list"
  domain_events :: "event_row list"
  notifications :: "notification_row table"
  customers :: "customer_row table"
  customer_contacts :: "contact_row table"
  customer_locations :: "customer_location_row table"
  rate_agreements :: "rate_agreement_row table"
  carriers :: "carrier_row table"
  carrier_contacts :: "contact_row table"
  carrier_insurance :: "insurance_row table"
  fmcsa_verifications :: "fmcsa_row table"
  service_areas :: "service_area_row table"
  factoring_infos :: "factoring_row table"
  drivers :: "driver_row table"
  trucks :: "equipment_row table"
  trailers :: "equipment_row table"
  document_types :: "document_type_row table"
  documents :: "document_row table"
  quotes :: "quote_row table"
  quote_stops :: "quote_stop_row table"
  loads :: "load_row table"
  stops :: "stop_row table"
  sourcing_attempts :: "sourcing_attempt_row table"
  dispatch_records :: "dispatch_row table"
  check_calls :: "check_call_row table"
  charge_types :: "charge_type_row table"
  charge_line_items :: "charge_row table"
  invoices :: "invoice_row table"
  invoice_loads :: "invoice_load_row table"
  invoice_line_items :: "invoice_line_item_row table"
  payments :: "payment_row table"
  adjustments :: "adjustment_row table"
  carrier_payments :: "carrier_payment_row table"
  load_drafts :: "load_draft_row table"
  next_id :: uuid          \<comment> \<open>the supply of fresh row identifiers\<close>
  clock :: instant         \<comment> \<open>what \<^verbatim>\<open>new Date()\<close> and \<^verbatim>\<open>now()\<close> read during the request\<close>
  context_of :: "request_context option"

type_synonym 'a tx = "(db, app_error, 'a) txn"

end
