(* ===== verification/Store.thy ===== *)
theory Store
  imports Schema
begin

text \<open>
  The database primitives the services call through Prisma, and the audit and domain-event
  backbone (backend/src/common/audit/audit.service.ts).
\<close>

section \<open>Prisma primitives\<close>

definition findUnique :: "(db \<Rightarrow> 'a table) \<Rightarrow> uuid \<Rightarrow> ('a \<Rightarrow> bool) \<Rightarrow> 'a option tx" where
  "findUnique sel k P = gets (\<lambda>s. case tbl_find k (sel s) of
     None \<Rightarrow> None | Some r \<Rightarrow> if P r then Some r else None)"

definition findFirst :: "(db \<Rightarrow> 'a table) \<Rightarrow> (uuid \<Rightarrow> 'a \<Rightarrow> bool) \<Rightarrow> (uuid \<times> 'a) option tx" where
  "findFirst sel P = gets (\<lambda>s. tbl_first P (sel s))"

definition findMany :: "(db \<Rightarrow> 'a table) \<Rightarrow> (uuid \<Rightarrow> 'a \<Rightarrow> bool) \<Rightarrow> (uuid \<times> 'a) list tx" where
  "findMany sel P = gets (\<lambda>s. tbl_where P (sel s))"

definition findUniqueOrThrow :: "(db \<Rightarrow> 'a table) \<Rightarrow> uuid \<Rightarrow> ('a \<Rightarrow> bool) \<Rightarrow> 'a tx" where
  "findUniqueOrThrow sel k P =
     bind (findUnique sel k P) (\<lambda>r. require r (PrismaError ''P2025''))"

text \<open>An insertion takes the next identifier of the supply and returns it.\<close>

definition create :: "(('a table \<Rightarrow> 'a table) \<Rightarrow> db \<Rightarrow> db) \<Rightarrow> 'a \<Rightarrow> uuid tx" where
  "create upd r = (\<lambda>s. Inr (next_id s, upd (tbl_ins (next_id s) r) (s\<lparr>next_id := Suc (next_id s)\<rparr>)))"

text \<open>
  A loop or nested write that only inserts rows: they take consecutive identifiers of the supply.
\<close>

definition createMany :: "(('a table \<Rightarrow> 'a table) \<Rightarrow> db \<Rightarrow> db) \<Rightarrow> 'a list \<Rightarrow> uuid list tx" where
  "createMany upd rs = (\<lambda>s. Inr ([next_id s ..< next_id s + length rs],
     upd (tbl_insMany (next_id s) rs) (s\<lparr>next_id := next_id s + length rs\<rparr>)))"

text \<open>A fresh identifier that is not a row's own key (a document family).\<close>

definition freshId :: "uuid tx" where
  "freshId = (\<lambda>s. Inr (next_id s, s\<lparr>next_id := Suc (next_id s)\<rparr>))"

text \<open>An insertion under a given primary key fails when the key is taken.\<close>

definition createAt :: "(db \<Rightarrow> 'a table) \<Rightarrow> (('a table \<Rightarrow> 'a table) \<Rightarrow> db \<Rightarrow> db) \<Rightarrow> uuid \<Rightarrow> 'a \<Rightarrow> unit tx" where
  "createAt sel upd k r = (\<lambda>s. case tbl_find k (sel s) of
     Some _ \<Rightarrow> Inl (PrismaError ''P2002'')
   | None \<Rightarrow> Inr ((), upd (tbl_ins k r) s))"

text \<open>An update by key returns the updated row, and fails when there is none.\<close>

definition update ::
  "(db \<Rightarrow> 'a table) \<Rightarrow> (('a table \<Rightarrow> 'a table) \<Rightarrow> db \<Rightarrow> db) \<Rightarrow> uuid \<Rightarrow> ('a \<Rightarrow> 'a) \<Rightarrow> 'a tx" where
  "update sel upd k f = (\<lambda>s. case tbl_find k (sel s) of
     None \<Rightarrow> Inl (PrismaError ''P2025'')
   | Some r \<Rightarrow> Inr (f r, upd (tbl_upd k f) s))"

definition updateMany ::
  "(('a table \<Rightarrow> 'a table) \<Rightarrow> db \<Rightarrow> db) \<Rightarrow> (uuid \<Rightarrow> 'a \<Rightarrow> bool) \<Rightarrow> ('a \<Rightarrow> 'a) \<Rightarrow> unit tx" where
  "updateMany upd P f = modify (upd (tbl_updMany P f))"

definition deleteMany ::
  "(('a table \<Rightarrow> 'a table) \<Rightarrow> db \<Rightarrow> db) \<Rightarrow> (uuid \<Rightarrow> 'a \<Rightarrow> bool) \<Rightarrow> unit tx" where
  "deleteMany upd P = modify (upd (tbl_del P))"

definition now :: "instant tx" where
  "now = gets clock"

lemma findUnique_iff [tx_iff]:
  "findUnique sel k P s = Inr r \<longleftrightarrow>
     r = (case tbl_find k (sel s) of None \<Rightarrow> None | Some x \<Rightarrow> if P x then Some x else None, s)"
  by (simp add: findUnique_def gets_iff)

lemma findFirst_iff [tx_iff]: "findFirst sel P s = Inr r \<longleftrightarrow> r = (tbl_first P (sel s), s)"
  by (simp add: findFirst_def gets_iff)

lemma findMany_iff [tx_iff]: "findMany sel P s = Inr r \<longleftrightarrow> r = (tbl_where P (sel s), s)"
  by (simp add: findMany_def gets_iff)

lemma findUniqueOrThrow_iff [tx_iff]:
  "findUniqueOrThrow sel k P s = Inr r \<longleftrightarrow>
     (\<exists>x. tbl_find k (sel s) = Some x \<and> P x \<and> r = (x, s))"
  by (auto simp: findUniqueOrThrow_def tx_iff split: option.splits)

lemma create_iff [tx_iff]:
  "create upd r s = Inr z \<longleftrightarrow>
     z = (next_id s, upd (tbl_ins (next_id s) r) (s\<lparr>next_id := Suc (next_id s)\<rparr>))"
  by (auto simp: create_def)

lemma createMany_iff [tx_iff]:
  "createMany upd rs s = Inr z \<longleftrightarrow>
     z = ([next_id s ..< next_id s + length rs],
          upd (tbl_insMany (next_id s) rs) (s\<lparr>next_id := next_id s + length rs\<rparr>))"
  by (auto simp: createMany_def)

lemma freshId_iff [tx_iff]: "freshId s = Inr z \<longleftrightarrow> z = (next_id s, s\<lparr>next_id := Suc (next_id s)\<rparr>)"
  by (auto simp: freshId_def)

lemma createAt_iff [tx_iff]:
  "createAt sel upd k r s = Inr z \<longleftrightarrow> tbl_find k (sel s) = None \<and> z = ((), upd (tbl_ins k r) s)"
  by (auto simp: createAt_def split: option.splits)

lemma update_iff [tx_iff]:
  "update sel upd k f s = Inr z \<longleftrightarrow>
     (\<exists>r. tbl_find k (sel s) = Some r \<and> z = (f r, upd (tbl_upd k f) s))"
  by (auto simp: update_def split: option.splits)

lemma updateMany_iff [tx_iff]: "updateMany upd P f s = Inr z \<longleftrightarrow> z = ((), upd (tbl_updMany P f) s)"
  by (simp add: updateMany_def modify_iff)

lemma deleteMany_iff [tx_iff]: "deleteMany upd P s = Inr z \<longleftrightarrow> z = ((), upd (tbl_del P) s)"
  by (simp add: deleteMany_def modify_iff)

lemma now_iff [tx_iff]: "now s = Inr z \<longleftrightarrow> z = (clock s, s)"
  by (simp add: now_def gets_iff)

lemma findUnique_run [tx_run]:
  "findUnique sel k P s =
     Inr (case tbl_find k (sel s) of None \<Rightarrow> None | Some x \<Rightarrow> if P x then Some x else None, s)"
  by (simp add: findUnique_def gets_run)

lemma findFirst_run [tx_run]: "findFirst sel P s = Inr (tbl_first P (sel s), s)"
  by (simp add: findFirst_def gets_run)

lemma findMany_run [tx_run]: "findMany sel P s = Inr (tbl_where P (sel s), s)"
  by (simp add: findMany_def gets_run)

lemma findUniqueOrThrow_run [tx_run]:
  "findUniqueOrThrow sel k P s = (case tbl_find k (sel s) of
     None \<Rightarrow> Inl (PrismaError ''P2025'')
   | Some x \<Rightarrow> if P x then Inr (x, s) else Inl (PrismaError ''P2025''))"
  by (simp add: findUniqueOrThrow_def tx_run split: option.splits)

lemma create_run [tx_run]:
  "create upd r s = Inr (next_id s, upd (tbl_ins (next_id s) r) (s\<lparr>next_id := Suc (next_id s)\<rparr>))"
  by (simp add: create_def)

lemma now_run [tx_run]: "now s = Inr (clock s, s)"
  by (simp add: now_def gets_run)

lemmas write_run [tx_run] = freshId_def createMany_def update_def createAt_def updateMany_def deleteMany_def

section \<open>Audit log and domain events\<close>

text \<open>
  RecordEventInput. The actor is None when the caller leaves actorUserId undefined; only then
  does a human-triggered event fall back to the user of the request context.
\<close>

record event_input =
  ei_organizationId :: uuid
  ei_action :: string
  ei_entityType :: string
  ei_entityId :: uuid
  ei_previousValue :: "json option"
  ei_newValue :: "json option"
  ei_reason :: "string option"
  ei_actorUserId :: "uuid option option"
  ei_actorType :: actor_type

text \<open>The two shapes in which the services call it: by the acting user, and by the system.\<close>

definition human_event ::
  "uuid \<Rightarrow> string \<Rightarrow> string \<Rightarrow> uuid \<Rightarrow> json option \<Rightarrow> json option \<Rightarrow> string option \<Rightarrow> uuid \<Rightarrow> event_input"
where
  "human_event organizationId action entityType entityId prev new reason actingUserId =
     \<lparr>ei_organizationId = organizationId, ei_action = action, ei_entityType = entityType,
      ei_entityId = entityId, ei_previousValue = prev, ei_newValue = new, ei_reason = reason,
      ei_actorUserId = Some (Some actingUserId), ei_actorType = HUMAN\<rparr>"

definition system_event ::
  "uuid \<Rightarrow> string \<Rightarrow> string \<Rightarrow> uuid \<Rightarrow> json option \<Rightarrow> json option \<Rightarrow> event_input"
where
  "system_event organizationId action entityType entityId prev new =
     \<lparr>ei_organizationId = organizationId, ei_action = action, ei_entityType = entityType,
      ei_entityId = entityId, ei_previousValue = prev, ei_newValue = new, ei_reason = None,
      ei_actorUserId = None, ei_actorType = SYSTEM\<rparr>"

definition resolve_actor :: "request_context option \<Rightarrow> event_input \<Rightarrow> uuid option" where
  "resolve_actor ctx e =
     (case ei_actorUserId e of
        Some a \<Rightarrow> a
      | None \<Rightarrow> if ei_actorType e = HUMAN
                then (case ctx of None \<Rightarrow> None | Some c \<Rightarrow> rc_userId c) else None)"

definition audit_entry :: "request_context option \<Rightarrow> instant \<Rightarrow> event_input \<Rightarrow> audit_row" where
  "audit_entry ctx t e =
     \<lparr>a_organizationId = ei_organizationId e, a_actorUserId = resolve_actor ctx e,
      a_actorType = ei_actorType e, a_action = ei_action e, a_entityType = ei_entityType e,
      a_entityId = ei_entityId e, a_previousValue = ei_previousValue e,
      a_newValue = ei_newValue e, a_reason = ei_reason e,
      a_correlationId = map_option rc_requestId ctx, a_createdAt = t\<rparr>"

definition event_entry :: "request_context option \<Rightarrow> instant \<Rightarrow> event_input \<Rightarrow> event_row" where
  "event_entry ctx t e =
     \<lparr>e_organizationId = ei_organizationId e, e_eventType = ei_action e,
      e_entityType = ei_entityType e, e_entityId = ei_entityId e,
      e_payload = (case ei_newValue e of Some v \<Rightarrow> v
                   | None \<Rightarrow> (case ei_previousValue e of Some v \<Rightarrow> v | None \<Rightarrow> JObj [])),
      e_actorUserId = resolve_actor ctx e, e_actorType = ei_actorType e,
      e_correlationId = map_option rc_requestId ctx, e_occurredAt = t\<rparr>"

definition recorded :: "event_input \<Rightarrow> db \<Rightarrow> db" where
  "recorded e s =
     s\<lparr>audit_logs := audit_logs s @ [audit_entry (context_of s) (clock s) e],
       domain_events := domain_events s @ [event_entry (context_of s) (clock s) e]\<rparr>"

definition audit_record :: "event_input \<Rightarrow> unit tx" where
  "audit_record e = modify (recorded e)"

lemma audit_record_iff [tx_iff]: "audit_record e s = Inr z \<longleftrightarrow> z = ((), recorded e s)"
  by (simp add: audit_record_def modify_iff)

lemma audit_record_run [tx_run]: "audit_record e s = Inr ((), recorded e s)"
  by (simp add: audit_record_def modify_run)

text \<open>Every table other than the two logs is what it was.\<close>

lemma recorded_frame [simp]:
  "organizations (recorded e s) = organizations s" "memberships (recorded e s) = memberships s"
  "sequences (recorded e s) = sequences s" "notifications (recorded e s) = notifications s"
  "customers (recorded e s) = customers s" "customer_contacts (recorded e s) = customer_contacts s"
  "customer_locations (recorded e s) = customer_locations s"
  "rate_agreements (recorded e s) = rate_agreements s" "carriers (recorded e s) = carriers s"
  "carrier_contacts (recorded e s) = carrier_contacts s"
  "carrier_insurance (recorded e s) = carrier_insurance s"
  "fmcsa_verifications (recorded e s) = fmcsa_verifications s"
  "service_areas (recorded e s) = service_areas s"
  "factoring_infos (recorded e s) = factoring_infos s" "drivers (recorded e s) = drivers s"
  "trucks (recorded e s) = trucks s" "trailers (recorded e s) = trailers s"
  "document_types (recorded e s) = document_types s" "documents (recorded e s) = documents s"
  "quotes (recorded e s) = quotes s" "quote_stops (recorded e s) = quote_stops s"
  "loads (recorded e s) = loads s" "stops (recorded e s) = stops s"
  "sourcing_attempts (recorded e s) = sourcing_attempts s"
  "dispatch_records (recorded e s) = dispatch_records s"
  "check_calls (recorded e s) = check_calls s" "charge_types (recorded e s) = charge_types s"
  "charge_line_items (recorded e s) = charge_line_items s" "invoices (recorded e s) = invoices s"
  "invoice_loads (recorded e s) = invoice_loads s"
  "invoice_line_items (recorded e s) = invoice_line_items s" "payments (recorded e s) = payments s"
  "adjustments (recorded e s) = adjustments s"
  "carrier_payments (recorded e s) = carrier_payments s" "load_drafts (recorded e s) = load_drafts s"
  "next_id (recorded e s) = next_id s" "clock (recorded e s) = clock s"
  "context_of (recorded e s) = context_of s"
  by (simp_all add: recorded_def)

lemma recorded_logs:
  "audit_logs (recorded e s) = audit_logs s @ [audit_entry (context_of s) (clock s) e]"
  "domain_events (recorded e s) = domain_events s @ [event_entry (context_of s) (clock s) e]"
  by (simp_all add: recorded_def)

end
