(* ===== verification/Relations.thy ===== *)
theory Relations
  imports Store
begin

text \<open>
  Three relations between the state before and the state after a transaction, and what the
  primitives of theory Store do to them. Each is reflexive and transitive, so each interprets
  the locale of relations that compose over the monad.
\<close>

section \<open>The audit trail only grows, and the domain events mirror it\<close>

definition event_of :: "audit_row \<Rightarrow> event_row" where
  "event_of a =
     \<lparr>e_organizationId = a_organizationId a, e_eventType = a_action a,
      e_entityType = a_entityType a, e_entityId = a_entityId a,
      e_payload = (case a_newValue a of Some v \<Rightarrow> v
                   | None \<Rightarrow> (case a_previousValue a of Some v \<Rightarrow> v | None \<Rightarrow> JObj [])),
      e_actorUserId = a_actorUserId a, e_actorType = a_actorType a,
      e_correlationId = a_correlationId a, e_occurredAt = a_createdAt a\<rparr>"

lemma event_of_audit_entry: "event_of (audit_entry ctx t e) = event_entry ctx t e"
  by (simp add: event_of_def audit_entry_def event_entry_def split: option.split)

text \<open>An entry bears the time and the correlation identifier of the request that wrote it.\<close>

definition stamped :: "db \<Rightarrow> audit_row \<Rightarrow> bool" where
  "stamped s a \<longleftrightarrow> a_createdAt a = clock s \<and> a_correlationId a = map_option rc_requestId (context_of s)"

definition trail_grows :: "db \<Rightarrow> db \<Rightarrow> bool" where
  "trail_grows s s' \<longleftrightarrow>
     (\<exists>es. audit_logs s' = audit_logs s @ es \<and> domain_events s' = domain_events s @ map event_of es \<and>
        (\<forall>a \<in> set es. stamped s a)) \<and> clock s' = clock s \<and> context_of s' = context_of s"

lemma trail_grows_same:
  "audit_logs s' = audit_logs s \<Longrightarrow> domain_events s' = domain_events s \<Longrightarrow> clock s' = clock s \<Longrightarrow>
     context_of s' = context_of s \<Longrightarrow> trail_grows s s'"
  by (auto simp: trail_grows_def)

interpretation trail: state_relation trail_grows
proof
  show "trail_grows s s" for s by (simp add: trail_grows_same)
  show "trail_grows s u" if "trail_grows s t" and "trail_grows t u" for s t u
    using that by (fastforce simp: trail_grows_def stamped_def)
qed

lemma stamped_audit_entry: "stamped s (audit_entry (context_of s) (clock s) e)"
  by (simp add: stamped_def audit_entry_def)

lemma trail_recorded: "trail_grows s (recorded e s)"
  unfolding trail_grows_def
  by (intro conjI exI [of _ "[audit_entry (context_of s) (clock s) e]"])
     (simp_all add: recorded_logs event_of_audit_entry stamped_audit_entry)

text \<open>What the primitives need to keep the trail: their table update must not be one of the two logs.\<close>

definition off_trail :: "(('a table \<Rightarrow> 'a table) \<Rightarrow> db \<Rightarrow> db) \<Rightarrow> bool" where
  "off_trail upd \<longleftrightarrow> (\<forall>f s. audit_logs (upd f s) = audit_logs s \<and> domain_events (upd f s) = domain_events s \<and>
     clock (upd f s) = clock s \<and> context_of (upd f s) = context_of s)"

lemma trail_create: "off_trail upd \<Longrightarrow> keeps trail_grows (create upd r)"
  by (simp add: keeps_def create_iff off_trail_def trail_grows_same)

lemma trail_createMany: "off_trail upd \<Longrightarrow> keeps trail_grows (createMany upd rs)"
  by (simp add: keeps_def createMany_iff off_trail_def trail_grows_same)

lemma trail_createAt: "off_trail upd \<Longrightarrow> keeps trail_grows (createAt sel upd k r)"
  by (simp add: keeps_def createAt_iff off_trail_def trail_grows_same)

lemma trail_update: "off_trail upd \<Longrightarrow> keeps trail_grows (update sel upd k f)"
  by (auto simp: keeps_def update_iff off_trail_def trail_grows_same)

lemma trail_updateMany: "off_trail upd \<Longrightarrow> keeps trail_grows (updateMany upd P f)"
  by (simp add: keeps_def updateMany_iff off_trail_def trail_grows_same)

lemma trail_deleteMany: "off_trail upd \<Longrightarrow> keeps trail_grows (deleteMany upd P)"
  by (simp add: keeps_def deleteMany_iff off_trail_def trail_grows_same)

lemma trail_audit: "keeps trail_grows (audit_record e)"
  by (simp add: keeps_def audit_record_iff trail_recorded)

lemma trail_reads:
  "keeps trail_grows (findUnique sel k P)" "keeps trail_grows (findFirst sel Q)"
  "keeps trail_grows (findMany sel Q)" "keeps trail_grows (findUniqueOrThrow sel k P)"
  "keeps trail_grows now"
  by (auto simp: keeps_def tx_iff trail_grows_same)

lemmas trail_intros = trail.keeps_intros trail_create trail_createMany trail_createAt trail_update
  trail_updateMany trail_deleteMany trail_audit trail_reads

section \<open>Well-formed stores\<close>

text \<open>
  Every table keyed by the supply is below it. The dispatch record and the factoring info are
  keyed by their parent's identifier, and only have unique keys.
\<close>

definition wf_db :: "db \<Rightarrow> bool" where
  "wf_db s \<longleftrightarrow>
     table_ok (next_id s) (organizations s) \<and> table_ok (next_id s) (memberships s) \<and>
     table_ok (next_id s) (notifications s) \<and> table_ok (next_id s) (customers s) \<and>
     table_ok (next_id s) (customer_contacts s) \<and> table_ok (next_id s) (customer_locations s) \<and>
     table_ok (next_id s) (rate_agreements s) \<and> table_ok (next_id s) (carriers s) \<and>
     table_ok (next_id s) (carrier_contacts s) \<and> table_ok (next_id s) (carrier_insurance s) \<and>
     table_ok (next_id s) (fmcsa_verifications s) \<and> table_ok (next_id s) (service_areas s) \<and>
     table_ok (next_id s) (drivers s) \<and> table_ok (next_id s) (trucks s) \<and>
     table_ok (next_id s) (trailers s) \<and> table_ok (next_id s) (documents s) \<and>
     table_ok (next_id s) (quotes s) \<and> table_ok (next_id s) (quote_stops s) \<and>
     table_ok (next_id s) (loads s) \<and> table_ok (next_id s) (stops s) \<and>
     table_ok (next_id s) (sourcing_attempts s) \<and> table_ok (next_id s) (check_calls s) \<and>
     table_ok (next_id s) (charge_types s) \<and> table_ok (next_id s) (charge_line_items s) \<and>
     table_ok (next_id s) (invoices s) \<and> table_ok (next_id s) (invoice_loads s) \<and>
     table_ok (next_id s) (invoice_line_items s) \<and> table_ok (next_id s) (payments s) \<and>
     table_ok (next_id s) (adjustments s) \<and> table_ok (next_id s) (carrier_payments s) \<and>
     table_ok (next_id s) (load_drafts s) \<and> distinct (map fst (dispatch_records s)) \<and>
     distinct (map fst (factoring_infos s))"

definition keeps_wf :: "db \<Rightarrow> db \<Rightarrow> bool" where
  "keeps_wf s s' \<longleftrightarrow> (wf_db s \<longrightarrow> wf_db s') \<and> next_id s \<le> next_id s' \<and> clock s' = clock s \<and>
     context_of s' = context_of s"

interpretation wf: state_relation keeps_wf
  by unfold_locales (auto simp: keeps_wf_def)

lemma table_ok_Suc: "table_ok n t \<Longrightarrow> table_ok (Suc n) t"
  by (erule table_ok_mono) simp

lemma table_ok_add: "table_ok n t \<Longrightarrow> table_ok (n + k) t"
  by (erule table_ok_mono) simp

lemma table_ok_ins_Suc: "table_ok n t \<Longrightarrow> table_ok (Suc n) (tbl_ins n r t)"
  by (rule table_ok_ins [of n]) simp_all

lemma wf_recorded: "keeps_wf s (recorded e s)"
  by (simp add: keeps_wf_def wf_db_def)

lemma distinct_ins: "distinct (map fst t) \<Longrightarrow> tbl_find k t = None \<Longrightarrow> distinct (map fst (tbl_ins k r t))"
  by (simp add: tbl_ins_def tbl_find_def map_of_eq_None_iff)

lemma distinct_del: "distinct (map fst t) \<Longrightarrow> distinct (map fst (tbl_del P t))"
  by (simp add: tbl_del_def distinct_map_filter)

lemmas wf_simps = keeps_wf_def wf_db_def table_ok_Suc table_ok_add table_ok_ins_Suc
  table_ok_insMany table_ok_del

text \<open>
  A table slot whose update keeps the store well formed whatever the service writes: every
  primitive on it stays below the supply.
\<close>

definition wf_slot :: "(('a table \<Rightarrow> 'a table) \<Rightarrow> db \<Rightarrow> db) \<Rightarrow> bool" where
  "wf_slot upd \<longleftrightarrow>
     (\<forall>s r. keeps_wf s (upd (tbl_ins (next_id s) r) (s\<lparr>next_id := Suc (next_id s)\<rparr>))) \<and>
     (\<forall>s rs. keeps_wf s (upd (tbl_insMany (next_id s) rs) (s\<lparr>next_id := next_id s + length rs\<rparr>))) \<and>
     (\<forall>s k f. keeps_wf s (upd (tbl_upd k f) s)) \<and>
     (\<forall>s P f. keeps_wf s (upd (tbl_updMany P f) s)) \<and>
     (\<forall>s P. keeps_wf s (upd (tbl_del P) s))"

lemma wf_create: "wf_slot upd \<Longrightarrow> keeps keeps_wf (create upd r)"
  by (simp add: keeps_def create_iff wf_slot_def)

lemma wf_createMany: "wf_slot upd \<Longrightarrow> keeps keeps_wf (createMany upd rs)"
  by (simp add: keeps_def createMany_iff wf_slot_def)

lemma wf_update: "wf_slot upd \<Longrightarrow> keeps keeps_wf (update sel upd k f)"
  by (auto simp: keeps_def update_iff wf_slot_def)

lemma wf_updateMany: "wf_slot upd \<Longrightarrow> keeps keeps_wf (updateMany upd P f)"
  by (simp add: keeps_def updateMany_iff wf_slot_def)

lemma wf_deleteMany: "wf_slot upd \<Longrightarrow> keeps keeps_wf (deleteMany upd P)"
  by (simp add: keeps_def deleteMany_iff wf_slot_def)

lemma wf_audit: "keeps keeps_wf (audit_record e)"
  by (simp add: keeps_def audit_record_iff wf_recorded)

lemma wf_reads:
  "keeps keeps_wf (findUnique sel k P)" "keeps keeps_wf (findFirst sel Q)"
  "keeps keeps_wf (findMany sel Q)" "keeps keeps_wf (findUniqueOrThrow sel k P)"
  "keeps keeps_wf now"
  by (auto simp: keeps_def tx_iff wf.R_refl)

lemma wf_slots:
  "wf_slot organizations_update" "wf_slot memberships_update"
  "wf_slot notifications_update" "wf_slot customers_update" "wf_slot customer_contacts_update"
  "wf_slot customer_locations_update" "wf_slot rate_agreements_update" "wf_slot carriers_update"
  "wf_slot carrier_contacts_update" "wf_slot carrier_insurance_update"
  "wf_slot fmcsa_verifications_update" "wf_slot service_areas_update" "wf_slot drivers_update"
  "wf_slot trucks_update" "wf_slot trailers_update" "wf_slot documents_update"
  "wf_slot quotes_update" "wf_slot quote_stops_update" "wf_slot loads_update"
  "wf_slot stops_update" "wf_slot sourcing_attempts_update" "wf_slot check_calls_update"
  "wf_slot charge_line_items_update" "wf_slot invoices_update" "wf_slot invoice_loads_update"
  "wf_slot invoice_line_items_update" "wf_slot payments_update" "wf_slot adjustments_update"
  "wf_slot carrier_payments_update" "wf_slot load_drafts_update" "wf_slot charge_types_update"
  by (simp_all add: wf_slot_def wf_simps)

lemma off_trail_slots [simp]:
  "off_trail organizations_update" "off_trail memberships_update"
  "off_trail notifications_update" "off_trail customers_update"
  "off_trail customer_contacts_update" "off_trail customer_locations_update"
  "off_trail rate_agreements_update" "off_trail carriers_update"
  "off_trail carrier_contacts_update" "off_trail carrier_insurance_update"
  "off_trail fmcsa_verifications_update" "off_trail service_areas_update"
  "off_trail drivers_update" "off_trail trucks_update" "off_trail trailers_update"
  "off_trail documents_update" "off_trail quotes_update" "off_trail quote_stops_update"
  "off_trail loads_update" "off_trail stops_update" "off_trail sourcing_attempts_update"
  "off_trail check_calls_update" "off_trail charge_line_items_update" "off_trail invoices_update"
  "off_trail invoice_loads_update" "off_trail invoice_line_items_update"
  "off_trail payments_update" "off_trail adjustments_update" "off_trail carrier_payments_update"
  "off_trail load_drafts_update" "off_trail charge_types_update"
  "off_trail dispatch_records_update" "off_trail factoring_infos_update"
  by (simp_all add: off_trail_def)

text \<open>The two tables keyed by their parent.\<close>

lemma wf_keyed:
  "keeps keeps_wf (createAt dispatch_records dispatch_records_update k r)"
  "keeps keeps_wf (update sel2 dispatch_records_update k f)"
  "keeps keeps_wf (deleteMany dispatch_records_update P)"
  "keeps keeps_wf (createAt factoring_infos factoring_infos_update k q)"
  "keeps keeps_wf (update sel4 factoring_infos_update k g)"
  by (auto simp: keeps_def tx_iff wf_simps distinct_ins distinct_del)

lemmas wf_intros = wf.keeps_intros wf_create wf_createMany wf_update wf_updateMany wf_deleteMany
  wf_audit wf_reads wf_keyed wf_slots

section \<open>The rows of other organizations\<close>

definition isolated :: "uuid \<Rightarrow> db \<Rightarrow> db \<Rightarrow> bool" where
  "isolated org s s' \<longleftrightarrow>
     organizations s' = organizations s \<and>
     foreign m_organizationId org (memberships s') = foreign m_organizationId org (memberships s) \<and>
     (\<forall>o' t. o' \<noteq> org \<longrightarrow> sequences s' (o', t) = sequences s (o', t)) \<and>
     filter (\<lambda>a. a_organizationId a \<noteq> org) (audit_logs s') =
       filter (\<lambda>a. a_organizationId a \<noteq> org) (audit_logs s) \<and>
     filter (\<lambda>e. e_organizationId e \<noteq> org) (domain_events s') =
       filter (\<lambda>e. e_organizationId e \<noteq> org) (domain_events s) \<and>
     foreign n_organizationId org (notifications s') = foreign n_organizationId org (notifications s) \<and>
     foreign cu_organizationId org (customers s') = foreign cu_organizationId org (customers s) \<and>
     foreign ct_org org (customer_contacts s') = foreign ct_org org (customer_contacts s) \<and>
     foreign cl_organizationId org (customer_locations s') =
       foreign cl_organizationId org (customer_locations s) \<and>
     foreign ra_organizationId org (rate_agreements s') = foreign ra_organizationId org (rate_agreements s) \<and>
     foreign c_organizationId org (carriers s') = foreign c_organizationId org (carriers s) \<and>
     foreign ct_org org (carrier_contacts s') = foreign ct_org org (carrier_contacts s) \<and>
     foreign in_organizationId org (carrier_insurance s') = foreign in_organizationId org (carrier_insurance s) \<and>
     foreign f_organizationId org (fmcsa_verifications s') =
       foreign f_organizationId org (fmcsa_verifications s) \<and>
     foreign sv_organizationId org (service_areas s') = foreign sv_organizationId org (service_areas s) \<and>
     foreign fi_organizationId org (factoring_infos s') = foreign fi_organizationId org (factoring_infos s) \<and>
     foreign dr_organizationId org (drivers s') = foreign dr_organizationId org (drivers s) \<and>
     foreign eq_organizationId org (trucks s') = foreign eq_organizationId org (trucks s) \<and>
     foreign eq_organizationId org (trailers s') = foreign eq_organizationId org (trailers s) \<and>
     document_types s' = document_types s \<and>
     foreign doc_organizationId org (documents s') = foreign doc_organizationId org (documents s) \<and>
     foreign q_organizationId org (quotes s') = foreign q_organizationId org (quotes s) \<and>
     foreign qs_organizationId org (quote_stops s') = foreign qs_organizationId org (quote_stops s) \<and>
     foreign l_organizationId org (loads s') = foreign l_organizationId org (loads s) \<and>
     foreign s_organizationId org (stops s') = foreign s_organizationId org (stops s) \<and>
     foreign sa_organizationId org (sourcing_attempts s') =
       foreign sa_organizationId org (sourcing_attempts s) \<and>
     foreign d_organizationId org (dispatch_records s') = foreign d_organizationId org (dispatch_records s) \<and>
     foreign cc_organizationId org (check_calls s') = foreign cc_organizationId org (check_calls s) \<and>
     foreign ct_organizationId (Some org) (charge_types s') =
       foreign ct_organizationId (Some org) (charge_types s) \<and>
     foreign ch_organizationId org (charge_line_items s') =
       foreign ch_organizationId org (charge_line_items s) \<and>
     foreign i_organizationId org (invoices s') = foreign i_organizationId org (invoices s) \<and>
     foreign il_organizationId org (invoice_loads s') = foreign il_organizationId org (invoice_loads s) \<and>
     foreign li_organizationId org (invoice_line_items s') =
       foreign li_organizationId org (invoice_line_items s) \<and>
     foreign p_organizationId org (payments s') = foreign p_organizationId org (payments s) \<and>
     foreign ad_organizationId org (adjustments s') = foreign ad_organizationId org (adjustments s) \<and>
     foreign cp_organizationId org (carrier_payments s') = foreign cp_organizationId org (carrier_payments s) \<and>
     foreign ld_organizationId org (load_drafts s') = foreign ld_organizationId org (load_drafts s)"

interpretation isolated: state_relation "isolated org" for org
  by unfold_locales (auto simp: isolated_def)

lemma isolated_recorded: "ei_organizationId e = org \<Longrightarrow> isolated org s (recorded e s)"
  by (simp add: isolated_def recorded_logs audit_entry_def event_entry_def)

lemma human_event_org [simp]: "ei_organizationId (human_event org a t i p n r u) = org"
  by (simp add: human_event_def)

lemma system_event_org [simp]: "ei_organizationId (system_event org a t i p n) = org"
  by (simp add: system_event_def)

end
