(* ===== verification/Tenancy.thy ===== *)
theory Tenancy
  imports Relations
begin

text \<open>
  Tenant isolation as a property that composes. A step taken for an organization is lawful when it
  leaves every row of every other organization alone, keeps the store well formed, and only
  appends to the audit trail. A transaction is confined, with respect to the state its request
  started from, when it only ever moves to states reached lawfully from there. What a handler learns from a lookup that filters on the
  organization is that the row it found belongs to it; that is all a later write to the same row
  needs. The locale states the interface of one table, and is interpreted on every table of the
  database.
\<close>

section \<open>Confinement\<close>

definition lawful :: "uuid \<Rightarrow> db \<Rightarrow> db \<Rightarrow> bool" where
  "lawful org s s' \<longleftrightarrow> isolated org s s' \<and> keeps_wf s s' \<and> trail_grows s s'"

lemma lawful_refl: "lawful org s s"
  by (simp add: lawful_def isolated.R_refl wf.R_refl trail.R_refl)

lemma lawful_trans: "lawful org s t \<Longrightarrow> lawful org t u \<Longrightarrow> lawful org s u"
  unfolding lawful_def by (blast intro: isolated.R_trans wf.R_trans trail.R_trans)

definition confined :: "uuid \<Rightarrow> db \<Rightarrow> db \<Rightarrow> db \<Rightarrow> bool" where
  "confined org s0 s s' \<longleftrightarrow> (wf_db s0 \<and> lawful org s0 s \<longrightarrow> lawful org s0 s')"

interpretation confined: state_relation "confined org s0" for org s0
  by unfold_locales (auto simp: confined_def)

text \<open>A confined transaction, run from the state it starts in, is lawful.\<close>

lemma confined_start:
  "keeps (confined org s) m \<Longrightarrow> wf_db s \<Longrightarrow> m s = Inr (x, s') \<Longrightarrow> lawful org s s' \<and> wf_db s'"
  using lawful_refl [of org s] by (auto simp: confined_def lawful_def keeps_wf_def dest!: keepsD)

lemma confined_step:
  assumes "\<And>s x s'. m s = Inr (x, s') \<Longrightarrow> isolated org s0 s \<Longrightarrow> wf_db s \<Longrightarrow> isolated org s s'"
    and "keeps keeps_wf m" and "keeps trail_grows m"
  shows "keeps (confined org s0) m"
  unfolding keeps_def confined_def
proof (intro allI impI)
  fix s x s' assume run: "m s = Inr (x, s')" and s: "wf_db s0 \<and> lawful org s0 s"
  then have "isolated org s s'" by (intro assms(1) [OF run]) (auto simp: lawful_def keeps_wf_def)
  then have "lawful org s s'" using assms(2,3) run by (auto simp: lawful_def keeps_def)
  then show "lawful org s0 s'" using s by (blast intro: lawful_trans)
qed

text \<open>
  A row identifier owned by the organization: no row under it is another organization's. The
  predicate only depends on the other organizations' rows, so it is the same in every state an
  isolated run passes through.
\<close>

definition own :: "('a \<Rightarrow> uuid) \<Rightarrow> (db \<Rightarrow> 'a table) \<Rightarrow> uuid \<Rightarrow> uuid \<Rightarrow> db \<Rightarrow> bool" where
  "own org_of sel org k s \<longleftrightarrow> k \<notin> keys (foreign org_of org (sel s))"

lemma own_found:
  "distinct (map fst (sel s)) \<Longrightarrow> tbl_find k (sel s) = Some r \<Longrightarrow> org_of r = org \<Longrightarrow> own org_of sel org k s"
  unfolding own_def keys_def foreign_def tbl_find_def using map_of_is_SomeI [of "sel s" k] by fastforce

lemma own_mem: "own org_of sel org k s \<Longrightarrow> (k, r) \<in> set (sel s) \<Longrightarrow> org_of r = org"
  by (force simp: own_def keys_def foreign_def)

lemma foreign_upd_own:
  assumes "k \<notin> keys (foreign org_of org t)" and "\<And>r. org_of (f r) = org_of r"
  shows "foreign org_of org (tbl_upd k f t) = foreign org_of org t"
  using assms by (induction t) (auto simp: foreign_def keys_def split: if_splits)

lemma isolated_next_id: "isolated org s (s\<lparr>next_id := n\<rparr>)"
  by (simp add: isolated_def)

section \<open>The interface of one table\<close>

locale tenant_table =
  fixes org_of :: "'a \<Rightarrow> uuid"
    and sel :: "db \<Rightarrow> 'a table"
    and upd :: "('a table \<Rightarrow> 'a table) \<Rightarrow> db \<Rightarrow> db"
  assumes isolated_sel: "isolated org s s' \<Longrightarrow> foreign org_of org (sel s') = foreign org_of org (sel s)"
    and isolated_upd: "foreign org_of org (g (sel s)) = foreign org_of org (sel s) \<Longrightarrow>
          isolated org s (upd g s)"
    and wf_distinct: "wf_db s \<Longrightarrow> distinct (map fst (sel s))"
    and wf_upd: "keeps_wf s (upd (tbl_upd k f) s)"
    and wf_updMany: "keeps_wf s (upd (tbl_updMany P f) s)"
    and wf_del: "keeps_wf s (upd (tbl_del P) s)"
    and off: "off_trail upd"
begin

lemma own_stable: "isolated org s s' \<Longrightarrow> own org_of sel org k s' = own org_of sel org k s"
  by (simp add: own_def isolated_sel)

lemma trail_off: "trail_grows s (upd g s)"
  using off by (simp add: off_trail_def trail_grows_same)

lemma confined_update:
  assumes "own org_of sel org k s0" and "\<And>r. org_of (f r) = org_of r"
  shows "keeps (confined org s0) (update sel upd k f)"
proof (rule confined_step)
  fix s x s' assume "update sel upd k f s = Inr (x, s')" and iso: "isolated org s0 s"
  then have s': "s' = upd (tbl_upd k f) s" by (auto simp: update_iff)
  have "own org_of sel org k s" using assms(1) iso by (simp add: own_stable)
  then show "isolated org s s'"
    unfolding s' own_def by (intro isolated_upd foreign_upd_own assms(2))
qed (auto simp: keeps_def update_iff wf_upd intro: trail_off)

lemma confined_updateMany:
  "(\<And>i r. P i r \<Longrightarrow> org_of r = org) \<Longrightarrow> (\<And>r. org_of (f r) = org_of r) \<Longrightarrow>
     keeps (confined org s0) (updateMany upd P f)"
  by (rule confined_step)
     (auto simp: updateMany_iff keeps_def wf_updMany intro!: trail_off isolated_upd foreign_updMany)

lemma confined_deleteMany:
  "(\<And>i r. P i r \<Longrightarrow> org_of r = org) \<Longrightarrow> keeps (confined org s0) (deleteMany upd P)"
  by (rule confined_step)
     (auto simp: deleteMany_iff keeps_def wf_del intro!: trail_off isolated_upd foreign_del)

text \<open>What a guarded lookup teaches the rest of the handler.\<close>

lemma own_start:
  assumes "wf_db s0" and "lawful org s0 s"
    and "tbl_find k (sel s) = Some r" and "org_of r = org"
  shows "own org_of sel org k s0"
proof -
  have "wf_db s" using assms(1,2) by (simp add: keeps_wf_def lawful_def)
  then have "own org_of sel org k s" using assms by (blast intro: own_found wf_distinct)
  then show ?thesis using assms(2) own_stable [of org s0 s k] by (simp add: lawful_def)
qed

lemma confined_findUnique:
  assumes "\<And>r. P r \<Longrightarrow> org_of r = org"
    and "\<And>x. (\<And>r. x = Some r \<Longrightarrow> own org_of sel org k s0 \<and> P r) \<Longrightarrow> keeps (confined org s0) (f x)"
  shows "keeps (confined org s0) (bind (findUnique sel k P) f)"
  unfolding keeps_def
proof (intro allI impI)
  fix s x s'
  assume run: "bind (findUnique sel k P) f s = Inr (x, s')"
  show "confined org s0 s s'"
  proof (cases "wf_db s0 \<and> lawful org s0 s")
    case True
    let ?y = "case tbl_find k (sel s) of None \<Rightarrow> None | Some r \<Rightarrow> if P r then Some r else None"
    have "own org_of sel org k s0 \<and> P r" if "?y = Some r" for r
      using that True assms(1) [of r] by (auto intro: own_start split: option.splits if_splits)
    then have "keeps (confined org s0) (f ?y)" by (intro assms(2)) blast
    then show ?thesis using run by (auto simp: bind_iff findUnique_iff dest: keepsD)
  qed (auto simp: confined_def)
qed

lemma confined_findUniqueOrThrow:
  assumes "\<And>r. P r \<Longrightarrow> org_of r = org"
    and "\<And>r. own org_of sel org k s0 \<Longrightarrow> P r \<Longrightarrow> keeps (confined org s0) (f r)"
  shows "keeps (confined org s0) (bind (findUniqueOrThrow sel k P) f)"
  unfolding keeps_def
proof (intro allI impI)
  fix s x s'
  assume run: "bind (findUniqueOrThrow sel k P) f s = Inr (x, s')"
  then obtain r where r: "tbl_find k (sel s) = Some r" "P r" and f: "f r s = Inr (x, s')"
    by (auto simp: bind_iff findUniqueOrThrow_iff)
  show "confined org s0 s s'"
  proof (cases "wf_db s0 \<and> lawful org s0 s")
    case True
    then have "own org_of sel org k s0" using r assms(1) by (blast intro: own_start)
    then show ?thesis using assms(2) [of r] r f by (blast dest: keepsD)
  qed (auto simp: confined_def)
qed

lemma own_start_mem:
  assumes "wf_db s0" and "lawful org s0 s" and "(k, r) \<in> set (sel s)" and "org_of r = org"
  shows "own org_of sel org k s0"
proof -
  have "distinct (map fst (sel s))" using assms(1,2) by (auto simp: keeps_wf_def lawful_def intro: wf_distinct)
  then have "tbl_find k (sel s) = Some r" using assms(3) by (simp add: tbl_find_def)
  then show ?thesis using assms by (blast intro: own_start)
qed

lemma confined_findFirst:
  assumes "\<And>i r. P i r \<Longrightarrow> org_of r = org"
    and "\<And>x. (\<And>i r. x = Some (i, r) \<Longrightarrow> own org_of sel org i s0 \<and> P i r) \<Longrightarrow> keeps (confined org s0) (f x)"
  shows "keeps (confined org s0) (bind (findFirst sel P) f)"
  unfolding keeps_def
proof (intro allI impI)
  fix s x s'
  assume run: "bind (findFirst sel P) f s = Inr (x, s')"
  show "confined org s0 s s'"
  proof (cases "wf_db s0 \<and> lawful org s0 s")
    case True
    have "own org_of sel org i s0 \<and> P i r" if "tbl_first P (sel s) = Some (i, r)" for i r
      using tbl_first_SomeD [OF that] True assms(1) by (blast intro: own_start_mem)
    then have "keeps (confined org s0) (f (tbl_first P (sel s)))" by (intro assms(2)) blast
    then show ?thesis using run by (auto simp: bind_iff findFirst_iff dest: keepsD)
  qed (auto simp: confined_def)
qed

lemma confined_findMany:
  assumes "\<And>i r. P i r \<Longrightarrow> org_of r = org"
    and "\<And>rows. (\<And>i r. (i, r) \<in> set rows \<Longrightarrow> own org_of sel org i s0 \<and> P i r) \<Longrightarrow>
           keeps (confined org s0) (f rows)"
  shows "keeps (confined org s0) (bind (findMany sel P) f)"
  unfolding keeps_def
proof (intro allI impI)
  fix s x s'
  assume run: "bind (findMany sel P) f s = Inr (x, s')"
  show "confined org s0 s s'"
  proof (cases "wf_db s0 \<and> lawful org s0 s")
    case True
    have "own org_of sel org i s0 \<and> P i r" if "(i, r) \<in> set (tbl_where P (sel s))" for i r
      using that True assms(1) by (auto simp: tbl_where_iff intro: own_start_mem)
    then have "keeps (confined org s0) (f (tbl_where P (sel s)))" by (intro assms(2)) blast
    then show ?thesis using run by (auto simp: bind_iff findMany_iff dest: keepsD)
  qed (auto simp: confined_def)
qed

end

text \<open>A table whose keys come from the supply, and one keyed by its parent's identifier.\<close>

locale supplied_table = tenant_table +
  assumes slot: "wf_slot upd"
    and wf_supply: "wf_db s \<Longrightarrow> table_ok (next_id s) (sel s)"
begin

lemma confined_create:
  assumes "org_of r = org"
  shows "keeps (confined org s0) (create upd r)"
proof (rule confined_step)
  fix s x s' assume "create upd r s = Inr (x, s')"
  then have s': "s' = upd (tbl_ins (next_id s) r) (s\<lparr>next_id := Suc (next_id s)\<rparr>)" by (simp add: create_iff)
  show "isolated org s s'"
    unfolding s' by (rule isolated.R_trans [OF isolated_next_id isolated_upd]) (simp add: assms)
qed (rule wf_create [OF slot] trail_create [OF off])+

lemma confined_createMany:
  assumes "\<forall>r \<in> set rs. org_of r = org"
  shows "keeps (confined org s0) (createMany upd rs)"
proof (rule confined_step)
  fix s x s' assume "createMany upd rs s = Inr (x, s')"
  then have s': "s' = upd (tbl_insMany (next_id s) rs) (s\<lparr>next_id := next_id s + length rs\<rparr>)"
    by (simp add: createMany_iff)
  show "isolated org s s'"
    unfolding s' by (rule isolated.R_trans [OF isolated_next_id isolated_upd]) (simp add: assms)
qed (rule wf_createMany [OF slot] trail_createMany [OF off])+

text \<open>A row just created is the organization's own, so the handler may go on to update it.\<close>

lemma confined_created:
  assumes "org_of r = org"
    and "\<And>i. own org_of sel org i s0 \<Longrightarrow> keeps (confined org s0) (f i)"
  shows "keeps (confined org s0) (bind (create upd r) f)"
  unfolding keeps_def
proof (intro allI impI)
  fix s x s'
  assume run: "bind (create upd r) f s = Inr (x, s')"
  then obtain t where t: "create upd r s = Inr (next_id s, t)" and f: "f (next_id s) t = Inr (x, s')"
    by (auto simp: bind_iff create_iff)
  show "confined org s0 s s'"
  proof (cases "wf_db s0 \<and> lawful org s0 s")
    case True
    then have "next_id s0 \<le> next_id s" by (auto simp: lawful_def keeps_wf_def)
    then have "next_id s \<notin> keys (sel s0)"
      using wf_supply [of s0] True by (force simp: table_ok_def keys_def)
    then have "own org_of sel org (next_id s) s0" by (auto simp: own_def keys_def foreign_def)
    then have "confined org s0 t s'" using assms(2) f by (blast dest: keepsD)
    moreover have "confined org s0 s t" using confined_create [OF assms(1)] t by (blast dest: keepsD)
    ultimately show ?thesis by (rule confined.R_trans [rotated])
  qed (auto simp: confined_def)
qed

end

locale keyed_table = tenant_table +
  assumes wf_ins: "tbl_find k (sel s) = None \<Longrightarrow> keeps_wf s (upd (tbl_ins k r) s)"
begin

lemma confined_createAt:
  assumes "org_of r = org"
  shows "keeps (confined org s0) (createAt sel upd k r)"
proof (rule confined_step)
  fix s x s' assume "createAt sel upd k r s = Inr (x, s')"
  then have "s' = upd (tbl_ins k r) s" by (simp add: createAt_iff)
  then show "isolated org s s'" using assms by (simp add: isolated_upd)
qed (auto simp: keeps_def createAt_iff wf_ins intro: trail_off)

end

section \<open>Every table has it\<close>

interpretation notifications_of: supplied_table n_organizationId notifications notifications_update
  by unfold_locales
     (simp_all add: isolated_def wf_slots [unfolded wf_slot_def] wf_slots, simp_all add: wf_db_def table_ok_def)

interpretation customers_of: supplied_table cu_organizationId customers customers_update
  by unfold_locales
     (simp_all add: isolated_def wf_slots [unfolded wf_slot_def] wf_slots, simp_all add: wf_db_def table_ok_def)

interpretation customer_contacts_of: supplied_table ct_org customer_contacts customer_contacts_update
  by unfold_locales
     (simp_all add: isolated_def wf_slots [unfolded wf_slot_def] wf_slots, simp_all add: wf_db_def table_ok_def)

interpretation customer_locations_of: supplied_table cl_organizationId customer_locations customer_locations_update
  by unfold_locales
     (simp_all add: isolated_def wf_slots [unfolded wf_slot_def] wf_slots, simp_all add: wf_db_def table_ok_def)

interpretation rate_agreements_of: supplied_table ra_organizationId rate_agreements rate_agreements_update
  by unfold_locales
     (simp_all add: isolated_def wf_slots [unfolded wf_slot_def] wf_slots, simp_all add: wf_db_def table_ok_def)

interpretation carriers_of: supplied_table c_organizationId carriers carriers_update
  by unfold_locales
     (simp_all add: isolated_def wf_slots [unfolded wf_slot_def] wf_slots, simp_all add: wf_db_def table_ok_def)

interpretation carrier_contacts_of: supplied_table ct_org carrier_contacts carrier_contacts_update
  by unfold_locales
     (simp_all add: isolated_def wf_slots [unfolded wf_slot_def] wf_slots, simp_all add: wf_db_def table_ok_def)

interpretation carrier_insurance_of: supplied_table in_organizationId carrier_insurance carrier_insurance_update
  by unfold_locales
     (simp_all add: isolated_def wf_slots [unfolded wf_slot_def] wf_slots, simp_all add: wf_db_def table_ok_def)

interpretation fmcsa_verifications_of: supplied_table f_organizationId fmcsa_verifications fmcsa_verifications_update
  by unfold_locales
     (simp_all add: isolated_def wf_slots [unfolded wf_slot_def] wf_slots, simp_all add: wf_db_def table_ok_def)

interpretation service_areas_of: supplied_table sv_organizationId service_areas service_areas_update
  by unfold_locales
     (simp_all add: isolated_def wf_slots [unfolded wf_slot_def] wf_slots, simp_all add: wf_db_def table_ok_def)

interpretation drivers_of: supplied_table dr_organizationId drivers drivers_update
  by unfold_locales
     (simp_all add: isolated_def wf_slots [unfolded wf_slot_def] wf_slots, simp_all add: wf_db_def table_ok_def)

interpretation trucks_of: supplied_table eq_organizationId trucks trucks_update
  by unfold_locales
     (simp_all add: isolated_def wf_slots [unfolded wf_slot_def] wf_slots, simp_all add: wf_db_def table_ok_def)

interpretation trailers_of: supplied_table eq_organizationId trailers trailers_update
  by unfold_locales
     (simp_all add: isolated_def wf_slots [unfolded wf_slot_def] wf_slots, simp_all add: wf_db_def table_ok_def)

interpretation documents_of: supplied_table doc_organizationId documents documents_update
  by unfold_locales
     (simp_all add: isolated_def wf_slots [unfolded wf_slot_def] wf_slots, simp_all add: wf_db_def table_ok_def)

interpretation memberships_of: supplied_table m_organizationId memberships memberships_update
  by unfold_locales
     (simp_all add: isolated_def wf_slots [unfolded wf_slot_def] wf_slots, simp_all add: wf_db_def table_ok_def)

interpretation quotes_of: supplied_table q_organizationId quotes quotes_update
  by unfold_locales
     (simp_all add: isolated_def wf_slots [unfolded wf_slot_def] wf_slots, simp_all add: wf_db_def table_ok_def)

interpretation quote_stops_of: supplied_table qs_organizationId quote_stops quote_stops_update
  by unfold_locales
     (simp_all add: isolated_def wf_slots [unfolded wf_slot_def] wf_slots, simp_all add: wf_db_def table_ok_def)

interpretation loads_of: supplied_table l_organizationId loads loads_update
  by unfold_locales
     (simp_all add: isolated_def wf_slots [unfolded wf_slot_def] wf_slots, simp_all add: wf_db_def table_ok_def)

interpretation stops_of: supplied_table s_organizationId stops stops_update
  by unfold_locales
     (simp_all add: isolated_def wf_slots [unfolded wf_slot_def] wf_slots, simp_all add: wf_db_def table_ok_def)

interpretation sourcing_attempts_of: supplied_table sa_organizationId sourcing_attempts sourcing_attempts_update
  by unfold_locales
     (simp_all add: isolated_def wf_slots [unfolded wf_slot_def] wf_slots, simp_all add: wf_db_def table_ok_def)

interpretation check_calls_of: supplied_table cc_organizationId check_calls check_calls_update
  by unfold_locales
     (simp_all add: isolated_def wf_slots [unfolded wf_slot_def] wf_slots, simp_all add: wf_db_def table_ok_def)

interpretation charge_line_items_of: supplied_table ch_organizationId charge_line_items charge_line_items_update
  by unfold_locales
     (simp_all add: isolated_def wf_slots [unfolded wf_slot_def] wf_slots, simp_all add: wf_db_def table_ok_def)

interpretation invoices_of: supplied_table i_organizationId invoices invoices_update
  by unfold_locales
     (simp_all add: isolated_def wf_slots [unfolded wf_slot_def] wf_slots, simp_all add: wf_db_def table_ok_def)

interpretation invoice_loads_of: supplied_table il_organizationId invoice_loads invoice_loads_update
  by unfold_locales
     (simp_all add: isolated_def wf_slots [unfolded wf_slot_def] wf_slots, simp_all add: wf_db_def table_ok_def)

interpretation invoice_line_items_of: supplied_table li_organizationId invoice_line_items invoice_line_items_update
  by unfold_locales
     (simp_all add: isolated_def wf_slots [unfolded wf_slot_def] wf_slots, simp_all add: wf_db_def table_ok_def)

interpretation payments_of: supplied_table p_organizationId payments payments_update
  by unfold_locales
     (simp_all add: isolated_def wf_slots [unfolded wf_slot_def] wf_slots, simp_all add: wf_db_def table_ok_def)

interpretation adjustments_of: supplied_table ad_organizationId adjustments adjustments_update
  by unfold_locales
     (simp_all add: isolated_def wf_slots [unfolded wf_slot_def] wf_slots, simp_all add: wf_db_def table_ok_def)

interpretation carrier_payments_of: supplied_table cp_organizationId carrier_payments carrier_payments_update
  by unfold_locales
     (simp_all add: isolated_def wf_slots [unfolded wf_slot_def] wf_slots, simp_all add: wf_db_def table_ok_def)

interpretation load_drafts_of: supplied_table ld_organizationId load_drafts load_drafts_update
  by unfold_locales
     (simp_all add: isolated_def wf_slots [unfolded wf_slot_def] wf_slots, simp_all add: wf_db_def table_ok_def)

interpretation dispatch_records_of: keyed_table d_organizationId dispatch_records dispatch_records_update
  by unfold_locales (simp_all add: isolated_def wf_simps distinct_ins distinct_del)

interpretation factoring_infos_of: keyed_table fi_organizationId factoring_infos factoring_infos_update
  by unfold_locales (simp_all add: isolated_def wf_simps distinct_ins distinct_del)

lemmas confined_creates =
  memberships_of.confined_create
  notifications_of.confined_create customers_of.confined_create
  customer_contacts_of.confined_create customer_locations_of.confined_create
  rate_agreements_of.confined_create carriers_of.confined_create
  carrier_contacts_of.confined_create carrier_insurance_of.confined_create
  fmcsa_verifications_of.confined_create service_areas_of.confined_create
  drivers_of.confined_create trucks_of.confined_create trailers_of.confined_create
  documents_of.confined_create quotes_of.confined_create quote_stops_of.confined_create
  loads_of.confined_create stops_of.confined_create sourcing_attempts_of.confined_create
  check_calls_of.confined_create charge_line_items_of.confined_create invoices_of.confined_create
  invoice_loads_of.confined_create invoice_line_items_of.confined_create
  payments_of.confined_create adjustments_of.confined_create carrier_payments_of.confined_create
  load_drafts_of.confined_create

lemmas confined_createManys =
  memberships_of.confined_createMany
  notifications_of.confined_createMany customers_of.confined_createMany
  customer_contacts_of.confined_createMany customer_locations_of.confined_createMany
  rate_agreements_of.confined_createMany carriers_of.confined_createMany
  carrier_contacts_of.confined_createMany carrier_insurance_of.confined_createMany
  fmcsa_verifications_of.confined_createMany service_areas_of.confined_createMany
  drivers_of.confined_createMany trucks_of.confined_createMany trailers_of.confined_createMany
  documents_of.confined_createMany quotes_of.confined_createMany
  quote_stops_of.confined_createMany loads_of.confined_createMany stops_of.confined_createMany
  sourcing_attempts_of.confined_createMany check_calls_of.confined_createMany
  charge_line_items_of.confined_createMany invoices_of.confined_createMany
  invoice_loads_of.confined_createMany invoice_line_items_of.confined_createMany
  payments_of.confined_createMany adjustments_of.confined_createMany
  carrier_payments_of.confined_createMany load_drafts_of.confined_createMany

lemmas confined_updates =
  memberships_of.confined_update
  notifications_of.confined_update customers_of.confined_update
  customer_contacts_of.confined_update customer_locations_of.confined_update
  rate_agreements_of.confined_update carriers_of.confined_update
  carrier_contacts_of.confined_update carrier_insurance_of.confined_update
  fmcsa_verifications_of.confined_update service_areas_of.confined_update
  drivers_of.confined_update trucks_of.confined_update trailers_of.confined_update
  documents_of.confined_update quotes_of.confined_update quote_stops_of.confined_update
  loads_of.confined_update stops_of.confined_update sourcing_attempts_of.confined_update
  check_calls_of.confined_update charge_line_items_of.confined_update invoices_of.confined_update
  invoice_loads_of.confined_update invoice_line_items_of.confined_update
  payments_of.confined_update adjustments_of.confined_update carrier_payments_of.confined_update
  load_drafts_of.confined_update dispatch_records_of.confined_update
  factoring_infos_of.confined_update

lemmas confined_updateManys =
  memberships_of.confined_updateMany
  notifications_of.confined_updateMany customers_of.confined_updateMany
  customer_contacts_of.confined_updateMany customer_locations_of.confined_updateMany
  rate_agreements_of.confined_updateMany carriers_of.confined_updateMany
  carrier_contacts_of.confined_updateMany carrier_insurance_of.confined_updateMany
  fmcsa_verifications_of.confined_updateMany service_areas_of.confined_updateMany
  drivers_of.confined_updateMany trucks_of.confined_updateMany trailers_of.confined_updateMany
  documents_of.confined_updateMany quotes_of.confined_updateMany
  quote_stops_of.confined_updateMany loads_of.confined_updateMany stops_of.confined_updateMany
  sourcing_attempts_of.confined_updateMany check_calls_of.confined_updateMany
  charge_line_items_of.confined_updateMany invoices_of.confined_updateMany
  invoice_loads_of.confined_updateMany invoice_line_items_of.confined_updateMany
  payments_of.confined_updateMany adjustments_of.confined_updateMany
  carrier_payments_of.confined_updateMany load_drafts_of.confined_updateMany
  dispatch_records_of.confined_updateMany factoring_infos_of.confined_updateMany

lemmas confined_deleteManys =
  memberships_of.confined_deleteMany
  notifications_of.confined_deleteMany customers_of.confined_deleteMany
  customer_contacts_of.confined_deleteMany customer_locations_of.confined_deleteMany
  rate_agreements_of.confined_deleteMany carriers_of.confined_deleteMany
  carrier_contacts_of.confined_deleteMany carrier_insurance_of.confined_deleteMany
  fmcsa_verifications_of.confined_deleteMany service_areas_of.confined_deleteMany
  drivers_of.confined_deleteMany trucks_of.confined_deleteMany trailers_of.confined_deleteMany
  documents_of.confined_deleteMany quotes_of.confined_deleteMany
  quote_stops_of.confined_deleteMany loads_of.confined_deleteMany stops_of.confined_deleteMany
  sourcing_attempts_of.confined_deleteMany check_calls_of.confined_deleteMany
  charge_line_items_of.confined_deleteMany invoices_of.confined_deleteMany
  invoice_loads_of.confined_deleteMany invoice_line_items_of.confined_deleteMany
  payments_of.confined_deleteMany adjustments_of.confined_deleteMany
  carrier_payments_of.confined_deleteMany load_drafts_of.confined_deleteMany
  dispatch_records_of.confined_deleteMany factoring_infos_of.confined_deleteMany

lemmas confined_finds =
  memberships_of.confined_created
  memberships_of.confined_findUnique
  memberships_of.confined_findUniqueOrThrow
  memberships_of.confined_findFirst
  memberships_of.confined_findMany
  notifications_of.confined_created customers_of.confined_created
  customer_contacts_of.confined_created customer_locations_of.confined_created
  rate_agreements_of.confined_created carriers_of.confined_created
  carrier_contacts_of.confined_created carrier_insurance_of.confined_created
  fmcsa_verifications_of.confined_created service_areas_of.confined_created
  drivers_of.confined_created trucks_of.confined_created trailers_of.confined_created
  documents_of.confined_created quotes_of.confined_created quote_stops_of.confined_created
  loads_of.confined_created stops_of.confined_created sourcing_attempts_of.confined_created
  check_calls_of.confined_created charge_line_items_of.confined_created
  invoices_of.confined_created invoice_loads_of.confined_created
  invoice_line_items_of.confined_created payments_of.confined_created
  adjustments_of.confined_created carrier_payments_of.confined_created
  load_drafts_of.confined_created
  notifications_of.confined_findUnique customers_of.confined_findUnique
  customer_contacts_of.confined_findUnique customer_locations_of.confined_findUnique
  rate_agreements_of.confined_findUnique carriers_of.confined_findUnique
  carrier_contacts_of.confined_findUnique carrier_insurance_of.confined_findUnique
  fmcsa_verifications_of.confined_findUnique service_areas_of.confined_findUnique
  drivers_of.confined_findUnique trucks_of.confined_findUnique trailers_of.confined_findUnique
  documents_of.confined_findUnique quotes_of.confined_findUnique
  quote_stops_of.confined_findUnique loads_of.confined_findUnique stops_of.confined_findUnique
  sourcing_attempts_of.confined_findUnique check_calls_of.confined_findUnique
  charge_line_items_of.confined_findUnique invoices_of.confined_findUnique
  invoice_loads_of.confined_findUnique invoice_line_items_of.confined_findUnique
  payments_of.confined_findUnique adjustments_of.confined_findUnique
  carrier_payments_of.confined_findUnique load_drafts_of.confined_findUnique
  dispatch_records_of.confined_findUnique factoring_infos_of.confined_findUnique
  notifications_of.confined_findUniqueOrThrow customers_of.confined_findUniqueOrThrow
  customer_contacts_of.confined_findUniqueOrThrow customer_locations_of.confined_findUniqueOrThrow
  rate_agreements_of.confined_findUniqueOrThrow carriers_of.confined_findUniqueOrThrow
  carrier_contacts_of.confined_findUniqueOrThrow carrier_insurance_of.confined_findUniqueOrThrow
  fmcsa_verifications_of.confined_findUniqueOrThrow service_areas_of.confined_findUniqueOrThrow
  drivers_of.confined_findUniqueOrThrow trucks_of.confined_findUniqueOrThrow
  trailers_of.confined_findUniqueOrThrow documents_of.confined_findUniqueOrThrow
  quotes_of.confined_findUniqueOrThrow quote_stops_of.confined_findUniqueOrThrow
  loads_of.confined_findUniqueOrThrow stops_of.confined_findUniqueOrThrow
  sourcing_attempts_of.confined_findUniqueOrThrow check_calls_of.confined_findUniqueOrThrow
  charge_line_items_of.confined_findUniqueOrThrow invoices_of.confined_findUniqueOrThrow
  invoice_loads_of.confined_findUniqueOrThrow invoice_line_items_of.confined_findUniqueOrThrow
  payments_of.confined_findUniqueOrThrow adjustments_of.confined_findUniqueOrThrow
  carrier_payments_of.confined_findUniqueOrThrow load_drafts_of.confined_findUniqueOrThrow
  dispatch_records_of.confined_findUniqueOrThrow factoring_infos_of.confined_findUniqueOrThrow
  notifications_of.confined_findFirst customers_of.confined_findFirst
  customer_contacts_of.confined_findFirst customer_locations_of.confined_findFirst
  rate_agreements_of.confined_findFirst carriers_of.confined_findFirst
  carrier_contacts_of.confined_findFirst carrier_insurance_of.confined_findFirst
  fmcsa_verifications_of.confined_findFirst service_areas_of.confined_findFirst
  drivers_of.confined_findFirst trucks_of.confined_findFirst trailers_of.confined_findFirst
  documents_of.confined_findFirst quotes_of.confined_findFirst quote_stops_of.confined_findFirst
  loads_of.confined_findFirst stops_of.confined_findFirst sourcing_attempts_of.confined_findFirst
  check_calls_of.confined_findFirst charge_line_items_of.confined_findFirst
  invoices_of.confined_findFirst invoice_loads_of.confined_findFirst
  invoice_line_items_of.confined_findFirst payments_of.confined_findFirst
  adjustments_of.confined_findFirst carrier_payments_of.confined_findFirst
  load_drafts_of.confined_findFirst dispatch_records_of.confined_findFirst
  factoring_infos_of.confined_findFirst
  notifications_of.confined_findMany customers_of.confined_findMany
  customer_contacts_of.confined_findMany customer_locations_of.confined_findMany
  rate_agreements_of.confined_findMany carriers_of.confined_findMany
  carrier_contacts_of.confined_findMany carrier_insurance_of.confined_findMany
  fmcsa_verifications_of.confined_findMany service_areas_of.confined_findMany
  drivers_of.confined_findMany trucks_of.confined_findMany trailers_of.confined_findMany
  documents_of.confined_findMany quotes_of.confined_findMany quote_stops_of.confined_findMany
  loads_of.confined_findMany stops_of.confined_findMany sourcing_attempts_of.confined_findMany
  check_calls_of.confined_findMany charge_line_items_of.confined_findMany
  invoices_of.confined_findMany invoice_loads_of.confined_findMany
  invoice_line_items_of.confined_findMany payments_of.confined_findMany
  adjustments_of.confined_findMany carrier_payments_of.confined_findMany
  load_drafts_of.confined_findMany dispatch_records_of.confined_findMany
  factoring_infos_of.confined_findMany

lemma confined_audit: "ei_organizationId e = org \<Longrightarrow> keeps (confined org s0) (audit_record e)"
  by (rule confined_step) (auto simp: audit_record_iff wf_audit trail_audit intro: isolated_recorded)

lemma confined_freshId: "keeps (confined org s0) freshId"
  by (rule confined_step)
     (auto simp: freshId_iff keeps_def isolated_next_id trail_grows_same wf_simps)

lemma confined_reads:
  "keeps (confined org s0) (findUnique sel k P)" "keeps (confined org s0) (findFirst sel Q)"
  "keeps (confined org s0) (findMany sel Q)" "keeps (confined org s0) (findUniqueOrThrow sel k P)"
  "keeps (confined org s0) now"
  by (auto simp: keeps_def tx_iff confined.R_refl)

lemma confined_require:
  "(\<And>v. x = Some v \<Longrightarrow> keeps (confined org s0) (f v)) \<Longrightarrow> keeps (confined org s0) (bind (require x e) f)"
  by (auto simp: keeps_def tx_iff)

lemma confined_require_then:
  "(\<And>v. x = Some v \<Longrightarrow> keeps (confined org s0) n) \<Longrightarrow> keeps (confined org s0) (andThen (require x e) n)"
  by (auto simp: keeps_def tx_iff)

lemma confined_throw_if:
  "(\<not> b \<Longrightarrow> keeps (confined org s0) n) \<Longrightarrow> keeps (confined org s0) (andThen (throw_if b e) n)"
  by (auto simp: keeps_def tx_iff)

lemma confined_if:
  "(b \<Longrightarrow> keeps (confined org s0) m) \<Longrightarrow> (\<not> b \<Longrightarrow> keeps (confined org s0) n) \<Longrightarrow>
     keeps (confined org s0) (if b then m else n)"
  by simp

lemma confined_case_option:
  "(x = None \<Longrightarrow> keeps (confined org s0) m) \<Longrightarrow> (\<And>v. x = Some v \<Longrightarrow> keeps (confined org s0) (f v)) \<Longrightarrow>
     keeps (confined org s0) (case x of None \<Rightarrow> m | Some v \<Rightarrow> f v)"
  by (cases x) simp_all

lemma confined_case_prod:
  "(\<And>a b. p = (a, b) \<Longrightarrow> keeps (confined org s0) (f a b)) \<Longrightarrow>
     keeps (confined org s0) (case p of (a, b) \<Rightarrow> f a b)"
  by (cases p) simp

lemma confined_Let: "keeps (confined org s0) (f e) \<Longrightarrow> keeps (confined org s0) (let v = e in f v)"
  by (simp add: Let_def)

text \<open>
  The order matters: a guard is used for what it teaches before the plain sequencing rule.
\<close>

lemmas confined_rules =
  confined_finds confined_require confined_require_then confined_throw_if confined_if
  confined_case_option confined_audit confined_reads confined_freshId confined_creates confined_createManys
  confined_updates confined_updateManys confined_deleteManys
  dispatch_records_of.confined_createAt factoring_infos_of.confined_createAt
  confined.keeps_ret confined.keeps_throw confined.keeps_gets confined.keeps_throw_if
  confined.keeps_require confined.keeps_bind confined.keeps_andThen confined.keeps_run_when
  confined_case_prod confined_Let confined.keeps_forM

end
