(* ===== verification/Sequence.thy ===== *)
theory Sequence
  imports Tenancy
begin

text \<open>
  Organization-scoped numbering: backend/src/modules/identity/services/
  organization-sequence.service.ts. The row lock of getNextNumber makes it atomic with the
  caller's insertion, so it is one step of the caller's transaction.
\<close>

section \<open>The service\<close>

definition sequence_current :: "db \<Rightarrow> uuid \<Rightarrow> sequence_type \<Rightarrow> nat" where
  "sequence_current s org ty = (case sequences s (org, ty) of None \<Rightarrow> 0 | Some v \<Rightarrow> v)"

definition getNextNumber :: "uuid \<Rightarrow> sequence_type \<Rightarrow> nat tx" where
  "getNextNumber organizationId sequenceType =
     andThen (modify (\<lambda>s. s\<lparr>sequences := (sequences s)((organizationId, sequenceType) :=
                Some (sequence_current s organizationId sequenceType))\<rparr>))
     (bind (gets (\<lambda>s. sequence_current s organizationId sequenceType)) (\<lambda>current_value.
        let nextValue = current_value + 1 in
        andThen (modify (\<lambda>s. s\<lparr>sequences := (sequences s)((organizationId, sequenceType) :=
                   Some nextValue)\<rparr>))
        (ret nextValue)))"

text \<open>Decimal digits of a number, most significant first, and \<^verbatim>\<open>padStart(6, '0')\<close>.\<close>

fun show_nat :: "nat \<Rightarrow> string" where
  "show_nat n = (if n < 10 then [char_of (48 + n)] else show_nat (n div 10) @ [char_of (48 + n mod 10)])"

declare show_nat.simps [simp del]

definition padStart :: "nat \<Rightarrow> char \<Rightarrow> string \<Rightarrow> string" where
  "padStart w c v = replicate (w - length v) c @ v"

fun sequence_prefix :: "sequence_type \<Rightarrow> string" where
  "sequence_prefix SEQ_LOAD = ''LOAD''"
| "sequence_prefix SEQ_QUOTE = ''QUOTE''"
| "sequence_prefix SEQ_INVOICE = ''INV''"

definition format :: "sequence_type \<Rightarrow> nat \<Rightarrow> string" where
  "format sequenceType v = sequence_prefix sequenceType @ ''-'' @ padStart 6 (CHR ''0'') (show_nat v)"

section \<open>Numbers as text\<close>

definition read_nat :: "string \<Rightarrow> nat" where
  "read_nat = foldl (\<lambda>acc c. 10 * acc + (of_char c - 48)) 0"

lemma read_nat_snoc: "read_nat (v @ [c]) = 10 * read_nat v + (of_char c - 48)"
  by (simp add: read_nat_def)

lemma digit_value [simp]: "d < 10 \<Longrightarrow> of_char (char_of (48 + d)) - (48 :: nat) = d"
  by simp

lemma read_show_nat: "read_nat (show_nat n) = n"
proof (induction n rule: show_nat.induct)
  case (1 n)
  show ?case
  proof (cases "n < 10")
    case True
    then show ?thesis by (simp add: show_nat.simps [of n] read_nat_def)
  next
    case False
    then have "read_nat (show_nat n) = 10 * (n div 10) + n mod 10"
      using 1 by (simp add: show_nat.simps [of n] read_nat_snoc)
    then show ?thesis by presburger
  qed
qed

lemma read_nat_zeros: "read_nat (replicate k (CHR ''0'') @ v) = read_nat v"
proof -
  have "foldl (\<lambda>acc c. 10 * acc + (of_char c - 48)) (0 :: nat) (replicate k (CHR ''0'')) = 0"
    by (induction k) auto
  then show ?thesis by (simp add: read_nat_def)
qed

lemma read_format: "read_nat (drop (Suc (length (sequence_prefix ty))) (format ty n)) = n"
  by (simp add: format_def padStart_def read_nat_zeros read_show_nat)

lemma format_inject [simp]: "format ty m = format ty n \<longleftrightarrow> m = n"
  by (metis read_format)

lemma length_show_nat_le: "n < 10 ^ k \<Longrightarrow> 0 < k \<Longrightarrow> length (show_nat n) \<le> k"
proof (induction n arbitrary: k rule: show_nat.induct)
  case (1 n)
  show ?case
  proof (cases "n < 10")
    case True
    then show ?thesis using 1 by (simp add: show_nat.simps [of n])
  next
    case False
    obtain j where k: "k = Suc j" using 1(3) by (cases k) auto
    then have "n div 10 < 10 ^ j" using 1(2) by (simp add: less_mult_imp_div_less mult.commute)
    moreover from this have "0 < j" using False by (cases j) auto
    ultimately have "length (show_nat (n div 10)) \<le> j" using 1(1) False by blast
    then show ?thesis using k False by (simp add: show_nat.simps [of n])
  qed
qed

lemma length_format: "n < 1000000 \<Longrightarrow> length (format ty n) = length (sequence_prefix ty) + 7"
  using length_show_nat_le [of n 6] by (simp add: format_def padStart_def)

section \<open>What a call does\<close>

lemma getNextNumber_iff [tx_iff]:
  "getNextNumber org ty s = Inr z \<longleftrightarrow>
     z = (sequence_current s org ty + 1,
          s\<lparr>sequences := (sequences s)((org, ty) := Some (sequence_current s org ty + 1))\<rparr>)"
  by (auto simp: getNextNumber_def tx_iff sequence_current_def Let_def)

lemma getNextNumber_run [tx_run]:
  "getNextNumber org ty s = Inr (sequence_current s org ty + 1,
          s\<lparr>sequences := (sequences s)((org, ty) := Some (sequence_current s org ty + 1))\<rparr>)"
  by (simp add: getNextNumber_iff)

lemma confined_getNextNumber: "keeps (confined org s0) (getNextNumber org ty)"
  by (rule confined_step) (auto simp: keeps_def tx_iff isolated_def wf_simps trail_grows_same)

end
