(* ===== verification/Entitlement.thy ===== *)
theory Entitlement
  imports Sequence
begin

text \<open>
  Per-organization entitlement enforcement: backend/src/common/entitlement/
  entitlement.service.ts. The row lock taken before a count is what makes the check and the
  caller's insertion one atomic step; here the whole transaction is one step, so the locked
  read is a read.
\<close>

definition resolveEffectiveStatus :: "subscription_status \<Rightarrow> instant option \<Rightarrow> instant \<Rightarrow> subscription_status" where
  "resolveEffectiveStatus subscriptionStatus trialEndsAt t =
     (if subscriptionStatus = SUB_CANCELLED then SUB_CANCELLED
      else if subscriptionStatus = SUB_EXPIRED then SUB_EXPIRED
      else if subscriptionStatus = SUB_TRIAL then
        (case trialEndsAt of Some e \<Rightarrow> if t \<ge> e then SUB_EXPIRED else SUB_TRIAL | None \<Rightarrow> SUB_TRIAL)
      else SUB_ACTIVE)"

definition readOrganizationSubscription :: "uuid \<Rightarrow> organization_row tx" where
  "readOrganizationSubscription organizationId = findUniqueOrThrow organizations organizationId (\<lambda>_. True)"

definition lockOrganizationRow :: "uuid \<Rightarrow> organization_row tx" where
  "lockOrganizationRow organizationId = findUniqueOrThrow organizations organizationId (\<lambda>_. True)"

definition assertNotExpired :: "organization_row \<Rightarrow> string \<Rightarrow> unit tx" where
  "assertNotExpired org action =
     bind now (\<lambda>t.
       throw_if (resolveEffectiveStatus (o_subscriptionStatus org) (o_trialEndsAt org) t = SUB_EXPIRED)
         (BusinessRuleError (''Your trial has expired. Convert to a paid subscription to '' @ action @ ''.'')))"

definition counted_carrier :: "uuid \<Rightarrow> carrier_row \<Rightarrow> bool" where
  "counted_carrier organizationId c \<longleftrightarrow>
     c_organizationId c = organizationId \<and> c_status c \<in> {CA_PENDING, CA_ACTIVE}"

definition counted_driver :: "uuid \<Rightarrow> driver_row \<Rightarrow> bool" where
  "counted_driver organizationId d \<longleftrightarrow> dr_organizationId d = organizationId \<and> dr_active d"

definition carrier_count :: "uuid \<Rightarrow> db \<Rightarrow> nat" where
  "carrier_count organizationId s = length (tbl_where (\<lambda>_. counted_carrier organizationId) (carriers s))"

definition driver_count :: "uuid \<Rightarrow> db \<Rightarrow> nat" where
  "driver_count organizationId s = length (tbl_where (\<lambda>_. counted_driver organizationId) (drivers s))"

definition assertCarrierCountWithinLimit :: "uuid \<Rightarrow> organization_row \<Rightarrow> unit tx" where
  "assertCarrierCountWithinLimit organizationId quick =
     (case o_maxCarriers quick of None \<Rightarrow> ret () | Some _ \<Rightarrow>
      bind (lockOrganizationRow organizationId) (\<lambda>locked.
        case o_maxCarriers locked of None \<Rightarrow> ret () | Some maxCarriers \<Rightarrow>
        bind (gets (carrier_count organizationId)) (\<lambda>count.
          throw_if (count \<ge> maxCarriers)
            (BusinessRuleError (''This organization has reached its carrier limit ('' @
               show_nat maxCarriers @ '').'')))))"

definition assertDriverCountWithinLimit :: "uuid \<Rightarrow> organization_row \<Rightarrow> unit tx" where
  "assertDriverCountWithinLimit organizationId quick =
     (case o_maxDrivers quick of None \<Rightarrow> ret () | Some _ \<Rightarrow>
      bind (lockOrganizationRow organizationId) (\<lambda>locked.
        case o_maxDrivers locked of None \<Rightarrow> ret () | Some maxDrivers \<Rightarrow>
        bind (gets (driver_count organizationId)) (\<lambda>count.
          throw_if (count \<ge> maxDrivers)
            (BusinessRuleError (''This organization has reached its driver limit ('' @
               show_nat maxDrivers @ '').'')))))"

definition assertCanCreateCarrier :: "uuid \<Rightarrow> unit tx" where
  "assertCanCreateCarrier organizationId =
     bind (readOrganizationSubscription organizationId) (\<lambda>quick.
     andThen (assertNotExpired quick ''add more carriers'')
     (assertCarrierCountWithinLimit organizationId quick))"

definition assertCarrierSlotAvailable :: "uuid \<Rightarrow> unit tx" where
  "assertCarrierSlotAvailable organizationId =
     bind (readOrganizationSubscription organizationId) (\<lambda>quick.
       assertCarrierCountWithinLimit organizationId quick)"

definition assertCanCreateOperationalRecord :: "uuid \<Rightarrow> unit tx" where
  "assertCanCreateOperationalRecord organizationId =
     bind (readOrganizationSubscription organizationId) (\<lambda>quick.
       assertNotExpired quick ''create new operational records'')"

definition assertCanCreateDriver :: "uuid \<Rightarrow> unit tx" where
  "assertCanCreateDriver organizationId =
     bind (readOrganizationSubscription organizationId) (\<lambda>quick.
     andThen (assertNotExpired quick ''add more drivers'')
     (assertDriverCountWithinLimit organizationId quick))"

definition assertDriverSlotAvailable :: "uuid \<Rightarrow> unit tx" where
  "assertDriverSlotAvailable organizationId =
     bind (readOrganizationSubscription organizationId) (\<lambda>quick.
       assertDriverCountWithinLimit organizationId quick)"

section \<open>When a gate opens\<close>

text \<open>
  What the gates promise their callers, as predicates of the state: the subscription is not
  expired at the current time, and a configured limit is not yet reached.
\<close>

definition not_expired :: "uuid \<Rightarrow> db \<Rightarrow> bool" where
  "not_expired org s \<longleftrightarrow> (case tbl_find org (organizations s) of None \<Rightarrow> False
     | Some o' \<Rightarrow> resolveEffectiveStatus (o_subscriptionStatus o') (o_trialEndsAt o') (clock s) \<noteq> SUB_EXPIRED)"

definition carrier_room :: "uuid \<Rightarrow> db \<Rightarrow> bool" where
  "carrier_room org s \<longleftrightarrow> (case tbl_find org (organizations s) of None \<Rightarrow> False
     | Some o' \<Rightarrow> (case o_maxCarriers o' of None \<Rightarrow> True | Some m \<Rightarrow> carrier_count org s < m))"

definition driver_room :: "uuid \<Rightarrow> db \<Rightarrow> bool" where
  "driver_room org s \<longleftrightarrow> (case tbl_find org (organizations s) of None \<Rightarrow> False
     | Some o' \<Rightarrow> (case o_maxDrivers o' of None \<Rightarrow> True | Some m \<Rightarrow> driver_count org s < m))"

lemma assertCanCreateCarrier_iff [tx_iff]:
  "assertCanCreateCarrier org s = Inr z \<longleftrightarrow> not_expired org s \<and> carrier_room org s \<and> z = ((), s)"
  by (auto simp: assertCanCreateCarrier_def readOrganizationSubscription_def assertNotExpired_def
      assertCarrierCountWithinLimit_def lockOrganizationRow_def not_expired_def carrier_room_def tx_iff
      not_le split: option.splits)

lemma assertCarrierSlotAvailable_iff [tx_iff]:
  "assertCarrierSlotAvailable org s = Inr z \<longleftrightarrow> carrier_room org s \<and> z = ((), s)"
  by (auto simp: assertCarrierSlotAvailable_def readOrganizationSubscription_def
      assertCarrierCountWithinLimit_def lockOrganizationRow_def carrier_room_def tx_iff
      not_le split: option.splits)

lemma assertCanCreateOperationalRecord_iff [tx_iff]:
  "assertCanCreateOperationalRecord org s = Inr z \<longleftrightarrow> not_expired org s \<and> z = ((), s)"
  by (auto simp: assertCanCreateOperationalRecord_def readOrganizationSubscription_def
      assertNotExpired_def not_expired_def tx_iff split: option.splits)

lemma assertCanCreateDriver_iff [tx_iff]:
  "assertCanCreateDriver org s = Inr z \<longleftrightarrow> not_expired org s \<and> driver_room org s \<and> z = ((), s)"
  by (auto simp: assertCanCreateDriver_def readOrganizationSubscription_def assertNotExpired_def
      assertDriverCountWithinLimit_def lockOrganizationRow_def not_expired_def driver_room_def tx_iff
      not_le split: option.splits)

lemma assertDriverSlotAvailable_iff [tx_iff]:
  "assertDriverSlotAvailable org s = Inr z \<longleftrightarrow> driver_room org s \<and> z = ((), s)"
  by (auto simp: assertDriverSlotAvailable_def readOrganizationSubscription_def
      assertDriverCountWithinLimit_def lockOrganizationRow_def driver_room_def tx_iff
      not_le split: option.splits)

lemma entitlement_keeps:
  assumes "\<And>s. R s s"
  shows "keeps R (assertCanCreateCarrier org)" and "keeps R (assertCarrierSlotAvailable org)"
    and "keeps R (assertCanCreateOperationalRecord org)" and "keeps R (assertCanCreateDriver org)"
    and "keeps R (assertDriverSlotAvailable org)"
  using assms by (simp_all add: keeps_def tx_iff)

end
