(* ===== verification/Notification.thy ===== *)
theory Notification
  imports Entitlement
begin

text \<open>
  The in-app notification store: backend/src/modules/notification/services/
  notification.service.ts.
\<close>

record notification_input =
  ni_type :: notification_type
  ni_message :: string
  ni_relatedEntityType :: "string option"
  ni_relatedEntityId :: "uuid option"

definition notification_of :: "uuid \<Rightarrow> instant \<Rightarrow> notification_input \<Rightarrow> uuid \<Rightarrow> notification_row" where
  "notification_of organizationId t i recipientUserId =
     \<lparr>n_organizationId = organizationId, n_recipientUserId = recipientUserId, n_type = ni_type i,
      n_relatedEntityType = ni_relatedEntityType i, n_relatedEntityId = ni_relatedEntityId i,
      n_message = ni_message i, n_read = False, n_createdAt = t\<rparr>"

definition notification_create :: "uuid \<Rightarrow> uuid \<Rightarrow> notification_input \<Rightarrow> unit tx" where
  "notification_create organizationId recipientUserId i =
     bind now (\<lambda>t. andThen (create notifications_update (notification_of organizationId t i recipientUserId))
       (ret ()))"

text \<open>The active members of an organization that hold one of the roles.\<close>

definition active_with_role :: "uuid \<Rightarrow> role list \<Rightarrow> membership_row \<Rightarrow> bool" where
  "active_with_role organizationId roles m \<longleftrightarrow>
     m_organizationId m = organizationId \<and> m_status m = MS_ACTIVE \<and> (\<exists>r \<in> set (m_roles m). r \<in> set roles)"

definition role_members :: "uuid \<Rightarrow> role list \<Rightarrow> db \<Rightarrow> uuid list" where
  "role_members organizationId roles s =
     map (\<lambda>(_, m). m_userId m) (tbl_where (\<lambda>_. active_with_role organizationId roles) (memberships s))"

definition createForRoles :: "uuid \<Rightarrow> role list \<Rightarrow> notification_input \<Rightarrow> unit tx" where
  "createForRoles organizationId roles i =
     bind (gets (role_members organizationId roles)) (\<lambda>users.
     andThen (forM users (\<lambda>u. notification_create organizationId u i)) (ret ()))"

text \<open>A JavaScript Set built from an array keeps the first of equal elements, in order.\<close>

definition js_set :: "'a list \<Rightarrow> 'a list" where
  "js_set xs = rev (remdups (rev xs))"

definition createForUserAndRoles :: "uuid \<Rightarrow> uuid \<Rightarrow> role list \<Rightarrow> notification_input \<Rightarrow> unit tx" where
  "createForUserAndRoles organizationId primaryUserId roles i =
     bind (gets (role_members organizationId roles)) (\<lambda>users.
     andThen (forM (js_set (primaryUserId # users)) (\<lambda>u. notification_create organizationId u i)) (ret ()))"

definition page_of :: "int option \<Rightarrow> int" where
  "page_of p = (case p of Some v \<Rightarrow> if v > 0 then v else 1 | None \<Rightarrow> 1)"

definition page_size_of :: "int \<Rightarrow> int \<Rightarrow> int option \<Rightarrow> int" where
  "page_size_of default_size max_size p =
     min (case p of Some v \<Rightarrow> if v > 0 then v else default_size | None \<Rightarrow> default_size) max_size"

definition page_slice :: "int \<Rightarrow> int \<Rightarrow> 'a list \<Rightarrow> 'a list" where
  "page_slice page sz xs = take (nat sz) (drop (nat ((page - 1) * sz)) xs)"

definition own_notification :: "uuid \<Rightarrow> uuid \<Rightarrow> notification_row \<Rightarrow> bool" where
  "own_notification organizationId recipientUserId n \<longleftrightarrow>
     n_organizationId n = organizationId \<and> n_recipientUserId n = recipientUserId"

definition notification_list ::
  "uuid \<Rightarrow> uuid \<Rightarrow> bool \<Rightarrow> int option \<Rightarrow> int option \<Rightarrow> (uuid \<times> notification_row) list tx" where
  "notification_list organizationId recipientUserId unreadOnly page pageSize =
     bind (findMany notifications (\<lambda>_ n. own_notification organizationId recipientUserId n \<and>
             (unreadOnly \<longrightarrow> \<not> n_read n))) (\<lambda>rows.
     ret (page_slice (page_of page) (page_size_of 20 100 pageSize)
            (sort_key (\<lambda>(_, n). - n_createdAt n) rows)))"

definition countUnread :: "uuid \<Rightarrow> uuid \<Rightarrow> nat tx" where
  "countUnread organizationId recipientUserId =
     bind (findMany notifications (\<lambda>_ n. own_notification organizationId recipientUserId n \<and> \<not> n_read n))
       (\<lambda>rows. ret (length rows))"

definition markRead :: "uuid \<Rightarrow> uuid \<Rightarrow> uuid \<Rightarrow> notification_row tx" where
  "markRead organizationId recipientUserId i =
     bind (findUnique notifications i (own_notification organizationId recipientUserId))
       (\<lambda>existing.
     bind (require existing (NotFoundError ''Notification not found.'')) (\<lambda>_.
     update notifications notifications_update i (\<lambda>n. n\<lparr>n_read := True\<rparr>)))"

definition markAllRead :: "uuid \<Rightarrow> uuid \<Rightarrow> nat tx" where
  "markAllRead organizationId recipientUserId =
     bind (findMany notifications (\<lambda>_ n. own_notification organizationId recipientUserId n \<and> \<not> n_read n))
       (\<lambda>rows.
     andThen (updateMany notifications_update
       (\<lambda>_ n. own_notification organizationId recipientUserId n \<and> \<not> n_read n) (\<lambda>n. n\<lparr>n_read := True\<rparr>))
     (ret (length rows)))"

section \<open>Lemmas\<close>

lemma set_js_set [simp]: "set (js_set xs) = set xs"
  by (simp add: js_set_def)

lemma distinct_js_set [simp]: "distinct (js_set xs)"
  by (simp add: js_set_def)

lemma notification_create_iff [tx_iff]:
  "notification_create org u i s = Inr z \<longleftrightarrow>
     z = ((), s\<lparr>notifications := tbl_ins (next_id s) (notification_of org (clock s) i u) (notifications s),
               next_id := Suc (next_id s)\<rparr>)"
  by (auto simp: notification_create_def tx_iff)

text \<open>A fan-out adds exactly one row per recipient, at the end of the table.\<close>

lemma forM_notification_create:
  "forM us (\<lambda>u. notification_create org u i) s =
     Inr (map (\<lambda>_. ()) us, s\<lparr>notifications := tbl_insMany (next_id s)
            (map (notification_of org (clock s) i) us) (notifications s),
          next_id := next_id s + length us\<rparr>)"
proof (induction us arbitrary: s)
  case Nil
  then show ?case by (simp add: tx_run tbl_insMany_def)
next
  case (Cons u us)
  have "notification_create org u i s = Inr ((), s\<lparr>notifications :=
      tbl_ins (next_id s) (notification_of org (clock s) i u) (notifications s), next_id := Suc (next_id s)\<rparr>)"
    by (simp add: notification_create_iff)
  then show ?case
    by (simp add: tx_run Cons tbl_insMany_def tbl_ins_def)
qed

lemma createForUserAndRoles_run [tx_run]:
  "createForUserAndRoles org p roles i s =
     Inr ((), s\<lparr>notifications := tbl_insMany (next_id s)
            (map (notification_of org (clock s) i) (js_set (p # role_members org roles s))) (notifications s),
          next_id := next_id s + length (js_set (p # role_members org roles s))\<rparr>)"
  by (simp add: createForUserAndRoles_def tx_run forM_notification_create)

lemma createForRoles_run [tx_run]:
  "createForRoles org roles i s =
     Inr ((), s\<lparr>notifications := tbl_insMany (next_id s)
            (map (notification_of org (clock s) i) (role_members org roles s)) (notifications s),
          next_id := next_id s + length (role_members org roles s)\<rparr>)"
  by (simp add: createForRoles_def tx_run forM_notification_create)

lemmas fanout_iff [tx_iff] = createForUserAndRoles_run createForRoles_run

lemma notification_of_org [simp]: "n_organizationId (notification_of org t i u) = org"
  by (simp add: notification_of_def)

lemma confined_notification:
  "keeps (confined org s0) (notification_create org u i)"
  "keeps (confined org s0) (createForRoles org roles i)"
  "keeps (confined org s0) (createForUserAndRoles org u roles i)"
  "keeps (confined org s0) (markRead org u n)" "keeps (confined org s0) (markAllRead org u)"
  unfolding notification_create_def createForRoles_def createForUserAndRoles_def markRead_def
    markAllRead_def own_notification_def
  by ((rule confined_rules | (simp; fail))+)

lemma role_members_iff:
  "u \<in> set (role_members org roles s) \<longleftrightarrow>
     (\<exists>k m. (k, m) \<in> set (memberships s) \<and> active_with_role org roles m \<and> m_userId m = u)"
  by (force simp: role_members_def tbl_where_def)

end
