(* ===== verification/Eligibility.thy ===== *)
theory Eligibility
  imports Notification
begin

text \<open>
  Carrier assignment eligibility: backend/src/modules/carrier/services/
  carrier-eligibility.service.ts. The reasons a carrier may not be assigned are computed from
  its status, its compliance documents, its insurance records and its latest FMCSA
  verification; the flag and the reasons are stored on the carrier row.
\<close>

section \<open>The service\<close>

definition REQUIRED_COMPLIANCE_CODES :: "string list" where
  "REQUIRED_COMPLIANCE_CODES = [''CARRIER_AGREEMENT'', ''W9'', ''MC_AUTHORITY'']"

definition isAcceptableFmcsaResult :: "string \<Rightarrow> bool" where
  "isAcceptableFmcsaResult resultStatus \<longleftrightarrow> toLowerCase (trim resultStatus) = ''authorized''"

definition labelFor :: "string \<Rightarrow> string" where
  "labelFor code = (if code = ''CARRIER_AGREEMENT'' then ''Notice of Assignment''
                    else if code = ''W9'' then ''W9'' else ''MC Authority'')"

definition document_code :: "db \<Rightarrow> document_row \<Rightarrow> string option" where
  "document_code s d = map_option dt_code (tbl_find (doc_documentTypeId d) (document_types s))"

text \<open>Newest first, as \<^verbatim>\<open>orderBy: { uploadedAt: 'desc' }\<close> returns them.\<close>

definition compliance_docs :: "uuid \<Rightarrow> uuid \<Rightarrow> db \<Rightarrow> (uuid \<times> document_row) list" where
  "compliance_docs organizationId carrierId s =
     sort_key (\<lambda>(_, d). - doc_uploadedAt d)
       (tbl_where (\<lambda>_ d. doc_organizationId d = organizationId \<and> doc_entityType d = DE_CARRIER \<and>
          doc_entityId d = carrierId \<and> doc_isCurrentVersion d \<and>
          (\<exists>code \<in> set REQUIRED_COMPLIANCE_CODES. document_code s d = Some code)) (documents s))"

definition compliance_doc :: "uuid \<Rightarrow> uuid \<Rightarrow> db \<Rightarrow> string \<Rightarrow> (uuid \<times> document_row) option" where
  "compliance_doc organizationId carrierId s code =
     List.find (\<lambda>(_, d). document_code s d = Some code) (compliance_docs organizationId carrierId s)"

definition document_reasons :: "uuid \<Rightarrow> uuid \<Rightarrow> db \<Rightarrow> string list" where
  "document_reasons organizationId carrierId s =
     concat (map (\<lambda>code. case compliance_doc organizationId carrierId s code of
         None \<Rightarrow> [labelFor code @ '' is not approved'']
       | Some (_, d) \<Rightarrow> if doc_reviewStatus d \<noteq> Some RV_APPROVED
                         then [labelFor code @ '' is not approved''] else [])
       REQUIRED_COMPLIANCE_CODES)"

definition valid_coverage :: "uuid \<Rightarrow> uuid \<Rightarrow> db \<Rightarrow> coverage_type \<Rightarrow> bool" where
  "valid_coverage organizationId carrierId s coverageType \<longleftrightarrow>
     (\<exists>(_, r) \<in> set (tbl_where (\<lambda>_ r. in_organizationId r = organizationId \<and> in_carrierId r = carrierId)
                     (carrier_insurance s)).
        in_coverageType r = coverageType \<and> in_expirationDate r \<ge> clock s \<and>
        (case tbl_find (in_coiDocumentId r) (documents s) of None \<Rightarrow> False
         | Some d \<Rightarrow> doc_reviewStatus d = Some RV_APPROVED))"

definition insurance_reasons :: "uuid \<Rightarrow> uuid \<Rightarrow> db \<Rightarrow> string list" where
  "insurance_reasons organizationId carrierId s =
     concat (map (\<lambda>coverageType. if valid_coverage organizationId carrierId s coverageType then []
         else [(if coverageType = AUTO_LIABILITY then ''Auto Liability'' else ''Cargo'') @
               '' insurance is expired or not approved''])
       [AUTO_LIABILITY, CARGO])"

definition latest_fmcsa :: "uuid \<Rightarrow> uuid \<Rightarrow> db \<Rightarrow> (uuid \<times> fmcsa_row) option" where
  "latest_fmcsa organizationId carrierId s =
     List.find (\<lambda>_. True) (sort_key (\<lambda>(_, f). - f_verificationDate f)
       (tbl_where (\<lambda>_ f. f_organizationId f = organizationId \<and> f_carrierId f = carrierId)
          (fmcsa_verifications s)))"

definition fmcsa_reasons :: "uuid \<Rightarrow> uuid \<Rightarrow> db \<Rightarrow> string list" where
  "fmcsa_reasons organizationId carrierId s =
     (case latest_fmcsa organizationId carrierId s of
        Some (_, f) \<Rightarrow> if isAcceptableFmcsaResult (f_resultStatus f) then []
                        else [''FMCSA/SAFER verification is missing or not acceptable'']
      | None \<Rightarrow> [''FMCSA/SAFER verification is missing or not acceptable''])"

definition computeComplianceReasons :: "uuid \<Rightarrow> uuid \<Rightarrow> db \<Rightarrow> string list" where
  "computeComplianceReasons organizationId carrierId s =
     document_reasons organizationId carrierId s @ insurance_reasons organizationId carrierId s @
     fmcsa_reasons organizationId carrierId s"

definition status_reasons :: "carrier_status \<Rightarrow> string list" where
  "status_reasons st = (if st = CA_BLOCKED then [''Carrier is Blocked''] else []) @
                       (if st \<noteq> CA_ACTIVE then [''Carrier status is not Active''] else [])"

definition ev_eligibility_changed :: "uuid \<Rightarrow> uuid \<Rightarrow> bool \<Rightarrow> bool \<Rightarrow> string list \<Rightarrow> event_input" where
  "ev_eligibility_changed organizationId carrierId wasEligible eligible reasons =
     system_event organizationId ''Assignment Eligibility Changed'' ''Carrier'' carrierId
       (Some (JObj [(''assignmentEligible'', JBool wasEligible)]))
       (Some (JObj [(''assignmentEligible'', JBool eligible), (''reasons'', JArr (map JStr reasons))]))"

definition recalculate :: "uuid \<Rightarrow> uuid \<Rightarrow> (bool \<times> string list) tx" where
  "recalculate organizationId carrierId =
     bind (findUniqueOrThrow carriers carrierId (\<lambda>c. c_organizationId c = organizationId)) (\<lambda>carrier.
     bind (gets (\<lambda>s. status_reasons (c_status carrier) @ computeComplianceReasons organizationId carrierId s))
       (\<lambda>reasons.
     andThen (update carriers carriers_update carrierId
       (\<lambda>c. c\<lparr>c_assignmentEligible := (reasons = []), c_ineligibilityReasons := Some reasons\<rparr>))
     (andThen (run_when ((reasons = []) \<noteq> c_assignmentEligible carrier)
       (audit_record (ev_eligibility_changed organizationId carrierId (c_assignmentEligible carrier)
          (reasons = []) reasons)))
     (ret (reasons = [], reasons)))))"

definition checkActivationReadiness :: "uuid \<Rightarrow> uuid \<Rightarrow> (bool \<times> string list) tx" where
  "checkActivationReadiness organizationId carrierId =
     bind (gets (computeComplianceReasons organizationId carrierId)) (\<lambda>reasons. ret (reasons = [], reasons))"

section \<open>The conditions, declaratively\<close>

definition compliance_candidate :: "uuid \<Rightarrow> uuid \<Rightarrow> db \<Rightarrow> string \<Rightarrow> document_row \<Rightarrow> bool" where
  "compliance_candidate org carrierId s code d \<longleftrightarrow>
     d \<in> snd ` set (documents s) \<and> doc_organizationId d = org \<and> doc_entityType d = DE_CARRIER \<and>
     doc_entityId d = carrierId \<and> doc_isCurrentVersion d \<and> document_code s d = Some code"

definition approved_on_file :: "uuid \<Rightarrow> uuid \<Rightarrow> db \<Rightarrow> string \<Rightarrow> bool" where
  "approved_on_file org carrierId s code \<longleftrightarrow>
     (\<exists>d. compliance_candidate org carrierId s code d \<and> doc_reviewStatus d = Some RV_APPROVED \<and>
        (\<forall>d'. compliance_candidate org carrierId s code d' \<longrightarrow> doc_uploadedAt d' \<le> doc_uploadedAt d))"

definition insured :: "uuid \<Rightarrow> uuid \<Rightarrow> db \<Rightarrow> coverage_type \<Rightarrow> bool" where
  "insured org carrierId s cov \<longleftrightarrow>
     (\<exists>r d. r \<in> snd ` set (carrier_insurance s) \<and> in_organizationId r = org \<and> in_carrierId r = carrierId \<and>
        in_coverageType r = cov \<and> clock s \<le> in_expirationDate r \<and>
        tbl_find (in_coiDocumentId r) (documents s) = Some d \<and> doc_reviewStatus d = Some RV_APPROVED)"

definition authorized :: "uuid \<Rightarrow> uuid \<Rightarrow> db \<Rightarrow> bool" where
  "authorized org carrierId s \<longleftrightarrow>
     (\<exists>f. f \<in> snd ` set (fmcsa_verifications s) \<and> f_organizationId f = org \<and> f_carrierId f = carrierId \<and>
        isAcceptableFmcsaResult (f_resultStatus f) \<and>
        (\<forall>g \<in> snd ` set (fmcsa_verifications s). f_organizationId g = org \<longrightarrow> f_carrierId g = carrierId \<longrightarrow>
           f_verificationDate g \<le> f_verificationDate f))"

lemma find_sort_key:
  assumes "List.find P (sort_key f xs) = Some x"
  shows "x \<in> set xs" and "P x" and "\<And>y. y \<in> set xs \<Longrightarrow> P y \<Longrightarrow> f x \<le> f y"
proof -
  have "x \<in> set (sort_key f xs) \<and> P x" using assms by (rule find_Some_iff')
  then show "x \<in> set xs" and "P x" by simp_all
  have le: "sorted (map f zs) \<Longrightarrow> List.find P zs = Some x \<Longrightarrow> y \<in> set zs \<Longrightarrow> P y \<Longrightarrow> f x \<le> f y" for y zs
    by (induction zs) (auto split: if_splits)
  show "f x \<le> f y" if "y \<in> set xs" and "P y" for y
    using le [of "sort_key f xs" y] assms that by simp
qed

lemma find_sort_key_None: "List.find P (sort_key f xs) = None \<longleftrightarrow> (\<forall>x \<in> set xs. \<not> P x)"
  by (simp add: find_None_all)

lemma document_ok:
  assumes "compliance_doc org carrierId s code = Some (i, d)" and "doc_reviewStatus d = Some RV_APPROVED"
    and code: "code \<in> set REQUIRED_COMPLIANCE_CODES"
  shows "approved_on_file org carrierId s code"
proof -
  note found = find_sort_key [OF assms(1) [unfolded compliance_doc_def compliance_docs_def]]
  have "compliance_candidate org carrierId s code d"
    using found(1,2) by (force simp: compliance_candidate_def tbl_where_def)
  moreover have "doc_uploadedAt d' \<le> doc_uploadedAt d"
    if "compliance_candidate org carrierId s code d'" for d'
  proof -
    obtain j where "(j, d') \<in> set (documents s)"
      using \<open>compliance_candidate org carrierId s code d'\<close> by (auto simp: compliance_candidate_def)
    then show ?thesis
      using found(3) [of "(j, d')"] that code by (auto simp: compliance_candidate_def tbl_where_def)
  qed
  ultimately show ?thesis using assms(2) by (auto simp: approved_on_file_def)
qed

lemma coverage_ok: "valid_coverage org carrierId s cov \<Longrightarrow> insured org carrierId s cov"
  by (force simp: valid_coverage_def insured_def tbl_where_def split: option.splits)

lemma insured_coverage: "insured org carrierId s cov \<Longrightarrow> valid_coverage org carrierId s cov"
  by (force simp: valid_coverage_def insured_def tbl_where_def)

lemma fmcsa_ok:
  assumes "fmcsa_reasons org carrierId s = []"
  shows "authorized org carrierId s"
proof -
  obtain i f where 1: "latest_fmcsa org carrierId s = Some (i, f)" and 2: "isAcceptableFmcsaResult (f_resultStatus f)"
    using assms by (auto simp: fmcsa_reasons_def split: option.splits if_splits)
  note found = find_sort_key [OF 1 [unfolded latest_fmcsa_def]]
  have "f \<in> snd ` set (fmcsa_verifications s) \<and> f_organizationId f = org \<and> f_carrierId f = carrierId"
    using found(1) by (force simp: tbl_where_def)
  moreover have "\<forall>g \<in> snd ` set (fmcsa_verifications s). f_organizationId g = org \<longrightarrow> f_carrierId g = carrierId \<longrightarrow>
      f_verificationDate g \<le> f_verificationDate f"
    using found(3) by (auto simp: tbl_where_def)
  ultimately show ?thesis using 2 by (auto simp: authorized_def)
qed

lemma no_reasons_iff:
  "computeComplianceReasons org c s = [] \<longleftrightarrow>
     (\<forall>code \<in> set REQUIRED_COMPLIANCE_CODES. \<exists>i d. compliance_doc org c s code = Some (i, d) \<and>
        doc_reviewStatus d = Some RV_APPROVED) \<and>
     valid_coverage org c s AUTO_LIABILITY \<and> valid_coverage org c s CARGO \<and> fmcsa_reasons org c s = []"
proof -
  have "document_reasons org c s = [] \<longleftrightarrow> (\<forall>code \<in> set REQUIRED_COMPLIANCE_CODES.
      \<exists>i d. compliance_doc org c s code = Some (i, d) \<and> doc_reviewStatus d = Some RV_APPROVED)"
    unfolding document_reasons_def concat_eq_Nil_conv set_map ball_simps
    by (rule ball_cong) (auto split: option.split)
  then show ?thesis
    by (simp add: computeComplianceReasons_def insurance_reasons_def)
qed

lemma compliant_when_no_reasons:
  assumes "computeComplianceReasons org c s = []"
  shows "(\<forall>code \<in> set REQUIRED_COMPLIANCE_CODES. approved_on_file org c s code) \<and>
    insured org c s AUTO_LIABILITY \<and> insured org c s CARGO \<and> authorized org c s"
  using assms unfolding no_reasons_iff by (blast intro: document_ok coverage_ok fmcsa_ok)

lemma status_reasons_iff [simp]: "status_reasons st = [] \<longleftrightarrow> st = CA_ACTIVE"
  by (auto simp: status_reasons_def)

text \<open>
  What a recalculation leaves behind, as a state transformer: the reasons for the carrier as it
  stands, the row with flag and reasons stored, and one audit entry when the flag flips.
\<close>

definition eligibility_reasons :: "uuid \<Rightarrow> uuid \<Rightarrow> carrier_row \<Rightarrow> db \<Rightarrow> string list" where
  "eligibility_reasons org c carrier s = status_reasons (c_status carrier) @ computeComplianceReasons org c s"

definition store_eligibility :: "string list \<Rightarrow> carrier_row \<Rightarrow> carrier_row" where
  "store_eligibility reasons r = r\<lparr>c_assignmentEligible := (reasons = []), c_ineligibilityReasons := Some reasons\<rparr>"

definition recalculated :: "uuid \<Rightarrow> uuid \<Rightarrow> carrier_row \<Rightarrow> db \<Rightarrow> db" where
  "recalculated org c carrier s =
     (let reasons = eligibility_reasons org c carrier s;
          s' = carriers_update (tbl_upd c (store_eligibility reasons)) s
      in if (reasons = []) \<noteq> c_assignmentEligible carrier
         then recorded (ev_eligibility_changed org c (c_assignmentEligible carrier) (reasons = []) reasons) s'
         else s')"

lemma recalculate_run:
  "recalculate org c s =
     (case tbl_find c (carriers s) of None \<Rightarrow> Inl (PrismaError ''P2025'')
      | Some carrier \<Rightarrow> if c_organizationId carrier \<noteq> org then Inl (PrismaError ''P2025'')
        else Inr ((eligibility_reasons org c carrier s = [], eligibility_reasons org c carrier s),
                  recalculated org c carrier s))"
  by (simp add: recalculate_def tx_run recalculated_def eligibility_reasons_def Let_def
      store_eligibility_def [abs_def] split: option.split)

lemma recalculate_iff [tx_iff]:
  "recalculate org c s = Inr z \<longleftrightarrow>
     (\<exists>carrier. tbl_find c (carriers s) = Some carrier \<and> c_organizationId carrier = org \<and>
        z = ((eligibility_reasons org c carrier s = [], eligibility_reasons org c carrier s),
             recalculated org c carrier s))"
  by (auto simp: recalculate_run split: option.splits)

lemma store_eligibility_simps [simp]:
  "c_organizationId (store_eligibility rs r) = c_organizationId r"
  "c_status (store_eligibility rs r) = c_status r"
  "c_assignmentEligible (store_eligibility rs r) = (rs = [])"
  "c_mcNumber (store_eligibility rs r) = c_mcNumber r"
  "c_dotNumber (store_eligibility rs r) = c_dotNumber r"
  by (simp_all add: store_eligibility_def)

lemma recalculated_carriers:
  "carriers (recalculated org c carrier s) = tbl_upd c (store_eligibility (eligibility_reasons org c carrier s)) (carriers s)"
  by (simp add: recalculated_def Let_def)

lemma recalculated_frame [simp]:
  "organizations (recalculated org c carrier s) = organizations s"
  "memberships (recalculated org c carrier s) = memberships s"
  "sequences (recalculated org c carrier s) = sequences s"
  "document_types (recalculated org c carrier s) = document_types s"
  "dispatch_records (recalculated org c carrier s) = dispatch_records s"
  "factoring_infos (recalculated org c carrier s) = factoring_infos s"
  "charge_types (recalculated org c carrier s) = charge_types s"
  "next_id (recalculated org c carrier s) = next_id s"
  "clock (recalculated org c carrier s) = clock s"
  "context_of (recalculated org c carrier s) = context_of s"
  "notifications (recalculated org c carrier s) = notifications s"
  "customers (recalculated org c carrier s) = customers s"
  "customer_contacts (recalculated org c carrier s) = customer_contacts s"
  "customer_locations (recalculated org c carrier s) = customer_locations s"
  "rate_agreements (recalculated org c carrier s) = rate_agreements s"
  "carrier_contacts (recalculated org c carrier s) = carrier_contacts s"
  "carrier_insurance (recalculated org c carrier s) = carrier_insurance s"
  "fmcsa_verifications (recalculated org c carrier s) = fmcsa_verifications s"
  "service_areas (recalculated org c carrier s) = service_areas s"
  "drivers (recalculated org c carrier s) = drivers s"
  "trucks (recalculated org c carrier s) = trucks s"
  "trailers (recalculated org c carrier s) = trailers s"
  "documents (recalculated org c carrier s) = documents s"
  "quotes (recalculated org c carrier s) = quotes s"
  "quote_stops (recalculated org c carrier s) = quote_stops s"
  "loads (recalculated org c carrier s) = loads s" "stops (recalculated org c carrier s) = stops s"
  "sourcing_attempts (recalculated org c carrier s) = sourcing_attempts s"
  "check_calls (recalculated org c carrier s) = check_calls s"
  "charge_line_items (recalculated org c carrier s) = charge_line_items s"
  "invoices (recalculated org c carrier s) = invoices s"
  "invoice_loads (recalculated org c carrier s) = invoice_loads s"
  "invoice_line_items (recalculated org c carrier s) = invoice_line_items s"
  "payments (recalculated org c carrier s) = payments s"
  "adjustments (recalculated org c carrier s) = adjustments s"
  "carrier_payments (recalculated org c carrier s) = carrier_payments s"
  "load_drafts (recalculated org c carrier s) = load_drafts s"
  by (simp_all add: recalculated_def Let_def)

lemma checkActivationReadiness_iff [tx_iff]:
  "checkActivationReadiness org c s = Inr z \<longleftrightarrow>
     z = ((computeComplianceReasons org c s = [], computeComplianceReasons org c s), s)"
  by (auto simp: checkActivationReadiness_def tx_iff)

lemma confined_eligibility:
  "keeps (confined org s0) (recalculate org c)"
  "keeps (confined org s0) (checkActivationReadiness org c)"
  unfolding recalculate_def checkActivationReadiness_def ev_eligibility_changed_def
  by ((rule confined_rules | assumption | (simp; fail))+)

end
