(* ===== verification/Carrier.thy ===== *)
theory Carrier
  imports Eligibility
begin

text \<open>
  Carriers: backend/src/modules/carrier/services/carrier.service.ts. Creation with the
  duplicate check, the compliance records that feed eligibility, drivers and equipment, and the
  activation, blocking, deactivation and reactivation transitions.
  A creating method returns the identifier with the row it inserted.
\<close>

section \<open>Request bodies\<close>

record create_carrier_dto =
  ccd_legalName :: string
  ccd_dba :: "string option"
  ccd_mcNumber :: string
  ccd_dotNumber :: string
  ccd_addressLine1 :: string
  ccd_city :: string
  ccd_state :: string
  ccd_zip :: string
  ccd_primaryContactName :: string
  ccd_primaryContactPhone :: string
  ccd_primaryContactEmail :: string

record update_carrier_dto =
  ucd_legalName :: "string option"
  ucd_dba :: "string option"
  ucd_addressLine1 :: "string option"
  ucd_city :: "string option"
  ucd_state :: "string option"
  ucd_zip :: "string option"
  ucd_primaryContactName :: "string option"
  ucd_primaryContactPhone :: "string option"
  ucd_primaryContactEmail :: "string option"

record contact_dto =
  cod_name :: string
  cod_email :: "string option"
  cod_phone :: "string option"
  cod_role :: string
  cod_isPrimary :: "bool option"

record insurance_dto =
  ind_coverageType :: coverage_type
  ind_coverageAmount :: cents
  ind_insuranceCompany :: string
  ind_agentContact :: "string option"
  ind_effectiveDate :: instant
  ind_expirationDate :: instant
  ind_coiDocumentId :: uuid

record fmcsa_dto =
  fmd_verificationDate :: instant
  fmd_resultStatus :: string
  fmd_authorityInfo :: "string option"
  fmd_notes :: "string option"

record service_area_dto =
  sad_type :: string
  sad_originCity :: "string option"
  sad_originState :: "string option"
  sad_destinationCity :: "string option"
  sad_destinationState :: "string option"
  sad_regionLabel :: "string option"
  sad_notes :: "string option"

record factoring_dto =
  fad_usesFactoring :: bool
  fad_factoringCompany :: "string option"
  fad_remitToAddress :: "string option"
  fad_factoringContact :: "string option"
  fad_paymentInstructions :: "string option"
  fad_noaStatus :: "string option"
  fad_noaDocumentId :: "uuid option"

record add_driver_dto =
  add_firstName :: string
  add_lastName :: string
  add_phone :: string
  add_email :: "string option"
  add_licenseNumber :: "string option"
  add_notes :: "string option"

record update_driver_dto =
  udd_firstName :: "string option"
  udd_lastName :: "string option"
  udd_phone :: "string option"
  udd_email :: "string option"
  udd_licenseNumber :: "string option"
  udd_notes :: "string option"

record equipment_dto =   \<comment> \<open>AddTruckDto; AddTrailerDto has no make, model or year\<close>
  eqd_unitNumber :: string
  eqd_type :: equipment_type
  eqd_make :: "string option"
  eqd_model :: "string option"
  eqd_year :: "int option"
  eqd_vin :: "string option"
  eqd_plate :: "string option"
  eqd_notes :: "string option"

section \<open>Names and field changes in audit entries\<close>

fun carrier_status_name :: "carrier_status \<Rightarrow> string" where
  "carrier_status_name CA_PENDING = ''PENDING''"
| "carrier_status_name CA_ACTIVE = ''ACTIVE''"
| "carrier_status_name CA_INACTIVE = ''INACTIVE''"
| "carrier_status_name CA_BLOCKED = ''BLOCKED''"

fun equipment_name :: "equipment_type \<Rightarrow> string" where
  "equipment_name DRY_VAN = ''DRY_VAN''"
| "equipment_name REEFER = ''REEFER''"
| "equipment_name FLATBED = ''FLATBED''"

fun coverage_name :: "coverage_type \<Rightarrow> string" where
  "coverage_name AUTO_LIABILITY = ''AUTO_LIABILITY''"
| "coverage_name CARGO = ''CARGO''"

text \<open>
  The field_changes loop of the diff-based updates: a field that is undefined in the body is
  skipped, one whose value differs from the stored one is listed.
\<close>

definition field_change :: "string \<Rightarrow> ('a \<Rightarrow> json) \<Rightarrow> 'a \<Rightarrow> 'a option \<Rightarrow> json list" where
  "field_change field f previous new =
     (case new of None \<Rightarrow> []
      | Some v \<Rightarrow> if previous \<noteq> v
          then [JObj [(''field'', JStr field), (''previous'', f previous), (''new'', f v)]] else [])"

definition set_field :: "'a option \<Rightarrow> 'a \<Rightarrow> 'a" where
  "set_field new previous = (case new of None \<Rightarrow> previous | Some v \<Rightarrow> v)"

text \<open>The same for a nullable column, whose new value is a plain string.\<close>

definition set_null_field :: "'a option \<Rightarrow> 'a option \<Rightarrow> 'a option" where
  "set_null_field new previous = (case new of None \<Rightarrow> previous | Some v \<Rightarrow> Some v)"

definition some_opt :: "'a option \<Rightarrow> 'a option option" where
  "some_opt v = map_option Some v"

definition carrier_field_changes :: "carrier_row \<Rightarrow> update_carrier_dto \<Rightarrow> json list" where
  "carrier_field_changes existing dto =
     field_change ''legalName'' JStr (c_legalName existing) (ucd_legalName dto) @
     field_change ''dba'' (JOpt JStr) (c_dba existing) (some_opt (ucd_dba dto)) @
     field_change ''addressLine1'' JStr (c_addressLine1 existing) (ucd_addressLine1 dto) @
     field_change ''city'' JStr (c_city existing) (ucd_city dto) @
     field_change ''state'' JStr (c_state existing) (ucd_state dto) @
     field_change ''zip'' JStr (c_zip existing) (ucd_zip dto) @
     field_change ''primaryContactName'' JStr (c_primaryContactName existing) (ucd_primaryContactName dto) @
     field_change ''primaryContactPhone'' JStr (c_primaryContactPhone existing) (ucd_primaryContactPhone dto) @
     field_change ''primaryContactEmail'' JStr (c_primaryContactEmail existing) (ucd_primaryContactEmail dto)"

definition apply_carrier_dto :: "update_carrier_dto \<Rightarrow> carrier_row \<Rightarrow> carrier_row" where
  "apply_carrier_dto dto c =
     c\<lparr>c_legalName := set_field (ucd_legalName dto) (c_legalName c),
       c_dba := set_null_field (ucd_dba dto) (c_dba c),
       c_addressLine1 := set_field (ucd_addressLine1 dto) (c_addressLine1 c),
       c_city := set_field (ucd_city dto) (c_city c),
       c_state := set_field (ucd_state dto) (c_state c),
       c_zip := set_field (ucd_zip dto) (c_zip c),
       c_primaryContactName := set_field (ucd_primaryContactName dto) (c_primaryContactName c),
       c_primaryContactPhone := set_field (ucd_primaryContactPhone dto) (c_primaryContactPhone c),
       c_primaryContactEmail := set_field (ucd_primaryContactEmail dto) (c_primaryContactEmail c)\<rparr>"

definition driver_field_changes :: "driver_row \<Rightarrow> update_driver_dto \<Rightarrow> json list" where
  "driver_field_changes existing dto =
     field_change ''firstName'' JStr (dr_firstName existing) (udd_firstName dto) @
     field_change ''lastName'' JStr (dr_lastName existing) (udd_lastName dto) @
     field_change ''phone'' JStr (dr_phone existing) (udd_phone dto) @
     field_change ''email'' (JOpt JStr) (dr_email existing) (some_opt (udd_email dto)) @
     field_change ''licenseNumber'' (JOpt JStr) (dr_licenseNumber existing) (some_opt (udd_licenseNumber dto)) @
     field_change ''notes'' (JOpt JStr) (dr_notes existing) (some_opt (udd_notes dto))"

definition apply_driver_dto :: "update_driver_dto \<Rightarrow> driver_row \<Rightarrow> driver_row" where
  "apply_driver_dto dto d =
     d\<lparr>dr_firstName := set_field (udd_firstName dto) (dr_firstName d),
       dr_lastName := set_field (udd_lastName dto) (dr_lastName d),
       dr_phone := set_field (udd_phone dto) (dr_phone d),
       dr_email := set_null_field (udd_email dto) (dr_email d),
       dr_licenseNumber := set_null_field (udd_licenseNumber dto) (dr_licenseNumber d),
       dr_notes := set_null_field (udd_notes dto) (dr_notes d)\<rparr>"

section \<open>Creation, reading and update of the carrier itself\<close>

definition require_carrier :: "uuid \<Rightarrow> uuid \<Rightarrow> carrier_row tx" where
  "require_carrier organizationId carrierId =
     bind (findUnique carriers carrierId (\<lambda>c. c_organizationId c = organizationId)) (\<lambda>carrier.
       require carrier (NotFoundError ''Carrier not found.''))"

definition new_carrier :: "uuid \<Rightarrow> create_carrier_dto \<Rightarrow> uuid \<Rightarrow> carrier_row" where
  "new_carrier organizationId dto actingUserId =
     \<lparr>c_organizationId = organizationId, c_legalName = ccd_legalName dto, c_dba = ccd_dba dto,
      c_mcNumber = ccd_mcNumber dto, c_dotNumber = ccd_dotNumber dto,
      c_addressLine1 = ccd_addressLine1 dto, c_city = ccd_city dto, c_state = ccd_state dto,
      c_zip = ccd_zip dto, c_primaryContactName = ccd_primaryContactName dto,
      c_primaryContactPhone = ccd_primaryContactPhone dto,
      c_primaryContactEmail = ccd_primaryContactEmail dto, c_status = CA_PENDING,
      c_assignmentEligible = False, c_ineligibilityReasons = None, c_createdByUserId = actingUserId\<rparr>"

definition ev_carrier_duplicate :: "uuid \<Rightarrow> uuid \<Rightarrow> create_carrier_dto \<Rightarrow> uuid \<Rightarrow> event_input" where
  "ev_carrier_duplicate organizationId duplicateId dto actingUserId =
     human_event organizationId (''Carrier Creation Blocked '' @ dash @ '' Duplicate MC/DOT'') ''Carrier''
       duplicateId None
       (Some (JObj [(''attemptedMcNumber'', JStr (ccd_mcNumber dto)), (''attemptedDotNumber'', JStr (ccd_dotNumber dto))]))
       None actingUserId"

definition ev_carrier_created :: "uuid \<Rightarrow> uuid \<Rightarrow> carrier_row \<Rightarrow> uuid \<Rightarrow> event_input" where
  "ev_carrier_created organizationId carrierId carrier actingUserId =
     human_event organizationId ''Carrier Created'' ''Carrier'' carrierId None
       (Some (JObj [(''legalName'', JStr (c_legalName carrier)), (''mcNumber'', JStr (c_mcNumber carrier)),
                    (''dotNumber'', JStr (c_dotNumber carrier))])) None actingUserId"

definition carrier_create :: "uuid \<Rightarrow> create_carrier_dto \<Rightarrow> uuid \<Rightarrow> (uuid \<times> carrier_row) tx" where
  "carrier_create organizationId dto actingUserId =
     bind (findFirst carriers (\<lambda>_ c. c_organizationId c = organizationId \<and>
             (c_mcNumber c = ccd_mcNumber dto \<or> c_dotNumber c = ccd_dotNumber dto))) (\<lambda>duplicate.
     case duplicate of
       Some (duplicateId, _) \<Rightarrow>
         andThen (audit_record (ev_carrier_duplicate organizationId duplicateId dto actingUserId))
         (throw (ConflictError ''A carrier with this MC number or DOT number already exists.'' [duplicateId]))
     | None \<Rightarrow>
         andThen (assertCanCreateCarrier organizationId)
         (bind (create carriers_update (new_carrier organizationId dto actingUserId)) (\<lambda>carrierId.
          andThen (audit_record (ev_carrier_created organizationId carrierId
                     (new_carrier organizationId dto actingUserId) actingUserId))
          (ret (carrierId, new_carrier organizationId dto actingUserId)))))"

definition carrier_findById ::
  "uuid \<Rightarrow> uuid \<Rightarrow> (carrier_row \<times> (bool \<times> string list) option) tx" where
  "carrier_findById organizationId carrierId =
     bind (require_carrier organizationId carrierId) (\<lambda>carrier.
     if c_status carrier = CA_PENDING
     then bind (checkActivationReadiness organizationId carrierId) (\<lambda>readiness. ret (carrier, Some readiness))
     else ret (carrier, None))"

definition ev_carrier_updated :: "uuid \<Rightarrow> uuid \<Rightarrow> json list \<Rightarrow> uuid \<Rightarrow> event_input" where
  "ev_carrier_updated organizationId carrierId fieldChanges actingUserId =
     human_event organizationId ''Carrier Updated'' ''Carrier'' carrierId
       (Some (JObj [(''field_changes'', JArr fieldChanges)])) None None actingUserId"

definition carrier_update :: "uuid \<Rightarrow> uuid \<Rightarrow> update_carrier_dto \<Rightarrow> uuid \<Rightarrow> carrier_row tx" where
  "carrier_update organizationId carrierId dto actingUserId =
     bind (require_carrier organizationId carrierId) (\<lambda>existing.
     bind (update carriers carriers_update carrierId (apply_carrier_dto dto)) (\<lambda>updated.
     andThen (run_when (carrier_field_changes existing dto \<noteq> [])
       (audit_record (ev_carrier_updated organizationId carrierId (carrier_field_changes existing dto) actingUserId)))
     (ret updated)))"

definition ev_carrier_contact :: "uuid \<Rightarrow> uuid \<Rightarrow> contact_dto \<Rightarrow> uuid \<Rightarrow> event_input" where
  "ev_carrier_contact organizationId carrierId dto actingUserId =
     human_event organizationId ''Carrier Contact Added'' ''Carrier'' carrierId None
       (Some (JObj [(''name'', JStr (cod_name dto)), (''role'', JStr (cod_role dto))])) None actingUserId"

definition new_contact :: "uuid \<Rightarrow> uuid \<Rightarrow> contact_dto \<Rightarrow> contact_row" where
  "new_contact organizationId parentId dto =
     \<lparr>ct_org = organizationId, ct_parentId = parentId, ct_name = cod_name dto, ct_email = cod_email dto,
      ct_phone = cod_phone dto, ct_role = cod_role dto,
      ct_isPrimary = (case cod_isPrimary dto of None \<Rightarrow> False | Some b \<Rightarrow> b)\<rparr>"

definition carrier_addContact :: "uuid \<Rightarrow> uuid \<Rightarrow> contact_dto \<Rightarrow> uuid \<Rightarrow> (uuid \<times> contact_row) tx" where
  "carrier_addContact organizationId carrierId dto actingUserId =
     andThen (require_carrier organizationId carrierId)
     (bind (create carrier_contacts_update (new_contact organizationId carrierId dto)) (\<lambda>contactId.
      andThen (audit_record (ev_carrier_contact organizationId carrierId dto actingUserId))
      (ret (contactId, new_contact organizationId carrierId dto))))"

section \<open>Compliance records\<close>

definition new_insurance :: "uuid \<Rightarrow> uuid \<Rightarrow> insurance_dto \<Rightarrow> insurance_row" where
  "new_insurance organizationId carrierId dto =
     \<lparr>in_organizationId = organizationId, in_carrierId = carrierId,
      in_coverageType = ind_coverageType dto, in_coverageAmount = ind_coverageAmount dto,
      in_insuranceCompany = ind_insuranceCompany dto, in_agentContact = ind_agentContact dto,
      in_effectiveDate = start_of_day (ind_effectiveDate dto),
      in_expirationDate = start_of_day (ind_expirationDate dto),
      in_coiDocumentId = ind_coiDocumentId dto\<rparr>"

definition ev_insurance_added :: "uuid \<Rightarrow> uuid \<Rightarrow> insurance_dto \<Rightarrow> uuid \<Rightarrow> event_input" where
  "ev_insurance_added organizationId carrierId dto actingUserId =
     human_event organizationId ''Carrier Insurance Added/Updated'' ''Carrier'' carrierId None
       (Some (JObj [(''coverageType'', JStr (coverage_name (ind_coverageType dto))),
                    (''expirationDate'', JTime (ind_expirationDate dto))])) None actingUserId"

definition addInsurance :: "uuid \<Rightarrow> uuid \<Rightarrow> insurance_dto \<Rightarrow> uuid \<Rightarrow> (uuid \<times> insurance_row) tx" where
  "addInsurance organizationId carrierId dto actingUserId =
     andThen (require_carrier organizationId carrierId)
     (andThen (throw_if (ind_expirationDate dto \<le> ind_effectiveDate dto)
        (BusinessRuleError ''Expiration date must be after the effective date.''))
     (bind (findUnique documents (ind_coiDocumentId dto) (\<lambda>d. doc_organizationId d = organizationId \<and>
              doc_entityType d = DE_CARRIER \<and> doc_entityId d = carrierId)) (\<lambda>coiDocument.
      andThen (require coiDocument (NotFoundError ''COI document not found for this carrier.''))
      (bind (create carrier_insurance_update (new_insurance organizationId carrierId dto)) (\<lambda>insuranceId.
       andThen (audit_record (ev_insurance_added organizationId carrierId dto actingUserId))
       (andThen (recalculate organizationId carrierId)
       (ret (insuranceId, new_insurance organizationId carrierId dto))))))))"

definition new_fmcsa :: "uuid \<Rightarrow> uuid \<Rightarrow> fmcsa_dto \<Rightarrow> uuid \<Rightarrow> fmcsa_row" where
  "new_fmcsa organizationId carrierId dto actingUserId =
     \<lparr>f_organizationId = organizationId, f_carrierId = carrierId,
      f_verificationDate = start_of_day (fmd_verificationDate dto), f_resultStatus = fmd_resultStatus dto,
      f_verifiedByUserId = actingUserId, f_authorityInfo = fmd_authorityInfo dto, f_notes = fmd_notes dto\<rparr>"

definition ev_fmcsa_recorded :: "uuid \<Rightarrow> uuid \<Rightarrow> fmcsa_dto \<Rightarrow> uuid \<Rightarrow> event_input" where
  "ev_fmcsa_recorded organizationId carrierId dto actingUserId =
     human_event organizationId ''FMCSA Verification Recorded'' ''Carrier'' carrierId None
       (Some (JObj [(''resultStatus'', JStr (fmd_resultStatus dto)),
                    (''verificationDate'', JTime (fmd_verificationDate dto))])) None actingUserId"

definition addFmcsaVerification :: "uuid \<Rightarrow> uuid \<Rightarrow> fmcsa_dto \<Rightarrow> uuid \<Rightarrow> (uuid \<times> fmcsa_row) tx" where
  "addFmcsaVerification organizationId carrierId dto actingUserId =
     andThen (require_carrier organizationId carrierId)
     (bind (create fmcsa_verifications_update (new_fmcsa organizationId carrierId dto actingUserId)) (\<lambda>verificationId.
      andThen (audit_record (ev_fmcsa_recorded organizationId carrierId dto actingUserId))
      (andThen (recalculate organizationId carrierId)
      (ret (verificationId, new_fmcsa organizationId carrierId dto actingUserId)))))"

definition new_service_area :: "uuid \<Rightarrow> uuid \<Rightarrow> service_area_dto \<Rightarrow> uuid \<Rightarrow> service_area_row" where
  "new_service_area organizationId carrierId dto actingUserId =
     \<lparr>sv_organizationId = organizationId, sv_carrierId = carrierId, sv_type = sad_type dto,
      sv_originCity = sad_originCity dto, sv_originState = sad_originState dto,
      sv_destinationCity = sad_destinationCity dto, sv_destinationState = sad_destinationState dto,
      sv_regionLabel = sad_regionLabel dto, sv_notes = sad_notes dto, sv_createdByUserId = actingUserId\<rparr>"

definition ev_service_area :: "uuid \<Rightarrow> uuid \<Rightarrow> service_area_dto \<Rightarrow> uuid \<Rightarrow> event_input" where
  "ev_service_area organizationId carrierId dto actingUserId =
     human_event organizationId ''Carrier Service Area Added'' ''Carrier'' carrierId None
       (Some (JObj [(''type'', JStr (sad_type dto))])) None actingUserId"

definition addServiceArea :: "uuid \<Rightarrow> uuid \<Rightarrow> service_area_dto \<Rightarrow> uuid \<Rightarrow> (uuid \<times> service_area_row) tx" where
  "addServiceArea organizationId carrierId dto actingUserId =
     andThen (require_carrier organizationId carrierId)
     (bind (create service_areas_update (new_service_area organizationId carrierId dto actingUserId)) (\<lambda>areaId.
      andThen (audit_record (ev_service_area organizationId carrierId dto actingUserId))
      (ret (areaId, new_service_area organizationId carrierId dto actingUserId))))"

definition new_factoring :: "uuid \<Rightarrow> factoring_dto \<Rightarrow> factoring_row" where
  "new_factoring organizationId dto =
     \<lparr>fi_organizationId = organizationId, fi_usesFactoring = fad_usesFactoring dto,
      fi_factoringCompany = fad_factoringCompany dto, fi_remitToAddress = fad_remitToAddress dto,
      fi_factoringContact = fad_factoringContact dto, fi_paymentInstructions = fad_paymentInstructions dto,
      fi_noaStatus = fad_noaStatus dto, fi_noaDocumentId = fad_noaDocumentId dto\<rparr>"

definition apply_factoring_dto :: "factoring_dto \<Rightarrow> factoring_row \<Rightarrow> factoring_row" where
  "apply_factoring_dto dto f =
     f\<lparr>fi_usesFactoring := fad_usesFactoring dto,
       fi_factoringCompany := set_null_field (fad_factoringCompany dto) (fi_factoringCompany f),
       fi_remitToAddress := set_null_field (fad_remitToAddress dto) (fi_remitToAddress f),
       fi_factoringContact := set_null_field (fad_factoringContact dto) (fi_factoringContact f),
       fi_paymentInstructions := set_null_field (fad_paymentInstructions dto) (fi_paymentInstructions f),
       fi_noaStatus := set_null_field (fad_noaStatus dto) (fi_noaStatus f),
       fi_noaDocumentId := set_null_field (fad_noaDocumentId dto) (fi_noaDocumentId f)\<rparr>"

definition ev_factoring :: "uuid \<Rightarrow> uuid \<Rightarrow> factoring_row \<Rightarrow> uuid \<Rightarrow> event_input" where
  "ev_factoring organizationId carrierId f actingUserId =
     human_event organizationId ''Factoring Information Updated'' ''Carrier'' carrierId None
       (Some (JObj [(''usesFactoring'', JBool (fi_usesFactoring f)),
                    (''factoringCompany'', JOpt JStr (fi_factoringCompany f))])) None actingUserId"

text \<open>
  The upsert sees, through row-level security, only a row of the caller's organization; a row of
  another one would make its insertion violate the unique key.
\<close>

definition upsertFactoringInfo :: "uuid \<Rightarrow> uuid \<Rightarrow> factoring_dto \<Rightarrow> uuid \<Rightarrow> factoring_row tx" where
  "upsertFactoringInfo organizationId carrierId dto actingUserId =
     andThen (require_carrier organizationId carrierId)
     (bind (findUnique factoring_infos carrierId (\<lambda>f. fi_organizationId f = organizationId)) (\<lambda>existing.
      bind (case existing of
              None \<Rightarrow> andThen (createAt factoring_infos factoring_infos_update carrierId
                                 (new_factoring organizationId dto))
                        (ret (new_factoring organizationId dto))
            | Some _ \<Rightarrow> update factoring_infos factoring_infos_update carrierId (apply_factoring_dto dto))
        (\<lambda>factoringInfo.
      andThen (audit_record (ev_factoring organizationId carrierId factoringInfo actingUserId))
      (ret factoringInfo))))"

end
