(* ===== verification/Fleet.thy ===== *)
theory Fleet
  imports Carrier
begin

text \<open>
  The rest of backend/src/modules/carrier/services/carrier.service.ts: drivers with the licence
  check and the driver limit, trucks and trailers, and the carrier's life cycle.
\<close>

section \<open>Drivers\<close>

definition require_driver :: "uuid \<Rightarrow> uuid \<Rightarrow> uuid \<Rightarrow> driver_row tx" where
  "require_driver organizationId carrierId driverId =
     bind (findUnique drivers driverId (\<lambda>d. dr_organizationId d = organizationId \<and> dr_carrierId d = carrierId))
       (\<lambda>driver. require driver (NotFoundError ''Driver not found.''))"

definition license_holder :: "uuid \<Rightarrow> uuid \<Rightarrow> string \<Rightarrow> uuid option \<Rightarrow> uuid \<Rightarrow> driver_row \<Rightarrow> bool" where
  "license_holder organizationId carrierId license excludeDriverId k d \<longleftrightarrow>
     dr_organizationId d = organizationId \<and> dr_carrierId d = carrierId \<and>
     dr_licenseNumber d = Some license \<and> dr_active d \<and> excludeDriverId \<noteq> Some k"

definition assertNoDuplicateLicense :: "uuid \<Rightarrow> uuid \<Rightarrow> string \<Rightarrow> uuid option \<Rightarrow> unit tx" where
  "assertNoDuplicateLicense organizationId carrierId licenseNumber excludeDriverId =
     (if trim licenseNumber = [] then ret () else
      bind (findFirst drivers (license_holder organizationId carrierId (trim licenseNumber) excludeDriverId))
        (\<lambda>duplicate. case duplicate of
           None \<Rightarrow> ret ()
         | Some (duplicateId, _) \<Rightarrow>
             throw (ConflictError ''A driver with this license number already exists for this carrier.'' [duplicateId])))"

definition check_license :: "uuid \<Rightarrow> uuid \<Rightarrow> string option \<Rightarrow> uuid option \<Rightarrow> unit tx" where
  "check_license organizationId carrierId licenseNumber excludeDriverId =
     (case licenseNumber of None \<Rightarrow> ret ()
      | Some l \<Rightarrow> if l = [] then ret () else assertNoDuplicateLicense organizationId carrierId l excludeDriverId)"

definition new_driver :: "uuid \<Rightarrow> uuid \<Rightarrow> add_driver_dto \<Rightarrow> driver_row" where
  "new_driver organizationId carrierId dto =
     \<lparr>dr_organizationId = organizationId, dr_carrierId = carrierId, dr_firstName = add_firstName dto,
      dr_lastName = add_lastName dto, dr_phone = add_phone dto, dr_email = add_email dto,
      dr_licenseNumber = add_licenseNumber dto, dr_notes = add_notes dto, dr_active = True\<rparr>"

definition ev_driver_added :: "uuid \<Rightarrow> uuid \<Rightarrow> add_driver_dto \<Rightarrow> uuid \<Rightarrow> event_input" where
  "ev_driver_added organizationId carrierId dto actingUserId =
     human_event organizationId ''Driver Added'' ''Carrier'' carrierId None
       (Some (JObj [(''firstName'', JStr (add_firstName dto)), (''lastName'', JStr (add_lastName dto))]))
       None actingUserId"

definition addDriver :: "uuid \<Rightarrow> uuid \<Rightarrow> add_driver_dto \<Rightarrow> uuid \<Rightarrow> (uuid \<times> driver_row) tx" where
  "addDriver organizationId carrierId dto actingUserId =
     andThen (require_carrier organizationId carrierId)
     (andThen (check_license organizationId carrierId (add_licenseNumber dto) None)
     (andThen (assertCanCreateDriver organizationId)
     (bind (create drivers_update (new_driver organizationId carrierId dto)) (\<lambda>driverId.
      andThen (audit_record (ev_driver_added organizationId carrierId dto actingUserId))
      (ret (driverId, new_driver organizationId carrierId dto))))))"

definition ev_driver_updated :: "uuid \<Rightarrow> uuid \<Rightarrow> json list \<Rightarrow> uuid \<Rightarrow> event_input" where
  "ev_driver_updated organizationId driverId fieldChanges actingUserId =
     human_event organizationId ''Driver Updated'' ''Driver'' driverId
       (Some (JObj [(''field_changes'', JArr fieldChanges)])) None None actingUserId"

definition updateDriver :: "uuid \<Rightarrow> uuid \<Rightarrow> uuid \<Rightarrow> update_driver_dto \<Rightarrow> uuid \<Rightarrow> driver_row tx" where
  "updateDriver organizationId carrierId driverId dto actingUserId =
     bind (require_driver organizationId carrierId driverId) (\<lambda>existing.
     andThen (check_license organizationId carrierId (udd_licenseNumber dto) (Some driverId))
     (bind (update drivers drivers_update driverId (apply_driver_dto dto)) (\<lambda>updated.
      andThen (run_when (driver_field_changes existing dto \<noteq> [])
        (audit_record (ev_driver_updated organizationId driverId (driver_field_changes existing dto) actingUserId)))
      (ret updated))))"

definition ev_driver_transition :: "uuid \<Rightarrow> uuid \<Rightarrow> string \<Rightarrow> bool \<Rightarrow> bool \<Rightarrow> string \<Rightarrow> uuid \<Rightarrow> event_input" where
  "ev_driver_transition organizationId driverId action was toActive reason actingUserId =
     human_event organizationId action ''Driver'' driverId (Some (JObj [(''active'', JBool was)]))
       (Some (JObj [(''active'', JBool toActive)])) (Some reason) actingUserId"

definition transitionDriverActive ::
  "uuid \<Rightarrow> uuid \<Rightarrow> uuid \<Rightarrow> bool \<Rightarrow> bool \<Rightarrow> string \<Rightarrow> string \<Rightarrow> string \<Rightarrow> uuid \<Rightarrow> driver_row tx" where
  "transitionDriverActive organizationId carrierId driverId fromActive toActive action
       invalidTransitionMessage reason actingUserId =
     bind (require_driver organizationId carrierId driverId) (\<lambda>driver.
     andThen (throw_if (dr_active driver \<noteq> fromActive) (BusinessRuleError invalidTransitionMessage))
     (andThen (throw_if (trim reason = []) (BusinessRuleError ''A reason is required.''))
     (andThen (run_when toActive (check_license organizationId carrierId (dr_licenseNumber driver) (Some driverId)))
     (bind (update drivers drivers_update driverId (\<lambda>d. d\<lparr>dr_active := toActive\<rparr>)) (\<lambda>updated.
      andThen (audit_record (ev_driver_transition organizationId driverId action (dr_active driver) toActive
                (trim reason) actingUserId))
      (ret updated))))))"

definition deactivateDriver :: "uuid \<Rightarrow> uuid \<Rightarrow> uuid \<Rightarrow> string \<Rightarrow> uuid \<Rightarrow> driver_row tx" where
  "deactivateDriver organizationId carrierId driverId reason actingUserId =
     transitionDriverActive organizationId carrierId driverId True False ''Driver Deactivated''
       ''Only an active driver can be deactivated.'' reason actingUserId"

definition reactivateDriver :: "uuid \<Rightarrow> uuid \<Rightarrow> uuid \<Rightarrow> string \<Rightarrow> uuid \<Rightarrow> driver_row tx" where
  "reactivateDriver organizationId carrierId driverId reason actingUserId =
     andThen (assertDriverSlotAvailable organizationId)
     (transitionDriverActive organizationId carrierId driverId False True ''Driver Reactivated''
       ''Only an inactive driver can be reactivated.'' reason actingUserId)"

section \<open>Trucks and trailers\<close>

definition new_equipment :: "uuid \<Rightarrow> uuid \<Rightarrow> equipment_dto \<Rightarrow> equipment_row" where
  "new_equipment organizationId carrierId dto =
     \<lparr>eq_organizationId = organizationId, eq_carrierId = carrierId, eq_unitNumber = eqd_unitNumber dto,
      eq_type = eqd_type dto, eq_make = eqd_make dto, eq_model = eqd_model dto, eq_year = eqd_year dto,
      eq_vin = eqd_vin dto, eq_plate = eqd_plate dto, eq_notes = eqd_notes dto, eq_active = True\<rparr>"

definition ev_truck_added :: "uuid \<Rightarrow> uuid \<Rightarrow> equipment_dto \<Rightarrow> uuid \<Rightarrow> event_input" where
  "ev_truck_added organizationId carrierId dto actingUserId =
     human_event organizationId ''Truck Added'' ''Carrier'' carrierId None
       (Some (JObj [(''unitNumber'', JStr (eqd_unitNumber dto)),
                    (''truckType'', JStr (equipment_name (eqd_type dto)))])) None actingUserId"

definition ev_trailer_added :: "uuid \<Rightarrow> uuid \<Rightarrow> equipment_dto \<Rightarrow> uuid \<Rightarrow> event_input" where
  "ev_trailer_added organizationId carrierId dto actingUserId =
     human_event organizationId ''Trailer Added'' ''Carrier'' carrierId None
       (Some (JObj [(''unitNumber'', JStr (eqd_unitNumber dto)),
                    (''trailerType'', JStr (equipment_name (eqd_type dto)))])) None actingUserId"

definition addTruck :: "uuid \<Rightarrow> uuid \<Rightarrow> equipment_dto \<Rightarrow> uuid \<Rightarrow> (uuid \<times> equipment_row) tx" where
  "addTruck organizationId carrierId dto actingUserId =
     andThen (require_carrier organizationId carrierId)
     (bind (create trucks_update (new_equipment organizationId carrierId dto)) (\<lambda>truckId.
      andThen (audit_record (ev_truck_added organizationId carrierId dto actingUserId))
      (ret (truckId, new_equipment organizationId carrierId dto))))"

definition addTrailer :: "uuid \<Rightarrow> uuid \<Rightarrow> equipment_dto \<Rightarrow> uuid \<Rightarrow> (uuid \<times> equipment_row) tx" where
  "addTrailer organizationId carrierId dto actingUserId =
     andThen (require_carrier organizationId carrierId)
     (bind (create trailers_update (new_equipment organizationId carrierId dto)) (\<lambda>trailerId.
      andThen (audit_record (ev_trailer_added organizationId carrierId dto actingUserId))
      (ret (trailerId, new_equipment organizationId carrierId dto))))"

section \<open>The carrier's life cycle\<close>

definition ev_carrier_activated :: "uuid \<Rightarrow> uuid \<Rightarrow> carrier_row \<Rightarrow> uuid \<Rightarrow> event_input" where
  "ev_carrier_activated organizationId carrierId carrier actingUserId =
     human_event organizationId ''Carrier Activated'' ''Carrier'' carrierId
       (Some (JObj [(''status'', JStr (carrier_status_name (c_status carrier)))]))
       (Some (JObj [(''status'', JStr ''ACTIVE'')])) None actingUserId"

definition activate :: "uuid \<Rightarrow> uuid \<Rightarrow> uuid \<Rightarrow> carrier_row tx" where
  "activate organizationId carrierId actingUserId =
     bind (require_carrier organizationId carrierId) (\<lambda>carrier.
     andThen (throw_if (c_status carrier \<noteq> CA_PENDING)
       (BusinessRuleError ''Only a Pending carrier can be activated.''))
     (bind (checkActivationReadiness organizationId carrierId) (\<lambda>readiness.
      andThen (throw_if (\<not> fst readiness)
        (EligibilityError (''Cannot activate '' @ dash @ '' one or more requirements are not met.'') (snd readiness)))
      (andThen (assertCarrierSlotAvailable organizationId)
      (bind (update carriers carriers_update carrierId (\<lambda>c. c\<lparr>c_status := CA_ACTIVE\<rparr>)) (\<lambda>updated.
       andThen (audit_record (ev_carrier_activated organizationId carrierId carrier actingUserId))
       (andThen (recalculate organizationId carrierId)
       (ret updated))))))))"

definition ev_carrier_transition ::
  "uuid \<Rightarrow> uuid \<Rightarrow> string \<Rightarrow> carrier_status \<Rightarrow> carrier_status \<Rightarrow> string \<Rightarrow> uuid \<Rightarrow> event_input" where
  "ev_carrier_transition organizationId carrierId action was toStatus reason actingUserId =
     human_event organizationId action ''Carrier'' carrierId
       (Some (JObj [(''status'', JStr (carrier_status_name was))]))
       (Some (JObj [(''status'', JStr (carrier_status_name toStatus))])) (Some reason) actingUserId"

definition transitionStatus ::
  "uuid \<Rightarrow> uuid \<Rightarrow> carrier_status list \<Rightarrow> carrier_status \<Rightarrow> string \<Rightarrow> string \<Rightarrow> string \<Rightarrow> uuid \<Rightarrow> carrier_row tx" where
  "transitionStatus organizationId carrierId allowedFrom toStatus action invalidTransitionMessage
       reason actingUserId =
     bind (require_carrier organizationId carrierId) (\<lambda>carrier.
     andThen (throw_if (c_status carrier \<notin> set allowedFrom) (BusinessRuleError invalidTransitionMessage))
     (andThen (throw_if (trim reason = []) (BusinessRuleError ''A reason is required.''))
     (bind (update carriers carriers_update carrierId (\<lambda>c. c\<lparr>c_status := toStatus\<rparr>)) (\<lambda>updated.
      andThen (audit_record (ev_carrier_transition organizationId carrierId action (c_status carrier) toStatus
                (trim reason) actingUserId))
      (ret updated)))))"

definition blockCarrier :: "uuid \<Rightarrow> uuid \<Rightarrow> string \<Rightarrow> uuid \<Rightarrow> carrier_row tx" where
  "blockCarrier organizationId carrierId reason actingUserId =
     bind (transitionStatus organizationId carrierId [CA_ACTIVE] CA_BLOCKED ''Carrier Blocked''
             ''Only an Active carrier can be blocked.'' reason actingUserId) (\<lambda>updated.
     andThen (recalculate organizationId carrierId) (ret updated))"

definition deactivateCarrier :: "uuid \<Rightarrow> uuid \<Rightarrow> string \<Rightarrow> uuid \<Rightarrow> carrier_row tx" where
  "deactivateCarrier organizationId carrierId reason actingUserId =
     bind (transitionStatus organizationId carrierId [CA_ACTIVE] CA_INACTIVE ''Carrier Deactivated''
             ''Only an Active carrier can be deactivated.'' reason actingUserId) (\<lambda>updated.
     andThen (recalculate organizationId carrierId) (ret updated))"

definition reactivateCarrier :: "uuid \<Rightarrow> uuid \<Rightarrow> string \<Rightarrow> uuid \<Rightarrow> carrier_row tx" where
  "reactivateCarrier organizationId carrierId reason actingUserId =
     andThen (assertCarrierSlotAvailable organizationId)
     (bind (transitionStatus organizationId carrierId [CA_BLOCKED, CA_INACTIVE] CA_ACTIVE ''Carrier Reactivated''
              ''Only a Blocked or Inactive carrier can be reactivated.'' reason actingUserId) (\<lambda>updated.
      andThen (recalculate organizationId carrierId) (ret updated)))"

section \<open>Forward rules\<close>

lemma require_carrier_iff [tx_iff]:
  "require_carrier org c s = Inr z \<longleftrightarrow>
     (\<exists>carrier. tbl_find c (carriers s) = Some carrier \<and> c_organizationId carrier = org \<and> z = (carrier, s))"
  by (auto simp: require_carrier_def tx_iff split: option.splits if_splits)

lemma require_driver_iff [tx_iff]:
  "require_driver org c d s = Inr z \<longleftrightarrow>
     (\<exists>driver. tbl_find d (drivers s) = Some driver \<and> dr_organizationId driver = org \<and>
        dr_carrierId driver = c \<and> z = (driver, s))"
  by (auto simp: require_driver_def tx_iff split: option.splits if_splits)

definition license_free :: "uuid \<Rightarrow> uuid \<Rightarrow> string \<Rightarrow> uuid option \<Rightarrow> db \<Rightarrow> bool" where
  "license_free org c l ex s \<longleftrightarrow> (\<forall>(k, d) \<in> set (drivers s). \<not> license_holder org c l ex k d)"

lemma check_license_iff [tx_iff]:
  "check_license org c l ex s = Inr z \<longleftrightarrow>
     (case l of None \<Rightarrow> True | Some v \<Rightarrow> trim v \<noteq> [] \<longrightarrow> license_free org c (trim v) ex s) \<and> z = ((), s)"
proof -
  have "trim [] = []" by (simp add: trim_def)
  then show ?thesis
    by (auto simp: check_license_def assertNoDuplicateLicense_def license_free_def tx_iff tbl_first_None_iff
        dest: tbl_first_SomeD split: option.splits)
qed

section \<open>Every operation is lawful\<close>

lemmas carrier_ops = carrier_create_def carrier_update_def carrier_addContact_def addInsurance_def
  addFmcsaVerification_def addServiceArea_def upsertFactoringInfo_def addDriver_def updateDriver_def
  deactivateDriver_def reactivateDriver_def transitionDriverActive_def addTruck_def addTrailer_def
  activate_def transitionStatus_def blockCarrier_def deactivateCarrier_def reactivateCarrier_def

lemmas carrier_helpers = require_carrier_def require_driver_def check_license_def assertNoDuplicateLicense_def

lemmas carrier_rows = new_carrier_def apply_carrier_dto_def new_contact_def new_insurance_def
  new_fmcsa_def new_service_area_def new_factoring_def apply_factoring_dto_def new_driver_def
  license_holder_def apply_driver_dto_def new_equipment_def

lemmas carrier_events = ev_carrier_duplicate_def ev_carrier_created_def ev_carrier_updated_def
  ev_carrier_contact_def ev_insurance_added_def ev_fmcsa_recorded_def ev_service_area_def
  ev_factoring_def ev_driver_added_def ev_driver_updated_def ev_driver_transition_def
  ev_truck_added_def ev_trailer_added_def ev_carrier_activated_def ev_carrier_transition_def
  ev_eligibility_changed_def

lemma confined_carrier:
  "keeps (confined org s0) (carrier_create org ccd u)"
  "keeps (confined org s0) (carrier_update org c ucd u)"
  "keeps (confined org s0) (carrier_addContact org c cod u)"
  "keeps (confined org s0) (addInsurance org c ind u)"
  "keeps (confined org s0) (addFmcsaVerification org c fmd u)"
  "keeps (confined org s0) (addServiceArea org c sad u)"
  "keeps (confined org s0) (upsertFactoringInfo org c fad u)"
  "keeps (confined org s0) (addDriver org c addd u)"
  "keeps (confined org s0) (updateDriver org c d udd u)"
  "keeps (confined org s0) (deactivateDriver org c d r u)"
  "keeps (confined org s0) (reactivateDriver org c d r u)"
  "keeps (confined org s0) (addTruck org c eqd u)"
  "keeps (confined org s0) (addTrailer org c eqd u)"
  "keeps (confined org s0) (activate org c u)"
  "keeps (confined org s0) (blockCarrier org c r u)"
  "keeps (confined org s0) (deactivateCarrier org c r u)"
  "keeps (confined org s0) (reactivateCarrier org c r u)"
  unfolding carrier_ops carrier_helpers tx_assoc
  by ((rule confined_eligibility confined_rules entitlement_keeps confined.R_refl | assumption
       | (simp add: carrier_rows carrier_events; fail))+)

end
