(* ===== verification/Customer.thy ===== *)
theory Customer
  imports Fleet
begin

text \<open>
  Customers: backend/src/modules/customer/services/customer.service.ts (duplicate detection,
  creation, field-level update, status, contacts, locations and rate agreements).
\<close>

section \<open>Request bodies\<close>

record create_customer_dto =
  cud_legalName :: string
  cud_billingAddressLine1 :: string
  cud_billingCity :: string
  cud_billingState :: string
  cud_billingZip :: string
  cud_billingCountry :: "string option"
  cud_primaryContactName :: string
  cud_primaryContactEmail :: string
  cud_primaryContactPhone :: string
  cud_accountOwnerUserId :: "uuid option"
  cud_paymentTermsOverride :: "payment_terms option"
  cud_acknowledgeDuplicates :: bool

record update_customer_dto =
  uud_legalName :: "string option"
  uud_billingAddressLine1 :: "string option"
  uud_billingCity :: "string option"
  uud_billingState :: "string option"
  uud_billingZip :: "string option"
  uud_billingCountry :: "string option"
  uud_primaryContactName :: "string option"
  uud_primaryContactEmail :: "string option"
  uud_primaryContactPhone :: "string option"
  uud_accountOwnerUserId :: "uuid option"
  uud_paymentTerms :: "payment_terms option"

record location_dto =
  lod_name :: string
  lod_addressLine1 :: string
  lod_city :: string
  lod_state :: string
  lod_zip :: string
  lod_country :: "string option"
  lod_locationType :: string
  lod_contactName :: "string option"
  lod_contactPhone :: "string option"
  lod_contactEmail :: "string option"
  lod_operatingHours :: "string option"
  lod_appointmentRequirements :: "string option"
  lod_notes :: "string option"

text \<open>
  The two dates of a rate agreement arrive as text and are compared as text; the function that
  parses a date (\<^verbatim>\<open>new Date(text)\<close>) is a parameter of the operation.
\<close>

record rate_agreement_dto =
  rad_originCity :: string
  rad_originState :: string
  rad_destinationCity :: string
  rad_destinationState :: string
  rad_equipmentType :: equipment_type
  rad_rate :: cents
  rad_rateType :: string
  rad_effectiveDate :: string
  rad_expirationDate :: "string option"
  rad_fuelSurchargeRules :: "string option"
  rad_notes :: "string option"

section \<open>Duplicate detection\<close>

datatype match_field = M_legalName | M_billingAddress | M_primaryContactEmail

record duplicate_match =
  dm_customerId :: uuid
  dm_legalName :: string
  dm_matchedOn :: "match_field list"

record duplicate_candidate =
  ca_id :: uuid
  ca_row :: customer_row
  ca_contactEmails :: "string option list"

definition address_text :: "string \<Rightarrow> string \<Rightarrow> string \<Rightarrow> string \<Rightarrow> string" where
  "address_text line1 city state zp = line1 @ '' '' @ city @ '' '' @ state @ '' '' @ zp"

definition email_pool :: "duplicate_candidate \<Rightarrow> string list" where
  "email_pool c = toLowerCase (cu_primaryContactEmail (ca_row c)) #
     filter (\<lambda>e. e \<noteq> []) (map toLowerCase (List.map_filter (\<lambda>e. e) (ca_contactEmails c)))"

definition matched_on :: "create_customer_dto \<Rightarrow> duplicate_candidate \<Rightarrow> match_field list" where
  "matched_on dto c =
     (if normalize (cu_legalName (ca_row c)) = normalize (cud_legalName dto) then [M_legalName] else []) @
     (if normalize (address_text (cu_billingAddressLine1 (ca_row c)) (cu_billingCity (ca_row c))
                     (cu_billingState (ca_row c)) (cu_billingZip (ca_row c))) =
         normalize (address_text (cud_billingAddressLine1 dto) (cud_billingCity dto)
                     (cud_billingState dto) (cud_billingZip dto)) then [M_billingAddress] else []) @
     (if toLowerCase (cud_primaryContactEmail dto) \<in> set (email_pool c) then [M_primaryContactEmail] else [])"

fun matchDuplicates :: "create_customer_dto \<Rightarrow> duplicate_candidate list \<Rightarrow> duplicate_match list" where
  "matchDuplicates dto [] = []"
| "matchDuplicates dto (c # cs) =
     (if matched_on dto c \<noteq> []
      then \<lparr>dm_customerId = ca_id c, dm_legalName = cu_legalName (ca_row c), dm_matchedOn = matched_on dto c\<rparr> #
           matchDuplicates dto cs
      else matchDuplicates dto cs)"

definition fetchDuplicateCandidates :: "uuid \<Rightarrow> db \<Rightarrow> duplicate_candidate list" where
  "fetchDuplicateCandidates organizationId s =
     map (\<lambda>(i, c). \<lparr>ca_id = i, ca_row = c,
            ca_contactEmails = map (\<lambda>(_, k). ct_email k)
              (tbl_where (\<lambda>_ k. ct_parentId k = i) (customer_contacts s))\<rparr>)
         (tbl_where (\<lambda>_ c. cu_organizationId c = organizationId) (customers s))"

section \<open>Creation\<close>

fun match_field_name :: "match_field \<Rightarrow> string" where
  "match_field_name M_legalName = ''legalName''"
| "match_field_name M_billingAddress = ''billingAddress''"
| "match_field_name M_primaryContactEmail = ''primaryContactEmail''"

fun customer_status_name :: "customer_status \<Rightarrow> string" where
  "customer_status_name CU_PROSPECT = ''PROSPECT''"
| "customer_status_name CU_ACTIVE = ''ACTIVE''"
| "customer_status_name CU_INACTIVE = ''INACTIVE''"
| "customer_status_name CU_BLOCKED = ''BLOCKED''"

fun payment_terms_name :: "payment_terms \<Rightarrow> string" where
  "payment_terms_name DUE_ON_RECEIPT = ''DUE_ON_RECEIPT''"
| "payment_terms_name NET_15 = ''NET_15''"
| "payment_terms_name NET_30 = ''NET_30''"
| "payment_terms_name NET_45 = ''NET_45''"
| "payment_terms_name NET_60 = ''NET_60''"

fun payment_terms_source_name :: "payment_terms_source \<Rightarrow> string" where
  "payment_terms_source_name INHERITED = ''INHERITED''"
| "payment_terms_source_name OVERRIDE = ''OVERRIDE''"

definition json_match :: "duplicate_match \<Rightarrow> json" where
  "json_match m = JObj [(''customerId'', JId (dm_customerId m)), (''legalName'', JStr (dm_legalName m)),
     (''matchedOn'', JArr (map (\<lambda>f. JStr (match_field_name f)) (dm_matchedOn m)))]"

definition ev_customer_blocked :: "uuid \<Rightarrow> uuid \<Rightarrow> event_input" where
  "ev_customer_blocked organizationId actingUserId =
     human_event organizationId
       (''Customer Creation Blocked '' @ dash @ '' Missing Organization Configuration'') ''Customer''
       organizationId None None None actingUserId"

definition ev_duplicate_shown :: "uuid \<Rightarrow> string \<Rightarrow> duplicate_match list \<Rightarrow> event_input" where
  "ev_duplicate_shown organizationId legalName duplicates =
     system_event organizationId ''Duplicate Warning Shown'' ''Customer'' organizationId None
       (Some (JObj [(''candidateLegalName'', JStr legalName), (''matches'', JArr (map json_match duplicates))]))"

definition ev_duplicate_acknowledged :: "uuid \<Rightarrow> duplicate_match list \<Rightarrow> uuid \<Rightarrow> event_input" where
  "ev_duplicate_acknowledged organizationId duplicates actingUserId =
     human_event organizationId ''Duplicate Warning Acknowledged'' ''Customer'' organizationId None
       (Some (JObj [(''matches'', JArr (map json_match duplicates))])) None actingUserId"

definition new_customer :: "uuid \<Rightarrow> create_customer_dto \<Rightarrow> payment_terms \<Rightarrow> uuid \<Rightarrow> customer_row" where
  "new_customer organizationId dto defaultTerms actingUserId =
     \<lparr>cu_organizationId = organizationId, cu_legalName = cud_legalName dto,
      cu_billingAddressLine1 = cud_billingAddressLine1 dto, cu_billingCity = cud_billingCity dto,
      cu_billingState = cud_billingState dto, cu_billingZip = cud_billingZip dto,
      cu_billingCountry = (case cud_billingCountry dto of None \<Rightarrow> ''US'' | Some v \<Rightarrow> v),
      cu_primaryContactName = cud_primaryContactName dto,
      cu_primaryContactEmail = cud_primaryContactEmail dto,
      cu_primaryContactPhone = cud_primaryContactPhone dto, cu_status = CU_PROSPECT,
      cu_accountOwnerUserId = cud_accountOwnerUserId dto,
      cu_paymentTerms = set_field (cud_paymentTermsOverride dto) defaultTerms,
      cu_paymentTermsSource = (if cud_paymentTermsOverride dto = None then INHERITED else OVERRIDE),
      cu_createdByUserId = actingUserId\<rparr>"

definition ev_customer_created :: "uuid \<Rightarrow> uuid \<Rightarrow> customer_row \<Rightarrow> uuid \<Rightarrow> event_input" where
  "ev_customer_created organizationId customerId c actingUserId =
     human_event organizationId ''Customer Created'' ''Customer'' customerId None
       (Some (JObj [(''legalName'', JStr (cu_legalName c)),
          (''status'', JStr (customer_status_name (cu_status c))),
          (''paymentTerms'', JStr (payment_terms_name (cu_paymentTerms c))),
          (''paymentTermsSource'', JStr (payment_terms_source_name (cu_paymentTermsSource c)))])) None actingUserId"

definition customer_create ::
  "uuid \<Rightarrow> create_customer_dto \<Rightarrow> uuid \<Rightarrow> duplicate_candidate list option \<Rightarrow> (uuid \<times> customer_row) tx" where
  "customer_create organizationId dto actingUserId precomputedCandidates =
     bind (findUniqueOrThrow organizations organizationId (\<lambda>_. True)) (\<lambda>organization.
     case o_defaultPaymentTerms organization of
       None \<Rightarrow>
         andThen (audit_record (ev_customer_blocked organizationId actingUserId))
         (throw (BusinessRuleError ''Your organization is missing a default payment terms setting. Contact your Administrator or support.''))
     | Some defaultTerms \<Rightarrow>
         bind (gets (\<lambda>s. matchDuplicates dto (case precomputedCandidates of
                 Some cs \<Rightarrow> cs | None \<Rightarrow> fetchDuplicateCandidates organizationId s))) (\<lambda>duplicates.
         andThen (run_when (duplicates \<noteq> [])
           (andThen (audit_record (ev_duplicate_shown organizationId (cud_legalName dto) duplicates))
            (andThen (throw_if (\<not> cud_acknowledgeDuplicates dto)
              (ConflictError ''One or more possible duplicate customers were found.'' (map dm_customerId duplicates)))
            (audit_record (ev_duplicate_acknowledged organizationId duplicates actingUserId)))))
         (bind (create customers_update (new_customer organizationId dto defaultTerms actingUserId)) (\<lambda>customerId.
          andThen (audit_record (ev_customer_created organizationId customerId
                     (new_customer organizationId dto defaultTerms actingUserId) actingUserId))
          (ret (customerId, new_customer organizationId dto defaultTerms actingUserId))))))"

section \<open>Update, status and child records\<close>

definition require_customer :: "uuid \<Rightarrow> uuid \<Rightarrow> customer_row tx" where
  "require_customer organizationId customerId =
     bind (findUnique customers customerId (\<lambda>c. cu_organizationId c = organizationId)) (\<lambda>customer.
       require customer (NotFoundError ''Customer not found.''))"

definition customer_field_changes :: "customer_row \<Rightarrow> update_customer_dto \<Rightarrow> json list" where
  "customer_field_changes e dto =
     field_change ''legalName'' JStr (cu_legalName e) (uud_legalName dto) @
     field_change ''billingAddressLine1'' JStr (cu_billingAddressLine1 e) (uud_billingAddressLine1 dto) @
     field_change ''billingCity'' JStr (cu_billingCity e) (uud_billingCity dto) @
     field_change ''billingState'' JStr (cu_billingState e) (uud_billingState dto) @
     field_change ''billingZip'' JStr (cu_billingZip e) (uud_billingZip dto) @
     field_change ''billingCountry'' JStr (cu_billingCountry e) (uud_billingCountry dto) @
     field_change ''primaryContactName'' JStr (cu_primaryContactName e) (uud_primaryContactName dto) @
     field_change ''primaryContactEmail'' JStr (cu_primaryContactEmail e) (uud_primaryContactEmail dto) @
     field_change ''primaryContactPhone'' JStr (cu_primaryContactPhone e) (uud_primaryContactPhone dto) @
     field_change ''accountOwnerUserId'' (JOpt JId) (cu_accountOwnerUserId e) (some_opt (uud_accountOwnerUserId dto)) @
     field_change ''paymentTerms'' (\<lambda>t. JStr (payment_terms_name t)) (cu_paymentTerms e) (uud_paymentTerms dto)"

definition apply_customer_dto :: "update_customer_dto \<Rightarrow> customer_row \<Rightarrow> customer_row" where
  "apply_customer_dto dto c =
     c\<lparr>cu_legalName := set_field (uud_legalName dto) (cu_legalName c),
       cu_billingAddressLine1 := set_field (uud_billingAddressLine1 dto) (cu_billingAddressLine1 c),
       cu_billingCity := set_field (uud_billingCity dto) (cu_billingCity c),
       cu_billingState := set_field (uud_billingState dto) (cu_billingState c),
       cu_billingZip := set_field (uud_billingZip dto) (cu_billingZip c),
       cu_billingCountry := set_field (uud_billingCountry dto) (cu_billingCountry c),
       cu_primaryContactName := set_field (uud_primaryContactName dto) (cu_primaryContactName c),
       cu_primaryContactEmail := set_field (uud_primaryContactEmail dto) (cu_primaryContactEmail c),
       cu_primaryContactPhone := set_field (uud_primaryContactPhone dto) (cu_primaryContactPhone c),
       cu_accountOwnerUserId := set_null_field (uud_accountOwnerUserId dto) (cu_accountOwnerUserId c),
       cu_paymentTerms := set_field (uud_paymentTerms dto) (cu_paymentTerms c),
       cu_paymentTermsSource := (if uud_paymentTerms dto = None then cu_paymentTermsSource c else OVERRIDE)\<rparr>"

definition ev_customer_updated :: "uuid \<Rightarrow> uuid \<Rightarrow> json list \<Rightarrow> uuid \<Rightarrow> event_input" where
  "ev_customer_updated organizationId customerId fieldChanges actingUserId =
     human_event organizationId ''Customer Updated'' ''Customer'' customerId
       (Some (JObj [(''field_changes'', JArr fieldChanges)])) None None actingUserId"

definition customer_update :: "uuid \<Rightarrow> uuid \<Rightarrow> update_customer_dto \<Rightarrow> uuid \<Rightarrow> customer_row tx" where
  "customer_update organizationId customerId dto actingUserId =
     bind (require_customer organizationId customerId) (\<lambda>existing.
     bind (update customers customers_update customerId (apply_customer_dto dto)) (\<lambda>updated.
     andThen (run_when (customer_field_changes existing dto \<noteq> [])
       (audit_record (ev_customer_updated organizationId customerId (customer_field_changes existing dto) actingUserId)))
     (ret updated)))"

definition ev_customer_status :: "uuid \<Rightarrow> uuid \<Rightarrow> customer_status \<Rightarrow> customer_status \<Rightarrow> uuid \<Rightarrow> event_input" where
  "ev_customer_status organizationId customerId was st actingUserId =
     human_event organizationId ''Customer Status Changed'' ''Customer'' customerId
       (Some (JObj [(''status'', JStr (customer_status_name was))]))
       (Some (JObj [(''status'', JStr (customer_status_name st))])) None actingUserId"

definition changeStatus :: "uuid \<Rightarrow> uuid \<Rightarrow> customer_status \<Rightarrow> uuid \<Rightarrow> customer_row tx" where
  "changeStatus organizationId customerId st actingUserId =
     bind (require_customer organizationId customerId) (\<lambda>existing.
     bind (update customers customers_update customerId (\<lambda>c. c\<lparr>cu_status := st\<rparr>)) (\<lambda>updated.
     andThen (audit_record (ev_customer_status organizationId customerId (cu_status existing) (cu_status updated)
       actingUserId))
     (ret updated)))"

definition ev_customer_contact :: "uuid \<Rightarrow> uuid \<Rightarrow> contact_dto \<Rightarrow> uuid \<Rightarrow> event_input" where
  "ev_customer_contact organizationId customerId dto actingUserId =
     human_event organizationId ''Customer Contact Added'' ''Customer'' customerId None
       (Some (JObj [(''name'', JStr (cod_name dto)), (''role'', JStr (cod_role dto))])) None actingUserId"

definition customer_addContact :: "uuid \<Rightarrow> uuid \<Rightarrow> contact_dto \<Rightarrow> uuid \<Rightarrow> (uuid \<times> contact_row) tx" where
  "customer_addContact organizationId customerId dto actingUserId =
     andThen (require_customer organizationId customerId)
     (bind (create customer_contacts_update (new_contact organizationId customerId dto)) (\<lambda>contactId.
      andThen (audit_record (ev_customer_contact organizationId customerId dto actingUserId))
      (ret (contactId, new_contact organizationId customerId dto))))"

definition new_location :: "uuid \<Rightarrow> uuid \<Rightarrow> location_dto \<Rightarrow> customer_location_row" where
  "new_location organizationId customerId dto =
     \<lparr>cl_organizationId = organizationId, cl_customerId = customerId, cl_name = lod_name dto,
      cl_addressLine1 = lod_addressLine1 dto, cl_city = lod_city dto, cl_state = lod_state dto,
      cl_zip = lod_zip dto, cl_country = (case lod_country dto of None \<Rightarrow> ''US'' | Some v \<Rightarrow> v),
      cl_locationType = lod_locationType dto, cl_contactName = lod_contactName dto,
      cl_contactPhone = lod_contactPhone dto, cl_contactEmail = lod_contactEmail dto,
      cl_operatingHours = lod_operatingHours dto,
      cl_appointmentRequirements = lod_appointmentRequirements dto, cl_notes = lod_notes dto\<rparr>"

definition ev_customer_location :: "uuid \<Rightarrow> uuid \<Rightarrow> location_dto \<Rightarrow> uuid \<Rightarrow> event_input" where
  "ev_customer_location organizationId customerId dto actingUserId =
     human_event organizationId ''Customer Location Added'' ''Customer'' customerId None
       (Some (JObj [(''name'', JStr (lod_name dto)), (''locationType'', JStr (lod_locationType dto))]))
       None actingUserId"

definition addLocation :: "uuid \<Rightarrow> uuid \<Rightarrow> location_dto \<Rightarrow> uuid \<Rightarrow> (uuid \<times> customer_location_row) tx" where
  "addLocation organizationId customerId dto actingUserId =
     andThen (require_customer organizationId customerId)
     (bind (create customer_locations_update (new_location organizationId customerId dto)) (\<lambda>locationId.
      andThen (audit_record (ev_customer_location organizationId customerId dto actingUserId))
      (ret (locationId, new_location organizationId customerId dto))))"

text \<open>\<^verbatim>\<open>a <= b\<close> on strings: lexicographic by code unit.\<close>

fun str_le :: "string \<Rightarrow> string \<Rightarrow> bool" where
  "str_le [] b = True"
| "str_le (x # a) [] = False"
| "str_le (x # a) (y # b) =
     ((of_char x :: nat) < of_char y \<or> ((of_char x :: nat) = of_char y \<and> str_le a b))"

definition new_rate_agreement :: "(string \<Rightarrow> instant) \<Rightarrow> uuid \<Rightarrow> uuid \<Rightarrow> rate_agreement_dto \<Rightarrow> rate_agreement_row" where
  "new_rate_agreement parse_date organizationId customerId dto =
     \<lparr>ra_organizationId = organizationId, ra_customerId = customerId, ra_originCity = rad_originCity dto,
      ra_originState = rad_originState dto, ra_destinationCity = rad_destinationCity dto,
      ra_destinationState = rad_destinationState dto, ra_equipmentType = rad_equipmentType dto,
      ra_rate = rad_rate dto, ra_rateType = rad_rateType dto,
      ra_effectiveDate = start_of_day (parse_date (rad_effectiveDate dto)),
      ra_expirationDate = (if truthy (rad_expirationDate dto)
         then map_option (\<lambda>d. start_of_day (parse_date d)) (rad_expirationDate dto) else None),
      ra_fuelSurchargeRules = rad_fuelSurchargeRules dto, ra_notes = rad_notes dto\<rparr>"

definition ev_rate_agreement :: "uuid \<Rightarrow> uuid \<Rightarrow> rate_agreement_dto \<Rightarrow> uuid \<Rightarrow> event_input" where
  "ev_rate_agreement organizationId customerId dto actingUserId =
     human_event organizationId ''Customer Rate Agreement Added'' ''Customer'' customerId None
       (Some (JObj [(''originCity'', JStr (rad_originCity dto)), (''destinationCity'', JStr (rad_destinationCity dto)),
                    (''rate'', JMoney (rad_rate dto))])) None actingUserId"

definition addRateAgreement ::
  "(string \<Rightarrow> instant) \<Rightarrow> uuid \<Rightarrow> uuid \<Rightarrow> rate_agreement_dto \<Rightarrow> uuid \<Rightarrow> (uuid \<times> rate_agreement_row) tx" where
  "addRateAgreement parse_date organizationId customerId dto actingUserId =
     andThen (require_customer organizationId customerId)
     (andThen (throw_if (case rad_expirationDate dto of None \<Rightarrow> False
                  | Some e \<Rightarrow> e \<noteq> [] \<and> str_le e (rad_effectiveDate dto))
        (BusinessRuleError ''Expiration date must be after the effective date.''))
     (bind (create rate_agreements_update (new_rate_agreement parse_date organizationId customerId dto)) (\<lambda>agreementId.
      andThen (audit_record (ev_rate_agreement organizationId customerId dto actingUserId))
      (ret (agreementId, new_rate_agreement parse_date organizationId customerId dto)))))"

section \<open>Every operation is lawful\<close>

lemma require_customer_iff [tx_iff]:
  "require_customer org c s = Inr z \<longleftrightarrow>
     (\<exists>customer. tbl_find c (customers s) = Some customer \<and> cu_organizationId customer = org \<and> z = (customer, s))"
  by (auto simp: require_customer_def tx_iff split: option.splits if_splits)

lemmas customer_ops = customer_create_def customer_update_def changeStatus_def customer_addContact_def
  addLocation_def addRateAgreement_def

lemmas customer_rows = new_customer_def apply_customer_dto_def new_contact_def new_location_def
  new_rate_agreement_def

lemmas customer_events = ev_customer_blocked_def ev_duplicate_shown_def ev_duplicate_acknowledged_def
  ev_customer_created_def ev_customer_updated_def ev_customer_status_def ev_customer_contact_def
  ev_customer_location_def ev_rate_agreement_def

lemma confined_customer:
  "keeps (confined org s0) (customer_create org dto u pre)"
  "keeps (confined org s0) (customer_update org c upd u)"
  "keeps (confined org s0) (changeStatus org c st u)"
  "keeps (confined org s0) (customer_addContact org c cod u)"
  "keeps (confined org s0) (addLocation org c lod u)"
  "keeps (confined org s0) (addRateAgreement pd org c rad u)"
  unfolding customer_ops require_customer_def tx_assoc
  by ((rule confined_rules confined.R_refl | assumption | (simp add: customer_rows customer_events; fail))+)

end
