(* ===== verification/Rating.thy ===== *)
theory Rating
  imports Customer
begin

text \<open>
  Rate agreement matching: backend/src/modules/quote-load/services/
  rate-agreement-matching.service.ts.
\<close>

definition lane_matches :: "string \<Rightarrow> string \<Rightarrow> string \<Rightarrow> string \<Rightarrow> rate_agreement_row \<Rightarrow> bool" where
  "lane_matches originCity originState destinationCity destinationState r \<longleftrightarrow>
     normalize (ra_originCity r) = normalize originCity \<and>
     normalize (ra_originState r) = normalize originState \<and>
     normalize (ra_destinationCity r) = normalize destinationCity \<and>
     normalize (ra_destinationState r) = normalize destinationState"

definition active_agreement :: "uuid \<Rightarrow> uuid \<Rightarrow> equipment_type \<Rightarrow> instant \<Rightarrow> rate_agreement_row \<Rightarrow> bool" where
  "active_agreement organizationId customerId equipmentType today r \<longleftrightarrow>
     ra_organizationId r = organizationId \<and> ra_customerId r = customerId \<and>
     ra_equipmentType r = equipmentType \<and> ra_effectiveDate r \<le> today \<and>
     (case ra_expirationDate r of None \<Rightarrow> True | Some e \<Rightarrow> e \<ge> today)"

definition findMatch ::
  "uuid \<Rightarrow> uuid \<Rightarrow> string \<Rightarrow> string \<Rightarrow> string \<Rightarrow> string \<Rightarrow> equipment_type \<Rightarrow> (uuid \<times> cents) option tx" where
  "findMatch organizationId customerId originCity originState destinationCity destinationState equipmentType =
     bind now (\<lambda>t.
     bind (findMany rate_agreements (\<lambda>_ r. active_agreement organizationId customerId equipmentType (start_of_day t) r))
       (\<lambda>candidates.
     ret (case List.find (\<lambda>(_, r). lane_matches originCity originState destinationCity destinationState r) candidates of
            None \<Rightarrow> None | Some (i, r) \<Rightarrow> Some (i, ra_rate r))))"

definition resolveRate ::
  "uuid \<Rightarrow> uuid \<Rightarrow> string \<Rightarrow> string \<Rightarrow> string \<Rightarrow> string \<Rightarrow> equipment_type \<Rightarrow> cents \<Rightarrow> (uuid option \<times> rate_source) tx" where
  "resolveRate organizationId customerId originCity originState destinationCity destinationState equipmentType submittedRate =
     bind (findMatch organizationId customerId originCity originState destinationCity destinationState equipmentType)
       (\<lambda>m. ret (case m of
          None \<Rightarrow> (None, MANUAL)
        | Some (agreementId, suggestedRate) \<Rightarrow>
            (Some agreementId, if suggestedRate = submittedRate then RATE_AGREEMENT else MANUAL_OVERRIDE)))"

lemma resolveRate_pure: "resolveRate org c a b d e eq rate s = Inr z \<Longrightarrow> snd z = s"
  by (auto simp: resolveRate_def findMatch_def tx_iff)

lemma confined_rating: "keeps (confined org s0) (resolveRate org' c a b d e eq rate)"
  by (auto simp: keeps_def confined.R_refl dest: resolveRate_pure)

lemma find_lane:
  assumes "List.find (\<lambda>(_, r). Q r) (tbl_where (\<lambda>_. P) t) = Some (i, r)"
  shows "(i, r) \<in> set t \<and> P r \<and> Q r"
  using find_Some_iff' [OF assms] by (auto simp: tbl_where_iff)

lemma findMatch_Some:
  assumes "findMatch org c oc os dc ds eq s = Inr (Some (i, rate), s')"
  shows "\<exists>r. (i, r) \<in> set (rate_agreements s) \<and> active_agreement org c eq (start_of_day (clock s)) r \<and>
           lane_matches oc os dc ds r \<and> ra_rate r = rate"
  using assms by (auto simp: findMatch_def tx_iff dest!: find_lane split: option.splits)

lemma findMatch_None:
  assumes "findMatch org c oc os dc ds eq s = Inr (None, s')" and "(i, r) \<in> set (rate_agreements s)"
  shows "\<not> (active_agreement org c eq (start_of_day (clock s)) r \<and> lane_matches oc os dc ds r)"
  using assms by (auto simp: findMatch_def tx_iff find_None_all tbl_where_iff split: option.splits)

end
