(* ===== verification/Queues.thy ===== *)
theory Queues
  imports Sequence
begin

text \<open>
  A request as a whole: the database, the queue client, and the wrapper withTenantTransaction of
  backend/src/common/prisma/prisma.service.ts around a transaction. What a queue does with a job
  is the queue server's business; what the services do is call \<^verbatim>\<open>add\<close> after
  the transaction has committed, and that call fails when the server cannot be reached.
\<close>

record job =
  j_queue :: string
  j_name :: string
  j_data :: json
  j_jobId :: "string option"

record world =
  w_db :: db
  w_jobs :: "job list"      \<comment> \<open>the jobs handed to the queue client, oldest first\<close>
  w_queue_up :: bool

type_synonym 'a outcome = "(app_error + 'a) \<times> world"

text \<open>A transaction that throws is rolled back; one that returns is committed.\<close>

definition withTenantTransaction :: "'a tx \<Rightarrow> world \<Rightarrow> 'a outcome" where
  "withTenantTransaction fn w =
     (case fn (w_db w) of Inl e \<Rightarrow> (Inl e, w) | Inr (x, s') \<Rightarrow> (Inr x, w\<lparr>w_db := s'\<rparr>))"

definition add_jobs :: "job list \<Rightarrow> world \<Rightarrow> unit outcome" where
  "add_jobs js w =
     (if js = [] then (Inr (), w)
      else if w_queue_up w then (Inr (), w\<lparr>w_jobs := w_jobs w @ js\<rparr>)
      else (Inl (QueueError ''connection lost''), w))"

text \<open>\<^verbatim>\<open>.then(async (x) => { await queue.add(...); return x; })\<close>.\<close>

definition then_enqueue :: "'a outcome \<Rightarrow> ('a \<Rightarrow> job list) \<Rightarrow> 'a outcome" where
  "then_enqueue r jobs_of =
     (case r of (Inl e, w) \<Rightarrow> (Inl e, w)
      | (Inr x, w) \<Rightarrow> (case add_jobs (jobs_of x) w of (Inl e, w') \<Rightarrow> (Inl e, w') | (Inr _, w') \<Rightarrow> (Inr x, w')))"

lemma withTenantTransaction_rollback:
  "fst (withTenantTransaction fn w) = Inl e \<Longrightarrow> snd (withTenantTransaction fn w) = w"
  by (auto simp: withTenantTransaction_def split: sum.splits prod.splits)

lemma withTenantTransaction_commit:
  "withTenantTransaction fn w = (Inr x, w') \<longleftrightarrow> (\<exists>s'. fn (w_db w) = Inr (x, s') \<and> w' = w\<lparr>w_db := s'\<rparr>)"
  by (auto simp: withTenantTransaction_def split: sum.splits prod.splits)

lemma add_jobs_db [simp]: "w_db (snd (add_jobs js w)) = w_db w"
  by (simp add: add_jobs_def)

text \<open>What is enqueued never undoes what was committed, and nothing is enqueued for a rollback.\<close>

lemma then_enqueue_db: "w_db (snd (then_enqueue r f)) = w_db (snd r)"
  by (auto simp: then_enqueue_def add_jobs_def split: prod.split sum.split)

lemma then_enqueue_failed:
  "w_jobs (snd (then_enqueue (withTenantTransaction fn w) f)) = w_jobs w" if "fn (w_db w) = Inl e"
  using that by (simp add: then_enqueue_def withTenantTransaction_def)

end
