(* ===== verification/Money.thy ===== *)
theory Money
  imports Complex_Main "HOL-Library.Log_Nat"
begin

text \<open>
  The money arithmetic of the services: decimal columns are turned into JavaScript numbers with
  \<^verbatim>\<open>Number(...)\<close>, added, subtracted or multiplied, and turned back with
  \<^verbatim>\<open>toFixed(2)\<close>. A finite double is modelled as the rational it denotes and every
  operation rounds its exact result to a 53-bit significand, ties to even. Amounts are at most
  12 digits, so overflow and subnormal results do not occur and are left out.

  The main result: for amounts of the columns' size, a sum computed this way and printed with two
  decimals is the exact sum. The comparison of such a sum with zero is not covered by it, and is
  where the services can go wrong.
\<close>

section \<open>Rounding\<close>

definition pow2 :: "int \<Rightarrow> rat" where
  "pow2 k = (if 0 \<le> k then 2 ^ nat k else 1 / 2 ^ nat (- k))"

definition round_half_even :: "rat \<Rightarrow> int" where
  "round_half_even y =
     (let f = \<lfloor>y\<rfloor>; d = y - of_int f
      in if d < 1 / 2 then f else if d > 1 / 2 then f + 1 else if even f then f else f + 1)"

text \<open>The scale that puts a positive rational between 2 to the 52 and 2 to the 53.\<close>

definition double_scale :: "rat \<Rightarrow> int" where
  "double_scale x =
     (let (p, q) = quotient_of x; k = 53 - (bitlen p - bitlen q)
      in if x * pow2 k \<ge> 2 ^ 53 then k - 1 else k)"

definition round_pos :: "rat \<Rightarrow> rat" where
  "round_pos x = of_int (round_half_even (x * pow2 (double_scale x))) / pow2 (double_scale x)"

definition round_double :: "rat \<Rightarrow> rat" where
  "round_double x = (if x = 0 then 0 else if x > 0 then round_pos x else - round_pos (- x))"

definition js_add :: "rat \<Rightarrow> rat \<Rightarrow> rat" where
  "js_add a b = round_double (a + b)"

definition js_sub :: "rat \<Rightarrow> rat \<Rightarrow> rat" where
  "js_sub a b = round_double (a - b)"

definition js_mul :: "rat \<Rightarrow> rat \<Rightarrow> rat" where
  "js_mul a b = round_double (a * b)"

text \<open>\<^verbatim>\<open>Number(column)\<close> of an amount in hundredths, and \<^verbatim>\<open>toFixed(2)\<close>.\<close>

definition js_number :: "int \<Rightarrow> rat" where
  "js_number c = round_double (of_int c / 100)"

definition toFixed2 :: "rat \<Rightarrow> int" where
  "toFixed2 x = (if x < 0 then - \<lfloor>- x * 100 + 1 / 2\<rfloor> else \<lfloor>x * 100 + 1 / 2\<rfloor>)"

text \<open>\<^verbatim>\<open>reduce((sum, c) => sum + Number(c.amount), 0)\<close>.\<close>

definition js_sum :: "int list \<Rightarrow> rat" where
  "js_sum cs = foldl (\<lambda>acc c. js_add acc (js_number c)) 0 cs"

section \<open>The rounding error\<close>

lemma pow2_pos [simp]: "0 < pow2 k"
  by (simp add: pow2_def)

lemma pow2_minus_one: "pow2 (k - 1) = pow2 k / 2"
proof (cases "0 \<le> k - 1")
  case True
  then have "nat k = Suc (nat (k - 1))" by simp
  then show ?thesis using True by (simp add: pow2_def)
next
  case False
  then have "nat (- (k - 1)) = Suc (nat (- k))" by simp
  then show ?thesis using False by (cases "k = 0") (simp_all add: pow2_def)
qed

lemma round_half_even_error: "\<bar>of_int (round_half_even y) - y\<bar> \<le> 1 / 2"
proof -
  have "of_int \<lfloor>y\<rfloor> \<le> y" and "y < of_int \<lfloor>y\<rfloor> + 1" by linarith+
  then show ?thesis unfolding round_half_even_def Let_def by (auto simp: abs_le_iff field_simps)
qed

lemma pow2_diff: "pow2 (int m - int n) = 2 ^ m / 2 ^ n"
proof (cases "n \<le> m")
  case True
  then have "nat (int m - int n) = m - n" by simp
  then show ?thesis using True by (simp add: pow2_def power_diff)
next
  case False
  then have "nat (- (int m - int n)) = n - m" by simp
  then show ?thesis using False by (simp add: pow2_def power_diff)
qed

lemma bitlen_bounds:
  assumes "0 < a"
  obtains n where "bitlen a = int (Suc n)" and "2 ^ n \<le> (of_int a :: rat)" and "(of_int a :: rat) < 2 ^ Suc n"
proof -
  have "0 < bitlen a" using assms bitlen_bounds [of a] by (cases "bitlen a \<le> 0") auto
  then obtain n where n: "bitlen a = int (Suc n)"
    by (metis gr0_implies_Suc nat_0_le of_nat_0_less_iff order_less_imp_le zero_less_nat_eq)
  have b: "2 ^ nat (bitlen a - 1) \<le> a" "a < 2 ^ nat (bitlen a)"
    using bitlen_bounds [OF assms] by auto
  have "(2 :: int) ^ n \<le> a" and "a < 2 ^ Suc n" using b by (simp_all add: n nat_add_distrib del: power_Suc)
  then have "(of_int (2 ^ n) :: rat) \<le> of_int a" and "(of_int a :: rat) < of_int (2 ^ Suc n)"
    by (simp_all only: of_int_le_iff of_int_less_iff)
  then show thesis using n that by simp
qed

lemma scaled_ge:
  assumes "0 < x"
  shows "2 ^ 52 \<le> x * pow2 (double_scale x)"
proof -
  obtain p q where pq: "quotient_of x = (p, q)" by (cases "quotient_of x")
  then have q: "0 < q" and x: "x = of_int p / of_int q"
    using quotient_of_denom_pos quotient_of_div by blast+
  then have p: "0 < p" using assms by (simp add: zero_less_divide_iff)
  obtain m where m: "bitlen p = int (Suc m)" "2 ^ m \<le> (of_int p :: rat)" using bitlen_bounds [OF p] by blast
  obtain n where n: "bitlen q = int (Suc n)" "(of_int q :: rat) < 2 ^ Suc n" using bitlen_bounds [OF q] by blast
  let ?k = "53 - (bitlen p - bitlen q)"
  have k: "pow2 ?k = 2 ^ (53 + n) / 2 ^ m"
    using pow2_diff [of "53 + n" m] by (simp add: m n algebra_simps)
  have "2 ^ 52 \<le> 2 ^ m / 2 ^ Suc n * (2 ^ (53 + n) / 2 ^ m :: rat)"
    by (simp add: power_add)
  also have "\<dots> \<le> x * pow2 ?k"
    unfolding k x using m(2) n(2) q p by (intro mult_right_mono frac_le) auto
  finally have "2 ^ 52 \<le> x * pow2 ?k" .
  show ?thesis
  proof (cases "2 ^ 53 \<le> x * pow2 ?k")
    case True
    then have "double_scale x = ?k - 1" by (simp add: double_scale_def pq Let_def)
    moreover have "2 ^ 52 \<le> x * pow2 (?k - 1)" using True unfolding pow2_minus_one by simp
    ultimately show ?thesis by (simp only:)
  next
    case False
    then have "double_scale x = ?k" by (simp add: double_scale_def pq Let_def)
    then show ?thesis using \<open>2 ^ 52 \<le> x * pow2 ?k\<close> by (simp only:)
  qed
qed

lemma round_pos_error:
  assumes "0 < x"
  shows "\<bar>round_pos x - x\<bar> \<le> x / 2 ^ 53"
proof -
  define s where "s = pow2 (double_scale x)"
  define r where "r = (of_int (round_half_even (x * s)) :: rat)"
  have s: "0 < s" and big: "2 ^ 52 \<le> x * s" using scaled_ge [OF assms] by (simp_all add: s_def)
  have near: "\<bar>r - x * s\<bar> \<le> 1 / 2" unfolding r_def by (rule round_half_even_error)
  have "round_pos x - x = (r - x * s) / s" unfolding round_pos_def s_def [symmetric] r_def [symmetric] using s by (simp add: field_simps)
  then have "\<bar>round_pos x - x\<bar> = \<bar>r - x * s\<bar> / s" using s by simp
  also have "\<dots> \<le> (1 / 2) / s" using s near by (intro divide_right_mono) simp_all
  also have "\<dots> \<le> x / 2 ^ 53" using big s by (simp add: field_simps)
  finally show ?thesis .
qed

lemma round_double_error: "\<bar>round_double x - x\<bar> \<le> \<bar>x\<bar> / 2 ^ 53"
  using round_pos_error [of x] round_pos_error [of "- x"]
  by (cases "x = 0"; cases "x > 0") (auto simp: round_double_def)

section \<open>Sums of amounts\<close>

text \<open>
  The unit of error is what one rounding of the largest column value, 10 to the 10 dollars, can
  cost; a number approximates an amount when it is within a count of those units of it.
\<close>

definition err_unit :: rat where
  "err_unit = 10 ^ 10 / 2 ^ 53"

definition approx :: "nat \<Rightarrow> rat \<Rightarrow> int \<Rightarrow> bool" where
  "approx n v c \<longleftrightarrow> \<bar>v - of_int c / 100\<bar> \<le> of_nat n * err_unit"

lemma err_unit_pos: "0 < err_unit"
  by (simp add: err_unit_def)

definition in_column :: "int \<Rightarrow> bool" where
  "in_column c \<longleftrightarrow> \<bar>c\<bar> \<le> 10 ^ 12"

lemma in_column_rat: "in_column c \<Longrightarrow> \<bar>of_int c / 100\<bar> \<le> (10 ^ 10 :: rat)"
proof -
  assume "in_column c"
  then have "(of_int \<bar>c\<bar> :: rat) \<le> of_int (10 ^ 12)" unfolding in_column_def by (simp only: of_int_le_iff)
  then show ?thesis by simp
qed

lemma approx_number: "in_column c \<Longrightarrow> approx 1 (js_number c) c"
  using round_double_error [of "of_int c / 100"] in_column_rat [of c]
  unfolding approx_def js_number_def err_unit_def by simp

lemma approx_round:
  assumes v: "\<bar>v - of_int c / 100\<bar> \<le> of_nat k * err_unit" and "in_column c" and "k \<le> 10000"
  shows "approx (k + 2) (round_double v) c"
proof -
  have "of_nat k \<le> (of_nat 10000 :: rat)" using assms(3) by (simp only: of_nat_le_iff)
  then have "of_nat k * err_unit \<le> 10000 * err_unit" using err_unit_pos by simp
  also have "\<dots> \<le> 10 ^ 10" by (simp add: err_unit_def)
  finally have "\<bar>v\<bar> \<le> 2 * 10 ^ 10" using v in_column_rat [OF assms(2)] by linarith
  then have "\<bar>v\<bar> / 2 ^ 53 \<le> 2 * err_unit" unfolding err_unit_def by (simp add: field_simps)
  then have "\<bar>round_double v - v\<bar> \<le> 2 * err_unit" using round_double_error [of v] by linarith
  moreover have "of_nat (k + 2) * err_unit = of_nat k * err_unit + 2 * err_unit" by (simp add: algebra_simps)
  ultimately show ?thesis using v unfolding approx_def by linarith
qed

lemma approx_add:
  assumes "approx n a x" and "approx m b y" and "in_column (x + y)" and "n + m \<le> 10000"
  shows "approx (n + m + 2) (js_add a b) (x + y)"
  unfolding js_add_def
proof (rule approx_round [OF _ assms(3,4)])
  have "of_int (x + y) / 100 = of_int x / 100 + (of_int y / 100 :: rat)" by (simp add: add_divide_distrib)
  moreover have "of_nat (n + m) * err_unit = of_nat n * err_unit + of_nat m * err_unit" by (simp add: algebra_simps)
  ultimately show "\<bar>a + b - of_int (x + y) / 100\<bar> \<le> of_nat (n + m) * err_unit"
    using assms(1,2) unfolding approx_def by linarith
qed

lemma approx_sub:
  assumes "approx n a x" and "approx m b y" and "in_column (x - y)" and "n + m \<le> 10000"
  shows "approx (n + m + 2) (js_sub a b) (x - y)"
  unfolding js_sub_def
proof (rule approx_round [OF _ assms(3,4)])
  have "of_int (x - y) / 100 = of_int x / 100 - (of_int y / 100 :: rat)" by (simp add: diff_divide_distrib)
  moreover have "of_nat (n + m) * err_unit = of_nat n * err_unit + of_nat m * err_unit" by (simp add: algebra_simps)
  ultimately show "\<bar>a - b - of_int (x - y) / 100\<bar> \<le> of_nat (n + m) * err_unit"
    using assms(1,2) unfolding approx_def by linarith
qed

lemma approx_zero: "approx 0 0 0"
  by (simp add: approx_def)

lemma approx_mono: "approx n v c \<Longrightarrow> n \<le> m \<Longrightarrow> approx m v c"
  unfolding approx_def
  by (erule order_trans) (intro mult_right_mono order_less_imp_le [OF err_unit_pos]; simp)

lemma foldl_approx:
  "approx n acc x \<Longrightarrow> n + 3 * length cs \<le> 10000 \<Longrightarrow> \<bar>x\<bar> + sum_list (map abs cs) \<le> 10 ^ 12 \<Longrightarrow>
     approx (n + 3 * length cs) (foldl (\<lambda>acc c. js_add acc (js_number c)) acc cs) (x + sum_list cs)"
proof (induction cs arbitrary: n acc x)
  case Nil
  then show ?case by simp
next
  case (Cons c cs)
  have pos: "0 \<le> sum_list (map abs cs)" by (induction cs) simp_all
  then have c: "in_column c" and xc: "in_column (x + c)" using Cons.prems(3) by (simp_all add: in_column_def)
  have step: "approx (n + 1 + 2) (js_add acc (js_number c)) (x + c)"
    by (rule approx_add [OF Cons.prems(1) approx_number [OF c] xc]) (use Cons.prems(2) in simp)
  have "approx (n + 1 + 2 + 3 * length cs) (foldl (\<lambda>acc c. js_add acc (js_number c)) (js_add acc (js_number c)) cs)
          (x + c + sum_list cs)"
    by (rule Cons.IH [OF step]) (use Cons.prems(2,3) in \<open>auto simp: abs_le_iff\<close>)
  moreover have "n + 1 + 2 + 3 * length cs = n + 3 * length (c # cs)" by simp
  ultimately show ?case by (simp only: foldl_Cons sum_list.Cons add.assoc)
qed

lemma js_sum_approx:
  assumes "length cs \<le> 1500" and "sum_list (map abs cs) \<le> 10 ^ 12"
  shows "approx (3 * length cs) (js_sum cs) (sum_list cs)"
  using foldl_approx [OF approx_zero, of cs] assms by (simp add: js_sum_def)

lemma toFixed2_approx:
  assumes "approx n v c" and "n \<le> 4500"
  shows "toFixed2 v = c"
proof -
  have "of_nat n \<le> (of_nat 4500 :: rat)" using assms(2) by (simp only: of_nat_le_iff)
  then have "of_nat n * err_unit \<le> 4500 * err_unit" using err_unit_pos by simp
  also have "\<dots> < 1 / 200" by (simp add: err_unit_def)
  finally have "\<bar>v - of_int c / 100\<bar> < 1 / 200" using assms(1) unfolding approx_def by linarith
  then have "v - of_int c / 100 < 1 / 200" "of_int c / 100 - v < 1 / 200" by linarith+
  then have *: "v * 100 - of_int c < 1 / 2" "of_int c - v * 100 < 1 / 2" by (simp_all add: field_simps)
  show ?thesis
  proof (cases "v < 0")
    case True
    have "\<lfloor>- v * 100 + 1 / 2\<rfloor> = - c" using * by (intro floor_unique) (simp_all add: field_simps)
    then show ?thesis using True by (simp add: toFixed2_def)
  next
    case False
    have "\<lfloor>v * 100 + 1 / 2\<rfloor> = c" using * by (intro floor_unique) (simp_all add: field_simps)
    then show ?thesis using False by (simp add: toFixed2_def)
  qed
qed

lemma toFixed2_js_sum:
  assumes "length cs \<le> 1500" and "sum_list (map abs cs) \<le> 10 ^ 12"
  shows "toFixed2 (js_sum cs) = sum_list cs"
  by (rule toFixed2_approx [OF js_sum_approx [OF assms]]) (use assms(1) in simp)

end
