(* ===== verification/Load.thy ===== *)
theory Load
  imports Rating Queues Money
begin

text \<open>
  Loads: backend/src/modules/quote-load/services/load.service.ts, with the derivation of a load's
  status from its stops (load-status-derivation.service.ts). Booking from a quote and directly,
  reference numbers, return links, charges, the closing checklist, close and cancel. Appointment
  times arrive as parsed instants and money as hundredths.
\<close>

section \<open>Request bodies\<close>

record load_stop_input =
  lsi_sequence :: int
  lsi_stopType :: stop_type
  lsi_customerLocationId :: "uuid option"
  lsi_companyName :: "string option"
  lsi_addressLine1 :: "string option"
  lsi_city :: string
  lsi_state :: string
  lsi_zip :: string
  lsi_appointmentDatetime :: "instant option"
  lsi_contactName :: "string option"
  lsi_contactPhone :: "string option"
  lsi_notes :: "string option"

record reference_numbers =
  rn_customerPoNumber :: "string option"
  rn_bolNumber :: "string option"
  rn_pickupNumber :: "string option"
  rn_customerReferenceNumber :: "string option"

record create_load_dto =
  cld_customerId :: uuid
  cld_stops :: "load_stop_input list"
  cld_equipmentType :: equipment_type
  cld_customerRate :: cents
  cld_references :: reference_numbers
  cld_confirmInactiveCustomerOverride :: bool

record booking_params =
  bp_customerId :: uuid
  bp_bookingSource :: booking_source
  bp_quoteId :: "uuid option"
  bp_equipmentType :: equipment_type
  bp_customerRate :: cents
  bp_rateSource :: rate_source
  bp_rateAgreementId :: "uuid option"
  bp_stops :: "load_stop_input list"
  bp_references :: reference_numbers
  bp_auditAction :: string

record add_charge_dto =
  acd_side :: charge_side
  acd_chargeTypeId :: uuid
  acd_description :: "string option"
  acd_quantity :: "cents option"   \<comment> \<open>hundredths\<close>
  acd_unitRate :: cents
  acd_notes :: "string option"

section \<open>The status derived from the stops\<close>

record stop_progress =
  sp_stopType :: stop_type
  sp_stopPurpose :: "stop_purpose option"
  sp_status :: stop_status
  sp_sequence :: int

definition DERIVABLE_STATUSES :: "load_status list" where
  "DERIVABLE_STATUSES = [DISPATCHED, PICKUP, IN_TRANSIT]"

definition isStandard :: "stop_progress \<Rightarrow> bool" where
  "isStandard s \<longleftrightarrow> (case sp_stopPurpose s of None \<Rightarrow> STANDARD | Some p \<Rightarrow> p) = STANDARD"

definition deriveLoadStatus :: "load_status \<Rightarrow> stop_progress list \<Rightarrow> load_status" where
  "deriveLoadStatus currentStatus sts =
     (if currentStatus \<notin> set DERIVABLE_STATUSES then currentStatus else
      let pickups = filter (\<lambda>s. sp_stopType s = ST_PICKUP \<and> isStandard s) sts;
          deliveries = sort_key sp_sequence (filter (\<lambda>s. sp_stopType s = ST_DELIVERY \<and> isStandard s) sts);
          finalDelivery = (if deliveries = [] then None else Some (last deliveries));
          allPickupsCompleted = (\<forall>s \<in> set pickups. sp_status s = SS_COMPLETED)
      in if (case finalDelivery of None \<Rightarrow> False | Some d \<Rightarrow> sp_status d = SS_COMPLETED) \<and> allPickupsCompleted
         then DELIVERED
         else if allPickupsCompleted then IN_TRANSIT
         else if (\<exists>s \<in> set pickups. sp_status s \<noteq> SS_PENDING) then PICKUP
         else currentStatus)"

section \<open>Booking\<close>

definition require_load :: "uuid \<Rightarrow> uuid \<Rightarrow> load_row tx" where
  "require_load organizationId loadId =
     bind (findUnique loads loadId (\<lambda>l. l_organizationId l = organizationId)) (\<lambda>load.
       require load (NotFoundError ''Load not found.''))"

definition ev_inactive_override :: "uuid \<Rightarrow> uuid \<Rightarrow> uuid \<Rightarrow> event_input" where
  "ev_inactive_override organizationId customerId actingUserId =
     human_event organizationId ''Inactive Customer Booking Override'' ''Customer'' customerId None None None
       actingUserId"

definition assertCustomerAllowsBooking :: "uuid \<Rightarrow> uuid \<Rightarrow> customer_row \<Rightarrow> bool \<Rightarrow> uuid \<Rightarrow> unit tx" where
  "assertCustomerAllowsBooking organizationId customerId customer confirmInactiveOverride actingUserId =
     andThen (throw_if (cu_status customer = CU_BLOCKED)
       (BusinessRuleError (''Customer is Blocked '' @ dash @ '' no new Loads can be created.'')))
     (andThen (throw_if (cu_status customer = CU_PROSPECT)
       (BusinessRuleError ''Customer must be Active before a Load can be Booked.''))
     (run_when (cu_status customer = CU_INACTIVE)
       (andThen (throw_if (\<not> confirmInactiveOverride)
         (BusinessRuleError (''Customer is Inactive '' @ dash @ '' booking requires an explicit override confirmation.'')))
        (audit_record (ev_inactive_override organizationId customerId actingUserId)))))"

definition new_load :: "uuid \<Rightarrow> string \<Rightarrow> booking_params \<Rightarrow> uuid \<Rightarrow> instant \<Rightarrow> load_row" where
  "new_load organizationId loadNumber params actingUserId t =
     \<lparr>l_organizationId = organizationId, l_loadNumber = loadNumber, l_customerId = bp_customerId params,
      l_bookingSource = bp_bookingSource params, l_quoteId = bp_quoteId params, l_status = BOOKED,
      l_equipmentType = bp_equipmentType params, l_customerRate = bp_customerRate params,
      l_rateSource = bp_rateSource params, l_rateAgreementId = bp_rateAgreementId params,
      l_customerPoNumber = rn_customerPoNumber (bp_references params),
      l_bolNumber = rn_bolNumber (bp_references params),
      l_pickupNumber = rn_pickupNumber (bp_references params),
      l_customerReferenceNumber = rn_customerReferenceNumber (bp_references params),
      l_assignedCarrierId = None, l_carrierRate = None, l_assignedDispatcherId = None,
      l_podStatus = POD_NOT_RECEIVED, l_riskStatus = RISK_NORMAL, l_riskReason = None,
      l_currentLocationCity = None, l_currentLocationState = None, l_currentLocationZip = None,
      l_currentLocationUpdatedAt = None, l_currentEta = None, l_invoiced = False,
      l_closedAt = None, l_closedByUserId = None, l_cancelledAt = None, l_cancelledByUserId = None,
      l_createdByUserId = actingUserId, l_createdAt = t, l_returnForLoadId = None\<rparr>"

definition new_stop :: "uuid \<Rightarrow> uuid \<Rightarrow> load_stop_input \<Rightarrow> stop_row" where
  "new_stop organizationId loadId i =
     \<lparr>s_organizationId = organizationId, s_loadId = loadId, s_sequence = lsi_sequence i,
      s_stopType = lsi_stopType i, s_stopPurpose = STANDARD,
      s_customerLocationId = lsi_customerLocationId i, s_companyName = lsi_companyName i,
      s_addressLine1 = lsi_addressLine1 i, s_city = lsi_city i, s_state = lsi_state i, s_zip = lsi_zip i,
      s_appointmentDatetime = lsi_appointmentDatetime i, s_actualArrival = None,
      s_actualDeparture = None, s_status = SS_PENDING, s_contactName = lsi_contactName i,
      s_contactPhone = lsi_contactPhone i, s_notes = lsi_notes i\<rparr>"

text \<open>A charge type by its code, the organization's own or a system default.\<close>

definition findLinehaulType :: "uuid \<Rightarrow> (uuid \<times> charge_type_row) option tx" where
  "findLinehaulType organizationId =
     bind (gets (\<lambda>s. tbl_first (\<lambda>_ c. ct_code c = ''LINEHAUL'' \<and>
            (ct_organizationId c = Some organizationId \<or> ct_organizationId c = None)) (charge_types s))) ret"

definition linehaul_charge :: "uuid \<Rightarrow> uuid \<Rightarrow> charge_side \<Rightarrow> uuid \<Rightarrow> cents \<Rightarrow> uuid \<Rightarrow> charge_row" where
  "linehaul_charge organizationId loadId side chargeTypeId rate actingUserId =
     \<lparr>ch_organizationId = organizationId, ch_loadId = loadId, ch_side = side,
      ch_chargeTypeId = chargeTypeId, ch_description = None, ch_quantity = 100, ch_unitRate = rate,
      ch_amount = rate, ch_source = ORIGINAL, ch_notes = None, ch_createdByUserId = actingUserId\<rparr>"

definition createOriginalCustomerLinehaulCharge :: "uuid \<Rightarrow> uuid \<Rightarrow> cents \<Rightarrow> uuid \<Rightarrow> unit tx" where
  "createOriginalCustomerLinehaulCharge organizationId loadId customerRate actingUserId =
     bind (findLinehaulType organizationId) (\<lambda>linehaulType.
       case linehaulType of None \<Rightarrow> ret ()
       | Some (typeId, _) \<Rightarrow>
           andThen (create charge_line_items_update
             (linehaul_charge organizationId loadId CUSTOMER_SIDE typeId customerRate actingUserId)) (ret ()))"

fun booking_source_name :: "booking_source \<Rightarrow> string" where
  "booking_source_name BS_QUOTE = ''QUOTE''"
| "booking_source_name BS_DIRECT = ''DIRECT''"

fun rate_source_name :: "rate_source \<Rightarrow> string" where
  "rate_source_name MANUAL = ''MANUAL''"
| "rate_source_name RATE_AGREEMENT = ''RATE_AGREEMENT''"
| "rate_source_name MANUAL_OVERRIDE = ''MANUAL_OVERRIDE''"

definition ev_load_booked :: "uuid \<Rightarrow> uuid \<Rightarrow> load_row \<Rightarrow> string \<Rightarrow> uuid \<Rightarrow> event_input" where
  "ev_load_booked organizationId loadId l action actingUserId =
     human_event organizationId action ''Load'' loadId None
       (Some (JObj [(''loadNumber'', JStr (l_loadNumber l)), (''customerId'', JId (l_customerId l)),
          (''bookingSource'', JStr (booking_source_name (l_bookingSource l))),
          (''customerRate'', JMoney (l_customerRate l)),
          (''rateSource'', JStr (rate_source_name (l_rateSource l)))])) None actingUserId"

type_synonym booked = "uuid \<times> load_row \<times> (uuid \<times> stop_row) list"

definition createFromBooking :: "uuid \<Rightarrow> booking_params \<Rightarrow> uuid \<Rightarrow> booked tx" where
  "createFromBooking organizationId params actingUserId =
     andThen (assertCanCreateOperationalRecord organizationId)
     (bind (getNextNumber organizationId SEQ_LOAD) (\<lambda>nextNumber.
      bind now (\<lambda>t.
      let load = new_load organizationId (format SEQ_LOAD nextNumber) params actingUserId t in
      bind (create loads_update load) (\<lambda>loadId.
      let rows = map (new_stop organizationId loadId) (bp_stops params) in
      bind (createMany stops_update rows) (\<lambda>stopIds.
      andThen (createOriginalCustomerLinehaulCharge organizationId loadId (l_customerRate load) actingUserId)
      (andThen (audit_record (ev_load_booked organizationId loadId load (bp_auditAction params) actingUserId))
      (ret (loadId, load, zip stopIds rows))))))))"

definition firstPickup :: "load_stop_input list \<Rightarrow> load_stop_input option" where
  "firstPickup sts = (case sort_key lsi_sequence (filter (\<lambda>s. lsi_stopType s = ST_PICKUP) sts) of
     [] \<Rightarrow> None | x # _ \<Rightarrow> Some x)"

definition lastDelivery :: "load_stop_input list \<Rightarrow> load_stop_input option" where
  "lastDelivery sts = (case sort_key (\<lambda>s. - lsi_sequence s) (filter (\<lambda>s. lsi_stopType s = ST_DELIVERY) sts) of
     [] \<Rightarrow> None | x # _ \<Rightarrow> Some x)"

definition createDirect_tx :: "uuid \<Rightarrow> create_load_dto \<Rightarrow> uuid \<Rightarrow> booked tx" where
  "createDirect_tx organizationId dto actingUserId =
     bind (require (firstPickup (cld_stops dto))
             (BusinessRuleError ''At least one pickup stop and one delivery stop are required.'')) (\<lambda>pickup.
     bind (require (lastDelivery (cld_stops dto))
             (BusinessRuleError ''At least one pickup stop and one delivery stop are required.'')) (\<lambda>delivery.
     bind (require_customer organizationId (cld_customerId dto)) (\<lambda>customer.
     andThen (assertCustomerAllowsBooking organizationId (cld_customerId dto) customer
                (cld_confirmInactiveCustomerOverride dto) actingUserId)
     (bind (resolveRate organizationId (cld_customerId dto) (lsi_city pickup) (lsi_state pickup)
              (lsi_city delivery) (lsi_state delivery) (cld_equipmentType dto) (cld_customerRate dto)) (\<lambda>rate.
      createFromBooking organizationId
        \<lparr>bp_customerId = cld_customerId dto, bp_bookingSource = BS_DIRECT, bp_quoteId = None,
         bp_equipmentType = cld_equipmentType dto, bp_customerRate = cld_customerRate dto,
         bp_rateSource = snd rate, bp_rateAgreementId = fst rate, bp_stops = cld_stops dto,
         bp_references = cld_references dto, bp_auditAction = ''Load Booked Directly (No Quote)''\<rparr>
        actingUserId)))))"

definition stop_location_job :: "uuid \<Rightarrow> uuid \<times> stop_row \<Rightarrow> job" where
  "stop_location_job organizationId p =
     \<lparr>j_queue = ''resolve-location'', j_name = ''resolve'',
      j_data = JObj [(''entityType'', JStr ''STOP''), (''entityId'', JId (fst p)),
        (''organizationId'', JId organizationId), (''city'', JStr (s_city (snd p))),
        (''state'', JStr (s_state (snd p)))],
      j_jobId = Some (''STOP-'' @ show_nat (fst p))\<rparr>"

definition enqueueStopLocationResolution :: "uuid \<Rightarrow> booked \<Rightarrow> job list" where
  "enqueueStopLocationResolution organizationId b = map (stop_location_job organizationId) (snd (snd b))"

definition createDirect :: "uuid \<Rightarrow> create_load_dto \<Rightarrow> uuid \<Rightarrow> world \<Rightarrow> booked outcome" where
  "createDirect organizationId dto actingUserId w =
     then_enqueue (withTenantTransaction (createDirect_tx organizationId dto actingUserId) w)
       (enqueueStopLocationResolution organizationId)"

section \<open>Reference numbers, return links and charges\<close>

definition reference_changes :: "load_row \<Rightarrow> reference_numbers \<Rightarrow> json list" where
  "reference_changes e dto =
     field_change ''customerPoNumber'' (JOpt JStr) (l_customerPoNumber e) (some_opt (rn_customerPoNumber dto)) @
     field_change ''bolNumber'' (JOpt JStr) (l_bolNumber e) (some_opt (rn_bolNumber dto)) @
     field_change ''pickupNumber'' (JOpt JStr) (l_pickupNumber e) (some_opt (rn_pickupNumber dto)) @
     field_change ''customerReferenceNumber'' (JOpt JStr) (l_customerReferenceNumber e)
       (some_opt (rn_customerReferenceNumber dto))"

definition apply_references :: "reference_numbers \<Rightarrow> load_row \<Rightarrow> load_row" where
  "apply_references dto l =
     l\<lparr>l_customerPoNumber := set_null_field (rn_customerPoNumber dto) (l_customerPoNumber l),
       l_bolNumber := set_null_field (rn_bolNumber dto) (l_bolNumber l),
       l_pickupNumber := set_null_field (rn_pickupNumber dto) (l_pickupNumber l),
       l_customerReferenceNumber := set_null_field (rn_customerReferenceNumber dto) (l_customerReferenceNumber l)\<rparr>"

definition ev_references :: "uuid \<Rightarrow> uuid \<Rightarrow> json list \<Rightarrow> uuid \<Rightarrow> event_input" where
  "ev_references organizationId loadId fieldChanges actingUserId =
     human_event organizationId ''Reference Number Added/Updated'' ''Load'' loadId
       (Some (JObj [(''field_changes'', JArr fieldChanges)])) None None actingUserId"

definition updateReferenceNumbers :: "uuid \<Rightarrow> uuid \<Rightarrow> reference_numbers \<Rightarrow> uuid \<Rightarrow> load_row tx" where
  "updateReferenceNumbers organizationId loadId dto actingUserId =
     bind (require_load organizationId loadId) (\<lambda>existing.
     bind (update loads loads_update loadId (apply_references dto)) (\<lambda>updated.
     andThen (run_when (reference_changes existing dto \<noteq> [])
       (audit_record (ev_references organizationId loadId (reference_changes existing dto) actingUserId)))
     (ret updated)))"

definition ev_linked_return :: "uuid \<Rightarrow> uuid \<Rightarrow> uuid option \<Rightarrow> uuid \<Rightarrow> string \<Rightarrow> uuid \<Rightarrow> event_input" where
  "ev_linked_return organizationId loadId was originalId originalNumber actingUserId =
     human_event organizationId ''Load Linked as Return'' ''Load'' loadId
       (Some (JObj [(''returnForLoadId'', JOpt JId was)]))
       (Some (JObj [(''returnForLoadId'', JId originalId), (''originalLoadNumber'', JStr originalNumber)]))
       None actingUserId"

definition linkReturnLoad :: "uuid \<Rightarrow> uuid \<Rightarrow> uuid \<Rightarrow> uuid \<Rightarrow> load_row tx" where
  "linkReturnLoad organizationId loadId returnForLoadId actingUserId =
     andThen (throw_if (loadId = returnForLoadId)
       (BusinessRuleError ''A Load cannot be linked as a return for itself.''))
     (bind (require_load organizationId loadId) (\<lambda>existing.
      bind (findUnique loads returnForLoadId (\<lambda>l. l_organizationId l = organizationId)) (\<lambda>found.
      bind (require found (NotFoundError ''Original Load not found.'')) (\<lambda>original.
      bind (update loads loads_update loadId (\<lambda>l. l\<lparr>l_returnForLoadId := Some returnForLoadId\<rparr>)) (\<lambda>updated.
      andThen (audit_record (ev_linked_return organizationId loadId (l_returnForLoadId existing) returnForLoadId
                 (l_loadNumber original) actingUserId))
      (ret updated))))))"

fun charge_side_name :: "charge_side \<Rightarrow> string" where
  "charge_side_name CUSTOMER_SIDE = ''CUSTOMER''"
| "charge_side_name CARRIER_SIDE = ''CARRIER''"

definition charge_amount :: "add_charge_dto \<Rightarrow> cents" where
  "charge_amount dto = toFixed2 (js_mul (js_number (set_field (acd_quantity dto) 100)) (js_number (acd_unitRate dto)))"

definition new_charge :: "uuid \<Rightarrow> uuid \<Rightarrow> add_charge_dto \<Rightarrow> uuid \<Rightarrow> charge_row" where
  "new_charge organizationId loadId dto actingUserId =
     \<lparr>ch_organizationId = organizationId, ch_loadId = loadId, ch_side = acd_side dto,
      ch_chargeTypeId = acd_chargeTypeId dto, ch_description = acd_description dto,
      ch_quantity = set_field (acd_quantity dto) 100, ch_unitRate = acd_unitRate dto,
      ch_amount = charge_amount dto, ch_source = ADJUSTMENT, ch_notes = acd_notes dto,
      ch_createdByUserId = actingUserId\<rparr>"

definition ev_charge_added :: "uuid \<Rightarrow> uuid \<Rightarrow> string \<Rightarrow> add_charge_dto \<Rightarrow> uuid \<Rightarrow> event_input" where
  "ev_charge_added organizationId loadId code dto actingUserId =
     human_event organizationId ''Charge Line Item Added'' ''Load'' loadId None
       (Some (JObj [(''chargeTypeCode'', JStr code), (''side'', JStr (charge_side_name (acd_side dto))),
                    (''amount'', JMoney (charge_amount dto))])) None actingUserId"

definition addCharge :: "uuid \<Rightarrow> uuid \<Rightarrow> add_charge_dto \<Rightarrow> uuid \<Rightarrow> (uuid \<times> charge_row) tx" where
  "addCharge organizationId loadId dto actingUserId =
     andThen (require_load organizationId loadId)
     (bind (findUnique charge_types (acd_chargeTypeId dto)
              (\<lambda>c. ct_organizationId c = Some organizationId \<or> ct_organizationId c = None)) (\<lambda>found.
      bind (require found (NotFoundError ''Charge type not found.'')) (\<lambda>chargeType.
      bind (create charge_line_items_update (new_charge organizationId loadId dto actingUserId)) (\<lambda>chargeId.
      andThen (audit_record (ev_charge_added organizationId loadId (ct_code chargeType) dto actingUserId))
      (ret (chargeId, new_charge organizationId loadId dto actingUserId))))))"

end
