(* ===== verification/LoadLifecycle.thy ===== *)
theory LoadLifecycle
  imports Load
begin

text \<open>
  The rest of backend/src/modules/quote-load/services/load.service.ts (ready-to-invoice queue,
  closing checklist, close, cancel) and the proof-of-delivery milestone of
  load-pod-status.service.ts; then the lawfulness of every load operation.
\<close>

section \<open>Proof of delivery\<close>

definition pod_documents :: "uuid \<Rightarrow> (uuid \<Rightarrow> bool) \<Rightarrow> db \<Rightarrow> (uuid \<times> document_row) list" where
  "pod_documents organizationId stop_in s =
     tbl_where (\<lambda>_ d. doc_organizationId d = organizationId \<and> doc_entityType d = DE_STOP \<and>
        stop_in (doc_entityId d) \<and> doc_isCurrentVersion d \<and> doc_scanStatus d = SCAN_CLEAN \<and>
        document_code s d = Some ''POD'') (documents s)"

definition standard_deliveries :: "uuid \<Rightarrow> uuid \<Rightarrow> db \<Rightarrow> (uuid \<times> stop_row) list" where
  "standard_deliveries organizationId loadId s =
     tbl_where (\<lambda>_ p. s_loadId p = loadId \<and> s_organizationId p = organizationId \<and>
        s_stopType p = ST_DELIVERY \<and> s_stopPurpose p = STANDARD) (stops s)"

definition stops_with_pod :: "uuid \<Rightarrow> uuid \<Rightarrow> db \<Rightarrow> uuid list" where
  "stops_with_pod organizationId loadId s =
     js_set (map (\<lambda>(_, d). doc_entityId d)
       (pod_documents organizationId (\<lambda>i. i \<in> set (map fst (standard_deliveries organizationId loadId s))) s))"

definition pod_status_of :: "nat \<Rightarrow> nat \<Rightarrow> pod_status" where
  "pod_status_of withPod deliveries =
     (if withPod = 0 then POD_NOT_RECEIVED
      else if withPod < deliveries then POD_PARTIAL else POD_COMPLETE)"

definition derive_pod_status :: "uuid \<Rightarrow> uuid \<Rightarrow> db \<Rightarrow> pod_status" where
  "derive_pod_status organizationId loadId s =
     pod_status_of (length (stops_with_pod organizationId loadId s))
       (length (standard_deliveries organizationId loadId s))"

fun pod_status_name :: "pod_status \<Rightarrow> string" where
  "pod_status_name POD_NOT_RECEIVED = ''NOT_RECEIVED''"
| "pod_status_name POD_PARTIAL = ''PARTIAL''"
| "pod_status_name POD_COMPLETE = ''COMPLETE''"

definition ev_pod_milestone :: "uuid \<Rightarrow> uuid \<Rightarrow> pod_status \<Rightarrow> pod_status \<Rightarrow> event_input" where
  "ev_pod_milestone organizationId loadId was new =
     system_event organizationId ''POD Milestone Updated'' ''Load'' loadId
       (Some (JObj [(''podStatus'', JStr (pod_status_name was))]))
       (Some (JObj [(''podStatus'', JStr (pod_status_name new))]))"

definition recalculatePodStatus :: "uuid \<Rightarrow> uuid \<Rightarrow> pod_status tx" where
  "recalculatePodStatus organizationId loadId =
     bind (findUniqueOrThrow loads loadId (\<lambda>l. l_organizationId l = organizationId)) (\<lambda>load.
     bind (gets (derive_pod_status organizationId loadId)) (\<lambda>podStatus.
     if podStatus = l_podStatus load then ret podStatus
     else andThen (update loads loads_update loadId (\<lambda>l. l\<lparr>l_podStatus := podStatus\<rparr>))
          (andThen (audit_record (ev_pod_milestone organizationId loadId (l_podStatus load) podStatus))
          (ret podStatus))))"

section \<open>The ready-to-invoice queue\<close>

definition customer_charges_total :: "uuid \<Rightarrow> db \<Rightarrow> cents" where
  "customer_charges_total loadId s =
     toFixed2 (js_sum (map (\<lambda>(_, c). ch_amount c)
       (tbl_where (\<lambda>_ c. ch_loadId c = loadId \<and> ch_side c = CUSTOMER_SIDE) (charge_line_items s))))"

definition getReadyToInvoice :: "uuid \<Rightarrow> uuid option \<Rightarrow> (uuid \<times> load_row \<times> cents) list tx" where
  "getReadyToInvoice organizationId customerId =
     bind (findMany loads (\<lambda>_ l. l_organizationId l = organizationId \<and> l_status l \<in> {DELIVERED, CLOSED} \<and>
             \<not> l_invoiced l \<and> (case customerId of None \<Rightarrow> True | Some c \<Rightarrow> l_customerId l = c))) (\<lambda>found.
     gets (\<lambda>s. map (\<lambda>(i, l). (i, l, customer_charges_total i s)) (sort_key (\<lambda>(_, l). - l_createdAt l) found)))"

section \<open>Closing\<close>

datatype checklist_status = CLEAN | WARNING

record checklist_item =
  ck_item :: string
  ck_status :: checklist_status
  ck_detail :: string
  ck_remainingCarrierBalance :: "cents option"

definition checklist_entry :: "string \<Rightarrow> bool \<Rightarrow> string \<Rightarrow> string \<Rightarrow> checklist_item" where
  "checklist_entry item ok yes no =
     \<lparr>ck_item = item, ck_status = (if ok then CLEAN else WARNING), ck_detail = (if ok then yes else no),
      ck_remainingCarrierBalance = None\<rparr>"

definition remaining_carrier_balance :: "uuid \<Rightarrow> uuid \<Rightarrow> load_row \<Rightarrow> db \<Rightarrow> cents option" where
  "remaining_carrier_balance organizationId loadId load s =
     (case l_carrierRate load of None \<Rightarrow> None
      | Some carrierRate \<Rightarrow>
          let totalPaid = js_sum (map (\<lambda>(_, p). cp_amount p)
                (tbl_where (\<lambda>_ p. cp_organizationId p = organizationId \<and> cp_loadId p = loadId \<and>
                   cp_status p = CP_PAID) (carrier_payments s)));
              accessorials = js_sum (map (\<lambda>(_, c). ch_amount c)
                (tbl_where (\<lambda>_ c. ch_organizationId c = organizationId \<and> ch_loadId c = loadId \<and>
                   ch_side c = CARRIER_SIDE \<and> ch_source c = ADJUSTMENT) (charge_line_items s)))
          in Some (toFixed2 (js_sub (js_add (js_number carrierRate) accessorials) totalPaid)))"

definition evaluateClosingChecklist :: "uuid \<Rightarrow> uuid \<Rightarrow> load_row \<Rightarrow> db \<Rightarrow> checklist_item list" where
  "evaluateClosingChecklist organizationId loadId load s =
     (let rateConfirmation = tbl_first (\<lambda>_ d. doc_organizationId d = organizationId \<and>
            doc_entityType d = DE_LOAD \<and> doc_entityId d = loadId \<and> doc_isCurrentVersion d \<and>
            document_code s d = Some ''RATE_CONFIRMATION'') (documents s);
          invoiceLoad = tbl_first (\<lambda>_ il. il_organizationId il = organizationId \<and> il_loadId il = loadId)
            (invoice_loads s);
          carrierPayments = tbl_where (\<lambda>_ p. cp_organizationId p = organizationId \<and> cp_loadId p = loadId)
            (carrier_payments s);
          remaining = remaining_carrier_balance organizationId loadId load s
      in [checklist_entry ''Rate Confirmation'' (rateConfirmation \<noteq> None) ''On file'' ''Missing'',
          checklist_entry ''POD'' (l_podStatus load = POD_COMPLETE) ''Complete''
            (if l_podStatus load = POD_PARTIAL then ''Partial'' else ''Not Received''),
          checklist_entry ''Customer Invoice'' (invoiceLoad \<noteq> None) ''Exists'' ''Missing'',
          (checklist_entry ''Carrier Pay'' (carrierPayments \<noteq> []) ''Payment recorded'' ''No payment recorded'')
            \<lparr>ck_remainingCarrierBalance := (case remaining of
                Some r \<Rightarrow> if carrierPayments \<noteq> [] \<and> r > 0 then Some r else None | None \<Rightarrow> None)\<rparr>])"

definition json_checklist_item :: "checklist_item \<Rightarrow> json" where
  "json_checklist_item i =
     JObj ([(''item'', JStr (ck_item i)),
            (''status'', JStr (case ck_status i of CLEAN \<Rightarrow> ''CLEAN'' | WARNING \<Rightarrow> ''WARNING'')),
            (''detail'', JStr (ck_detail i))] @
           (case ck_remainingCarrierBalance i of None \<Rightarrow> []
            | Some r \<Rightarrow> [(''remainingCarrierBalance'', JMoney r)]))"

definition ev_load_closed :: "uuid \<Rightarrow> uuid \<Rightarrow> checklist_item list \<Rightarrow> uuid \<Rightarrow> event_input" where
  "ev_load_closed organizationId loadId checklist actingUserId =
     human_event organizationId ''Load Closed'' ''Load'' loadId None
       (Some (JObj [(''checklistSnapshot'', JArr (map json_checklist_item checklist))])) None actingUserId"

definition closeLoad :: "uuid \<Rightarrow> uuid \<Rightarrow> uuid \<Rightarrow> (load_row \<times> checklist_item list) tx" where
  "closeLoad organizationId loadId actingUserId =
     bind (require_load organizationId loadId) (\<lambda>load.
     andThen (throw_if (l_status load = CLOSED) (InvalidTransitionError ''This Load is already Closed.''))
     (bind (gets (evaluateClosingChecklist organizationId loadId load)) (\<lambda>checklistSnapshot.
      bind now (\<lambda>t.
      bind (update loads loads_update loadId (\<lambda>l. l\<lparr>l_status := CLOSED, l_closedAt := Some t,
              l_closedByUserId := Some actingUserId\<rparr>)) (\<lambda>updated.
      andThen (audit_record (ev_load_closed organizationId loadId checklistSnapshot actingUserId))
      (ret (updated, checklistSnapshot)))))))"

definition getClosingChecklist :: "uuid \<Rightarrow> uuid \<Rightarrow> checklist_item list tx" where
  "getClosingChecklist organizationId loadId =
     bind (require_load organizationId loadId) (\<lambda>load.
       gets (evaluateClosingChecklist organizationId loadId load))"

section \<open>Cancelling\<close>

definition CANCELLABLE_STATUSES :: "load_status list" where
  "CANCELLABLE_STATUSES = [BOOKED, CARRIER_SOURCING, CARRIER_ASSIGNED, RATE_CONFIRMATION]"

definition ADMIN_VISIBILITY_ROLES :: "role list" where
  "ADMIN_VISIBILITY_ROLES = [ADMIN]"

definition ev_load_cancelled :: "uuid \<Rightarrow> uuid \<Rightarrow> load_status \<Rightarrow> string \<Rightarrow> uuid \<Rightarrow> event_input" where
  "ev_load_cancelled organizationId loadId was reason actingUserId =
     human_event organizationId ''Load Cancelled'' ''Load'' loadId
       (Some (JObj [(''status'', JStr (load_status_name was))]))
       (Some (JObj [(''status'', JStr ''CANCELLED''), (''reason'', JStr reason)])) (Some reason) actingUserId"

definition cancelled_notification :: "uuid \<Rightarrow> string \<Rightarrow> string \<Rightarrow> notification_input" where
  "cancelled_notification loadId loadNumber reason =
     \<lparr>ni_type = LOAD_CANCELLED,
      ni_message = ''Load cancelled '' @ dash @ '' '' @ loadNumber @ [CHR 0x0A] @ reason,
      ni_relatedEntityType = Some ''Load'', ni_relatedEntityId = Some loadId\<rparr>"

definition cancelLoad :: "uuid \<Rightarrow> uuid \<Rightarrow> string \<Rightarrow> uuid \<Rightarrow> load_row tx" where
  "cancelLoad organizationId loadId reason actingUserId =
     bind (require_load organizationId loadId) (\<lambda>load.
     andThen (throw_if (l_status load \<notin> set CANCELLABLE_STATUSES)
       (InvalidTransitionError (if l_status load = CANCELLED then ''This Load has already been Cancelled.''
          else ''This Load can no longer be cancelled '' @ dash @ '' it has already been dispatched or completed.'')))
     (bind now (\<lambda>t.
      bind (update loads loads_update loadId (\<lambda>l. l\<lparr>l_status := CANCELLED, l_cancelledAt := Some t,
              l_cancelledByUserId := Some actingUserId\<rparr>)) (\<lambda>updated.
      andThen (audit_record (ev_load_cancelled organizationId loadId (l_status load) reason actingUserId))
      (andThen (case l_assignedDispatcherId load of None \<Rightarrow> ret ()
         | Some dispatcherId \<Rightarrow>
             bind (findFirst notifications (\<lambda>_ n. n_organizationId n = organizationId \<and>
                     n_type n = LOAD_CANCELLED \<and> n_relatedEntityType n = Some ''Load'' \<and>
                     n_relatedEntityId n = Some loadId)) (\<lambda>existingNotification.
             run_when (existingNotification = None)
               (createForUserAndRoles organizationId dispatcherId ADMIN_VISIBILITY_ROLES
                  (cancelled_notification loadId (l_loadNumber updated) reason))))
      (ret updated))))))"

section \<open>Every load operation is lawful\<close>

lemma require_load_iff [tx_iff]:
  "require_load org i s = Inr z \<longleftrightarrow>
     (\<exists>l. tbl_find i (loads s) = Some l \<and> l_organizationId l = org \<and> z = (l, s))"
  by (auto simp: require_load_def tx_iff split: option.splits if_splits)

lemmas load_rows = new_load_def new_stop_def linehaul_charge_def apply_references_def new_charge_def

lemmas load_events = ev_inactive_override_def ev_load_booked_def ev_references_def ev_linked_return_def
  ev_charge_added_def ev_pod_milestone_def ev_load_closed_def ev_load_cancelled_def

lemma confined_booking:
  "keeps (confined org s0) (assertCustomerAllowsBooking org c cu ok u)"
  "keeps (confined org s0) (createFromBooking org bp u)"
  unfolding assertCustomerAllowsBooking_def createFromBooking_def createOriginalCustomerLinehaulCharge_def
    findLinehaulType_def tx_assoc
  by ((rule confined_getNextNumber confined_rules entitlement_keeps confined.R_refl | assumption
       | (simp add: load_rows load_events; fail))+)

lemma confined_load:
  "keeps (confined org s0) (createDirect_tx org cld u)"
  "keeps (confined org s0) (updateReferenceNumbers org l rn u)"
  "keeps (confined org s0) (linkReturnLoad org l l' u)"
  "keeps (confined org s0) (addCharge org l acd u)"
  "keeps (confined org s0) (recalculatePodStatus org l)"
  "keeps (confined org s0) (closeLoad org l u)"
  "keeps (confined org s0) (cancelLoad org l reason u)"
  unfolding createDirect_tx_def updateReferenceNumbers_def linkReturnLoad_def addCharge_def
    recalculatePodStatus_def closeLoad_def cancelLoad_def require_load_def require_customer_def tx_assoc
  by ((rule confined_booking confined_rating confined_notification confined_rules | assumption
       | (simp add: load_rows load_events; fail))+)

end
