(* ===== verification/Quote.thy ===== *)
theory Quote
  imports LoadLifecycle
begin

text \<open>
  Quotes: backend/src/modules/quote-load/services/quote.service.ts (creation, loss, conversion to
  a load).
\<close>

record quote_stop_input =
  qsi_sequence :: int
  qsi_stopType :: stop_type
  qsi_addressCity :: string
  qsi_addressState :: string
  qsi_addressZip :: string
  qsi_appointmentNotes :: "string option"

record create_quote_dto =
  cqd_customerId :: uuid
  cqd_stops :: "quote_stop_input list"
  cqd_equipmentType :: equipment_type
  cqd_customerRate :: cents
  cqd_expirationDate :: "instant option"

definition defaultExpirationDate :: "instant \<Rightarrow> instant" where
  "defaultExpirationDate t = t + 7 * day_ms"

definition firstQuotePickup :: "quote_stop_input list \<Rightarrow> quote_stop_input option" where
  "firstQuotePickup sts = (case sort_key qsi_sequence (filter (\<lambda>s. qsi_stopType s = ST_PICKUP) sts) of
     [] \<Rightarrow> None | x # _ \<Rightarrow> Some x)"

definition lastQuoteDelivery :: "quote_stop_input list \<Rightarrow> quote_stop_input option" where
  "lastQuoteDelivery sts = (case sort_key (\<lambda>s. - qsi_sequence s) (filter (\<lambda>s. qsi_stopType s = ST_DELIVERY) sts) of
     [] \<Rightarrow> None | x # _ \<Rightarrow> Some x)"

definition new_quote ::
  "uuid \<Rightarrow> string \<Rightarrow> create_quote_dto \<Rightarrow> uuid option \<times> rate_source \<Rightarrow> uuid \<Rightarrow> instant \<Rightarrow> quote_row" where
  "new_quote organizationId quoteNumber dto rate actingUserId t =
     \<lparr>q_organizationId = organizationId, q_quoteNumber = quoteNumber, q_customerId = cqd_customerId dto,
      q_equipmentType = cqd_equipmentType dto, q_customerRate = cqd_customerRate dto,
      q_rateSource = snd rate, q_rateAgreementId = fst rate, q_status = QS_OPEN, q_lossReason = None,
      q_expirationDate = start_of_day (case cqd_expirationDate dto of
         Some d \<Rightarrow> d | None \<Rightarrow> defaultExpirationDate t),
      q_resultingLoadId = None, q_createdByUserId = actingUserId, q_createdAt = t\<rparr>"

definition new_quote_stop :: "uuid \<Rightarrow> uuid \<Rightarrow> quote_stop_input \<Rightarrow> quote_stop_row" where
  "new_quote_stop organizationId quoteId i =
     \<lparr>qs_organizationId = organizationId, qs_quoteId = quoteId, qs_sequence = qsi_sequence i,
      qs_stopType = qsi_stopType i, qs_addressCity = qsi_addressCity i,
      qs_addressState = qsi_addressState i, qs_addressZip = qsi_addressZip i,
      qs_appointmentNotes = qsi_appointmentNotes i\<rparr>"

definition ev_quote_created :: "uuid \<Rightarrow> uuid \<Rightarrow> quote_row \<Rightarrow> uuid \<Rightarrow> event_input" where
  "ev_quote_created organizationId quoteId q actingUserId =
     human_event organizationId ''Quote Created'' ''Quote'' quoteId None
       (Some (JObj [(''quoteNumber'', JStr (q_quoteNumber q)), (''customerId'', JId (q_customerId q)),
          (''customerRate'', JMoney (q_customerRate q)),
          (''rateSource'', JStr (rate_source_name (q_rateSource q))),
          (''expirationDate'', JTime (q_expirationDate q))])) None actingUserId"

definition quote_create :: "uuid \<Rightarrow> create_quote_dto \<Rightarrow> uuid \<Rightarrow> (uuid \<times> quote_row) tx" where
  "quote_create organizationId dto actingUserId =
     bind (require (firstQuotePickup (cqd_stops dto))
             (BusinessRuleError ''At least one pickup stop and one delivery stop are required.'')) (\<lambda>pickup.
     bind (require (lastQuoteDelivery (cqd_stops dto))
             (BusinessRuleError ''At least one pickup stop and one delivery stop are required.'')) (\<lambda>delivery.
     bind (require_customer organizationId (cqd_customerId dto)) (\<lambda>customer.
     andThen (throw_if (cu_status customer = CU_BLOCKED)
       (BusinessRuleError (''Customer is Blocked '' @ dash @ '' no new Quotes can be created.'')))
     (bind (resolveRate organizationId (cqd_customerId dto) (qsi_addressCity pickup) (qsi_addressState pickup)
              (qsi_addressCity delivery) (qsi_addressState delivery) (cqd_equipmentType dto)
              (cqd_customerRate dto)) (\<lambda>rate.
      andThen (assertCanCreateOperationalRecord organizationId)
      (bind (getNextNumber organizationId SEQ_QUOTE) (\<lambda>nextNumber.
       bind now (\<lambda>t.
       let quote = new_quote organizationId (format SEQ_QUOTE nextNumber) dto rate actingUserId t in
       bind (create quotes_update quote) (\<lambda>quoteId.
       andThen (createMany quote_stops_update (map (new_quote_stop organizationId quoteId) (cqd_stops dto)))
       (andThen (audit_record (ev_quote_created organizationId quoteId quote actingUserId))
       (ret (quoteId, quote))))))))))))"

definition require_quote :: "uuid \<Rightarrow> uuid \<Rightarrow> quote_row tx" where
  "require_quote organizationId quoteId =
     bind (findUnique quotes quoteId (\<lambda>q. q_organizationId q = organizationId)) (\<lambda>quote.
       require quote (NotFoundError ''Quote not found.''))"

definition ev_quote_lost :: "uuid \<Rightarrow> uuid \<Rightarrow> string \<Rightarrow> uuid \<Rightarrow> event_input" where
  "ev_quote_lost organizationId quoteId reason actingUserId =
     human_event organizationId ''Quote Marked Lost'' ''Quote'' quoteId
       (Some (JObj [(''status'', JStr ''OPEN'')]))
       (Some (JObj [(''status'', JStr ''LOST''), (''lossReason'', JStr reason)])) (Some reason) actingUserId"

definition markLost :: "uuid \<Rightarrow> uuid \<Rightarrow> string \<Rightarrow> uuid \<Rightarrow> quote_row tx" where
  "markLost organizationId quoteId reason actingUserId =
     bind (require_quote organizationId quoteId) (\<lambda>quote.
     andThen (throw_if (q_status quote \<noteq> QS_OPEN)
       (InvalidTransitionError (''Only an OPEN Quote can be marked Lost '' @ dash @
          '' WON and LOST are both permanently terminal.'')))
     (bind (update quotes quotes_update quoteId (\<lambda>q. q\<lparr>q_status := QS_LOST, q_lossReason := Some reason\<rparr>)) (\<lambda>updated.
      andThen (audit_record (ev_quote_lost organizationId quoteId reason actingUserId))
      (ret updated))))"

definition load_stop_of_quote_stop :: "quote_stop_row \<Rightarrow> load_stop_input" where
  "load_stop_of_quote_stop p =
     \<lparr>lsi_sequence = qs_sequence p, lsi_stopType = qs_stopType p, lsi_customerLocationId = None,
      lsi_companyName = None, lsi_addressLine1 = None, lsi_city = qs_addressCity p,
      lsi_state = qs_addressState p, lsi_zip = qs_addressZip p, lsi_appointmentDatetime = None,
      lsi_contactName = None, lsi_contactPhone = None, lsi_notes = qs_appointmentNotes p\<rparr>"

definition no_references :: reference_numbers where
  "no_references = \<lparr>rn_customerPoNumber = None, rn_bolNumber = None, rn_pickupNumber = None,
     rn_customerReferenceNumber = None\<rparr>"

definition conversion_params :: "uuid \<Rightarrow> quote_row \<Rightarrow> (uuid \<times> quote_stop_row) list \<Rightarrow> cents \<Rightarrow> booking_params" where
  "conversion_params quoteId quote sts confirmedCustomerRate =
     \<lparr>bp_customerId = q_customerId quote, bp_bookingSource = BS_QUOTE, bp_quoteId = Some quoteId,
      bp_equipmentType = q_equipmentType quote, bp_customerRate = confirmedCustomerRate,
      bp_rateSource = q_rateSource quote, bp_rateAgreementId = q_rateAgreementId quote,
      bp_stops = map (\<lambda>(_, p). load_stop_of_quote_stop p) sts, bp_references = no_references,
      bp_auditAction = ''Load Booked From Quote''\<rparr>"

definition ev_quote_won :: "uuid \<Rightarrow> uuid \<Rightarrow> uuid \<Rightarrow> event_input" where
  "ev_quote_won organizationId quoteId loadId =
     system_event organizationId (''Quote Won '' @ dash @ '' Converted to Load'') ''Quote'' quoteId
       (Some (JObj [(''status'', JStr ''OPEN'')]))
       (Some (JObj [(''status'', JStr ''WON''), (''resultingLoadId'', JId loadId)]))"

definition ev_rate_changed :: "uuid \<Rightarrow> uuid \<Rightarrow> cents \<Rightarrow> cents \<Rightarrow> uuid \<Rightarrow> event_input" where
  "ev_rate_changed organizationId quoteId was confirmed actingUserId =
     human_event organizationId ''Rate Changed During Conversion'' ''Quote'' quoteId
       (Some (JObj [(''customerRate'', JMoney was)])) (Some (JObj [(''customerRate'', JMoney confirmed)]))
       None actingUserId"

definition convert_tx :: "uuid \<Rightarrow> uuid \<Rightarrow> cents \<Rightarrow> bool \<Rightarrow> uuid \<Rightarrow> booked tx" where
  "convert_tx organizationId quoteId confirmedCustomerRate confirmInactiveOverride actingUserId =
     bind (require_quote organizationId quoteId) (\<lambda>quote.
     andThen (throw_if (q_status quote \<noteq> QS_OPEN)
       (InvalidTransitionError (''Only an OPEN Quote can be converted to a Booked Load '' @ dash @
          '' an already Won or Lost Quote cannot be reopened or reconverted.'')))
     (bind (require_customer organizationId (q_customerId quote)) (\<lambda>customer.
      andThen (assertCustomerAllowsBooking organizationId (q_customerId quote) customer confirmInactiveOverride actingUserId)
      (bind (findMany quote_stops (\<lambda>_ p. qs_quoteId p = quoteId)) (\<lambda>sts.
       bind (createFromBooking organizationId (conversion_params quoteId quote sts confirmedCustomerRate) actingUserId)
         (\<lambda>booked.
       andThen (update quotes quotes_update quoteId
         (\<lambda>q. q\<lparr>q_status := QS_WON, q_resultingLoadId := Some (fst booked)\<rparr>))
       (andThen (audit_record (ev_quote_won organizationId quoteId (fst booked)))
       (andThen (run_when (q_customerRate quote \<noteq> confirmedCustomerRate)
         (audit_record (ev_rate_changed organizationId quoteId (q_customerRate quote) confirmedCustomerRate actingUserId)))
       (ret booked)))))))))"

definition convert :: "uuid \<Rightarrow> uuid \<Rightarrow> cents \<Rightarrow> bool \<Rightarrow> uuid \<Rightarrow> world \<Rightarrow> booked outcome" where
  "convert organizationId quoteId confirmedCustomerRate confirmInactiveOverride actingUserId w =
     then_enqueue (withTenantTransaction
        (convert_tx organizationId quoteId confirmedCustomerRate confirmInactiveOverride actingUserId) w)
       (enqueueStopLocationResolution organizationId)"

section \<open>Every quote operation is lawful\<close>

lemma require_quote_iff [tx_iff]:
  "require_quote org i s = Inr z \<longleftrightarrow>
     (\<exists>q. tbl_find i (quotes s) = Some q \<and> q_organizationId q = org \<and> z = (q, s))"
  by (auto simp: require_quote_def tx_iff split: option.splits if_splits)

lemma confined_quote:
  "keeps (confined org s0) (quote_create org cqd u)"
  "keeps (confined org s0) (markLost org q reason u)"
  "keeps (confined org s0) (convert_tx org q rate ok u)"
  unfolding quote_create_def markLost_def convert_tx_def require_quote_def require_customer_def tx_assoc
  by ((rule confined_booking confined_rating confined_getNextNumber entitlement_keeps confined.R_refl
        confined_rules | assumption
       | (simp add: new_quote_def new_quote_stop_def ev_quote_created_def ev_quote_lost_def ev_quote_won_def
            ev_rate_changed_def; fail))+)

end
