(* ===== verification/Sourcing.thy ===== *)
theory Sourcing
  imports Quote
begin

text \<open>
  Carrier sourcing: backend/src/modules/quote-load/services/carrier-sourcing.service.ts (begin
  sourcing, attempts, assignment behind the eligibility gate, rejection, rate confirmation). The
  driver dispatch email of that file is not modelled here.
\<close>

definition CARRIER_ASSIGNED_NOTIFICATION_ROLES :: "role list" where
  "CARRIER_ASSIGNED_NOTIFICATION_ROLES = [ADMIN, OPERATIONS_MANAGER, DISPATCHER]"

section \<open>Sourcing and attempts\<close>

definition ev_sourcing_begun :: "uuid \<Rightarrow> uuid \<Rightarrow> uuid \<Rightarrow> event_input" where
  "ev_sourcing_begun organizationId loadId actingUserId =
     human_event organizationId ''Load Entered Carrier Sourcing'' ''Load'' loadId
       (Some (JObj [(''status'', JStr ''BOOKED'')])) (Some (JObj [(''status'', JStr ''CARRIER_SOURCING'')]))
       None actingUserId"

definition beginSourcing :: "uuid \<Rightarrow> uuid \<Rightarrow> uuid \<Rightarrow> load_row tx" where
  "beginSourcing organizationId loadId actingUserId =
     bind (require_load organizationId loadId) (\<lambda>load.
     andThen (throw_if (l_status load \<noteq> BOOKED)
       (InvalidTransitionError ''Only a BOOKED load can enter Carrier Sourcing.''))
     (bind (update loads loads_update loadId (\<lambda>l. l\<lparr>l_status := CARRIER_SOURCING\<rparr>)) (\<lambda>updated.
      andThen (audit_record (ev_sourcing_begun organizationId loadId actingUserId))
      (ret updated))))"

fun sourcing_outcome_name :: "sourcing_outcome \<Rightarrow> string" where
  "sourcing_outcome_name SO_ASSIGNED = ''ASSIGNED''"
| "sourcing_outcome_name SO_DECLINED = ''DECLINED''"
| "sourcing_outcome_name SO_NO_RESPONSE = ''NO_RESPONSE''"
| "sourcing_outcome_name SO_QUOTED = ''QUOTED''"
| "sourcing_outcome_name SO_REJECTED_AFTER_ASSIGNMENT = ''REJECTED_AFTER_ASSIGNMENT''"

definition new_attempt ::
  "uuid \<Rightarrow> uuid \<Rightarrow> uuid \<Rightarrow> cents option \<Rightarrow> sourcing_outcome \<Rightarrow> uuid \<Rightarrow> instant \<Rightarrow> sourcing_attempt_row" where
  "new_attempt organizationId loadId carrierId carrierRate outcome actingUserId t =
     \<lparr>sa_organizationId = organizationId, sa_loadId = loadId, sa_carrierId = carrierId,
      sa_carrierRate = carrierRate, sa_outcome = outcome, sa_rejectionReason = None,
      sa_loggedByUserId = actingUserId, sa_loggedAt = t\<rparr>"

definition ev_attempt_logged :: "uuid \<Rightarrow> uuid \<Rightarrow> uuid \<Rightarrow> sourcing_outcome \<Rightarrow> cents option \<Rightarrow> uuid \<Rightarrow> event_input" where
  "ev_attempt_logged organizationId loadId carrierId outcome carrierRate actingUserId =
     human_event organizationId ''Sourcing Attempt Logged'' ''Load'' loadId None
       (Some (JObj [(''carrierId'', JId carrierId), (''outcome'', JStr (sourcing_outcome_name outcome)),
                    (''carrierRate'', JOpt JMoney carrierRate)])) None actingUserId"

definition logSourcingAttempt ::
  "uuid \<Rightarrow> uuid \<Rightarrow> uuid \<Rightarrow> cents option \<Rightarrow> sourcing_outcome \<Rightarrow> uuid \<Rightarrow> (uuid \<times> sourcing_attempt_row) tx" where
  "logSourcingAttempt organizationId loadId carrierId carrierRate outcome actingUserId =
     andThen (require_load organizationId loadId)
     (andThen (require_carrier organizationId carrierId)
     (bind now (\<lambda>t.
      bind (create sourcing_attempts_update
              (new_attempt organizationId loadId carrierId carrierRate outcome actingUserId t)) (\<lambda>attemptId.
      andThen (audit_record (ev_attempt_logged organizationId loadId carrierId outcome carrierRate actingUserId))
      (ret (attemptId, new_attempt organizationId loadId carrierId carrierRate outcome actingUserId t))))))"

section \<open>The carrier's linehaul charge\<close>

definition createOriginalCarrierLinehaulCharge :: "uuid \<Rightarrow> uuid \<Rightarrow> cents \<Rightarrow> uuid \<Rightarrow> unit tx" where
  "createOriginalCarrierLinehaulCharge organizationId loadId carrierRate actingUserId =
     bind (findLinehaulType organizationId) (\<lambda>linehaulType.
       case linehaulType of None \<Rightarrow> ret ()
       | Some (typeId, _) \<Rightarrow>
           andThen (create charge_line_items_update
             (linehaul_charge organizationId loadId CARRIER_SIDE typeId carrierRate actingUserId)) (ret ()))"

definition original_carrier_linehaul :: "uuid \<Rightarrow> uuid \<Rightarrow> uuid \<Rightarrow> charge_row \<Rightarrow> bool" where
  "original_carrier_linehaul organizationId loadId typeId c \<longleftrightarrow>
     ch_organizationId c = organizationId \<and> ch_loadId c = loadId \<and> ch_side c = CARRIER_SIDE \<and>
     ch_source c = ORIGINAL \<and> ch_chargeTypeId c = typeId"

definition removeOriginalCarrierLinehaulCharge :: "uuid \<Rightarrow> uuid \<Rightarrow> unit tx" where
  "removeOriginalCarrierLinehaulCharge organizationId loadId =
     bind (findLinehaulType organizationId) (\<lambda>linehaulType.
       case linehaulType of None \<Rightarrow> ret ()
       | Some (typeId, _) \<Rightarrow>
           deleteMany charge_line_items_update (\<lambda>_. original_carrier_linehaul organizationId loadId typeId))"

section \<open>Assignment and rejection\<close>

text \<open>An amount as the text of a decimal with two places.\<close>

definition show_money :: "cents \<Rightarrow> string" where
  "show_money c = (if c < 0 then ''-'' else []) @ show_nat (nat \<bar>c\<bar> div 100) @ ''.'' @
     padStart 2 (CHR ''0'') (show_nat (nat \<bar>c\<bar> mod 100))"

definition ev_assignment_blocked :: "uuid \<Rightarrow> uuid \<Rightarrow> uuid \<Rightarrow> string list \<Rightarrow> event_input" where
  "ev_assignment_blocked organizationId loadId carrierId reasons =
     system_event organizationId (''Carrier Assignment Blocked '' @ dash @ '' Ineligible'') ''Load'' loadId None
       (Some (JObj [(''carrierId'', JId carrierId), (''reasons'', JArr (map JStr reasons))]))"

definition ev_carrier_assigned :: "uuid \<Rightarrow> uuid \<Rightarrow> uuid \<Rightarrow> cents \<Rightarrow> uuid \<Rightarrow> event_input" where
  "ev_carrier_assigned organizationId loadId carrierId carrierRate actingUserId =
     human_event organizationId ''Carrier Assigned'' ''Load'' loadId None
       (Some (JObj [(''carrierId'', JId carrierId), (''carrierRate'', JMoney carrierRate)])) None actingUserId"

definition assigned_notification :: "uuid \<Rightarrow> string \<Rightarrow> string \<Rightarrow> cents \<Rightarrow> notification_input" where
  "assigned_notification loadId loadNumber legalName carrierRate =
     \<lparr>ni_type = NT_CARRIER_ASSIGNED,
      ni_message = ''Carrier assigned '' @ dash @ '' '' @ loadNumber @ [CHR 0x0A] @ legalName @ '' at $'' @
        show_money carrierRate,
      ni_relatedEntityType = Some ''Load'', ni_relatedEntityId = Some loadId\<rparr>"

definition notifyCarrierAssigned :: "uuid \<Rightarrow> uuid \<Rightarrow> string \<Rightarrow> string \<Rightarrow> cents \<Rightarrow> unit tx" where
  "notifyCarrierAssigned organizationId loadId loadNumber legalName carrierRate =
     bind (findFirst notifications (\<lambda>_ n. n_organizationId n = organizationId \<and>
             n_type n = NT_CARRIER_ASSIGNED \<and> n_relatedEntityType n = Some ''Load'' \<and>
             n_relatedEntityId n = Some loadId)) (\<lambda>existingNotification.
     run_when (existingNotification = None)
       (createForRoles organizationId CARRIER_ASSIGNED_NOTIFICATION_ROLES
          (assigned_notification loadId loadNumber legalName carrierRate)))"

definition assignCarrier :: "uuid \<Rightarrow> uuid \<Rightarrow> uuid \<Rightarrow> cents \<Rightarrow> uuid \<Rightarrow> load_row tx" where
  "assignCarrier organizationId loadId carrierId carrierRate actingUserId =
     bind (require_load organizationId loadId) (\<lambda>load.
     andThen (throw_if (l_status load \<noteq> CARRIER_SOURCING)
       (InvalidTransitionError ''A carrier can only be assigned to a load that is currently in Carrier Sourcing.''))
     (bind (require_carrier organizationId carrierId) (\<lambda>carrier.
      bind (recalculate organizationId carrierId) (\<lambda>eligibility.
      andThen (run_when (\<not> fst eligibility)
        (andThen (audit_record (ev_assignment_blocked organizationId loadId carrierId (snd eligibility)))
         (throw (EligibilityError ''This carrier is not eligible for assignment.'' (snd eligibility)))))
      (bind now (\<lambda>t.
       andThen (create sourcing_attempts_update
         (new_attempt organizationId loadId carrierId (Some carrierRate) SO_ASSIGNED actingUserId t))
       (bind (update loads loads_update loadId (\<lambda>l. l\<lparr>l_status := CARRIER_ASSIGNED,
                l_assignedCarrierId := Some carrierId, l_carrierRate := Some carrierRate\<rparr>)) (\<lambda>updated.
        andThen (createOriginalCarrierLinehaulCharge organizationId loadId carrierRate actingUserId)
        (andThen (audit_record (ev_carrier_assigned organizationId loadId carrierId carrierRate actingUserId))
        (andThen (notifyCarrierAssigned organizationId loadId (l_loadNumber updated) (c_legalName carrier) carrierRate)
        (ret updated)))))))))))"

definition ev_carrier_rejected :: "uuid \<Rightarrow> uuid \<Rightarrow> load_row \<Rightarrow> string \<Rightarrow> uuid \<Rightarrow> event_input" where
  "ev_carrier_rejected organizationId loadId was reason actingUserId =
     human_event organizationId (''Carrier Rejected '' @ dash @ '' Returned to Sourcing'') ''Load'' loadId
       (Some (JObj [(''carrierId'', JOpt JId (l_assignedCarrierId was)),
                    (''carrierRate'', JOpt JMoney (l_carrierRate was))]))
       (Some (JObj [(''reason'', JStr reason)])) (Some reason) actingUserId"

text \<open>The newest ASSIGNED attempt; an undefined carrier filters nothing.\<close>

definition latest_assigned_attempt :: "uuid \<Rightarrow> uuid \<Rightarrow> uuid option \<Rightarrow> (uuid \<times> sourcing_attempt_row) option tx" where
  "latest_assigned_attempt organizationId loadId carrierId =
     bind (findMany sourcing_attempts (\<lambda>_ a. sa_organizationId a = organizationId \<and> sa_loadId a = loadId \<and>
             (case carrierId of None \<Rightarrow> True | Some c \<Rightarrow> sa_carrierId a = c) \<and> sa_outcome a = SO_ASSIGNED))
       (\<lambda>rows. ret (List.find (\<lambda>_. True) (sort_key (\<lambda>(_, a). - sa_loggedAt a) rows)))"

definition carrierRejected :: "uuid \<Rightarrow> uuid \<Rightarrow> string \<Rightarrow> uuid \<Rightarrow> load_row tx" where
  "carrierRejected organizationId loadId reason actingUserId =
     bind (require_load organizationId loadId) (\<lambda>load.
     andThen (throw_if (l_status load \<noteq> CARRIER_ASSIGNED)
       (InvalidTransitionError ''Only a load with an active Carrier Assignment can record a Carrier Rejection.''))
     (bind (latest_assigned_attempt organizationId loadId (l_assignedCarrierId load)) (\<lambda>attempt.
      andThen (case attempt of None \<Rightarrow> ret ()
         | Some (attemptId, _) \<Rightarrow>
             andThen (update sourcing_attempts sourcing_attempts_update attemptId
               (\<lambda>a. a\<lparr>sa_outcome := SO_REJECTED_AFTER_ASSIGNMENT, sa_rejectionReason := Some reason\<rparr>)) (ret ()))
      (bind (update loads loads_update loadId (\<lambda>l. l\<lparr>l_status := CARRIER_SOURCING,
               l_assignedCarrierId := None, l_carrierRate := None\<rparr>)) (\<lambda>updated.
       andThen (removeOriginalCarrierLinehaulCharge organizationId loadId)
       (andThen (audit_record (ev_carrier_rejected organizationId loadId load reason actingUserId))
       (ret updated)))))))"

section \<open>Rate confirmation\<close>

definition buildDocumentKey :: "uuid \<Rightarrow> uuid \<Rightarrow> string" where
  "buildDocumentKey organizationId documentId =
     ''org_'' @ show_nat organizationId @ ''/documents/'' @ show_nat documentId"

definition rate_confirmation_document ::
  "uuid \<Rightarrow> uuid \<Rightarrow> uuid \<Rightarrow> uuid \<Rightarrow> string \<Rightarrow> uuid \<Rightarrow> instant \<Rightarrow> document_row" where
  "rate_confirmation_document organizationId familyId loadId typeId loadNumber actingUserId t =
     \<lparr>doc_organizationId = organizationId, doc_documentFamilyId = familyId, doc_entityType = DE_LOAD,
      doc_entityId = loadId, doc_documentTypeId = typeId, doc_customTypeLabel = None,
      doc_fileStorageKey = [], doc_fileName = ''RateConfirmation-'' @ loadNumber @ ''.pdf'',
      doc_fileSizeBytes = 0, doc_mimeType = ''application/pdf'', doc_versionNumber = 1,
      doc_isCurrentVersion = True, doc_scanStatus = SCAN_CLEAN, doc_scannedAt = Some t,
      doc_scanProvider = Some ''system-generated'', doc_reviewStatus = Some RV_NOT_APPLICABLE,
      doc_generationStatus = Some GEN_PENDING, doc_reviewedByUserId = None, doc_reviewedAt = None,
      doc_rejectionReason = None, doc_expirationDate = None, doc_uploadedByUserId = actingUserId,
      doc_uploadedAt = t\<rparr>"

definition ev_rate_confirmation_generated :: "uuid \<Rightarrow> uuid \<Rightarrow> uuid \<Rightarrow> uuid \<Rightarrow> event_input" where
  "ev_rate_confirmation_generated organizationId loadId documentId actingUserId =
     human_event organizationId ''Rate Confirmation Generated'' ''Load'' loadId None
       (Some (JObj [(''documentId'', JId documentId)])) None actingUserId"

definition ev_rate_confirmation_sent :: "uuid \<Rightarrow> uuid \<Rightarrow> uuid \<Rightarrow> string \<Rightarrow> uuid \<Rightarrow> event_input" where
  "ev_rate_confirmation_sent organizationId loadId documentId sentTo actingUserId =
     human_event organizationId ''Rate Confirmation Sent'' ''Load'' loadId None
       (Some (JObj [(''documentId'', JId documentId), (''sentTo'', JStr sentTo)])) None actingUserId"

definition findDocumentType :: "uuid \<Rightarrow> string \<Rightarrow> (uuid \<times> document_type_row) option tx" where
  "findDocumentType organizationId code =
     findFirst document_types (\<lambda>_ d. dt_code d = code \<and>
       (dt_organizationId d = Some organizationId \<or> dt_organizationId d = None))"

definition generateRateConfirmation_tx :: "uuid \<Rightarrow> uuid \<Rightarrow> uuid \<Rightarrow> (load_row \<times> uuid \<times> string option) tx" where
  "generateRateConfirmation_tx organizationId loadId actingUserId =
     bind (require_load organizationId loadId) (\<lambda>existing.
     andThen (throw_if (l_status existing \<noteq> CARRIER_ASSIGNED)
       (InvalidTransitionError ''A Rate Confirmation can only be generated for a load with an active Carrier Assignment.''))
     (andThen (throw_if (l_assignedCarrierId existing = None \<or> l_carrierRate existing = None)
       (BusinessRuleError ''Carrier and carrier rate must be on record.''))
     (bind (findDocumentType organizationId ''RATE_CONFIRMATION'') (\<lambda>found.
      bind (require found (NotFoundError ''Rate Confirmation document type is not configured.'')) (\<lambda>documentType.
      bind now (\<lambda>t.
      bind freshId (\<lambda>familyId.
      bind (create documents_update (rate_confirmation_document organizationId familyId loadId (fst documentType)
              (l_loadNumber existing) actingUserId t)) (\<lambda>documentId.
      andThen (update documents documents_update documentId
        (\<lambda>d. d\<lparr>doc_fileStorageKey := buildDocumentKey organizationId documentId\<rparr>))
      (bind (update loads loads_update loadId (\<lambda>l. l\<lparr>l_status := RATE_CONFIRMATION\<rparr>)) (\<lambda>updatedLoad.
       andThen (audit_record (ev_rate_confirmation_generated organizationId loadId documentId actingUserId))
       (bind (gets (\<lambda>s. case l_assignedCarrierId existing of None \<Rightarrow> None
                | Some c \<Rightarrow> map_option c_primaryContactEmail (tbl_find c (carriers s)))) (\<lambda>carrierEmail.
        ret (updatedLoad, documentId, carrierEmail)))))))))))))"

definition rate_confirmation_job :: "uuid \<Rightarrow> uuid \<Rightarrow> uuid \<Rightarrow> job" where
  "rate_confirmation_job organizationId loadId documentId =
     \<lparr>j_queue = ''rate-confirmation-pdf'', j_name = ''generate'',
      j_data = JObj [(''documentId'', JId documentId), (''organizationId'', JId organizationId),
                     (''loadId'', JId loadId)], j_jobId = None\<rparr>"

definition email_job :: "uuid \<Rightarrow> uuid \<Rightarrow> string \<Rightarrow> string \<Rightarrow> string \<Rightarrow> string \<Rightarrow> job" where
  "email_job organizationId entityId entityType sendTo subject body =
     \<lparr>j_queue = ''email-send'', j_name = ''send'',
      j_data = JObj [(''to'', JStr sendTo), (''subject'', JStr subject), (''body'', JStr body),
        (''organizationId'', JId organizationId), (''entityType'', JStr entityType),
        (''entityId'', JId entityId)], j_jobId = None\<rparr>"

definition rate_confirmation_email :: "uuid \<Rightarrow> uuid \<Rightarrow> string \<Rightarrow> string \<Rightarrow> job" where
  "rate_confirmation_email organizationId loadId loadNumber sendTo =
     email_job organizationId loadId ''Load'' sendTo
       (''Rate Confirmation '' @ dash @ '' Load '' @ loadNumber)
       (''A Rate Confirmation for Load '' @ loadNumber @ '' has been generated and is attached.'')"

definition generateRateConfirmation :: "uuid \<Rightarrow> uuid \<Rightarrow> bool \<Rightarrow> uuid \<Rightarrow> world \<Rightarrow> load_row outcome" where
  "generateRateConfirmation organizationId loadId sendEmail actingUserId w =
     (case then_enqueue (withTenantTransaction (generateRateConfirmation_tx organizationId loadId actingUserId) w)
             (\<lambda>(_, documentId, _). [rate_confirmation_job organizationId loadId documentId]) of
        (Inl e, w1) \<Rightarrow> (Inl e, w1)
      | (Inr (load, documentId, carrierEmail), w1) \<Rightarrow>
          if sendEmail \<and> truthy carrierEmail
          then (case then_enqueue (Inr (), w1)
                       (\<lambda>_. [rate_confirmation_email organizationId loadId (l_loadNumber load) (the carrierEmail)]) of
                  (Inl e, w2) \<Rightarrow> (Inl e, w2)
                | (Inr _, w2) \<Rightarrow>
                    (case withTenantTransaction (audit_record
                            (ev_rate_confirmation_sent organizationId loadId documentId (the carrierEmail) actingUserId)) w2 of
                       (Inl e, w3) \<Rightarrow> (Inl e, w3)
                     | (Inr _, w3) \<Rightarrow> (Inr load, w3)))
          else (Inr load, w1))"

section \<open>Every sourcing operation is lawful\<close>

lemma findLinehaulType_iff [tx_iff]:
  "findLinehaulType org s = Inr z \<longleftrightarrow>
     z = (tbl_first (\<lambda>_ c. ct_code c = ''LINEHAUL'' \<and>
            (ct_organizationId c = Some org \<or> ct_organizationId c = None)) (charge_types s), s)"
  by (auto simp: findLinehaulType_def tx_iff)

lemma confined_linehaul:
  "keeps (confined org s0) (createOriginalCarrierLinehaulCharge org l rate u)"
  "keeps (confined org s0) (removeOriginalCarrierLinehaulCharge org l)"
  unfolding createOriginalCarrierLinehaulCharge_def removeOriginalCarrierLinehaulCharge_def
    findLinehaulType_def tx_assoc
  by ((rule confined_rules | (simp add: linehaul_charge_def original_carrier_linehaul_def; fail))+)

lemma confined_notifyCarrierAssigned: "keeps (confined org s0) (notifyCarrierAssigned org l n c r)"
  unfolding notifyCarrierAssigned_def by ((rule confined_notification confined_rules | (simp; fail))+)

lemma confined_latest_attempt:
  assumes "\<And>x. (\<And>i a. x = Some (i, a) \<Longrightarrow> own sa_organizationId sourcing_attempts org i s0) \<Longrightarrow>
             keeps (confined org s0) (f x)"
  shows "keeps (confined org s0) (bind (latest_assigned_attempt org l c) f)"
  unfolding latest_assigned_attempt_def tx_assoc
proof (rule sourcing_attempts_of.confined_findMany)
  fix rows :: "(uuid \<times> sourcing_attempt_row) list"
  assume own: "\<And>i r. (i, r) \<in> set rows \<Longrightarrow> own sa_organizationId sourcing_attempts org i s0 \<and>
      sa_organizationId r = org \<and> sa_loadId r = l \<and> (case c of None \<Rightarrow> True | Some c \<Rightarrow> sa_carrierId r = c) \<and>
      sa_outcome r = SO_ASSIGNED"
  let ?x = "List.find (\<lambda>_. True) (sort_key (\<lambda>(_, a). - sa_loggedAt a) rows)"
  have "own sa_organizationId sourcing_attempts org i s0" if "?x = Some (i, a)" for i a
    using own find_sort_key(1) [OF that] by blast
  then have "keeps (confined org s0) (f ?x)" by (rule assms)
  then show "keeps (confined org s0) (bind (ret ?x) f)" by (simp add: keeps_def tx_iff)
qed simp

lemma confined_sourcing:
  "keeps (confined org s0) (beginSourcing org l u)"
  "keeps (confined org s0) (logSourcingAttempt org l c r out u)"
  "keeps (confined org s0) (assignCarrier org l c rate u)"
  "keeps (confined org s0) (carrierRejected org l reason u)"
  unfolding beginSourcing_def logSourcingAttempt_def assignCarrier_def carrierRejected_def
    require_load_def require_carrier_def tx_assoc
  by ((rule confined_linehaul confined_notifyCarrierAssigned confined_eligibility confined_latest_attempt
        confined_rules | assumption
       | (simp add: new_attempt_def ev_sourcing_begun_def ev_attempt_logged_def ev_assignment_blocked_def
            ev_carrier_assigned_def ev_carrier_rejected_def; fail))+)

lemma document_types_pure: "keeps (confined org s0) (findDocumentType org' code)"
  unfolding findDocumentType_def by (rule confined_reads)

lemma confined_rate_confirmation: "keeps (confined org s0) (generateRateConfirmation_tx org l u)"
  unfolding generateRateConfirmation_tx_def require_load_def tx_assoc
  by ((rule document_types_pure confined_rules | assumption
       | (simp add: rate_confirmation_document_def ev_rate_confirmation_generated_def; fail))+)

end
