(* ===== verification/Dispatch.thy ===== *)
theory Dispatch
  imports Sourcing
begin

text \<open>
  Dispatch and tracking: backend/src/modules/quote-load/services/dispatch-tracking.service.ts
  (dispatch behind its gates, stop arrivals and departures with the re-derivation of the load's
  status, rescheduling, stop edits, returns, check calls, risk status, dispatcher assignment).
\<close>

definition POST_DISPATCH_STATUSES :: "load_status list" where
  "POST_DISPATCH_STATUSES = [DISPATCHED, PICKUP, IN_TRANSIT]"

definition LOAD_STATUS_ADVANCED_ACTION :: "load_status \<Rightarrow> string option" where
  "LOAD_STATUS_ADVANCED_ACTION st =
     (case st of PICKUP \<Rightarrow> Some (''Load Status Advanced '' @ dash @ '' Pickup'')
      | IN_TRANSIT \<Rightarrow> Some (''Load Status Advanced '' @ dash @ '' In Transit'')
      | DELIVERED \<Rightarrow> Some (''Load Status Advanced '' @ dash @ '' Delivered'')
      | _ \<Rightarrow> None)"

section \<open>Request bodies\<close>

record source_resources =
  sr_driverId :: "uuid option"
  sr_truckId :: "uuid option"
  sr_trailerId :: "uuid option"

record dispatch_dto =
  did_driverName :: string
  did_driverPhone :: string
  did_truckNumber :: string
  did_trailerNumber :: string
  did_source :: source_resources

record update_dispatch_dto =
  upd_driverName :: "string option"
  upd_driverPhone :: "string option"
  upd_truckNumber :: "string option"
  upd_trailerNumber :: "string option"
  upd_source :: source_resources

record update_stop_item =
  usi_sequence :: int
  usi_stopType :: stop_type
  usi_companyName :: string
  usi_addressLine1 :: string
  usi_city :: string
  usi_state :: string
  usi_zip :: string
  usi_appointmentDatetime :: "instant option"
  usi_contactName :: "string option"
  usi_contactPhone :: "string option"
  usi_notes :: "string option"

record return_stop_input =
  rsi_customerLocationId :: "uuid option"
  rsi_companyName :: string
  rsi_addressLine1 :: string
  rsi_city :: string
  rsi_state :: string
  rsi_zip :: string
  rsi_appointmentDatetime :: "instant option"
  rsi_contactName :: "string option"
  rsi_contactPhone :: "string option"
  rsi_notes :: "string option"

record check_call_dto =
  cad_occurredAt :: "instant option"
  cad_contactMethod :: string
  cad_personContacted :: string
  cad_locationCity :: "string option"
  cad_locationState :: "string option"
  cad_locationZip :: "string option"
  cad_eta :: "instant option"
  cad_onTimeStatus :: on_time_status
  cad_notes :: "string option"

section \<open>Dispatching\<close>

definition carrier_resource :: "('a \<Rightarrow> uuid) \<Rightarrow> ('a \<Rightarrow> uuid) \<Rightarrow> ('a \<Rightarrow> bool) \<Rightarrow> uuid \<Rightarrow> uuid option \<Rightarrow> 'a \<Rightarrow> bool" where
  "carrier_resource org_of carrier_of active organizationId carrierId r \<longleftrightarrow>
     org_of r = organizationId \<and> (case carrierId of None \<Rightarrow> True | Some c \<Rightarrow> carrier_of r = c) \<and> active r"

definition validateSourceResources :: "uuid \<Rightarrow> uuid option \<Rightarrow> source_resources \<Rightarrow> unit tx" where
  "validateSourceResources organizationId carrierId dto =
     andThen (case sr_driverId dto of None \<Rightarrow> ret ()
       | Some i \<Rightarrow> bind (findUnique drivers i (carrier_resource dr_organizationId dr_carrierId dr_active organizationId carrierId))
           (\<lambda>driver. throw_if (driver = None) (NotFoundError ''Driver not found.'')))
     (andThen (case sr_truckId dto of None \<Rightarrow> ret ()
       | Some i \<Rightarrow> bind (findUnique trucks i (carrier_resource eq_organizationId eq_carrierId eq_active organizationId carrierId))
           (\<lambda>truck. throw_if (truck = None) (NotFoundError ''Truck not found.'')))
     (case sr_trailerId dto of None \<Rightarrow> ret ()
       | Some i \<Rightarrow> bind (findUnique trailers i (carrier_resource eq_organizationId eq_carrierId eq_active organizationId carrierId))
           (\<lambda>trailer. throw_if (trailer = None) (NotFoundError ''Trailer not found.''))))"

definition new_dispatch :: "uuid \<Rightarrow> dispatch_dto \<Rightarrow> uuid \<Rightarrow> instant \<Rightarrow> dispatch_row" where
  "new_dispatch organizationId dto actingUserId t =
     \<lparr>d_organizationId = organizationId, d_driverName = did_driverName dto,
      d_driverPhone = did_driverPhone dto, d_truckNumber = did_truckNumber dto,
      d_trailerNumber = did_trailerNumber dto, d_sourceDriverId = sr_driverId (did_source dto),
      d_sourceTruckId = sr_truckId (did_source dto), d_sourceTrailerId = sr_trailerId (did_source dto),
      d_dispatchedByUserId = actingUserId, d_dispatchedAt = t\<rparr>"

definition ev_dispatched :: "uuid \<Rightarrow> uuid \<Rightarrow> dispatch_dto \<Rightarrow> uuid \<Rightarrow> event_input" where
  "ev_dispatched organizationId loadId dto actingUserId =
     human_event organizationId ''Load Dispatched'' ''Load'' loadId None
       (Some (JObj [(''driverName'', JStr (did_driverName dto)), (''driverPhone'', JStr (did_driverPhone dto)),
          (''truckNumber'', JStr (did_truckNumber dto)), (''trailerNumber'', JStr (did_trailerNumber dto))]))
       None actingUserId"

definition rate_confirmation_on_file :: "uuid \<Rightarrow> uuid \<Rightarrow> db \<Rightarrow> bool" where
  "rate_confirmation_on_file organizationId loadId s \<longleftrightarrow>
     tbl_first (\<lambda>_ d. doc_organizationId d = organizationId \<and> doc_entityType d = DE_LOAD \<and>
       doc_entityId d = loadId \<and> doc_isCurrentVersion d \<and> document_code s d = Some ''RATE_CONFIRMATION'')
       (documents s) \<noteq> None"

definition dispatch :: "uuid \<Rightarrow> uuid \<Rightarrow> dispatch_dto \<Rightarrow> uuid \<Rightarrow> load_row tx" where
  "dispatch organizationId loadId dto actingUserId =
     bind (require_load organizationId loadId) (\<lambda>load.
     andThen (throw_if (l_status load \<noteq> RATE_CONFIRMATION)
       (InvalidTransitionError ''A Load can only be Dispatched once it has reached Rate Confirmation.''))
     (andThen (throw_if (l_assignedCarrierId load = None \<or> l_carrierRate load = None)
       (BusinessRuleError ''Carrier and carrier rate must be on record.''))
     (bind (require (l_assignedCarrierId load) (BusinessRuleError ''Carrier and carrier rate must be on record.''))
       (\<lambda>carrierId.
      bind (recalculate organizationId carrierId) (\<lambda>eligibility.
      andThen (throw_if (\<not> fst eligibility)
        (EligibilityError ''The assigned carrier is no longer eligible for assignment.'' (snd eligibility)))
      (bind (gets (rate_confirmation_on_file organizationId loadId)) (\<lambda>onFile.
       andThen (throw_if (\<not> onFile) (InvalidTransitionError ''No Rate Confirmation is on file for this Load.''))
       (andThen (validateSourceResources organizationId (Some carrierId) (did_source dto))
       (bind now (\<lambda>t.
        andThen (createAt dispatch_records dispatch_records_update loadId (new_dispatch organizationId dto actingUserId t))
        (bind (update loads loads_update loadId (\<lambda>l. l\<lparr>l_status := DISPATCHED\<rparr>)) (\<lambda>updated.
         andThen (audit_record (ev_dispatched organizationId loadId dto actingUserId))
         (ret updated)))))))))))))"

definition dispatch_field_changes :: "dispatch_row \<Rightarrow> update_dispatch_dto \<Rightarrow> json list" where
  "dispatch_field_changes e dto =
     field_change ''driverName'' JStr (d_driverName e) (upd_driverName dto) @
     field_change ''driverPhone'' JStr (d_driverPhone e) (upd_driverPhone dto) @
     field_change ''truckNumber'' JStr (d_truckNumber e) (upd_truckNumber dto) @
     field_change ''trailerNumber'' JStr (d_trailerNumber e) (upd_trailerNumber dto) @
     field_change ''sourceDriverId'' (JOpt JId) (d_sourceDriverId e) (some_opt (sr_driverId (upd_source dto))) @
     field_change ''sourceTruckId'' (JOpt JId) (d_sourceTruckId e) (some_opt (sr_truckId (upd_source dto))) @
     field_change ''sourceTrailerId'' (JOpt JId) (d_sourceTrailerId e) (some_opt (sr_trailerId (upd_source dto)))"

definition apply_dispatch_dto :: "update_dispatch_dto \<Rightarrow> dispatch_row \<Rightarrow> dispatch_row" where
  "apply_dispatch_dto dto d =
     d\<lparr>d_driverName := set_field (upd_driverName dto) (d_driverName d),
       d_driverPhone := set_field (upd_driverPhone dto) (d_driverPhone d),
       d_truckNumber := set_field (upd_truckNumber dto) (d_truckNumber d),
       d_trailerNumber := set_field (upd_trailerNumber dto) (d_trailerNumber d),
       d_sourceDriverId := set_null_field (sr_driverId (upd_source dto)) (d_sourceDriverId d),
       d_sourceTruckId := set_null_field (sr_truckId (upd_source dto)) (d_sourceTruckId d),
       d_sourceTrailerId := set_null_field (sr_trailerId (upd_source dto)) (d_sourceTrailerId d)\<rparr>"

definition ev_dispatch_changed :: "uuid \<Rightarrow> uuid \<Rightarrow> json list \<Rightarrow> uuid \<Rightarrow> event_input" where
  "ev_dispatch_changed organizationId loadId fieldChanges actingUserId =
     human_event organizationId ''Dispatch Information Changed'' ''Load'' loadId
       (Some (JObj [(''field_changes'', JArr fieldChanges)])) None None actingUserId"

definition updateDispatch :: "uuid \<Rightarrow> uuid \<Rightarrow> update_dispatch_dto \<Rightarrow> uuid \<Rightarrow> dispatch_row tx" where
  "updateDispatch organizationId loadId dto actingUserId =
     bind (require_load organizationId loadId) (\<lambda>load.
     andThen (throw_if (l_status load \<notin> set POST_DISPATCH_STATUSES)
       (InvalidTransitionError ''This Load has not been Dispatched yet.''))
     (bind (findUnique dispatch_records loadId (\<lambda>d. d_organizationId d = organizationId)) (\<lambda>found.
      bind (require found (NotFoundError ''Dispatch record not found.'')) (\<lambda>existing.
      andThen (validateSourceResources organizationId (l_assignedCarrierId load) (upd_source dto))
      (bind (update dispatch_records dispatch_records_update loadId (apply_dispatch_dto dto)) (\<lambda>updated.
       andThen (run_when (dispatch_field_changes existing dto \<noteq> [])
         (audit_record (ev_dispatch_changed organizationId loadId (dispatch_field_changes existing dto) actingUserId)))
       (ret updated)))))))"

section \<open>Stop progress\<close>

definition stop_progress_of :: "stop_row \<Rightarrow> stop_progress" where
  "stop_progress_of s = \<lparr>sp_stopType = s_stopType s, sp_stopPurpose = Some (s_stopPurpose s),
     sp_status = s_status s, sp_sequence = s_sequence s\<rparr>"

definition load_stops :: "uuid \<Rightarrow> uuid \<Rightarrow> uuid \<Rightarrow> stop_row \<Rightarrow> bool" where
  "load_stops organizationId loadId k s \<longleftrightarrow> s_loadId s = loadId \<and> s_organizationId s = organizationId"

definition load_progress :: "uuid \<Rightarrow> uuid \<Rightarrow> db \<Rightarrow> stop_progress list" where
  "load_progress organizationId loadId s =
     map (\<lambda>(_, p). stop_progress_of p) (tbl_where (load_stops organizationId loadId) (stops s))"

definition ev_status_advanced :: "uuid \<Rightarrow> uuid \<Rightarrow> string \<Rightarrow> load_status \<Rightarrow> load_status \<Rightarrow> event_input" where
  "ev_status_advanced organizationId loadId action was new =
     system_event organizationId action ''Load'' loadId
       (Some (JObj [(''status'', JStr (load_status_name was))]))
       (Some (JObj [(''status'', JStr (load_status_name new))]))"

definition reEvaluateLoadStatus :: "uuid \<Rightarrow> uuid \<Rightarrow> load_row \<Rightarrow> load_row tx" where
  "reEvaluateLoadStatus organizationId loadId load =
     bind (gets (\<lambda>s. deriveLoadStatus (l_status load) (load_progress organizationId loadId s))) (\<lambda>nextStatus.
     if nextStatus = l_status load then ret load
     else bind (update loads loads_update loadId (\<lambda>l. l\<lparr>l_status := nextStatus\<rparr>)) (\<lambda>updated.
          andThen (case LOAD_STATUS_ADVANCED_ACTION nextStatus of None \<Rightarrow> ret ()
             | Some action \<Rightarrow>
                 audit_record (ev_status_advanced organizationId loadId action (l_status load) nextStatus))
          (ret updated)))"

definition find_stop :: "uuid \<Rightarrow> uuid \<Rightarrow> int \<Rightarrow> (uuid \<times> stop_row) option tx" where
  "find_stop organizationId loadId sequence =
     findFirst stops (\<lambda>k s. load_stops organizationId loadId k s \<and> s_sequence s = sequence)"

text \<open>
  Both handlers look the stop up early only for a DELIVERED load, to let a return stop through;
  the second lookup of the code finds the same row.
\<close>

definition require_trackable_stop :: "uuid \<Rightarrow> uuid \<Rightarrow> load_row \<Rightarrow> int \<Rightarrow> (uuid \<times> stop_row) tx" where
  "require_trackable_stop organizationId loadId load sequence =
     andThen (if l_status load \<in> set POST_DISPATCH_STATUSES then ret ()
        else if l_status load = DELIVERED
        then bind (find_stop organizationId loadId sequence) (\<lambda>stop.
               throw_if (case stop of None \<Rightarrow> True | Some (_, s) \<Rightarrow> s_stopPurpose s \<noteq> RETURN)
                 (InvalidTransitionError ''This Load has not been Dispatched yet.''))
        else throw (InvalidTransitionError ''This Load has not been Dispatched yet.''))
     (bind (find_stop organizationId loadId sequence) (\<lambda>stop.
      require stop (NotFoundError ''Stop not found.'')))"

definition ev_stop_arrival :: "uuid \<Rightarrow> uuid \<Rightarrow> int \<Rightarrow> instant \<Rightarrow> uuid \<Rightarrow> event_input" where
  "ev_stop_arrival organizationId stopId sequence t actingUserId =
     human_event organizationId ''Stop Arrival Recorded'' ''Stop'' stopId None
       (Some (JObj [(''sequence'', JInt sequence), (''actualArrival'', JTime t)])) None actingUserId"

definition recordArrival :: "uuid \<Rightarrow> uuid \<Rightarrow> int \<Rightarrow> instant option \<Rightarrow> uuid \<Rightarrow> (stop_row \<times> load_row) tx" where
  "recordArrival organizationId loadId sequence timestampOpt actingUserId =
     bind (require_load organizationId loadId) (\<lambda>load.
     bind (require_trackable_stop organizationId loadId load sequence) (\<lambda>found.
     andThen (throw_if (s_status (snd found) \<noteq> SS_PENDING)
       (InvalidTransitionError ''This Stop has already recorded an arrival.''))
     (bind (findUnique dispatch_records loadId (\<lambda>d. d_organizationId d = organizationId)) (\<lambda>dispatchRecord.
      bind now (\<lambda>t.
      let timestamp = set_field timestampOpt t in
      andThen (throw_if (case dispatchRecord of None \<Rightarrow> False | Some d \<Rightarrow> timestamp < d_dispatchedAt d)
        (BusinessRuleError ''Arrival time cannot be before the Load was Dispatched.''))
      (bind (update stops stops_update (fst found)
               (\<lambda>s. s\<lparr>s_actualArrival := Some timestamp, s_status := SS_ARRIVED\<rparr>)) (\<lambda>updatedStop.
       andThen (audit_record (ev_stop_arrival organizationId (fst found) (s_sequence (snd found)) timestamp actingUserId))
       (bind (reEvaluateLoadStatus organizationId loadId load) (\<lambda>updatedLoad.
        ret (updatedStop, updatedLoad))))))))))"

definition ev_stop_completed :: "uuid \<Rightarrow> uuid \<Rightarrow> int \<Rightarrow> instant \<Rightarrow> uuid \<Rightarrow> event_input" where
  "ev_stop_completed organizationId stopId sequence t actingUserId =
     human_event organizationId ''Stop Completed'' ''Stop'' stopId None
       (Some (JObj [(''sequence'', JInt sequence), (''actualDeparture'', JTime t)])) None actingUserId"

definition recordDeparture :: "uuid \<Rightarrow> uuid \<Rightarrow> int \<Rightarrow> instant option \<Rightarrow> uuid \<Rightarrow> (stop_row \<times> load_row) tx" where
  "recordDeparture organizationId loadId sequence timestampOpt actingUserId =
     bind (require_load organizationId loadId) (\<lambda>load.
     bind (require_trackable_stop organizationId loadId load sequence) (\<lambda>found.
     andThen (throw_if (s_status (snd found) \<noteq> SS_ARRIVED)
       (InvalidTransitionError ''This Stop must record an arrival before a departure.''))
     (bind now (\<lambda>t.
      let timestamp = set_field timestampOpt t in
      andThen (throw_if (case s_actualArrival (snd found) of None \<Rightarrow> False | Some a \<Rightarrow> timestamp < a)
        (BusinessRuleError ''Departure time cannot be before the recorded arrival time.''))
      (bind (update stops stops_update (fst found)
               (\<lambda>s. s\<lparr>s_actualDeparture := Some timestamp, s_status := SS_COMPLETED\<rparr>)) (\<lambda>updatedStop.
       andThen (audit_record (ev_stop_completed organizationId (fst found) (s_sequence (snd found)) timestamp actingUserId))
       (bind (reEvaluateLoadStatus organizationId loadId load) (\<lambda>updatedLoad.
        ret (updatedStop, updatedLoad)))))))))"

section \<open>Editing stops\<close>

definition ev_stop_rescheduled :: "uuid \<Rightarrow> uuid \<Rightarrow> int \<Rightarrow> instant option \<Rightarrow> instant \<Rightarrow> uuid \<Rightarrow> event_input" where
  "ev_stop_rescheduled organizationId stopId sequence was new actingUserId =
     human_event organizationId ''Stop Rescheduled'' ''Stop'' stopId
       (Some (JObj [(''sequence'', JInt sequence), (''appointmentDatetime'', JOpt JTime was)]))
       (Some (JObj [(''sequence'', JInt sequence), (''appointmentDatetime'', JTime new)])) None actingUserId"

definition rescheduleStop :: "uuid \<Rightarrow> uuid \<Rightarrow> int \<Rightarrow> instant \<Rightarrow> uuid \<Rightarrow> stop_row tx" where
  "rescheduleStop organizationId loadId sequence newAppointment actingUserId =
     bind (require_load organizationId loadId) (\<lambda>load.
     andThen (throw_if (l_status load = DELIVERED \<or> l_status load = CLOSED)
       (InvalidTransitionError ''Stops on a Delivered or Closed Load cannot be rescheduled.''))
     (bind (find_stop organizationId loadId sequence) (\<lambda>stop.
      bind (require stop (NotFoundError ''Stop not found.'')) (\<lambda>found.
      andThen (throw_if (s_status (snd found) \<noteq> SS_PENDING)
        (InvalidTransitionError ''Only a Pending stop can be rescheduled.''))
      (bind (update stops stops_update (fst found) (\<lambda>s. s\<lparr>s_appointmentDatetime := Some newAppointment\<rparr>))
        (\<lambda>updatedStop.
       andThen (audit_record (ev_stop_rescheduled organizationId (fst found) (s_sequence (snd found))
                  (s_appointmentDatetime (snd found)) newAppointment actingUserId))
       (ret updatedStop)))))))"

fun stop_type_name :: "stop_type \<Rightarrow> string" where
  "stop_type_name ST_PICKUP = ''PICKUP''"
| "stop_type_name ST_DELIVERY = ''DELIVERY''"
| "stop_type_name ST_OTHER = ''OTHER''"

definition stop_field_changes :: "stop_row \<Rightarrow> update_stop_item \<Rightarrow> json list" where
  "stop_field_changes s i =
     field_change ''stopType'' (\<lambda>t. JStr (stop_type_name t)) (s_stopType s) (Some (usi_stopType i)) @
     field_change ''companyName'' (JOpt JStr) (s_companyName s) (Some (Some (usi_companyName i))) @
     field_change ''addressLine1'' (JOpt JStr) (s_addressLine1 s) (Some (Some (usi_addressLine1 i))) @
     field_change ''city'' JStr (s_city s) (Some (usi_city i)) @
     field_change ''state'' JStr (s_state s) (Some (usi_state i)) @
     field_change ''zip'' JStr (s_zip s) (Some (usi_zip i)) @
     field_change ''appointmentDatetime'' (JOpt JTime) (s_appointmentDatetime s) (Some (usi_appointmentDatetime i)) @
     field_change ''contactName'' (JOpt JStr) (s_contactName s) (Some (usi_contactName i)) @
     field_change ''contactPhone'' (JOpt JStr) (s_contactPhone s) (Some (usi_contactPhone i)) @
     field_change ''notes'' (JOpt JStr) (s_notes s) (Some (usi_notes i))"

definition apply_stop_item :: "update_stop_item \<Rightarrow> stop_row \<Rightarrow> stop_row" where
  "apply_stop_item i s =
     s\<lparr>s_stopType := usi_stopType i, s_companyName := Some (usi_companyName i),
       s_addressLine1 := Some (usi_addressLine1 i), s_city := usi_city i, s_state := usi_state i,
       s_zip := usi_zip i, s_appointmentDatetime := usi_appointmentDatetime i,
       s_contactName := usi_contactName i, s_contactPhone := usi_contactPhone i, s_notes := usi_notes i\<rparr>"

definition ev_stop_details :: "uuid \<Rightarrow> uuid \<Rightarrow> int \<Rightarrow> json list \<Rightarrow> uuid \<Rightarrow> event_input" where
  "ev_stop_details organizationId stopId sequence fieldChanges actingUserId =
     human_event organizationId ''Stop Details Updated'' ''Stop'' stopId
       (Some (JObj [(''sequence'', JInt sequence), (''field_changes'', JArr fieldChanges)])) None None actingUserId"

definition show_int :: "int \<Rightarrow> string" where
  "show_int n = (if n < 0 then ''-'' else []) @ show_nat (nat \<bar>n\<bar>)"

definition update_one_stop :: "uuid \<Rightarrow> uuid \<Rightarrow> uuid \<Rightarrow> update_stop_item \<Rightarrow> (uuid \<times> stop_row \<times> bool) tx" where
  "update_one_stop organizationId loadId actingUserId i =
     bind (find_stop organizationId loadId (usi_sequence i)) (\<lambda>stop.
     bind (require stop (NotFoundError (''Stop '' @ show_int (usi_sequence i) @ '' not found.''))) (\<lambda>found.
     bind (update stops stops_update (fst found) (apply_stop_item i)) (\<lambda>updatedStop.
     andThen (run_when (stop_field_changes (snd found) i \<noteq> [])
       (audit_record (ev_stop_details organizationId (fst found) (s_sequence (snd found))
          (stop_field_changes (snd found) i) actingUserId)))
     (ret (fst found, updatedStop, s_city (snd found) \<noteq> usi_city i \<or> s_state (snd found) \<noteq> usi_state i)))))"

definition updateStops_tx ::
  "uuid \<Rightarrow> uuid \<Rightarrow> update_stop_item list \<Rightarrow> uuid \<Rightarrow> ((uuid \<times> stop_row \<times> bool) list \<times> load_row) tx" where
  "updateStops_tx organizationId loadId items actingUserId =
     bind (require_load organizationId loadId) (\<lambda>load.
     bind (forM items (update_one_stop organizationId loadId actingUserId)) (\<lambda>updatedStops.
     bind (reEvaluateLoadStatus organizationId loadId load) (\<lambda>updatedLoad.
     ret (updatedStops, updatedLoad))))"

definition updateStops ::
  "uuid \<Rightarrow> uuid \<Rightarrow> update_stop_item list \<Rightarrow> uuid \<Rightarrow> world \<Rightarrow> ((uuid \<times> stop_row \<times> bool) list \<times> load_row) outcome" where
  "updateStops organizationId loadId items actingUserId w =
     then_enqueue (withTenantTransaction (updateStops_tx organizationId loadId items actingUserId) w)
       (\<lambda>r. map (\<lambda>(i, s, _). stop_location_job organizationId (i, s)) (filter (\<lambda>(_, _, moved). moved) (fst r)))"

definition return_stop :: "uuid \<Rightarrow> uuid \<Rightarrow> return_stop_input \<Rightarrow> int \<Rightarrow> stop_type \<Rightarrow> stop_row" where
  "return_stop organizationId loadId i sequence stopType =
     \<lparr>s_organizationId = organizationId, s_loadId = loadId, s_sequence = sequence, s_stopType = stopType,
      s_stopPurpose = RETURN, s_customerLocationId = rsi_customerLocationId i,
      s_companyName = Some (rsi_companyName i), s_addressLine1 = Some (rsi_addressLine1 i),
      s_city = rsi_city i, s_state = rsi_state i, s_zip = rsi_zip i,
      s_appointmentDatetime = rsi_appointmentDatetime i, s_actualArrival = None,
      s_actualDeparture = None, s_status = SS_PENDING, s_contactName = rsi_contactName i,
      s_contactPhone = rsi_contactPhone i, s_notes = rsi_notes i\<rparr>"

definition ev_return_initiated :: "uuid \<Rightarrow> uuid \<Rightarrow> uuid \<Rightarrow> stop_row \<Rightarrow> uuid \<Rightarrow> stop_row \<Rightarrow> uuid \<Rightarrow> event_input" where
  "ev_return_initiated organizationId loadId pickupId p deliveryId d actingUserId =
     human_event organizationId ''Return Initiated'' ''Load'' loadId None
       (Some (JObj [(''pickupStopId'', JId pickupId), (''pickupSequence'', JInt (s_sequence p)),
          (''pickupCity'', JStr (s_city p)), (''deliveryStopId'', JId deliveryId),
          (''deliverySequence'', JInt (s_sequence d)), (''deliveryCity'', JStr (s_city d))])) None actingUserId"

definition next_sequence :: "uuid \<Rightarrow> uuid \<Rightarrow> db \<Rightarrow> int" where
  "next_sequence organizationId loadId s =
     (case sort_key (\<lambda>(_, p). - s_sequence p) (tbl_where (load_stops organizationId loadId) (stops s)) of
        [] \<Rightarrow> 1 | (_, p) # _ \<Rightarrow> s_sequence p + 1)"

definition initiateReturn ::
  "uuid \<Rightarrow> uuid \<Rightarrow> return_stop_input \<Rightarrow> return_stop_input \<Rightarrow> uuid \<Rightarrow> ((uuid \<times> stop_row) list \<times> load_row) tx" where
  "initiateReturn organizationId loadId pickupInput deliveryInput actingUserId =
     bind (require_load organizationId loadId) (\<lambda>load.
     andThen (throw_if (l_status load = CLOSED) (BusinessRuleError ''Cannot initiate a return on a Closed Load.''))
     (andThen (throw_if (l_status load \<notin> set POST_DISPATCH_STATUSES \<and> l_status load \<noteq> DELIVERED)
       (BusinessRuleError ''A return can only be initiated after the Load has been Dispatched.''))
     (bind (gets (next_sequence organizationId loadId)) (\<lambda>nextSequence.
      let pickupStop = return_stop organizationId loadId pickupInput nextSequence ST_PICKUP;
          deliveryStop = return_stop organizationId loadId deliveryInput (nextSequence + 1) ST_DELIVERY in
      bind (create stops_update pickupStop) (\<lambda>pickupId.
      bind (create stops_update deliveryStop) (\<lambda>deliveryId.
      andThen (audit_record (ev_return_initiated organizationId loadId pickupId pickupStop deliveryId deliveryStop actingUserId))
      (bind (reEvaluateLoadStatus organizationId loadId load) (\<lambda>updatedLoad.
       ret ([(pickupId, pickupStop), (deliveryId, deliveryStop)], updatedLoad)))))))))"

section \<open>Check calls, risk and the dispatcher\<close>

definition new_check_call :: "uuid \<Rightarrow> uuid \<Rightarrow> check_call_dto \<Rightarrow> uuid \<Rightarrow> instant \<Rightarrow> check_call_row" where
  "new_check_call organizationId loadId dto actingUserId t =
     \<lparr>cc_organizationId = organizationId, cc_loadId = loadId, cc_loggedByUserId = actingUserId,
      cc_occurredAt = set_field (cad_occurredAt dto) t, cc_contactMethod = cad_contactMethod dto,
      cc_personContacted = cad_personContacted dto, cc_locationCity = cad_locationCity dto,
      cc_locationState = cad_locationState dto, cc_locationZip = cad_locationZip dto,
      cc_eta = cad_eta dto, cc_onTimeStatus = cad_onTimeStatus dto, cc_notes = cad_notes dto\<rparr>"

definition apply_check_call :: "check_call_dto \<Rightarrow> instant \<Rightarrow> load_row \<Rightarrow> load_row \<Rightarrow> load_row" where
  "apply_check_call dto t was l =
     l\<lparr>l_currentLocationCity := coalesce (cad_locationCity dto) (l_currentLocationCity was),
       l_currentLocationState := coalesce (cad_locationState dto) (l_currentLocationState was),
       l_currentLocationZip := coalesce (cad_locationZip dto) (l_currentLocationZip was),
       l_currentLocationUpdatedAt := Some t,
       l_currentEta := coalesce (cad_eta dto) (l_currentEta was)\<rparr>"

fun on_time_name :: "on_time_status \<Rightarrow> string" where
  "on_time_name OT_ON_TIME = ''ON_TIME''"
| "on_time_name OT_LATE = ''LATE''"
| "on_time_name OT_UNKNOWN = ''UNKNOWN''"

definition ev_check_call :: "uuid \<Rightarrow> uuid \<Rightarrow> uuid \<Rightarrow> on_time_status \<Rightarrow> uuid \<Rightarrow> event_input" where
  "ev_check_call organizationId loadId checkCallId onTimeStatus actingUserId =
     human_event organizationId ''Check Call Logged'' ''Load'' loadId None
       (Some (JObj [(''checkCallId'', JId checkCallId), (''onTimeStatus'', JStr (on_time_name onTimeStatus))]))
       None actingUserId"

definition logCheckCall_tx :: "uuid \<Rightarrow> uuid \<Rightarrow> check_call_dto \<Rightarrow> uuid \<Rightarrow> (uuid \<times> check_call_row \<times> load_row) tx" where
  "logCheckCall_tx organizationId loadId dto actingUserId =
     bind (require_load organizationId loadId) (\<lambda>load.
     andThen (throw_if (l_status load \<notin> set POST_DISPATCH_STATUSES)
       (BusinessRuleError ''A Check Call cannot be logged before the Load is Dispatched.''))
     (bind now (\<lambda>t.
      bind (create check_calls_update (new_check_call organizationId loadId dto actingUserId t)) (\<lambda>checkCallId.
      bind (update loads loads_update loadId (apply_check_call dto t load)) (\<lambda>updatedLoad.
      andThen (audit_record (ev_check_call organizationId loadId checkCallId (cad_onTimeStatus dto) actingUserId))
      (ret (checkCallId, new_check_call organizationId loadId dto actingUserId t, updatedLoad)))))))"

definition check_call_location_job :: "uuid \<Rightarrow> uuid \<times> check_call_row \<times> load_row \<Rightarrow> job list" where
  "check_call_location_job organizationId r =
     (let (checkCallId, c, load) = r in
      case (cc_locationCity c, cc_locationState c) of
        (Some city, Some state) \<Rightarrow>
          if city = [] \<or> state = [] then []
          else [\<lparr>j_queue = ''resolve-location'', j_name = ''resolve'',
                 j_data = JObj [(''entityType'', JStr ''CHECK_CALL''), (''entityId'', JId checkCallId),
                   (''organizationId'', JId organizationId), (''city'', JStr city), (''state'', JStr state),
                   (''asOfLoadUpdatedAt'', JOpt JTime (l_currentLocationUpdatedAt load))],
                 j_jobId = Some (''CHECK_CALL-'' @ show_nat checkCallId)\<rparr>]
      | _ \<Rightarrow> [])"

definition logCheckCall ::
  "uuid \<Rightarrow> uuid \<Rightarrow> check_call_dto \<Rightarrow> uuid \<Rightarrow> world \<Rightarrow> (uuid \<times> check_call_row \<times> load_row) outcome" where
  "logCheckCall organizationId loadId dto actingUserId w =
     then_enqueue (withTenantTransaction (logCheckCall_tx organizationId loadId dto actingUserId) w)
       (check_call_location_job organizationId)"

fun risk_status_name :: "risk_status \<Rightarrow> string" where
  "risk_status_name RISK_NORMAL = ''NORMAL''"
| "risk_status_name RISK_AT_RISK = ''AT_RISK''"
| "risk_status_name RISK_DELAYED = ''DELAYED''"

definition ev_risk_changed ::
  "uuid \<Rightarrow> uuid \<Rightarrow> load_row \<Rightarrow> risk_status \<Rightarrow> string option \<Rightarrow> string option \<Rightarrow> uuid \<Rightarrow> event_input" where
  "ev_risk_changed organizationId loadId was riskStatus storedReason reason actingUserId =
     human_event organizationId ''Risk Status Changed'' ''Load'' loadId
       (Some (JObj [(''riskStatus'', JStr (risk_status_name (l_riskStatus was))),
                    (''riskReason'', JOpt JStr (l_riskReason was))]))
       (Some (JObj [(''riskStatus'', JStr (risk_status_name riskStatus)),
                    (''riskReason'', JOpt JStr storedReason)])) reason actingUserId"

definition setRiskStatus :: "uuid \<Rightarrow> uuid \<Rightarrow> risk_status \<Rightarrow> string option \<Rightarrow> uuid \<Rightarrow> load_row tx" where
  "setRiskStatus organizationId loadId riskStatus riskReason actingUserId =
     bind (require_load organizationId loadId) (\<lambda>load.
     andThen (throw_if (l_status load \<notin> set POST_DISPATCH_STATUSES)
       (BusinessRuleError ''Risk Status cannot be set before the Load is Dispatched.''))
     (andThen (throw_if (riskStatus \<noteq> RISK_NORMAL \<and> \<not> truthy riskReason)
       (BusinessRuleError ''A reason is required when Risk Status is not Normal.''))
     (bind (update loads loads_update loadId (\<lambda>l. l\<lparr>l_riskStatus := riskStatus,
              l_riskReason := (if riskStatus = RISK_NORMAL then None else riskReason)\<rparr>)) (\<lambda>updated.
      andThen (audit_record (ev_risk_changed organizationId loadId load riskStatus (l_riskReason updated)
                 riskReason actingUserId))
      (ret updated)))))"

definition ev_dispatcher :: "uuid \<Rightarrow> uuid \<Rightarrow> uuid option \<Rightarrow> uuid option \<Rightarrow> uuid \<Rightarrow> event_input" where
  "ev_dispatcher organizationId loadId was dispatcherUserId actingUserId =
     human_event organizationId
       (if dispatcherUserId = None then ''Dispatcher Unassigned''
        else if was \<noteq> None then ''Dispatcher Reassigned'' else ''Dispatcher Assigned'')
       ''Load'' loadId (Some (JObj [(''assignedDispatcherId'', JOpt JId was)]))
       (Some (JObj [(''assignedDispatcherId'', JOpt JId dispatcherUserId)])) None actingUserId"

definition assignDispatcher :: "uuid \<Rightarrow> uuid \<Rightarrow> uuid option \<Rightarrow> uuid \<Rightarrow> load_row tx" where
  "assignDispatcher organizationId loadId dispatcherUserId actingUserId =
     bind (require_load organizationId loadId) (\<lambda>load.
     andThen (case dispatcherUserId of
         None \<Rightarrow> throw_if (l_status load \<in> set POST_DISPATCH_STATUSES)
           (InvalidTransitionError ''The dispatcher cannot be unassigned while this Load is Dispatched, at Pickup, or In Transit.'')
       | Some d \<Rightarrow> bind (findFirst memberships (\<lambda>_ m. m_organizationId m = organizationId \<and>
                m_userId m = d \<and> m_status m = MS_ACTIVE)) (\<lambda>membership.
           throw_if (membership = None) (NotFoundError ''This user is not an active member of the organization.'')))
     (if l_assignedDispatcherId load = dispatcherUserId then ret load
      else bind (update loads loads_update loadId (\<lambda>l. l\<lparr>l_assignedDispatcherId := dispatcherUserId\<rparr>)) (\<lambda>updated.
           andThen (audit_record (ev_dispatcher organizationId loadId (l_assignedDispatcherId load)
                      dispatcherUserId actingUserId))
           (ret updated))))"

section \<open>Every dispatch operation is lawful\<close>

lemmas dispatch_events = ev_dispatched_def ev_dispatch_changed_def ev_status_advanced_def ev_stop_arrival_def
  ev_stop_completed_def ev_stop_rescheduled_def ev_stop_details_def ev_return_initiated_def
  ev_check_call_def ev_risk_changed_def ev_dispatcher_def

lemmas dispatch_rows = new_dispatch_def apply_dispatch_dto_def apply_stop_item_def return_stop_def
  new_check_call_def apply_check_call_def load_stops_def carrier_resource_def

lemma confined_validate: "keeps (confined org s0) (validateSourceResources org' c dto)"
  unfolding validateSourceResources_def
  by ((rule confined_reads confined.keeps_andThen confined.keeps_bind confined.keeps_throw_if
        confined.keeps_ret confined_case_option)+)

lemma confined_reEvaluate:
  "own l_organizationId loads org l s0 \<Longrightarrow> keeps (confined org s0) (reEvaluateLoadStatus org l row)"
  unfolding reEvaluateLoadStatus_def
  by ((rule confined_rules | assumption | (simp add: dispatch_events; fail))+)

lemma confined_update_one_stop: "keeps (confined org s0) (update_one_stop org l u i)"
  unfolding update_one_stop_def find_stop_def
  by ((rule confined_rules | assumption | (auto simp: dispatch_events dispatch_rows; fail))+)

lemma confined_dispatch:
  "keeps (confined org s0) (dispatch org l did u)"
  "keeps (confined org s0) (updateDispatch org l upd u)"
  "keeps (confined org s0) (recordArrival org l sq t u)"
  "keeps (confined org s0) (recordDeparture org l sq t u)"
  "keeps (confined org s0) (rescheduleStop org l sq a u)"
  "keeps (confined org s0) (updateStops_tx org l items u)"
  "keeps (confined org s0) (initiateReturn org l rp rd u)"
  "keeps (confined org s0) (logCheckCall_tx org l cad u)"
  "keeps (confined org s0) (setRiskStatus org l rs rr u)"
  "keeps (confined org s0) (assignDispatcher org l d u)"
  unfolding dispatch_def updateDispatch_def recordArrival_def recordDeparture_def rescheduleStop_def
    updateStops_tx_def initiateReturn_def logCheckCall_tx_def setRiskStatus_def assignDispatcher_def
    require_load_def require_trackable_stop_def find_stop_def tx_assoc
  by ((rule confined_validate confined_reEvaluate confined_update_one_stop confined_eligibility
        confined_rules | assumption | (auto simp: dispatch_events dispatch_rows; fail))+)

end
