(* ===== verification/Invoice.thy ===== *)
theory Invoice
  imports Dispatch
begin

text \<open>
  Invoices: backend/src/modules/billing/services/invoice.service.ts (builder, sending, payments,
  adjustments, void, views), with charge-type.service.ts of the same module. Payment and due dates
  are date columns. The loads an invoice flags are written through the tenant's row-level policy,
  so the flagging only reaches the organization's own rows (backend/prisma/rls).
\<close>

definition FINANCIAL_VIEW_ROLES :: "role list" where
  "FINANCIAL_VIEW_ROLES = [ADMIN, ACCOUNTING, OPERATIONS_MANAGER]"

definition has_role :: "role list \<Rightarrow> role list \<Rightarrow> bool" where
  "has_role actingRoles allowed \<longleftrightarrow> (\<exists>r \<in> set actingRoles. r \<in> set allowed)"

fun PAYMENT_TERMS_DAYS :: "payment_terms \<Rightarrow> int" where
  "PAYMENT_TERMS_DAYS DUE_ON_RECEIPT = 0"
| "PAYMENT_TERMS_DAYS NET_15 = 15"
| "PAYMENT_TERMS_DAYS NET_30 = 30"
| "PAYMENT_TERMS_DAYS NET_45 = 45"
| "PAYMENT_TERMS_DAYS NET_60 = 60"

section \<open>The builder\<close>

record create_invoice_dto =
  cid_customerId :: uuid
  cid_loadIds :: "uuid list"
  cid_podWarningAcknowledged :: bool

record billed_load =
  bl_id :: uuid
  bl_load :: load_row
  bl_charges :: "(uuid \<times> string \<times> charge_row) list"   \<comment> \<open>with the label of the charge type\<close>

definition charge_label :: "db \<Rightarrow> charge_row \<Rightarrow> string" where
  "charge_label s c = (case tbl_find (ch_chargeTypeId c) (charge_types s) of None \<Rightarrow> [] | Some t \<Rightarrow> ct_label t)"

definition include_charges :: "db \<Rightarrow> uuid \<times> load_row \<Rightarrow> billed_load" where
  "include_charges s p =
     \<lparr>bl_id = fst p, bl_load = snd p,
      bl_charges = map (\<lambda>(i, c). (i, charge_label s c, c))
        (tbl_where (\<lambda>_ c. ch_loadId c = fst p) (charge_line_items s))\<rparr>"

definition customer_side :: "billed_load \<Rightarrow> (uuid \<times> string \<times> charge_row) list" where
  "customer_side b = filter (\<lambda>(_, _, c). ch_side c = CUSTOMER_SIDE) (bl_charges b)"

definition loadTotal :: "billed_load \<Rightarrow> rat" where
  "loadTotal b = js_sum (map (\<lambda>(_, _, c). ch_amount c) (customer_side b))"

definition lineItemsData :: "uuid \<Rightarrow> uuid \<Rightarrow> billed_load list \<Rightarrow> invoice_line_item_row list" where
  "lineItemsData organizationId invoiceId billed =
     (if length billed > 1
      then map (\<lambda>b. \<lparr>li_organizationId = organizationId, li_invoiceId = invoiceId,
             li_description = ''Load '' @ l_loadNumber (bl_load b), li_amount = toFixed2 (loadTotal b),
             li_sourceLoadId = Some (bl_id b), li_sourceChargeLineItemId = None\<rparr>) billed
      else concat (map (\<lambda>b. map (\<lambda>(i, label, c). \<lparr>li_organizationId = organizationId,
             li_invoiceId = invoiceId,
             li_description = (case ch_description c of None \<Rightarrow> label | Some d \<Rightarrow> d),
             li_amount = ch_amount c, li_sourceLoadId = Some (bl_id b),
             li_sourceChargeLineItemId = Some i\<rparr>) (customer_side b)) billed))"

definition line_total :: "invoice_line_item_row list \<Rightarrow> cents" where
  "line_total items = toFixed2 (js_sum (map li_amount items))"

definition new_invoice :: "uuid \<Rightarrow> string \<Rightarrow> uuid \<Rightarrow> cents \<Rightarrow> uuid \<Rightarrow> instant \<Rightarrow> invoice_row" where
  "new_invoice organizationId invoiceNumber customerId invoiceTotal actingUserId t =
     \<lparr>i_organizationId = organizationId, i_invoiceNumber = invoiceNumber, i_customerId = customerId,
      i_status = IV_DRAFT, i_sentAt = None, i_dueDate = None, i_total = invoiceTotal,
      i_remainingBalance = invoiceTotal, i_createdByUserId = actingUserId, i_createdAt = t\<rparr>"

definition new_invoice_load :: "uuid \<Rightarrow> uuid \<Rightarrow> billed_load \<Rightarrow> invoice_load_row" where
  "new_invoice_load organizationId invoiceId b =
     \<lparr>il_organizationId = organizationId, il_invoiceId = invoiceId, il_loadId = bl_id b,
      il_loadTotalAtInvoice = toFixed2 (loadTotal b)\<rparr>"

definition ev_invoice_created :: "uuid \<Rightarrow> uuid \<Rightarrow> bool \<Rightarrow> string \<Rightarrow> uuid list \<Rightarrow> cents \<Rightarrow> uuid \<Rightarrow> event_input" where
  "ev_invoice_created organizationId invoiceId isConsolidated invoiceNumber loadIds invoiceTotal actingUserId =
     human_event organizationId
       (''Invoice Created '' @ dash @ (if isConsolidated then '' Consolidated'' else '' Individual''))
       ''Invoice'' invoiceId None
       (Some (JObj [(''invoiceNumber'', JStr invoiceNumber), (''loadIds'', JArr (map JId loadIds)),
                    (''total'', JMoney invoiceTotal)])) None actingUserId"

definition ev_despite_pod :: "uuid \<Rightarrow> uuid \<Rightarrow> uuid list \<Rightarrow> uuid \<Rightarrow> event_input" where
  "ev_despite_pod organizationId invoiceId affected actingUserId =
     human_event organizationId ''Invoice Created Despite Incomplete POD'' ''Invoice'' invoiceId None
       (Some (JObj [(''affectedLoads'', JArr (map JId affected))])) None actingUserId"

definition incomplete_pod :: "billed_load list \<Rightarrow> uuid list" where
  "incomplete_pod billed = map bl_id (filter (\<lambda>b. l_podStatus (bl_load b) \<noteq> POD_COMPLETE) billed)"

definition set_invoiced :: "uuid \<Rightarrow> uuid list \<Rightarrow> bool \<Rightarrow> unit tx" where
  "set_invoiced organizationId loadIds flag =
     updateMany loads_update (\<lambda>i l. l_organizationId l = organizationId \<and> i \<in> set loadIds)
       (\<lambda>l. l\<lparr>l_invoiced := flag\<rparr>)"

definition writeInvoice :: "uuid \<Rightarrow> create_invoice_dto \<Rightarrow> billed_load list \<Rightarrow> uuid \<Rightarrow> (uuid \<times> invoice_row) tx" where
  "writeInvoice organizationId dto billed actingUserId =
     bind (getNextNumber organizationId SEQ_INVOICE) (\<lambda>nextNumber.
     bind now (\<lambda>t.
     let invoiceTotal = line_total (lineItemsData organizationId 0 billed);
         invoice = new_invoice organizationId (format SEQ_INVOICE nextNumber) (cid_customerId dto) invoiceTotal actingUserId t in
     bind (create invoices_update invoice) (\<lambda>invoiceId.
     andThen (createMany invoice_loads_update (map (new_invoice_load organizationId invoiceId) billed))
     (andThen (createMany invoice_line_items_update (lineItemsData organizationId invoiceId billed))
     (andThen (set_invoiced organizationId (cid_loadIds dto) True)
     (andThen (audit_record (ev_invoice_created organizationId invoiceId (length billed > 1)
                (i_invoiceNumber invoice) (cid_loadIds dto) invoiceTotal actingUserId))
     (andThen (run_when (incomplete_pod billed \<noteq> [] \<and> cid_podWarningAcknowledged dto)
       (audit_record (ev_despite_pod organizationId invoiceId (incomplete_pod billed) actingUserId)))
     (ret (invoiceId, invoice)))))))))"

definition createInvoice :: "uuid \<Rightarrow> create_invoice_dto \<Rightarrow> uuid \<Rightarrow> (uuid \<times> invoice_row) tx" where
  "createInvoice organizationId dto actingUserId =
     bind (findMany loads (\<lambda>i l. i \<in> set (cid_loadIds dto) \<and> l_organizationId l = organizationId)) (\<lambda>found.
     bind (gets (\<lambda>s. map (include_charges s) found)) (\<lambda>billed.
     andThen (throw_if (length billed \<noteq> length (cid_loadIds dto))
       (NotFoundError ''One or more Loads not found.''))
     (andThen (throw_if (\<exists>b \<in> set billed. l_customerId (bl_load b) \<noteq> cid_customerId dto)
       (BusinessRuleError ''All selected Loads must belong to the same Customer.''))
     (andThen (throw_if (\<exists>b \<in> set billed. l_status (bl_load b) \<notin> {DELIVERED, CLOSED} \<or> l_invoiced (bl_load b))
       (BusinessRuleError ''All selected Loads must be Delivered or Closed, and not already invoiced.''))
     (andThen (throw_if (incomplete_pod billed \<noteq> [] \<and> \<not> cid_podWarningAcknowledged dto)
       (PodIncompleteWarningError ''POD is incomplete for one or more selected Loads.'' (incomplete_pod billed)))
     (writeInvoice organizationId dto billed actingUserId))))))"

section \<open>Sending\<close>

definition generated_document ::
  "uuid \<Rightarrow> uuid \<Rightarrow> doc_entity_type \<Rightarrow> uuid \<Rightarrow> uuid \<Rightarrow> string \<Rightarrow> uuid \<Rightarrow> instant \<Rightarrow> document_row" where
  "generated_document organizationId familyId entityType entityId typeId fileName actingUserId t =
     \<lparr>doc_organizationId = organizationId, doc_documentFamilyId = familyId, doc_entityType = entityType,
      doc_entityId = entityId, doc_documentTypeId = typeId, doc_customTypeLabel = None,
      doc_fileStorageKey = [], doc_fileName = fileName, doc_fileSizeBytes = 0,
      doc_mimeType = ''application/pdf'', doc_versionNumber = 1, doc_isCurrentVersion = True,
      doc_scanStatus = SCAN_CLEAN, doc_scannedAt = Some t, doc_scanProvider = Some ''system-generated'',
      doc_reviewStatus = Some RV_NOT_APPLICABLE, doc_generationStatus = Some GEN_PENDING,
      doc_reviewedByUserId = None, doc_reviewedAt = None, doc_rejectionReason = None,
      doc_expirationDate = None, doc_uploadedByUserId = actingUserId, doc_uploadedAt = t\<rparr>"

definition create_generated :: "document_row \<Rightarrow> uuid tx" where
  "create_generated d =
     bind (create documents_update d) (\<lambda>documentId.
     andThen (update documents documents_update documentId
       (\<lambda>x. x\<lparr>doc_fileStorageKey := buildDocumentKey (doc_organizationId d) documentId\<rparr>))
     (ret documentId))"

definition require_invoice :: "uuid \<Rightarrow> uuid \<Rightarrow> invoice_row tx" where
  "require_invoice organizationId i =
     bind (findUnique invoices i (\<lambda>r. i_organizationId r = organizationId)) (\<lambda>existing.
       require existing (NotFoundError ''Invoice not found.''))"

definition ev_invoice_sent :: "uuid \<Rightarrow> uuid \<Rightarrow> string \<Rightarrow> instant \<Rightarrow> uuid \<Rightarrow> event_input" where
  "ev_invoice_sent organizationId i recipientEmail dueDate actingUserId =
     human_event organizationId ''Invoice Sent'' ''Invoice'' i None
       (Some (JObj [(''recipientEmail'', JStr recipientEmail), (''dueDate'', JTime dueDate)])) None actingUserId"

definition due_date :: "instant \<Rightarrow> payment_terms \<Rightarrow> instant" where
  "due_date t terms = t + PAYMENT_TERMS_DAYS terms * day_ms"

definition mark_sent :: "instant \<Rightarrow> instant \<Rightarrow> invoice_row \<Rightarrow> invoice_row" where
  "mark_sent t due r = r\<lparr>i_status := IV_SENT, i_sentAt := Some t, i_dueDate := Some (start_of_day due)\<rparr>"

definition sendInvoice_tx :: "uuid \<Rightarrow> uuid \<Rightarrow> string \<Rightarrow> uuid \<Rightarrow> (invoice_row \<times> uuid) tx" where
  "sendInvoice_tx organizationId i recipientEmail actingUserId =
     bind (require_invoice organizationId i) (\<lambda>existing.
     bind (gets (\<lambda>s. tbl_where (\<lambda>_ li. li_invoiceId li = i) (invoice_line_items s))) (\<lambda>lineItems.
     andThen (throw_if (i_status existing \<noteq> IV_DRAFT)
       (InvalidTransitionError ''Only a Draft invoice can be sent.''))
     (andThen (throw_if (lineItems = [] \<or> js_number (i_total existing) \<le> 0)
       (BusinessRuleError ''An invoice must have at least one line item and a total greater than zero before it can be sent.''))
     (bind (findUnique customers (i_customerId existing) (\<lambda>c. cu_organizationId c = organizationId)) (\<lambda>found.
      bind (require found (NotFoundError ''Customer not found.'')) (\<lambda>customer.
      bind now (\<lambda>t.
      let dueDate = due_date t (cu_paymentTerms customer) in
      bind (findDocumentType organizationId ''INVOICE'') (\<lambda>foundType.
      bind (require foundType (NotFoundError ''Invoice document type is not configured.'')) (\<lambda>documentType.
      bind freshId (\<lambda>familyId.
      bind (create_generated (generated_document organizationId familyId DE_INVOICE i (fst documentType)
              (''Invoice-'' @ i_invoiceNumber existing @ ''.pdf'') actingUserId t)) (\<lambda>documentId.
      bind (update invoices invoices_update i (mark_sent t dueDate)) (\<lambda>updated.
      andThen (audit_record (ev_invoice_sent organizationId i recipientEmail dueDate actingUserId))
      (ret (updated, documentId))))))))))))))"

definition invoice_pdf_job :: "uuid \<Rightarrow> uuid \<Rightarrow> uuid \<Rightarrow> job" where
  "invoice_pdf_job organizationId i documentId =
     \<lparr>j_queue = ''invoice-pdf'', j_name = ''generate'',
      j_data = JObj [(''documentId'', JId documentId), (''organizationId'', JId organizationId),
                     (''invoiceId'', JId i)], j_jobId = None\<rparr>"

definition sendInvoice :: "uuid \<Rightarrow> uuid \<Rightarrow> string \<Rightarrow> string \<Rightarrow> string \<Rightarrow> uuid \<Rightarrow> world \<Rightarrow> (invoice_row \<times> uuid) outcome" where
  "sendInvoice organizationId i recipientEmail subject message actingUserId w =
     then_enqueue
       (then_enqueue (withTenantTransaction (sendInvoice_tx organizationId i recipientEmail actingUserId) w)
          (\<lambda>(_, documentId). [invoice_pdf_job organizationId i documentId]))
       (\<lambda>_. [email_job organizationId i ''Invoice'' recipientEmail subject message])"

section \<open>Payments, adjustments and the balance\<close>

definition invoice_payments :: "uuid \<Rightarrow> uuid \<Rightarrow> db \<Rightarrow> cents list" where
  "invoice_payments organizationId i s =
     map (\<lambda>(_, p). p_amount p)
       (tbl_where (\<lambda>_ p. p_organizationId p = organizationId \<and> p_invoiceId p = i) (payments s))"

definition invoice_adjustments :: "uuid \<Rightarrow> uuid \<Rightarrow> adjustment_type \<Rightarrow> db \<Rightarrow> cents list" where
  "invoice_adjustments organizationId i kind s =
     map (\<lambda>(_, a). ad_amount a) (filter (\<lambda>(_, a). ad_type a = kind)
       (tbl_where (\<lambda>_ a. ad_organizationId a = organizationId \<and> ad_invoiceId a = i) (adjustments s)))"

definition remaining_of :: "cents \<Rightarrow> cents list \<Rightarrow> cents list \<Rightarrow> cents list \<Rightarrow> rat" where
  "remaining_of invoiceTotal paid credits debits =
     js_add (js_sub (js_sub (js_number invoiceTotal) (js_sum paid)) (js_sum credits)) (js_sum debits)"

definition balance_status :: "invoice_status \<Rightarrow> rat \<Rightarrow> rat \<Rightarrow> invoice_status" where
  "balance_status status remaining totalPaid =
     (if status = IV_VOID then status
      else if remaining \<le> 0 then (if totalPaid > 0 then IV_PAID else IV_CREDITED)
      else if totalPaid > 0 then IV_PARTIALLY_PAID else status)"

definition set_balance :: "cents \<Rightarrow> invoice_status \<Rightarrow> invoice_row \<Rightarrow> invoice_row" where
  "set_balance remaining status r = r\<lparr>i_remainingBalance := remaining, i_status := status\<rparr>"

definition recalculateInvoiceBalance :: "uuid \<Rightarrow> uuid \<Rightarrow> (cents \<times> invoice_status) tx" where
  "recalculateInvoiceBalance organizationId i =
     bind (findUniqueOrThrow invoices i (\<lambda>r. i_organizationId r = organizationId)) (\<lambda>invoice.
     bind (gets (invoice_payments organizationId i)) (\<lambda>paid.
     bind (gets (invoice_adjustments organizationId i CREDIT)) (\<lambda>credits.
     bind (gets (invoice_adjustments organizationId i DEBIT)) (\<lambda>debits.
     let remaining = remaining_of (i_total invoice) paid credits debits;
         status = balance_status (i_status invoice) remaining (js_sum paid) in
     andThen (update invoices invoices_update i (set_balance (toFixed2 remaining) status))
     (ret (toFixed2 remaining, status))))))"

record record_payment_dto =
  rp_amount :: cents
  rp_paymentDate :: instant
  rp_method :: string
  rp_referenceNumber :: "string option"
  rp_notes :: "string option"

definition new_payment :: "uuid \<Rightarrow> uuid \<Rightarrow> record_payment_dto \<Rightarrow> uuid \<Rightarrow> payment_row" where
  "new_payment organizationId i dto actingUserId =
     \<lparr>p_organizationId = organizationId, p_invoiceId = i, p_amount = rp_amount dto,
      p_paymentDate = start_of_day (rp_paymentDate dto), p_method = rp_method dto,
      p_referenceNumber = rp_referenceNumber dto, p_notes = rp_notes dto,
      p_recordedByUserId = actingUserId\<rparr>"

definition ev_payment_recorded :: "uuid \<Rightarrow> uuid \<Rightarrow> record_payment_dto \<Rightarrow> uuid \<Rightarrow> event_input" where
  "ev_payment_recorded organizationId i dto actingUserId =
     human_event organizationId ''Payment Recorded'' ''Invoice'' i None
       (Some (JObj [(''amount'', JMoney (rp_amount dto)), (''method'', JStr (rp_method dto)),
                    (''referenceNumber'', JOpt JStr (rp_referenceNumber dto))])) None actingUserId"

definition recordPayment ::
  "uuid \<Rightarrow> uuid \<Rightarrow> record_payment_dto \<Rightarrow> uuid \<Rightarrow> (uuid \<times> payment_row \<times> cents \<times> invoice_status) tx" where
  "recordPayment organizationId i dto actingUserId =
     bind (require_invoice organizationId i) (\<lambda>existing.
     andThen (throw_if (i_status existing \<notin> {IV_SENT, IV_PARTIALLY_PAID})
       (InvalidTransitionError ''A payment can only be recorded against a Sent invoice.''))
     (bind (create payments_update (new_payment organizationId i dto actingUserId)) (\<lambda>paymentId.
      bind (recalculateInvoiceBalance organizationId i) (\<lambda>balance.
      andThen (audit_record (ev_payment_recorded organizationId i dto actingUserId))
      (ret (paymentId, new_payment organizationId i dto actingUserId, balance))))))"

record add_adjustment_dto =
  aa_type :: adjustment_type
  aa_amount :: cents
  aa_reason :: string
  aa_adjustmentDate :: "instant option"

definition new_adjustment :: "uuid \<Rightarrow> uuid \<Rightarrow> add_adjustment_dto \<Rightarrow> uuid \<Rightarrow> instant \<Rightarrow> adjustment_row" where
  "new_adjustment organizationId i dto actingUserId t =
     \<lparr>ad_organizationId = organizationId, ad_invoiceId = i, ad_type = aa_type dto,
      ad_amount = aa_amount dto, ad_reason = aa_reason dto,
      ad_adjustmentDate = start_of_day (case aa_adjustmentDate dto of None \<Rightarrow> t | Some d \<Rightarrow> d),
      ad_createdByUserId = actingUserId\<rparr>"

fun adjustment_type_name :: "adjustment_type \<Rightarrow> string" where
  "adjustment_type_name CREDIT = ''CREDIT''"
| "adjustment_type_name DEBIT = ''DEBIT''"

definition ev_adjustment_created :: "uuid \<Rightarrow> uuid \<Rightarrow> add_adjustment_dto \<Rightarrow> uuid \<Rightarrow> event_input" where
  "ev_adjustment_created organizationId i dto actingUserId =
     human_event organizationId ''Invoice Adjustment Created'' ''Invoice'' i None
       (Some (JObj [(''type'', JStr (adjustment_type_name (aa_type dto))), (''amount'', JMoney (aa_amount dto)),
                    (''reason'', JStr (aa_reason dto))])) None actingUserId"

definition addAdjustment ::
  "uuid \<Rightarrow> uuid \<Rightarrow> add_adjustment_dto \<Rightarrow> uuid \<Rightarrow> (uuid \<times> adjustment_row \<times> cents \<times> invoice_status) tx" where
  "addAdjustment organizationId i dto actingUserId =
     bind (require_invoice organizationId i) (\<lambda>existing.
     andThen (throw_if (i_status existing = IV_DRAFT \<or> i_status existing = IV_VOID)
       (InvalidTransitionError ''Adjustments require a Sent (or later-status) invoice.''))
     (bind now (\<lambda>t.
      bind (create adjustments_update (new_adjustment organizationId i dto actingUserId t)) (\<lambda>adjustmentId.
      bind (recalculateInvoiceBalance organizationId i) (\<lambda>balance.
      andThen (audit_record (ev_adjustment_created organizationId i dto actingUserId))
      (ret (adjustmentId, new_adjustment organizationId i dto actingUserId t, balance)))))))"

section \<open>Void\<close>

fun invoice_status_name :: "invoice_status \<Rightarrow> string" where
  "invoice_status_name IV_DRAFT = ''DRAFT''"
| "invoice_status_name IV_SENT = ''SENT''"
| "invoice_status_name IV_PARTIALLY_PAID = ''PARTIALLY_PAID''"
| "invoice_status_name IV_PAID = ''PAID''"
| "invoice_status_name IV_VOID = ''VOID''"
| "invoice_status_name IV_CREDITED = ''CREDITED''"

definition ev_invoice_voided :: "uuid \<Rightarrow> uuid \<Rightarrow> invoice_status \<Rightarrow> uuid list \<Rightarrow> uuid \<Rightarrow> event_input" where
  "ev_invoice_voided organizationId i was released actingUserId =
     human_event organizationId ''Invoice Voided'' ''Invoice'' i
       (Some (JObj [(''status'', JStr (invoice_status_name was))]))
       (Some (JObj [(''releasedLoadIds'', JArr (map JId released))])) None actingUserId"

definition voidInvoice :: "uuid \<Rightarrow> uuid \<Rightarrow> uuid \<Rightarrow> invoice_row tx" where
  "voidInvoice organizationId i actingUserId =
     bind (require_invoice organizationId i) (\<lambda>existing.
     andThen (throw_if (i_status existing = IV_VOID) (InvalidTransitionError ''This Invoice is already Void.''))
     (bind (findMany invoice_loads (\<lambda>_ il. il_organizationId il = organizationId \<and> il_invoiceId il = i)) (\<lambda>invoiceLoads.
      let released = map (\<lambda>(_, il). il_loadId il) invoiceLoads in
      bind (update invoices invoices_update i (\<lambda>r. r\<lparr>i_status := IV_VOID\<rparr>)) (\<lambda>updated.
      andThen (set_invoiced organizationId released False)
      (andThen (audit_record (ev_invoice_voided organizationId i (i_status existing) released actingUserId))
      (ret updated))))))"

section \<open>Views\<close>

definition isOwnDeal :: "customer_row \<Rightarrow> uuid \<Rightarrow> bool" where
  "isOwnDeal customer actingUserId \<longleftrightarrow>
     (case cu_accountOwnerUserId customer of Some owner \<Rightarrow> owner = actingUserId
      | None \<Rightarrow> cu_createdByUserId customer = actingUserId)"

definition own_invoice :: "db \<Rightarrow> invoice_row \<Rightarrow> uuid \<Rightarrow> bool" where
  "own_invoice s r actingUserId \<longleftrightarrow>
     (case tbl_find (i_customerId r) (customers s) of None \<Rightarrow> False | Some c \<Rightarrow> isOwnDeal c actingUserId)"

definition findInvoiceById :: "uuid \<Rightarrow> uuid \<Rightarrow> uuid \<Rightarrow> role list \<Rightarrow> invoice_row tx" where
  "findInvoiceById organizationId i actingUserId actingRoles =
     bind (require_invoice organizationId i) (\<lambda>invoice.
     bind (gets (\<lambda>s. own_invoice s invoice actingUserId)) (\<lambda>ownDeal.
     if has_role actingRoles FINANCIAL_VIEW_ROLES then ret invoice
     else if SALES_BOOKING \<in> set actingRoles \<and> ownDeal then ret invoice
     else throw (PermissionError ''You do not have permission to view this Invoice.'')))"

record invoice_view =
  v_invoiceNumber :: string
  v_customerId :: uuid
  v_status :: invoice_status
  v_sentAt :: "instant option"
  v_createdByUserId :: uuid
  v_createdAt :: instant
  v_total :: "cents option"
  v_remainingBalance :: "cents option"
  v_dueDate :: "instant option"

definition full_view :: "invoice_row \<Rightarrow> invoice_view" where
  "full_view r =
     \<lparr>v_invoiceNumber = i_invoiceNumber r, v_customerId = i_customerId r, v_status = i_status r,
      v_sentAt = i_sentAt r, v_createdByUserId = i_createdByUserId r, v_createdAt = i_createdAt r,
      v_total = Some (i_total r), v_remainingBalance = Some (i_remainingBalance r), v_dueDate = i_dueDate r\<rparr>"

definition redacted_view :: "invoice_row \<Rightarrow> invoice_view" where
  "redacted_view r = (full_view r)\<lparr>v_total := None, v_remainingBalance := None, v_dueDate := None\<rparr>"

definition listInvoices ::
  "uuid \<Rightarrow> uuid \<Rightarrow> role list \<Rightarrow> uuid option \<Rightarrow> invoice_status option \<Rightarrow> (uuid \<times> invoice_view) list tx" where
  "listInvoices organizationId actingUserId actingRoles customerId status =
     andThen (throw_if (\<not> has_role actingRoles (FINANCIAL_VIEW_ROLES @ [SALES_BOOKING]))
       (PermissionError ''You do not have permission to view Invoices.''))
     (bind (findMany invoices (\<lambda>_ r. i_organizationId r = organizationId \<and>
              (case customerId of None \<Rightarrow> True | Some c \<Rightarrow> i_customerId r = c) \<and>
              (case status of None \<Rightarrow> True | Some st \<Rightarrow> i_status r = st))) (\<lambda>found.
      gets (\<lambda>s. map (\<lambda>(i, r). (i, if has_role actingRoles FINANCIAL_VIEW_ROLES \<or> own_invoice s r actingUserId
                                   then full_view r else redacted_view r))
                 (sort_key (\<lambda>(_, r). - i_createdAt r) found))))"

section \<open>Charge types\<close>

definition ev_charge_type_created :: "uuid \<Rightarrow> uuid \<Rightarrow> string \<Rightarrow> string \<Rightarrow> uuid \<Rightarrow> event_input" where
  "ev_charge_type_created organizationId i code label actingUserId =
     human_event organizationId ''Charge Type Created'' ''ChargeTypeDefinition'' i None
       (Some (JObj [(''code'', JStr code), (''label'', JStr label)])) None actingUserId"

definition createChargeType :: "uuid \<Rightarrow> string \<Rightarrow> string \<Rightarrow> uuid \<Rightarrow> (uuid \<times> charge_type_row) tx" where
  "createChargeType organizationId code label actingUserId =
     (let row = \<lparr>ct_organizationId = Some organizationId, ct_code = code, ct_label = label,
                 ct_isSystemDefault = False\<rparr> in
      bind (create charge_types_update row) (\<lambda>i.
      andThen (audit_record (ev_charge_type_created organizationId i code label actingUserId))
      (ret (i, row))))"

definition ev_charge_type_updated :: "uuid \<Rightarrow> uuid \<Rightarrow> string \<Rightarrow> string \<Rightarrow> uuid \<Rightarrow> event_input" where
  "ev_charge_type_updated organizationId i was label actingUserId =
     human_event organizationId ''Charge Type Updated'' ''ChargeTypeDefinition'' i
       (Some (JObj [(''label'', JStr was)])) (Some (JObj [(''label'', JStr label)])) None actingUserId"

definition updateChargeType :: "uuid \<Rightarrow> uuid \<Rightarrow> string \<Rightarrow> uuid \<Rightarrow> charge_type_row tx" where
  "updateChargeType organizationId i label actingUserId =
     bind (findUnique charge_types i (\<lambda>c. ct_organizationId c = Some organizationId)) (\<lambda>found.
     bind (require found (NotFoundError ''Charge type not found.'')) (\<lambda>existing.
     bind (update charge_types charge_types_update i (\<lambda>c. c\<lparr>ct_label := label\<rparr>)) (\<lambda>updated.
     andThen (audit_record (ev_charge_type_updated organizationId i (ct_label existing) (ct_label updated) actingUserId))
     (ret updated))))"

section \<open>Every billing operation is lawful\<close>

lemmas invoice_rows = new_invoice_def new_invoice_load_def generated_document_def new_payment_def
  new_adjustment_def mark_sent_def set_balance_def

lemmas invoice_events = ev_invoice_created_def ev_despite_pod_def ev_invoice_sent_def
  ev_payment_recorded_def ev_adjustment_created_def ev_invoice_voided_def

lemma lineItemsData_org: "\<forall>r \<in> set (lineItemsData org i billed). li_organizationId r = org"
  by (auto simp: lineItemsData_def)

lemma confined_set_invoiced: "keeps (confined org s0) (set_invoiced org ls b)"
  unfolding set_invoiced_def by ((rule confined_rules | (simp; fail))+)

lemma confined_generated:
  assumes "doc_organizationId d = org" and "\<And>i. keeps (confined org s0) (f i)"
  shows "keeps (confined org s0) (bind (create_generated d) f)"
  unfolding create_generated_def tx_assoc
  by ((rule documents_of.confined_created confined_rules assms | assumption | (simp add: assms(1); fail))+)

lemma confined_invoice:
  "keeps (confined org s0) (createInvoice org cid u)"
  "keeps (confined org s0) (sendInvoice_tx org i e u)"
  "keeps (confined org s0) (recordPayment org i rp u)"
  "keeps (confined org s0) (addAdjustment org i aa u)"
  "keeps (confined org s0) (voidInvoice org i u)"
  unfolding createInvoice_def writeInvoice_def sendInvoice_tx_def recordPayment_def addAdjustment_def
    voidInvoice_def recalculateInvoiceBalance_def require_invoice_def tx_assoc
  by ((rule confined_getNextNumber confined_set_invoiced confined_generated document_types_pure
        confined_rules | assumption
       | (simp add: invoice_rows invoice_events lineItemsData_org; fail))+)

text \<open>
  A charge type belongs to an organization or to nobody; the shared ones are out of reach of both
  operations.
\<close>

lemma confined_charge_type:
  "keeps (confined org s0) (createChargeType org code label u)"
  "keeps (confined org s0) (updateChargeType org i label u)"
proof -
  show "keeps (confined org s0) (createChargeType org code label u)"
  proof (rule confined_step)
    fix s x s' assume "createChargeType org code label u s = Inr (x, s')"
    then show "isolated org s s'"
      by (auto simp: createChargeType_def tx_iff Let_def ev_charge_type_created_def isolated_def recorded_def
            audit_entry_def event_entry_def human_event_def)
  qed (auto simp: createChargeType_def Let_def intro!: wf_intros wf_slots trail_intros)
  show "keeps (confined org s0) (updateChargeType org i label u)"
  proof (rule confined_step)
    fix s x s' assume run: "updateChargeType org i label u s = Inr (x, s')" and "wf_db s"
    then have "distinct (map fst (charge_types s))" by (simp add: wf_db_def table_ok_def)
    then show "isolated org s s'" using run
      by (auto simp: updateChargeType_def tx_iff ev_charge_type_updated_def isolated_def recorded_def
            audit_entry_def event_entry_def human_event_def foreign_upd_found split: option.splits if_splits)
  qed (auto simp: updateChargeType_def intro!: wf_intros wf_slots trail_intros)
qed

end
