(* ===== verification/CarrierPay.thy ===== *)
theory CarrierPay
  imports Invoice
begin

text \<open>
  Carrier payments: backend/src/modules/carrier-pay/services/carrier-payment.service.ts. A payment
  is prepared, submitted, approved or rejected by somebody else, and marked paid, which generates
  its settlement document.
\<close>

record create_carrier_payment_dto =
  ccp_paymentType :: carrier_payment_type
  ccp_amount :: cents
  ccp_method :: "string option"
  ccp_referenceNumber :: "string option"
  ccp_notes :: "string option"

record carrier_balance =
  cb_carrierAccessorialsTotal :: cents
  cb_totalPaid :: cents
  cb_remainingCarrierBalance :: "cents option"

section \<open>The carrier's balance on a load\<close>

definition carrier_accessorials :: "uuid \<Rightarrow> uuid \<Rightarrow> db \<Rightarrow> cents list" where
  "carrier_accessorials organizationId loadId s =
     map (\<lambda>(_, c). ch_amount c)
       (tbl_where (\<lambda>_ c. ch_organizationId c = organizationId \<and> ch_loadId c = loadId \<and>
          ch_side c = CARRIER_SIDE \<and> ch_source c = ADJUSTMENT) (charge_line_items s))"

definition carrier_paid :: "uuid \<Rightarrow> uuid \<Rightarrow> db \<Rightarrow> cents list" where
  "carrier_paid organizationId loadId s =
     map (\<lambda>(_, p). cp_amount p) (filter (\<lambda>(_, p). cp_status p = CP_PAID)
       (tbl_where (\<lambda>_ p. cp_organizationId p = organizationId \<and> cp_loadId p = loadId) (carrier_payments s)))"

definition computeCarrierBalance :: "uuid \<Rightarrow> uuid \<Rightarrow> cents option \<Rightarrow> db \<Rightarrow> carrier_balance" where
  "computeCarrierBalance organizationId loadId carrierRate s =
     (let carrierAccessorialsTotal = js_sum (carrier_accessorials organizationId loadId s);
          totalPaid = js_sum (carrier_paid organizationId loadId s)
      in \<lparr>cb_carrierAccessorialsTotal = toFixed2 carrierAccessorialsTotal,
          cb_totalPaid = toFixed2 totalPaid,
          cb_remainingCarrierBalance = map_option (\<lambda>rate.
            toFixed2 (js_sub (js_add (js_number rate) carrierAccessorialsTotal) totalPaid)) carrierRate\<rparr>)"

definition getRemainingBalance :: "uuid \<Rightarrow> uuid \<Rightarrow> role list \<Rightarrow> (cents option \<times> carrier_balance) tx" where
  "getRemainingBalance organizationId loadId actingRoles =
     andThen (throw_if (\<not> has_role actingRoles FINANCIAL_VIEW_ROLES)
       (PermissionError ''You do not have permission to view Carrier Payment balances.''))
     (bind (require_load organizationId loadId) (\<lambda>load.
      gets (\<lambda>s. (l_carrierRate load, computeCarrierBalance organizationId loadId (l_carrierRate load) s))))"

section \<open>Preparing\<close>

definition new_carrier_payment ::
  "uuid \<Rightarrow> uuid \<Rightarrow> uuid \<Rightarrow> create_carrier_payment_dto \<Rightarrow> uuid \<Rightarrow> instant \<Rightarrow> carrier_payment_row" where
  "new_carrier_payment organizationId loadId carrierId dto actingUserId t =
     \<lparr>cp_organizationId = organizationId, cp_loadId = loadId, cp_carrierId = carrierId,
      cp_amount = ccp_amount dto, cp_paymentType = ccp_paymentType dto, cp_method = ccp_method dto,
      cp_referenceNumber = ccp_referenceNumber dto, cp_notes = ccp_notes dto, cp_status = CP_DRAFT,
      cp_preparedByUserId = actingUserId, cp_submittedAt = None, cp_approvedByUserId = None,
      cp_approvedAt = None, cp_lastRejectedByUserId = None, cp_lastRejectedAt = None,
      cp_lastRejectionReason = None, cp_paidAt = None, cp_createdAt = t\<rparr>"

fun carrier_payment_type_name :: "carrier_payment_type \<Rightarrow> string" where
  "carrier_payment_type_name CPT_DEPOSIT = ''DEPOSIT''"
| "carrier_payment_type_name CPT_PARTIAL = ''PARTIAL''"
| "carrier_payment_type_name CPT_BALANCE = ''BALANCE''"
| "carrier_payment_type_name CPT_ADJUSTMENT = ''ADJUSTMENT''"

definition ev_cp :: "uuid \<Rightarrow> string \<Rightarrow> uuid \<Rightarrow> json option \<Rightarrow> uuid \<Rightarrow> event_input" where
  "ev_cp organizationId action i newValue actingUserId =
     human_event organizationId (''Carrier Payment '' @ action) ''CarrierPayment'' i None newValue None actingUserId"

definition createCarrierPayment ::
  "uuid \<Rightarrow> uuid \<Rightarrow> create_carrier_payment_dto \<Rightarrow> uuid \<Rightarrow> (uuid \<times> carrier_payment_row \<times> cents option) tx" where
  "createCarrierPayment organizationId loadId dto actingUserId =
     bind (require_load organizationId loadId) (\<lambda>load.
     andThen (throw_if (l_status load \<notin> {DELIVERED, CLOSED})
       (BusinessRuleError ''The Load must be Delivered or later to create a Carrier Payment.''))
     (bind (require (l_assignedCarrierId load) (BusinessRuleError ''The Load has no assigned Carrier.'')) (\<lambda>carrierId.
      bind now (\<lambda>t.
      let row = new_carrier_payment organizationId loadId carrierId dto actingUserId t in
      bind (create carrier_payments_update row) (\<lambda>i.
      andThen (audit_record (ev_cp organizationId (''Created '' @ dash @ '' Draft'') i
         (Some (JObj [(''amount'', JMoney (ccp_amount dto)),
                      (''paymentType'', JStr (carrier_payment_type_name (ccp_paymentType dto)))])) actingUserId))
      (bind (gets (computeCarrierBalance organizationId loadId (l_carrierRate load))) (\<lambda>balance.
       ret (i, row, cb_remainingCarrierBalance balance))))))))"

section \<open>Approval\<close>

definition require_carrier_payment :: "uuid \<Rightarrow> uuid \<Rightarrow> carrier_payment_row tx" where
  "require_carrier_payment organizationId i =
     bind (findUnique carrier_payments i (\<lambda>p. cp_organizationId p = organizationId)) (\<lambda>existing.
       require existing (NotFoundError ''Carrier Payment not found.''))"

definition mark_submitted :: "instant \<Rightarrow> carrier_payment_row \<Rightarrow> carrier_payment_row" where
  "mark_submitted t p = p\<lparr>cp_status := CP_PENDING_APPROVAL, cp_submittedAt := Some t\<rparr>"

definition submitCarrierPayment :: "uuid \<Rightarrow> uuid \<Rightarrow> uuid \<Rightarrow> carrier_payment_row tx" where
  "submitCarrierPayment organizationId i actingUserId =
     bind (require_carrier_payment organizationId i) (\<lambda>existing.
     andThen (throw_if (cp_status existing \<noteq> CP_DRAFT)
       (InvalidTransitionError ''Only a Draft Carrier Payment can be submitted for approval.''))
     (andThen (throw_if (\<not> truthy (cp_method existing) \<or> \<not> truthy (cp_referenceNumber existing))
       (BusinessRuleError ''Method and reference number are required before submission.''))
     (bind now (\<lambda>t.
      bind (update carrier_payments carrier_payments_update i (mark_submitted t)) (\<lambda>updated.
      andThen (audit_record (ev_cp organizationId ''Submitted for Approval'' i None actingUserId))
      (ret updated))))))"

definition mark_approved :: "uuid \<Rightarrow> instant \<Rightarrow> carrier_payment_row \<Rightarrow> carrier_payment_row" where
  "mark_approved actingUserId t p =
     p\<lparr>cp_status := CP_APPROVED, cp_approvedByUserId := Some actingUserId, cp_approvedAt := Some t\<rparr>"

definition approveCarrierPayment :: "uuid \<Rightarrow> uuid \<Rightarrow> uuid \<Rightarrow> carrier_payment_row tx" where
  "approveCarrierPayment organizationId i actingUserId =
     bind (require_carrier_payment organizationId i) (\<lambda>existing.
     andThen (throw_if (cp_status existing \<noteq> CP_PENDING_APPROVAL)
       (InvalidTransitionError ''Only a Pending Approval Carrier Payment can be approved.''))
     (andThen (throw_if (cp_preparedByUserId existing = actingUserId)
       (SelfReviewForbiddenError ''You cannot approve a Carrier Payment you prepared.''))
     (bind now (\<lambda>t.
      bind (update carrier_payments carrier_payments_update i (mark_approved actingUserId t)) (\<lambda>updated.
      andThen (audit_record (ev_cp organizationId ''Approved'' i
         (Some (JObj [(''amount'', JMoney (cp_amount existing))])) actingUserId))
      (ret updated))))))"

definition mark_rejected :: "uuid \<Rightarrow> string \<Rightarrow> instant \<Rightarrow> carrier_payment_row \<Rightarrow> carrier_payment_row" where
  "mark_rejected actingUserId reason t p =
     p\<lparr>cp_status := CP_DRAFT, cp_lastRejectedByUserId := Some actingUserId,
       cp_lastRejectedAt := Some t, cp_lastRejectionReason := Some reason\<rparr>"

definition rejectCarrierPayment :: "uuid \<Rightarrow> uuid \<Rightarrow> string \<Rightarrow> uuid \<Rightarrow> carrier_payment_row tx" where
  "rejectCarrierPayment organizationId i reason actingUserId =
     bind (require_carrier_payment organizationId i) (\<lambda>existing.
     andThen (throw_if (cp_status existing \<noteq> CP_PENDING_APPROVAL)
       (InvalidTransitionError ''Only a Pending Approval Carrier Payment can be rejected.''))
     (andThen (throw_if (cp_preparedByUserId existing = actingUserId)
       (SelfReviewForbiddenError ''You cannot reject a Carrier Payment you prepared.''))
     (bind now (\<lambda>t.
      bind (update carrier_payments carrier_payments_update i (mark_rejected actingUserId reason t)) (\<lambda>updated.
      andThen (audit_record (ev_cp organizationId ''Rejected'' i (Some (JObj [(''reason'', JStr reason)])) actingUserId))
      (ret updated))))))"

section \<open>Payment\<close>

definition mark_paid :: "instant \<Rightarrow> carrier_payment_row \<Rightarrow> carrier_payment_row" where
  "mark_paid t p = p\<lparr>cp_status := CP_PAID, cp_paidAt := Some t\<rparr>"

definition ev_settlement_generated :: "uuid \<Rightarrow> uuid \<Rightarrow> uuid \<Rightarrow> event_input" where
  "ev_settlement_generated organizationId i documentId =
     system_event organizationId ''Settlement Document Generated'' ''CarrierPayment'' i None
       (Some (JObj [(''documentId'', JId documentId)]))"

definition settlement_fileName :: "string \<Rightarrow> uuid \<Rightarrow> string" where
  "settlement_fileName loadNumber i = ''Settlement-'' @ loadNumber @ ''-'' @ show_nat i @ ''.pdf''"

definition load_number_of :: "uuid \<Rightarrow> db \<Rightarrow> string" where
  "load_number_of loadId s = (case tbl_find loadId (loads s) of None \<Rightarrow> [] | Some l \<Rightarrow> l_loadNumber l)"

definition markPaid_tx :: "uuid \<Rightarrow> uuid \<Rightarrow> instant option \<Rightarrow> uuid \<Rightarrow> (carrier_payment_row \<times> uuid) tx" where
  "markPaid_tx organizationId i paymentDate actingUserId =
     bind (require_carrier_payment organizationId i) (\<lambda>existing.
     andThen (throw_if (cp_status existing \<noteq> CP_APPROVED)
       (InvalidTransitionError ''Only an Approved Carrier Payment can be marked Paid.''))
     (bind now (\<lambda>t.
      let paidAt = (case paymentDate of None \<Rightarrow> t | Some d \<Rightarrow> d) in
      bind (update carrier_payments carrier_payments_update i (mark_paid paidAt)) (\<lambda>updated.
      bind (findDocumentType organizationId ''SETTLEMENT'') (\<lambda>foundType.
      bind (require foundType (NotFoundError ''Settlement document type is not configured.'')) (\<lambda>documentType.
      bind freshId (\<lambda>familyId.
      bind (gets (load_number_of (cp_loadId existing))) (\<lambda>loadNumber.
      bind (create_generated (generated_document organizationId familyId DE_CARRIER_PAYMENT i (fst documentType)
              (settlement_fileName loadNumber i) actingUserId t)) (\<lambda>documentId.
      andThen (audit_record (ev_cp organizationId ''Paid'' i
         (Some (JObj [(''amount'', JMoney (cp_amount existing)), (''paidAt'', JTime paidAt)])) actingUserId))
      (andThen (audit_record (ev_settlement_generated organizationId i documentId))
      (ret (updated, documentId))))))))))))"

definition settlement_job :: "uuid \<Rightarrow> uuid \<Rightarrow> uuid \<Rightarrow> job" where
  "settlement_job organizationId i documentId =
     \<lparr>j_queue = ''settlement-pdf'', j_name = ''generate'',
      j_data = JObj [(''documentId'', JId documentId), (''organizationId'', JId organizationId),
                     (''carrierPaymentId'', JId i)], j_jobId = None\<rparr>"

definition markPaid :: "uuid \<Rightarrow> uuid \<Rightarrow> instant option \<Rightarrow> uuid \<Rightarrow> world \<Rightarrow> (carrier_payment_row \<times> uuid) outcome" where
  "markPaid organizationId i paymentDate actingUserId w =
     then_enqueue (withTenantTransaction (markPaid_tx organizationId i paymentDate actingUserId) w)
       (\<lambda>(_, documentId). [settlement_job organizationId i documentId])"

section \<open>Views\<close>

definition findCarrierPaymentById :: "uuid \<Rightarrow> uuid \<Rightarrow> role list \<Rightarrow> carrier_payment_row tx" where
  "findCarrierPaymentById organizationId i actingRoles =
     andThen (throw_if (\<not> has_role actingRoles FINANCIAL_VIEW_ROLES)
       (PermissionError ''You do not have permission to view Carrier Payments.''))
     (require_carrier_payment organizationId i)"

definition listCarrierPayments ::
  "uuid \<Rightarrow> role list \<Rightarrow> uuid option \<Rightarrow> carrier_payment_status option \<Rightarrow> (uuid \<times> carrier_payment_row) list tx" where
  "listCarrierPayments organizationId actingRoles loadId status =
     andThen (throw_if (\<not> has_role actingRoles FINANCIAL_VIEW_ROLES)
       (PermissionError ''You do not have permission to view Carrier Payments.''))
     (bind (findMany carrier_payments (\<lambda>_ p. cp_organizationId p = organizationId \<and>
              (case loadId of None \<Rightarrow> True | Some l \<Rightarrow> cp_loadId p = l) \<and>
              (case status of None \<Rightarrow> True | Some st \<Rightarrow> cp_status p = st))) (\<lambda>found.
      ret (sort_key (\<lambda>(_, p). - cp_createdAt p) found)))"

section \<open>Every carrier-pay operation is lawful\<close>

lemma require_carrier_payment_iff [tx_iff]:
  "require_carrier_payment org i s = Inr z \<longleftrightarrow>
     (\<exists>p. tbl_find i (carrier_payments s) = Some p \<and> cp_organizationId p = org \<and> z = (p, s))"
  by (auto simp: require_carrier_payment_def tx_iff split: option.splits if_splits)

lemmas carrier_pay_rows = new_carrier_payment_def mark_submitted_def mark_approved_def mark_rejected_def
  mark_paid_def generated_document_def

lemma confined_carrier_pay:
  "keeps (confined org s0) (createCarrierPayment org l ccp u)"
  "keeps (confined org s0) (submitCarrierPayment org i u)"
  "keeps (confined org s0) (approveCarrierPayment org i u)"
  "keeps (confined org s0) (rejectCarrierPayment org i reason u)"
  "keeps (confined org s0) (markPaid_tx org i d u)"
  unfolding createCarrierPayment_def submitCarrierPayment_def approveCarrierPayment_def
    rejectCarrierPayment_def markPaid_tx_def require_carrier_payment_def require_load_def tx_assoc
  by ((rule confined_generated document_types_pure confined_rules | assumption
       | (simp add: carrier_pay_rows ev_cp_def ev_settlement_generated_def; fail))+)

end
