(* ===== verification/Document.thy ===== *)
theory Document
  imports CarrierPay
begin

text \<open>
  Documents: backend/src/modules/document/services/document.service.ts and
  document-consumption.ts. Uploads and versions, the scan result, the compliance review, deletion
  of a family, and the view rules. The object store is external: signing a URL is a parameter of
  getDownloadUrl, moving an object to quarantine either succeeds or throws.
\<close>

section \<open>Roles and rules\<close>

definition CARRIER_DOCUMENT_UPLOAD_ROLES :: "role list" where
  "CARRIER_DOCUMENT_UPLOAD_ROLES = [ADMIN, OPERATIONS_MANAGER, DISPATCHER]"

definition POD_UPLOAD_ROLES :: "role list" where
  "POD_UPLOAD_ROLES = [ADMIN, OPERATIONS_MANAGER, DISPATCHER, ACCOUNTING]"

definition RATE_CONFIRMATION_INTAKE_UPLOAD_ROLES :: "role list" where
  "RATE_CONFIRMATION_INTAKE_UPLOAD_ROLES = [ADMIN, OPERATIONS_MANAGER, DISPATCHER, SALES_BOOKING]"

definition required_stop_type :: "string \<Rightarrow> stop_type option" where
  "required_stop_type code =
     (if code = ''POD'' then Some ST_DELIVERY else if code = ''POP'' then Some ST_PICKUP else None)"

definition SUPPORTED_ENTITY_TYPES :: "doc_entity_type list" where
  "SUPPORTED_ENTITY_TYPES =
     [DE_CARRIER, DE_CUSTOMER, DE_DRIVER, DE_TRUCK, DE_TRAILER, DE_STOP, DE_LOAD, DE_RATE_CONFIRMATION_INTAKE]"

definition isDocumentConsumable :: "scan_status \<Rightarrow> bool" where
  "isDocumentConsumable scanStatus \<longleftrightarrow> scanStatus = SCAN_CLEAN \<or> scanStatus = SCAN_FAILED"

fun doc_entity_name :: "doc_entity_type \<Rightarrow> string" where
  "doc_entity_name DE_LOAD = ''LOAD''"
| "doc_entity_name DE_STOP = ''STOP''"
| "doc_entity_name DE_CUSTOMER = ''CUSTOMER''"
| "doc_entity_name DE_CARRIER = ''CARRIER''"
| "doc_entity_name DE_DRIVER = ''DRIVER''"
| "doc_entity_name DE_TRUCK = ''TRUCK''"
| "doc_entity_name DE_TRAILER = ''TRAILER''"
| "doc_entity_name DE_INVOICE = ''INVOICE''"
| "doc_entity_name DE_CARRIER_PAYMENT = ''CARRIER_PAYMENT''"
| "doc_entity_name DE_RATE_CONFIRMATION_INTAKE = ''RATE_CONFIRMATION_INTAKE''"

fun scan_name :: "scan_status \<Rightarrow> string" where
  "scan_name SCAN_PENDING = ''PENDING''"
| "scan_name SCAN_CLEAN = ''CLEAN''"
| "scan_name SCAN_INFECTED = ''INFECTED''"
| "scan_name SCAN_FAILED = ''SCAN_FAILED''"

definition exists_in :: "('a \<Rightarrow> uuid) \<Rightarrow> 'a table \<Rightarrow> uuid \<Rightarrow> uuid \<Rightarrow> bool" where
  "exists_in org_of t organizationId i \<longleftrightarrow>
     (case tbl_find i t of None \<Rightarrow> False | Some r \<Rightarrow> org_of r = organizationId)"

fun entityExists :: "uuid \<Rightarrow> doc_entity_type \<Rightarrow> uuid \<Rightarrow> db \<Rightarrow> bool" where
  "entityExists organizationId DE_CARRIER i s = exists_in c_organizationId (carriers s) organizationId i"
| "entityExists organizationId DE_CUSTOMER i s = exists_in cu_organizationId (customers s) organizationId i"
| "entityExists organizationId DE_DRIVER i s = exists_in dr_organizationId (drivers s) organizationId i"
| "entityExists organizationId DE_TRUCK i s = exists_in eq_organizationId (trucks s) organizationId i"
| "entityExists organizationId DE_TRAILER i s = exists_in eq_organizationId (trailers s) organizationId i"
| "entityExists organizationId DE_STOP i s = exists_in s_organizationId (stops s) organizationId i"
| "entityExists organizationId DE_LOAD i s = exists_in l_organizationId (loads s) organizationId i"
| "entityExists organizationId DE_RATE_CONFIRMATION_INTAKE i s = True"
| "entityExists organizationId _ i s = False"

definition assertEntityExists :: "uuid \<Rightarrow> doc_entity_type \<Rightarrow> uuid \<Rightarrow> unit tx" where
  "assertEntityExists organizationId entityType entityId =
     andThen (throw_if (entityType \<notin> set SUPPORTED_ENTITY_TYPES)
       (BusinessRuleError (''Document upload against entity type '' @ doc_entity_name entityType @ '' is not yet supported.'')))
     (bind (gets (entityExists organizationId entityType entityId)) (\<lambda>exists.
      throw_if (\<not> exists) (NotFoundError (doc_entity_name entityType @ '' not found.''))))"

text \<open>The roles of the request context; reading it outside a request is an error.\<close>

definition current_roles :: "role list tx" where
  "current_roles = bind (gets context_of) (\<lambda>ctx.
     bind (require ctx (ContextError ''RequestContext accessed outside of an active request.'')) (\<lambda>c. ret (rc_roles c)))"

definition require_roles :: "role list \<Rightarrow> string \<Rightarrow> unit tx" where
  "require_roles allowed msg =
     bind current_roles (\<lambda>roles. throw_if (\<not> has_role allowed roles) (PermissionError msg))"

definition assertUploadPermission :: "doc_entity_type \<Rightarrow> unit tx" where
  "assertUploadPermission entityType =
     andThen (run_when (entityType = DE_CARRIER) (require_roles CARRIER_DOCUMENT_UPLOAD_ROLES
       ''Uploading carrier documents requires Admin, Operations Manager, or Dispatcher.''))
     (andThen (run_when (entityType = DE_STOP) (require_roles POD_UPLOAD_ROLES
       ''Uploading a POD document requires Admin, Operations Manager, Dispatcher, or Accounting.''))
     (andThen (run_when (entityType = DE_LOAD) (require_roles POD_UPLOAD_ROLES
       ''Uploading a Load document requires Admin, Operations Manager, Dispatcher, or Accounting.''))
     (run_when (entityType = DE_RATE_CONFIRMATION_INTAKE) (require_roles RATE_CONFIRMATION_INTAKE_UPLOAD_ROLES
       ''Uploading a Rate Confirmation for extraction requires Admin, Operations Manager, Dispatcher, or Sales/Booking.''))))"

section \<open>Upload\<close>

record create_document_dto =
  cdd_entityType :: doc_entity_type
  cdd_entityId :: uuid
  cdd_documentTypeId :: uuid
  cdd_customTypeLabel :: "string option"
  cdd_fileName :: string
  cdd_mimeType :: string
  cdd_fileSizeBytes :: int
  cdd_existingDocumentFamilyId :: "uuid option"
  cdd_expirationDate :: "instant option"

definition check_stop_document :: "uuid \<Rightarrow> uuid \<Rightarrow> string \<Rightarrow> unit tx" where
  "check_stop_document organizationId stopId code =
     bind (require (required_stop_type code)
             (BusinessRuleError ''Only POD or POP documents can be uploaded against a Stop.'')) (\<lambda>requiredStopType.
     bind (findUnique stops stopId (\<lambda>p. s_organizationId p = organizationId)) (\<lambda>stop.
     throw_if (map_option s_stopType stop \<noteq> Some requiredStopType)
       (BusinessRuleError (if requiredStopType = ST_DELIVERY
          then ''POD documents can only be uploaded against a delivery Stop.''
          else ''POP documents can only be uploaded against a pickup Stop.''))))"

text \<open>The family and version number of the new row; the version it replaces stops being current.\<close>

definition next_version :: "uuid \<Rightarrow> uuid option \<Rightarrow> (uuid \<times> int) tx" where
  "next_version organizationId family =
     (case family of
        None \<Rightarrow> bind freshId (\<lambda>familyId. ret (familyId, 1))
      | Some familyId \<Rightarrow>
          bind (findFirst documents (\<lambda>_ d. doc_organizationId d = organizationId \<and>
                  doc_documentFamilyId d = familyId \<and> doc_isCurrentVersion d)) (\<lambda>found.
          bind (require found (NotFoundError ''Document family not found.'')) (\<lambda>(currentId, current).
          andThen (update documents documents_update currentId (\<lambda>d. d\<lparr>doc_isCurrentVersion := False\<rparr>))
          (ret (familyId, doc_versionNumber current + 1)))))"

definition new_document ::
  "uuid \<Rightarrow> create_document_dto \<Rightarrow> uuid \<Rightarrow> int \<Rightarrow> bool \<Rightarrow> uuid \<Rightarrow> instant \<Rightarrow> document_row" where
  "new_document organizationId dto familyId versionNumber requiresReview actingUserId t =
     \<lparr>doc_organizationId = organizationId, doc_documentFamilyId = familyId,
      doc_entityType = cdd_entityType dto, doc_entityId = cdd_entityId dto,
      doc_documentTypeId = cdd_documentTypeId dto, doc_customTypeLabel = cdd_customTypeLabel dto,
      doc_fileStorageKey = [], doc_fileName = cdd_fileName dto, doc_fileSizeBytes = cdd_fileSizeBytes dto,
      doc_mimeType = cdd_mimeType dto, doc_versionNumber = versionNumber, doc_isCurrentVersion = True,
      doc_scanStatus = SCAN_PENDING, doc_scannedAt = None, doc_scanProvider = None,
      doc_reviewStatus = Some (if requiresReview then RV_PENDING_REVIEW else RV_NOT_APPLICABLE),
      doc_generationStatus = None, doc_reviewedByUserId = None, doc_reviewedAt = None,
      doc_rejectionReason = None, doc_expirationDate = map_option start_of_day (cdd_expirationDate dto),
      doc_uploadedByUserId = actingUserId, doc_uploadedAt = t\<rparr>"

definition upload_action :: "doc_entity_type \<Rightarrow> string \<Rightarrow> bool \<Rightarrow> string" where
  "upload_action entityType code isReplacement =
     (if entityType = DE_STOP \<and> (code = ''POD'' \<or> code = ''POP'')
      then (if isReplacement then code @ '' Document Version Added'' else code @ '' Uploaded'')
      else ''Document Uploaded'')"

definition ev_document_uploaded :: "uuid \<Rightarrow> create_document_dto \<Rightarrow> string \<Rightarrow> uuid \<Rightarrow> uuid \<Rightarrow> event_input" where
  "ev_document_uploaded organizationId dto code documentId actingUserId =
     human_event organizationId
       (upload_action (cdd_entityType dto) code (cdd_existingDocumentFamilyId dto \<noteq> None))
       (doc_entity_name (cdd_entityType dto)) (cdd_entityId dto) None
       (Some (JObj [(''documentId'', JId documentId), (''fileName'', JStr (cdd_fileName dto)),
                    (''documentTypeCode'', JStr code)])) None actingUserId"

definition initiateUpload_tx :: "uuid \<Rightarrow> create_document_dto \<Rightarrow> uuid \<Rightarrow> (uuid \<times> document_row) tx" where
  "initiateUpload_tx organizationId dto actingUserId =
     andThen (assertUploadPermission (cdd_entityType dto))
     (andThen (assertEntityExists organizationId (cdd_entityType dto) (cdd_entityId dto))
     (bind (findUnique document_types (cdd_documentTypeId dto)
              (\<lambda>d. dt_organizationId d = Some organizationId \<or> dt_organizationId d = None)) (\<lambda>foundType.
      bind (require foundType (NotFoundError ''Document type not found.'')) (\<lambda>documentType.
      andThen (run_when (cdd_entityType dto = DE_STOP)
        (check_stop_document organizationId (cdd_entityId dto) (dt_code documentType)))
      (bind (next_version organizationId (cdd_existingDocumentFamilyId dto)) (\<lambda>version.
       bind now (\<lambda>t.
       bind (create documents_update (new_document organizationId dto (fst version) (snd version)
               (dt_requiresReview documentType) actingUserId t)) (\<lambda>documentId.
       bind (update documents documents_update documentId
               (\<lambda>d. d\<lparr>doc_fileStorageKey := buildDocumentKey organizationId documentId\<rparr>)) (\<lambda>updated.
       andThen (audit_record (ev_document_uploaded organizationId dto (dt_code documentType) documentId actingUserId))
       (ret (documentId, updated)))))))))))"

definition initiateUpload :: "uuid \<Rightarrow> create_document_dto \<Rightarrow> uuid \<Rightarrow> world \<Rightarrow> (uuid \<times> document_row) outcome" where
  "initiateUpload organizationId dto actingUserId w =
     withTenantTransaction (initiateUpload_tx organizationId dto actingUserId) w"

text \<open>The POD and POP entry points resolve the stop and the type, then delegate.\<close>

definition resolve_stop_upload :: "uuid \<Rightarrow> uuid \<Rightarrow> int \<Rightarrow> string \<Rightarrow> (uuid \<times> uuid) tx" where
  "resolve_stop_upload organizationId loadId sequence code =
     bind (findFirst stops (\<lambda>_ p. s_loadId p = loadId \<and> s_organizationId p = organizationId \<and>
             s_sequence p = sequence)) (\<lambda>foundStop.
     bind (require foundStop (NotFoundError ''Stop not found.'')) (\<lambda>stop.
     bind (findDocumentType organizationId code) (\<lambda>foundType.
     bind (require foundType (NotFoundError (code @ '' document type is not configured.''))) (\<lambda>documentType.
     ret (fst stop, fst documentType)))))"

definition initiateStopUpload ::
  "string \<Rightarrow> uuid \<Rightarrow> uuid \<Rightarrow> int \<Rightarrow> create_document_dto \<Rightarrow> uuid \<Rightarrow> world \<Rightarrow> (uuid \<times> document_row) outcome" where
  "initiateStopUpload code organizationId loadId sequence dto actingUserId w =
     (case withTenantTransaction (resolve_stop_upload organizationId loadId sequence code) w of
        (Inl e, w1) \<Rightarrow> (Inl e, w1)
      | (Inr (stopId, typeId), w1) \<Rightarrow>
          initiateUpload organizationId
            (dto\<lparr>cdd_entityType := DE_STOP, cdd_entityId := stopId, cdd_documentTypeId := typeId\<rparr>) actingUserId w1)"

definition initiatePodUpload ::
  "uuid \<Rightarrow> uuid \<Rightarrow> int \<Rightarrow> create_document_dto \<Rightarrow> uuid \<Rightarrow> world \<Rightarrow> (uuid \<times> document_row) outcome" where
  "initiatePodUpload = initiateStopUpload ''POD''"

definition initiatePopUpload ::
  "uuid \<Rightarrow> uuid \<Rightarrow> int \<Rightarrow> create_document_dto \<Rightarrow> uuid \<Rightarrow> world \<Rightarrow> (uuid \<times> document_row) outcome" where
  "initiatePopUpload = initiateStopUpload ''POP''"

section \<open>Confirmation and scan\<close>

definition require_document :: "uuid \<Rightarrow> uuid \<Rightarrow> document_row tx" where
  "require_document organizationId documentId =
     bind (findUnique documents documentId (\<lambda>d. doc_organizationId d = organizationId)) (\<lambda>document.
       require document (NotFoundError ''Document not found.''))"

definition scan_job :: "uuid \<Rightarrow> uuid \<Rightarrow> string \<Rightarrow> job" where
  "scan_job organizationId documentId storageKey =
     \<lparr>j_queue = ''malware-scan'', j_name = ''scan'',
      j_data = JObj [(''documentId'', JId documentId), (''organizationId'', JId organizationId),
                     (''storageKey'', JStr storageKey)], j_jobId = None\<rparr>"

definition ev_upload_confirmed :: "uuid \<Rightarrow> document_row \<Rightarrow> uuid \<Rightarrow> event_input" where
  "ev_upload_confirmed organizationId d actingUserId =
     human_event organizationId (''Document Upload Confirmed '' @ dash @ '' Scan Queued'')
       (doc_entity_name (doc_entityType d)) (doc_entityId d) None None None actingUserId"

definition confirmUpload_read :: "uuid \<Rightarrow> uuid \<Rightarrow> document_row tx" where
  "confirmUpload_read organizationId documentId =
     bind (require_document organizationId documentId) (\<lambda>d.
     andThen (throw_if (doc_scanStatus d \<noteq> SCAN_PENDING)
       (BusinessRuleError ''This document has already been confirmed.''))
     (ret d))"

definition confirmUpload :: "uuid \<Rightarrow> uuid \<Rightarrow> uuid \<Rightarrow> world \<Rightarrow> document_row outcome" where
  "confirmUpload organizationId documentId actingUserId w =
     (case then_enqueue (withTenantTransaction (confirmUpload_read organizationId documentId) w)
             (\<lambda>d. [scan_job organizationId documentId (doc_fileStorageKey d)]) of
        (Inl e, w1) \<Rightarrow> (Inl e, w1)
      | (Inr d, w1) \<Rightarrow>
          (case withTenantTransaction (audit_record (ev_upload_confirmed organizationId d actingUserId)) w1 of
             (Inl e, w2) \<Rightarrow> (Inl e, w2) | (Inr _, w2) \<Rightarrow> (Inr d, w2)))"

datatype scan_result = RESULT_CLEAN | RESULT_INFECTED | RESULT_FAILED

fun scan_status_of :: "scan_result \<Rightarrow> scan_status" where
  "scan_status_of RESULT_CLEAN = SCAN_CLEAN"
| "scan_status_of RESULT_INFECTED = SCAN_INFECTED"
| "scan_status_of RESULT_FAILED = SCAN_FAILED"

fun scan_action :: "scan_result \<Rightarrow> string" where
  "scan_action RESULT_CLEAN = ''Document Scan Completed '' @ dash @ '' Clean''"
| "scan_action RESULT_INFECTED = ''Document Scan Completed '' @ dash @ '' Infected (Quarantined)''"
| "scan_action RESULT_FAILED = ''Document Scan Failed (Quarantined)''"

definition buildQuarantineKey :: "uuid \<Rightarrow> uuid \<Rightarrow> string" where
  "buildQuarantineKey organizationId documentId =
     ''org_'' @ show_nat organizationId @ ''/quarantine/'' @ show_nat documentId"

definition ev_scan :: "uuid \<Rightarrow> uuid \<Rightarrow> document_row \<Rightarrow> scan_result \<Rightarrow> string \<Rightarrow> event_input" where
  "ev_scan organizationId documentId d result provider =
     system_event organizationId (scan_action result) (doc_entity_name (doc_entityType d)) (doc_entityId d) None
       (Some (JObj [(''documentId'', JId documentId), (''scanStatus'', JStr (scan_name (scan_status_of result))),
                    (''provider'', JStr provider)]))"

definition scanned :: "scan_result \<Rightarrow> string \<Rightarrow> string \<Rightarrow> instant \<Rightarrow> document_row \<Rightarrow> document_row" where
  "scanned result provider storageKey t d =
     d\<lparr>doc_scanStatus := scan_status_of result, doc_scannedAt := Some t, doc_scanProvider := Some provider,
       doc_fileStorageKey := storageKey\<rparr>"

definition notify_once :: "uuid \<Rightarrow> notification_type \<Rightarrow> uuid \<Rightarrow> uuid \<Rightarrow> string \<Rightarrow> unit tx" where
  "notify_once organizationId kind documentId uploader message =
     bind (findFirst notifications (\<lambda>_ n. n_organizationId n = organizationId \<and> n_type n = kind \<and>
             n_relatedEntityType n = Some ''Document'' \<and> n_relatedEntityId n = Some documentId)) (\<lambda>existing.
     run_when (existing = None)
       (createForUserAndRoles organizationId uploader ADMIN_VISIBILITY_ROLES
          \<lparr>ni_type = kind, ni_message = message, ni_relatedEntityType = Some ''Document'',
           ni_relatedEntityId = Some documentId\<rparr>))"

definition extraction_job :: "uuid \<Rightarrow> uuid \<Rightarrow> uuid \<Rightarrow> string \<Rightarrow> job" where
  "extraction_job organizationId extractionId documentId storageKey =
     \<lparr>j_queue = ''rate-confirmation-extraction'', j_name = ''extract'',
      j_data = JObj [(''extractionId'', JId extractionId), (''documentId'', JId documentId),
                     (''organizationId'', JId organizationId), (''storageKey'', JStr storageKey)],
      j_jobId = None\<rparr>"

definition recalculate_for_stop :: "uuid \<Rightarrow> document_row \<Rightarrow> unit tx" where
  "recalculate_for_stop organizationId d =
     run_when (doc_entityType d = DE_STOP)
       (bind (findUnique stops (doc_entityId d) (\<lambda>p. s_organizationId p = organizationId)) (\<lambda>stop.
        case stop of None \<Rightarrow> ret ()
        | Some p \<Rightarrow> andThen (recalculatePodStatus organizationId (s_loadId p)) (ret ())))"

text \<open>The body returns the jobs it adds to the extraction queue before the transaction ends.\<close>

definition applyScanResult_tx ::
  "bool \<Rightarrow> uuid \<Rightarrow> uuid \<Rightarrow> scan_result \<Rightarrow> string \<Rightarrow> job list tx" where
  "applyScanResult_tx storage_ok organizationId documentId result provider =
     bind (findUnique documents documentId (\<lambda>d. doc_organizationId d = organizationId)) (\<lambda>document.
     case document of None \<Rightarrow> ret []
     | Some d \<Rightarrow>
         let storageKey = (if result = RESULT_CLEAN then doc_fileStorageKey d
                           else buildQuarantineKey organizationId documentId) in
         andThen (throw_if (result \<noteq> RESULT_CLEAN \<and> \<not> storage_ok) (StorageError ''move to quarantine''))
         (bind now (\<lambda>t.
          andThen (update documents documents_update documentId (scanned result provider storageKey t))
          (andThen (audit_record (ev_scan organizationId documentId d result provider))
          (andThen (run_when (result \<noteq> RESULT_CLEAN)
            (notify_once organizationId DOCUMENT_SCAN_QUARANTINED documentId (doc_uploadedByUserId d)
               (''Document quarantined '' @ dash @ '' '' @ doc_fileName d)))
          (andThen (recalculate_for_stop organizationId d)
          (ret (if doc_entityType d = DE_RATE_CONFIRMATION_INTAKE \<and> isDocumentConsumable (scan_status_of result)
                then [extraction_job organizationId (doc_entityId d) documentId storageKey] else []))))))))"

text \<open>A transaction whose body adds jobs: when the queue refuses them, the body throws.\<close>

definition transaction_enqueueing :: "job list tx \<Rightarrow> world \<Rightarrow> unit outcome" where
  "transaction_enqueueing fn w =
     (case fn (w_db w) of
        Inl e \<Rightarrow> (Inl e, w)
      | Inr (jobs, s') \<Rightarrow>
          (case add_jobs jobs w of (Inl e, _) \<Rightarrow> (Inl e, w) | (Inr _, w') \<Rightarrow> (Inr (), w'\<lparr>w_db := s'\<rparr>)))"

definition applyScanResult :: "bool \<Rightarrow> uuid \<Rightarrow> uuid \<Rightarrow> scan_result \<Rightarrow> string \<Rightarrow> world \<Rightarrow> unit outcome" where
  "applyScanResult storage_ok organizationId documentId result provider w =
     transaction_enqueueing (applyScanResult_tx storage_ok organizationId documentId result provider) w"

section \<open>Review\<close>

datatype review_decision = APPROVED | REJECTED

fun review_status_of :: "review_decision \<Rightarrow> review_status" where
  "review_status_of APPROVED = RV_APPROVED"
| "review_status_of REJECTED = RV_REJECTED"

fun review_action :: "review_decision \<Rightarrow> string" where
  "review_action APPROVED = ''Compliance Document Approved''"
| "review_action REJECTED = ''Compliance Document Rejected''"

fun decision_name :: "review_decision \<Rightarrow> string" where
  "decision_name APPROVED = ''APPROVED''"
| "decision_name REJECTED = ''REJECTED''"

definition reviewed :: "review_decision \<Rightarrow> string option \<Rightarrow> uuid \<Rightarrow> instant \<Rightarrow> document_row \<Rightarrow> document_row" where
  "reviewed decision rejectionReason actingUserId t d =
     d\<lparr>doc_reviewStatus := Some (review_status_of decision), doc_reviewedByUserId := Some actingUserId,
       doc_reviewedAt := Some t,
       doc_rejectionReason := (if decision = REJECTED then coalesce rejectionReason (doc_rejectionReason d) else None)\<rparr>"

definition ev_review :: "uuid \<Rightarrow> uuid \<Rightarrow> document_row \<Rightarrow> review_decision \<Rightarrow> string option \<Rightarrow> uuid \<Rightarrow> event_input" where
  "ev_review organizationId documentId d decision rejectionReason actingUserId =
     human_event organizationId (review_action decision) (doc_entity_name (doc_entityType d)) (doc_entityId d) None
       (Some (JObj [(''documentId'', JId documentId), (''decision'', JStr (decision_name decision)),
                    (''rejectionReason'', JOpt JStr rejectionReason)])) None actingUserId"

definition rejection_message :: "document_row \<Rightarrow> string option \<Rightarrow> string" where
  "rejection_message d rejectionReason =
     ''Document rejected '' @ dash @ '' '' @ doc_fileName d @ [CHR 0x0A] @
       (case rejectionReason of None \<Rightarrow> ''undefined'' | Some r \<Rightarrow> r)"

definition requires_review :: "uuid \<Rightarrow> db \<Rightarrow> bool" where
  "requires_review typeId s =
     (case tbl_find typeId (document_types s) of None \<Rightarrow> False | Some d \<Rightarrow> dt_requiresReview d)"

definition review :: "uuid \<Rightarrow> uuid \<Rightarrow> review_decision \<Rightarrow> string option \<Rightarrow> uuid \<Rightarrow> document_row tx" where
  "review organizationId documentId decision rejectionReason actingUserId =
     bind (require_document organizationId documentId) (\<lambda>document.
     bind (gets (requires_review (doc_documentTypeId document))) (\<lambda>requiresReview.
     andThen (throw_if (\<not> requiresReview) (BusinessRuleError ''This document type does not require review.''))
     (andThen (throw_if (doc_reviewStatus document \<noteq> Some RV_PENDING_REVIEW)
       (BusinessRuleError ''This document is not pending review.''))
     (andThen (throw_if (doc_uploadedByUserId document = actingUserId)
       (SelfReviewForbiddenError ''You cannot approve a document you uploaded. Another Compliance reviewer must approve it.''))
     (bind now (\<lambda>t.
      bind (update documents documents_update documentId (reviewed decision rejectionReason actingUserId t)) (\<lambda>updated.
      andThen (audit_record (ev_review organizationId documentId document decision rejectionReason actingUserId))
      (andThen (if doc_entityType document = DE_CARRIER
                then andThen (recalculate organizationId (doc_entityId document)) (ret ()) else ret ())
      (andThen (run_when (decision = REJECTED)
        (notify_once organizationId COMPLIANCE_DOCUMENT_REJECTED documentId (doc_uploadedByUserId document)
           (rejection_message document rejectionReason)))
      (ret updated))))))))))"

section \<open>Deletion\<close>

definition in_family :: "uuid \<Rightarrow> uuid \<Rightarrow> document_row \<Rightarrow> bool" where
  "in_family organizationId familyId d \<longleftrightarrow> doc_organizationId d = organizationId \<and> doc_documentFamilyId d = familyId"

definition ev_family_deleted :: "uuid \<Rightarrow> document_row \<Rightarrow> document_row list \<Rightarrow> uuid \<Rightarrow> event_input" where
  "ev_family_deleted organizationId d versions actingUserId =
     human_event organizationId ''Document Family Deleted'' (doc_entity_name (doc_entityType d)) (doc_entityId d) None
       (Some (JObj [(''documentFamilyId'', JId (doc_documentFamilyId d)), (''versionCount'', JInt (int (length versions))),
                    (''fileNames'', JArr (map (\<lambda>v. JStr (doc_fileName v)) versions))])) None actingUserId"

text \<open>Returns the storage keys that the second phase then deletes from the object store.\<close>

definition deleteDocumentFamily :: "uuid \<Rightarrow> uuid \<Rightarrow> uuid \<Rightarrow> string list tx" where
  "deleteDocumentFamily organizationId documentId actingUserId =
     andThen (require_roles POD_UPLOAD_ROLES
       ''Deleting a document requires Admin, Operations Manager, Dispatcher, or Accounting.'')
     (bind (require_document organizationId documentId) (\<lambda>document.
      bind (findMany documents (\<lambda>_. in_family organizationId (doc_documentFamilyId document))) (\<lambda>versions.
      bind (findFirst load_drafts (\<lambda>_ l. ld_organizationId l = organizationId \<and>
              ld_rateConfirmationDocumentId l \<in> set (map fst versions))) (\<lambda>referencingDraft.
      andThen (throw_if (referencingDraft \<noteq> None)
        (BusinessRuleError ''Cannot delete document because it is associated with a Load Draft. Delete the Load Draft first, then try again.''))
      (bind (findFirst carrier_insurance (\<lambda>_ r. in_organizationId r = organizationId \<and>
               in_coiDocumentId r \<in> set (map fst versions))) (\<lambda>referencingCoi.
       andThen (throw_if (referencingCoi \<noteq> None)
         (BusinessRuleError ''Cannot delete document because it is referenced by a Carrier Insurance record.''))
       (andThen (deleteMany documents_update (\<lambda>_. in_family organizationId (doc_documentFamilyId document)))
       (andThen (audit_record (ev_family_deleted organizationId document (map snd versions) actingUserId))
       (ret (map (\<lambda>(_, v). doc_fileStorageKey v) versions))))))))))"

section \<open>Views\<close>

definition assertViewPermission :: "uuid \<Rightarrow> doc_entity_type \<Rightarrow> uuid \<Rightarrow> uuid \<Rightarrow> role list \<Rightarrow> unit tx" where
  "assertViewPermission organizationId entityType entityId actingUserId actingRoles =
     (if entityType = DE_CARRIER_PAYMENT
      then throw_if (\<not> has_role actingRoles FINANCIAL_VIEW_ROLES)
             (PermissionError ''You do not have permission to view Carrier Payment documents.'')
      else if entityType = DE_INVOICE
      then (if has_role actingRoles FINANCIAL_VIEW_ROLES then ret ()
            else bind (findUnique invoices entityId (\<lambda>r. i_organizationId r = organizationId)) (\<lambda>invoice.
                 bind (gets (\<lambda>s. case invoice of None \<Rightarrow> False | Some r \<Rightarrow> own_invoice s r actingUserId)) (\<lambda>ownDeal.
                 throw_if (\<not> (SALES_BOOKING \<in> set actingRoles \<and> ownDeal))
                   (PermissionError ''You do not have permission to view Invoice documents.''))))
      else ret ())"

definition listDocuments ::
  "uuid \<Rightarrow> doc_entity_type \<Rightarrow> uuid \<Rightarrow> uuid \<Rightarrow> role list \<Rightarrow> (uuid \<times> document_row) list tx" where
  "listDocuments organizationId entityType entityId actingUserId actingRoles =
     andThen (assertViewPermission organizationId entityType entityId actingUserId actingRoles)
     (bind (findMany documents (\<lambda>_ d. doc_organizationId d = organizationId \<and> doc_entityType d = entityType \<and>
              doc_entityId d = entityId \<and> doc_isCurrentVersion d)) (\<lambda>found.
      ret (sort_key (\<lambda>(_, d). - doc_uploadedAt d) found)))"

definition listPendingReview :: "uuid \<Rightarrow> (uuid \<times> document_row \<times> string option) list tx" where
  "listPendingReview organizationId =
     bind (findMany documents (\<lambda>_ d. doc_organizationId d = organizationId \<and> doc_entityType d = DE_CARRIER \<and>
             doc_reviewStatus d = Some RV_PENDING_REVIEW \<and> doc_isCurrentVersion d)) (\<lambda>found.
     gets (\<lambda>s. map (\<lambda>(i, d). (i, d, case tbl_find (doc_entityId d) (carriers s) of None \<Rightarrow> None
              | Some c \<Rightarrow> if c_organizationId c = organizationId then Some (c_legalName c) else None))
          (sort_key (\<lambda>(_, d). doc_uploadedAt d) found)))"

definition getDownloadUrl :: "(string \<Rightarrow> string) \<Rightarrow> uuid \<Rightarrow> uuid \<Rightarrow> uuid \<Rightarrow> role list \<Rightarrow> string tx" where
  "getDownloadUrl sign organizationId documentId actingUserId actingRoles =
     bind (require_document organizationId documentId) (\<lambda>document.
     andThen (assertViewPermission organizationId (doc_entityType document) (doc_entityId document) actingUserId actingRoles)
     (andThen (throw_if (\<not> isDocumentConsumable (doc_scanStatus document))
       (BusinessRuleError (''This document is not available for download (scan status: '' @
          scan_name (doc_scanStatus document) @ '').'')))
     (ret (sign (doc_fileStorageKey document)))))"

section \<open>Every document operation is lawful\<close>

lemma require_document_iff [tx_iff]:
  "require_document org i s = Inr z \<longleftrightarrow>
     (\<exists>d. tbl_find i (documents s) = Some d \<and> doc_organizationId d = org \<and> z = (d, s))"
  by (auto simp: require_document_def tx_iff split: option.splits if_splits)

lemmas document_rows = new_document_def scanned_def reviewed_def in_family_def

lemmas document_events = ev_document_uploaded_def ev_upload_confirmed_def ev_scan_def ev_review_def ev_family_deleted_def

lemma confined_document_checks:
  "keeps (confined org s0) (assertUploadPermission t)"
  "keeps (confined org s0) (assertEntityExists o' t i)"
  "keeps (confined org s0) (check_stop_document o' i code)"
  "keeps (confined org s0) (require_roles rs msg)"
  unfolding assertUploadPermission_def assertEntityExists_def check_stop_document_def require_roles_def
    current_roles_def tx_assoc
  by (rule confined.keeps_intros confined_reads)+

lemma confined_next_version: "keeps (confined org s0) (next_version org fam)"
  unfolding next_version_def tx_assoc by ((rule confined_rules | assumption | (simp; fail))+)

lemma confined_notify_once: "keeps (confined org s0) (notify_once org kind i u m)"
  unfolding notify_once_def by ((rule confined_notification confined_rules | (simp; fail))+)

lemma confined_document:
  "keeps (confined org s0) (initiateUpload_tx org cdd u)"
  "keeps (confined org s0) (applyScanResult_tx ok org i result provider)"
  "keeps (confined org s0) (review org i decision reason u)"
  "keeps (confined org s0) (deleteDocumentFamily org i u)"
  unfolding initiateUpload_tx_def applyScanResult_tx_def review_def deleteDocumentFamily_def require_document_def
    recalculate_for_stop_def tx_assoc
  by ((rule confined_document_checks confined_next_version confined_notify_once confined_eligibility
        confined_load documents_of.confined_created confined_rules | assumption
       | (simp add: document_rows document_events; fail))+)

end
