(* ===== verification/Detectors.thy ===== *)
theory Detectors
  imports Document
begin

text \<open>
  The pure risk detectors of backend/src/modules/quote-load/utils (load-lateness.ts, eta-risk.ts,
  appointment-risk.ts, location-staleness.ts, missing-pod-risk.ts, manual-risk-flag.ts) and the
  redaction of prices in services/financial-field-shaping.ts. Ages are kept in milliseconds; the
  code divides them by a constant and compares the quotient with a whole number, which is the same
  comparison.
\<close>

datatype attention_severity = SEV_CRITICAL | SEV_HIGH | SEV_MEDIUM | SEV_INFO

definition minute_ms :: int where
  "minute_ms = 60000"

definition hour_ms :: int where
  "hour_ms = 3600000"

section \<open>Appointments\<close>

record lateness_stop =
  ls_stopType :: stop_type
  ls_status :: stop_status
  ls_appointmentDatetime :: "instant option"
  ls_sequence :: int
  ls_stopPurpose :: "stop_purpose option"

definition standard_stop :: "lateness_stop \<Rightarrow> bool" where
  "standard_stop p \<longleftrightarrow> (case ls_stopPurpose p of None \<Rightarrow> STANDARD | Some q \<Rightarrow> q) = STANDARD"

definition is_late :: "instant \<Rightarrow> lateness_stop \<Rightarrow> bool" where
  "is_late t p \<longleftrightarrow> standard_stop p \<and> ls_status p \<noteq> SS_COMPLETED \<and>
     (case ls_appointmentDatetime p of None \<Rightarrow> False | Some a \<Rightarrow> a < t)"

definition findLateStop :: "lateness_stop list \<Rightarrow> instant \<Rightarrow> (stop_type \<times> instant) option" where
  "findLateStop sts t =
     (case sort_key ls_sequence (filter (is_late t) sts) of [] \<Rightarrow> None
      | p # _ \<Rightarrow> Some (ls_stopType p, the (ls_appointmentDatetime p)))"

definition is_candidate :: "lateness_stop \<Rightarrow> bool" where
  "is_candidate p \<longleftrightarrow> standard_stop p \<and> ls_status p = SS_PENDING \<and> ls_appointmentDatetime p \<noteq> None"

definition distance_to :: "instant \<Rightarrow> lateness_stop \<Rightarrow> int" where
  "distance_to t p = \<bar>the (ls_appointmentDatetime p) - t\<bar>"

text \<open>Nearest appointment first, the sequence breaking ties: two stable sorts.\<close>

definition findApplicableAppointmentStop :: "lateness_stop list \<Rightarrow> instant \<Rightarrow> (stop_type \<times> instant) option" where
  "findApplicableAppointmentStop sts t =
     (case sort_key (distance_to t) (sort_key ls_sequence (filter is_candidate sts)) of [] \<Rightarrow> None
      | p # _ \<Rightarrow> Some (ls_stopType p, the (ls_appointmentDatetime p)))"

section \<open>ETA risk\<close>

definition computeEtaRiskSeverity :: "int \<Rightarrow> attention_severity" where
  "computeEtaRiskSeverity minutesAfter =
     (if minutesAfter \<ge> 60 then SEV_CRITICAL else if minutesAfter \<ge> 15 then SEV_HIGH else SEV_MEDIUM)"

record eta_risk =
  er_stopType :: stop_type
  er_appointmentDatetime :: instant
  er_currentEta :: instant
  er_minutesAfter :: int
  er_severity :: attention_severity

text \<open>Rounding up: the quotient of the negated dividend, negated.\<close>

definition minutes_up :: "int \<Rightarrow> int" where
  "minutes_up ms = - ((- ms) div minute_ms)"

definition evaluateEtaRisk :: "instant option \<Rightarrow> lateness_stop list \<Rightarrow> instant \<Rightarrow> eta_risk option" where
  "evaluateEtaRisk currentEta sts t =
     (case currentEta of None \<Rightarrow> None
      | Some eta \<Rightarrow>
         (case findApplicableAppointmentStop sts t of None \<Rightarrow> None
          | Some (stopType, appointment) \<Rightarrow>
              if eta - appointment \<le> 0 then None
              else Some \<lparr>er_stopType = stopType, er_appointmentDatetime = appointment, er_currentEta = eta,
                         er_minutesAfter = minutes_up (eta - appointment),
                         er_severity = computeEtaRiskSeverity (minutes_up (eta - appointment))\<rparr>))"

section \<open>Appointment imminent\<close>

datatype activity_source = SRC_CHECK_CALL | SRC_DISPATCH

record appointment_risk =
  ai_stopType :: stop_type
  ai_appointmentDatetime :: instant
  ai_untilAppointment :: int       \<comment> \<open>milliseconds\<close>
  ai_sinceLastActivity :: int      \<comment> \<open>milliseconds\<close>
  ai_lastActivitySource :: activity_source
  ai_severity :: attention_severity

definition evaluateAppointmentImminent ::
  "lateness_stop list \<Rightarrow> instant option \<Rightarrow> instant option \<Rightarrow> instant \<Rightarrow> appointment_risk option" where
  "evaluateAppointmentImminent sts currentLocationUpdatedAt dispatchedAt t =
     (case findApplicableAppointmentStop sts t of None \<Rightarrow> None
      | Some (stopType, appointment) \<Rightarrow>
         if appointment \<le> t \<or> appointment - t > 180 * minute_ms then None
         else (case coalesce currentLocationUpdatedAt dispatchedAt of None \<Rightarrow> None
               | Some lastActivityAt \<Rightarrow>
                   if t - lastActivityAt < 120 * minute_ms then None
                   else Some \<lparr>ai_stopType = stopType, ai_appointmentDatetime = appointment,
                              ai_untilAppointment = appointment - t, ai_sinceLastActivity = t - lastActivityAt,
                              ai_lastActivitySource =
                                (if currentLocationUpdatedAt = None then SRC_DISPATCH else SRC_CHECK_CALL),
                              ai_severity = (if appointment - t \<le> 60 * minute_ms then SEV_HIGH else SEV_MEDIUM)\<rparr>))"

section \<open>Stale location, missing POD, manual flag\<close>

definition computeStaleLocationSeverity :: "int \<Rightarrow> attention_severity" where
  "computeStaleLocationSeverity age = (if age \<ge> 180 * minute_ms then SEV_HIGH else SEV_MEDIUM)"

definition evaluateLocationStaleness :: "instant option \<Rightarrow> instant \<Rightarrow> (int \<times> attention_severity) option" where
  "evaluateLocationStaleness currentLocationUpdatedAt t =
     (case currentLocationUpdatedAt of None \<Rightarrow> None
      | Some u \<Rightarrow> if t - u < 120 * minute_ms then None else Some (t - u, computeStaleLocationSeverity (t - u)))"

datatype pod_clock = CLOSED_AT | DELIVERED_AUDIT_ENTRY

definition evaluateMissingPod ::
  "load_status \<Rightarrow> instant option \<Rightarrow> instant option \<Rightarrow> bool \<Rightarrow> instant \<Rightarrow> (int \<times> pod_clock \<times> attention_severity) option" where
  "evaluateMissingPod status closedAt deliveredAuditEntryAt hasAnyPodDocument t =
     (if status \<notin> {DELIVERED, CLOSED} \<or> hasAnyPodDocument then None
      else case (if status = CLOSED then closedAt else deliveredAuditEntryAt) of None \<Rightarrow> None
           | Some clockValue \<Rightarrow>
               if t - clockValue < 48 * hour_ms then None
               else Some (t - clockValue, if status = CLOSED then CLOSED_AT else DELIVERED_AUDIT_ENTRY, SEV_HIGH))"

definition evaluateManualRiskFlag :: "risk_status \<Rightarrow> string option \<Rightarrow> (risk_status \<times> string \<times> attention_severity) option" where
  "evaluateManualRiskFlag riskStatus riskReason =
     (case riskStatus of RISK_NORMAL \<Rightarrow> None
      | RISK_AT_RISK \<Rightarrow> Some (riskStatus,
          (case riskReason of Some r \<Rightarrow> if trim r \<noteq> [] then r
               else ''A dispatcher marked this load At Risk; no reason was recorded.''
           | None \<Rightarrow> ''A dispatcher marked this load At Risk; no reason was recorded.''), SEV_MEDIUM)
      | RISK_DELAYED \<Rightarrow> Some (riskStatus,
          (case riskReason of Some r \<Rightarrow> if trim r \<noteq> [] then r
               else ''A dispatcher marked this load Delayed; no reason was recorded.''
           | None \<Rightarrow> ''A dispatcher marked this load Delayed; no reason was recorded.''), SEV_HIGH))"

section \<open>Redaction of prices\<close>

text \<open>
  The shaped part of a load or quote as a response: the fields that may be absent are options, a
  value the reader may not see is None.
\<close>

record shaped =
  sh_createdByUserId :: uuid
  sh_customerRate :: "cents option"
  sh_rateSource :: "rate_source option"
  sh_rateAgreementId :: "uuid option"
  sh_carrierRate :: "cents option option"
  sh_customerChargesTotal :: "cents option option"
  sh_sourcingAttempts :: "cents option list option"                 \<comment> \<open>the rate of each attempt\<close>
  sh_chargeLineItems :: "(charge_side \<times> cents option) list option"  \<comment> \<open>side and amount\<close>

definition FULL_VISIBILITY_ROLES :: "role list" where
  "FULL_VISIBILITY_ROLES = [ADMIN, OPERATIONS_MANAGER, ACCOUNTING]"

definition shows_carrier_side :: "role list \<Rightarrow> bool" where
  "shows_carrier_side actingRoles \<longleftrightarrow> has_role actingRoles FULL_VISIBILITY_ROLES"

definition shows_customer_side :: "role list \<Rightarrow> uuid \<Rightarrow> uuid \<Rightarrow> bool" where
  "shows_customer_side actingRoles createdByUserId actingUserId \<longleftrightarrow>
     shows_carrier_side actingRoles \<or> (SALES_BOOKING \<in> set actingRoles \<and> createdByUserId = actingUserId)"

definition shapeFinancialFields :: "shaped \<Rightarrow> role list \<Rightarrow> uuid \<Rightarrow> shaped" where
  "shapeFinancialFields r actingRoles actingUserId =
     (let showCarrierSide = shows_carrier_side actingRoles;
          showCustomerSide = shows_customer_side actingRoles (sh_createdByUserId r) actingUserId in
      if showCustomerSide \<and> showCarrierSide then r
      else r\<lparr>sh_customerRate := (if showCustomerSide then sh_customerRate r else None),
             sh_rateSource := (if showCustomerSide then sh_rateSource r else None),
             sh_rateAgreementId := (if showCustomerSide then sh_rateAgreementId r else None),
             sh_carrierRate := (if showCarrierSide then sh_carrierRate r else map_option (\<lambda>_. None) (sh_carrierRate r)),
             sh_customerChargesTotal := (if showCustomerSide then sh_customerChargesTotal r
                else map_option (\<lambda>_. None) (sh_customerChargesTotal r)),
             sh_sourcingAttempts := (if showCarrierSide then sh_sourcingAttempts r
                else map_option (map (\<lambda>_. None)) (sh_sourcingAttempts r)),
             sh_chargeLineItems := map_option (map (\<lambda>(side, amount).
                (side, if (if side = CUSTOMER_SIDE then showCustomerSide else showCarrierSide) then amount else None)))
                (sh_chargeLineItems r)\<rparr>)"

definition shapeFinancialFieldsList :: "shaped list \<Rightarrow> role list \<Rightarrow> uuid \<Rightarrow> shaped list" where
  "shapeFinancialFieldsList rs actingRoles actingUserId = map (\<lambda>r. shapeFinancialFields r actingRoles actingUserId) rs"

text \<open>What the shaped record says about the carrier's side and about the customer's side.\<close>

definition carrier_side_hidden :: "shaped \<Rightarrow> bool" where
  "carrier_side_hidden r \<longleftrightarrow>
     (\<forall>v. sh_carrierRate r = Some v \<longrightarrow> v = None) \<and>
     (\<forall>xs. sh_sourcingAttempts r = Some xs \<longrightarrow> set xs \<subseteq> {None}) \<and>
     (\<forall>xs a. sh_chargeLineItems r = Some xs \<longrightarrow> (CARRIER_SIDE, a) \<in> set xs \<longrightarrow> a = None)"

definition customer_side_hidden :: "shaped \<Rightarrow> bool" where
  "customer_side_hidden r \<longleftrightarrow>
     sh_customerRate r = None \<and> sh_rateSource r = None \<and> sh_rateAgreementId r = None \<and>
     (\<forall>v. sh_customerChargesTotal r = Some v \<longrightarrow> v = None) \<and>
     (\<forall>xs a. sh_chargeLineItems r = Some xs \<longrightarrow> (CUSTOMER_SIDE, a) \<in> set xs \<longrightarrow> a = None)"

section \<open>Lemmas\<close>

lemma minutes_up_bounds: "60000 * (minutes_up ms - 1) < ms" "ms \<le> 60000 * minutes_up ms"
proof -
  define q where "q = (- ms) div 60000"
  define r where "r = (- ms) mod 60000"
  have "q * 60000 + r = - ms" "0 \<le> r" "r < 60000" by (simp_all add: q_def r_def)
  then have "60000 * (- q - 1) < ms \<and> ms \<le> 60000 * - q" by simp
  then show "60000 * (minutes_up ms - 1) < ms" "ms \<le> 60000 * minutes_up ms"
    by (simp_all only: minutes_up_def minute_ms_def q_def)
qed

lemma sort_key_head:
  assumes "sort_key f xs = y # ys"
  shows "y \<in> set xs" and "\<forall>z \<in> set xs. f y \<le> f z"
proof -
  have "set (sort_key f xs) = set xs" by simp
  then show "y \<in> set xs" using assms by auto
  have "sorted (map f (y # ys))" using sorted_sort_key [of f xs] unfolding assms .
  moreover have "set xs = set (y # ys)" using assms \<open>set (sort_key f xs) = set xs\<close> by simp
  ultimately show "\<forall>z \<in> set xs. f y \<le> f z" by simp
qed

lemma applicable_SomeD:
  assumes "findApplicableAppointmentStop sts t = Some (ty, a)"
  obtains p where "p \<in> set sts" and "is_candidate p" and "ls_stopType p = ty" and "ls_appointmentDatetime p = Some a"
    and "\<forall>q \<in> set sts. is_candidate q \<longrightarrow> distance_to t p \<le> distance_to t q"
proof -
  obtain p ps where ps: "sort_key (distance_to t) (sort_key ls_sequence (filter is_candidate sts)) = p # ps"
    and ty: "ls_stopType p = ty" "the (ls_appointmentDatetime p) = a"
    using assms by (auto simp: findApplicableAppointmentStop_def split: list.splits)
  from sort_key_head [OF ps] have p: "p \<in> set sts" "is_candidate p"
    and le: "\<forall>q \<in> set sts. is_candidate q \<longrightarrow> distance_to t p \<le> distance_to t q" by simp_all
  moreover have "ls_appointmentDatetime p = Some a" using p(2) ty(2) by (auto simp: is_candidate_def)
  ultimately show thesis using that ty(1) by blast
qed

lemma applicable_None_iff:
  "findApplicableAppointmentStop sts t = None \<longleftrightarrow> (\<forall>p \<in> set sts. \<not> is_candidate p)"
proof -
  have "findApplicableAppointmentStop sts t = None \<longleftrightarrow>
      sort_key (distance_to t) (sort_key ls_sequence (filter is_candidate sts)) = []"
    by (simp add: findApplicableAppointmentStop_def split: list.split)
  also have "\<dots> \<longleftrightarrow> filter is_candidate sts = []"
    by (metis set_empty set_sort)
  finally show ?thesis by (simp add: filter_empty_conv)
qed

end
