(* ===== verification/Drafts.thy ===== *)
theory Drafts
  imports Detectors
begin

text \<open>
  Load drafts: backend/src/modules/load-draft/services/load-draft.service.ts. A draft keeps what was
  read out of an uploaded rate confirmation until the load is booked; the extracted data is an opaque
  JSON value here.
\<close>

record create_draft_dto =
  dr_extractionId :: uuid
  dr_draftCustomerId :: uuid
  dr_extractedData :: json

record draft_summary =
  sm_id :: uuid
  sm_customerId :: uuid
  sm_customerLegalName :: string
  sm_customerStatus :: customer_status
  sm_rateConfirmationDocumentId :: uuid
  sm_rateConfirmationFileName :: string
  sm_createdAt :: instant

type_synonym draft_detail = "draft_summary \<times> json"

definition toSummary :: "uuid \<Rightarrow> load_draft_row \<Rightarrow> customer_row \<Rightarrow> document_row \<Rightarrow> draft_summary" where
  "toSummary draftId draft customer document =
     \<lparr>sm_id = draftId, sm_customerId = ld_customerId draft, sm_customerLegalName = cu_legalName customer,
      sm_customerStatus = cu_status customer, sm_rateConfirmationDocumentId = ld_rateConfirmationDocumentId draft,
      sm_rateConfirmationFileName = doc_fileName document, sm_createdAt = ld_createdAt draft\<rparr>"

definition toDetail :: "uuid \<Rightarrow> load_draft_row \<Rightarrow> customer_row \<Rightarrow> document_row \<Rightarrow> draft_detail" where
  "toDetail draftId draft customer document = (toSummary draftId draft customer document, ld_extractedData draft)"

definition intake_document :: "uuid \<Rightarrow> uuid \<Rightarrow> document_row \<Rightarrow> bool" where
  "intake_document organizationId extractionId d \<longleftrightarrow>
     doc_organizationId d = organizationId \<and> doc_entityType d = DE_RATE_CONFIRMATION_INTAKE \<and>
     doc_entityId d = extractionId \<and> doc_isCurrentVersion d"

definition new_draft :: "uuid \<Rightarrow> create_draft_dto \<Rightarrow> uuid \<Rightarrow> uuid \<Rightarrow> instant \<Rightarrow> load_draft_row" where
  "new_draft organizationId dto documentId actingUserId t =
     \<lparr>ld_organizationId = organizationId, ld_createdByUserId = actingUserId, ld_customerId = dr_draftCustomerId dto,
      ld_rateConfirmationDocumentId = documentId, ld_extractedData = dr_extractedData dto, ld_createdAt = t\<rparr>"

text \<open>
  The column of the document is unique over all organizations. A violation aborts the transaction,
  so that the query of the \<^verbatim>\<open>catch\<close> block cannot run in it either.
\<close>

definition create_draft :: "load_draft_row \<Rightarrow> uuid tx" where
  "create_draft r =
     bind (findFirst load_drafts (\<lambda>_ d. ld_rateConfirmationDocumentId d = ld_rateConfirmationDocumentId r)) (\<lambda>taken.
     andThen (throw_if (taken \<noteq> None) (PrismaError ''P2002'')) (create load_drafts_update r))"

definition draft_create :: "uuid \<Rightarrow> uuid \<Rightarrow> create_draft_dto \<Rightarrow> draft_detail tx" where
  "draft_create organizationId actingUserId dto =
     bind (findFirst documents (\<lambda>_. intake_document organizationId (dr_extractionId dto))) (\<lambda>found.
     bind (require found (NotFoundError ''Rate Confirmation upload not found.'')) (\<lambda>(documentId, document).
     bind (findUnique customers (dr_draftCustomerId dto) (\<lambda>c. cu_organizationId c = organizationId)) (\<lambda>who.
     bind (require who (NotFoundError ''Customer not found.'')) (\<lambda>customer.
     bind (findFirst load_drafts (\<lambda>_ d. ld_organizationId d = organizationId \<and>
             ld_rateConfirmationDocumentId d = documentId)) (\<lambda>existing.
     case existing of
       Some (draftId, draft) \<Rightarrow> ret (toDetail draftId draft customer document)
     | None \<Rightarrow>
         bind now (\<lambda>t.
         bind (create_draft (new_draft organizationId dto documentId actingUserId t)) (\<lambda>draftId.
           ret (toDetail draftId (new_draft organizationId dto documentId actingUserId t) customer document))))))))"

definition draft_get :: "uuid \<Rightarrow> uuid \<Rightarrow> draft_detail tx" where
  "draft_get organizationId draftId =
     bind (findUnique load_drafts draftId (\<lambda>d. ld_organizationId d = organizationId)) (\<lambda>found.
     bind (require found (NotFoundError ''Load draft not found.'')) (\<lambda>draft.
     bind (findUnique customers (ld_customerId draft) (\<lambda>c. cu_organizationId c = organizationId)) (\<lambda>customer.
     bind (findUnique documents (ld_rateConfirmationDocumentId draft) (\<lambda>d. doc_organizationId d = organizationId))
       (\<lambda>document.
        case (customer, document) of
          (Some c, Some d) \<Rightarrow> ret (toDetail draftId draft c d)
        | _ \<Rightarrow> throw (NotFoundError ''Load draft not found.'')))))"

text \<open>Newest first; a draft whose customer or document is gone is left out.\<close>

definition draft_list :: "uuid \<Rightarrow> db \<Rightarrow> draft_summary list" where
  "draft_list organizationId s =
     List.map_filter (\<lambda>(i, draft).
         case (tbl_find (ld_customerId draft) (customers s), tbl_find (ld_rateConfirmationDocumentId draft) (documents s)) of
           (Some c, Some d) \<Rightarrow> if cu_organizationId c = organizationId \<and> doc_organizationId d = organizationId
                             then Some (toSummary i draft c d) else None
         | _ \<Rightarrow> None)
       (sort_key (\<lambda>(_, draft). - ld_createdAt draft) (tbl_where (\<lambda>_ d. ld_organizationId d = organizationId) (load_drafts s)))"

definition draft_delete :: "uuid \<Rightarrow> uuid \<Rightarrow> unit tx" where
  "draft_delete organizationId draftId =
     deleteMany load_drafts_update (\<lambda>i d. i = draftId \<and> ld_organizationId d = organizationId)"

section \<open>A draft stays in its organization\<close>

lemma confined_drafts:
  "keeps (confined org s0) (draft_create org u dto)" "keeps (confined org s0) (draft_delete org i)"
  unfolding draft_create_def create_draft_def draft_delete_def tx_assoc
  by ((rule confined_rules | assumption | (simp add: new_draft_def split: prod.split; fail))+)

end
