(* ===== verification/Sweeps.thy ===== *)
theory Sweeps
  imports Drafts
begin

text \<open>
  The background sweeps that write notifications and expire records: backend/src/modules/
  background-jobs/services (quote-expiration, invitation-expiration, carrier-compliance-expiration, load-lateness,
  check-call-reminder and compliance-expiration-notification). A sweep visits every organization,
  lists its candidates in one transaction and then handles each candidate in a transaction of its
  own, so that one failure costs one record. The clock does not move during a sweep. A filter on a
  date column compares dates. The time zone database is a parameter: \<open>wall_clock\<close> gives hour and
  minute of an instant in the business time zone.
\<close>

section \<open>The loop the sweeps share\<close>

record sweep_summary =
  sw_orgsScanned :: nat
  sw_matched :: nat
  sw_succeeded :: nat
  sw_failed :: nat

definition count_record :: "bool \<Rightarrow> sweep_summary \<Rightarrow> sweep_summary" where
  "count_record ok c = (if ok then c\<lparr>sw_succeeded := sw_succeeded c + 1\<rparr> else c\<lparr>sw_failed := sw_failed c + 1\<rparr>)"

fun sweep_records :: "('a \<Rightarrow> unit tx) \<Rightarrow> 'a list \<Rightarrow> sweep_summary \<times> world \<Rightarrow> sweep_summary \<times> world" where
  "sweep_records act [] r = r"
| "sweep_records act (x # xs) (c, w) =
     (case withTenantTransaction (act x) w of
        (Inr _, w') \<Rightarrow> sweep_records act xs (count_record True c, w')
      | (Inl _, w') \<Rightarrow> sweep_records act xs (count_record False c, w'))"

text \<open>\<open>gate\<close> says which of the listed records reach a transaction.\<close>

definition sweep_org ::
  "(uuid \<Rightarrow> db \<Rightarrow> 'a list) \<Rightarrow> ('a \<Rightarrow> bool) \<Rightarrow> (uuid \<Rightarrow> 'a \<Rightarrow> unit tx) \<Rightarrow> uuid \<Rightarrow> sweep_summary \<times> world \<Rightarrow>
     sweep_summary \<times> world" where
  "sweep_org listed gate act org r =
     (let found = listed org (w_db (snd r));
          c = (fst r)\<lparr>sw_orgsScanned := sw_orgsScanned (fst r) + 1, sw_matched := sw_matched (fst r) + length found\<rparr>
      in sweep_records (act org) (filter gate found) (c, snd r))"

definition no_counts :: sweep_summary where
  "no_counts = \<lparr>sw_orgsScanned = 0, sw_matched = 0, sw_succeeded = 0, sw_failed = 0\<rparr>"

definition sweep ::
  "(uuid \<Rightarrow> db \<Rightarrow> 'a list) \<Rightarrow> ('a \<Rightarrow> bool) \<Rightarrow> (uuid \<Rightarrow> 'a \<Rightarrow> unit tx) \<Rightarrow> world \<Rightarrow> sweep_summary \<times> world" where
  "sweep listed gate act w = fold (sweep_org listed gate act) (map fst (organizations (w_db w))) (no_counts, w)"

text \<open>One record of a sweep, found again in the state in which its transaction runs.\<close>

definition sweep_one :: "('a \<Rightarrow> bool) \<Rightarrow> (uuid \<Rightarrow> db \<Rightarrow> 'a list) \<Rightarrow> (uuid \<Rightarrow> 'a \<Rightarrow> unit tx) \<Rightarrow> uuid \<Rightarrow> unit tx" where
  "sweep_one P listed act organizationId =
     bind (gets (\<lambda>s. List.find P (listed organizationId s))) (\<lambda>found.
       case found of None \<Rightarrow> ret () | Some x \<Rightarrow> act organizationId x)"

definition related :: "uuid \<Rightarrow> notification_type \<Rightarrow> string \<Rightarrow> uuid \<Rightarrow> notification_row \<Rightarrow> bool" where
  "related organizationId ty entityType entityId n \<longleftrightarrow> n_organizationId n = organizationId \<and> n_type n = ty \<and>
     n_relatedEntityType n = Some entityType \<and> n_relatedEntityId n = Some entityId"

definition sweep_notice :: "notification_type \<Rightarrow> string \<Rightarrow> uuid \<Rightarrow> string \<Rightarrow> notification_input" where
  "sweep_notice ty entityType entityId msg =
     \<lparr>ni_type = ty, ni_message = msg, ni_relatedEntityType = Some entityType, ni_relatedEntityId = Some entityId\<rparr>"

section \<open>Expired quotes\<close>

definition stale_quotes :: "uuid \<Rightarrow> db \<Rightarrow> (uuid \<times> quote_row) list" where
  "stale_quotes organizationId s =
     tbl_where (\<lambda>_ q. q_organizationId q = organizationId \<and> q_status q = QS_OPEN \<and>
        q_expirationDate q < start_of_day (clock s)) (quotes s)"

definition ev_quote_expired :: "uuid \<Rightarrow> uuid \<Rightarrow> event_input" where
  "ev_quote_expired organizationId quoteId =
     system_event organizationId (''Quote Expired '' @ dash @ '' Automatically Marked Lost'') ''Quote'' quoteId None None"

definition expire_quote :: "uuid \<Rightarrow> uuid \<times> quote_row \<Rightarrow> unit tx" where
  "expire_quote organizationId q =
     andThen (update quotes quotes_update (fst q) (\<lambda>r. r\<lparr>q_status := QS_LOST, q_lossReason := Some ''Expired''\<rparr>))
     (andThen (audit_record (ev_quote_expired organizationId (fst q)))
     (bind (findFirst notifications (\<lambda>_. related organizationId QUOTE_EXPIRED ''Quote'' (fst q))) (\<lambda>existing.
      run_when (existing = None)
        (createForUserAndRoles organizationId (q_createdByUserId (snd q)) ADMIN_VISIBILITY_ROLES
           (sweep_notice QUOTE_EXPIRED ''Quote'' (fst q) (''Quote expired '' @ dash @ '' '' @ q_quoteNumber (snd q)))))))"

definition quoteExpirationSweep :: "world \<Rightarrow> sweep_summary \<times> world" where
  "quoteExpirationSweep = sweep stale_quotes (\<lambda>_. True) expire_quote"

section \<open>Expired invitations\<close>

definition stale_invitations :: "uuid \<Rightarrow> db \<Rightarrow> (uuid \<times> membership_row) list" where
  "stale_invitations organizationId s =
     tbl_where (\<lambda>_ m. m_organizationId m = organizationId \<and> m_status m = MS_INVITED \<and>
        (case m_invitationExpiresAt m of None \<Rightarrow> False | Some e \<Rightarrow> e < clock s)) (memberships s)"

definition ev_invitation_expired :: "uuid \<Rightarrow> uuid \<Rightarrow> event_input" where
  "ev_invitation_expired organizationId membershipId =
     system_event organizationId ''Invitation Expired'' ''OrganizationMembership'' membershipId None None"

definition expire_invitation :: "uuid \<Rightarrow> uuid \<times> membership_row \<Rightarrow> unit tx" where
  "expire_invitation organizationId m =
     andThen (update memberships memberships_update (fst m) (\<lambda>r. r\<lparr>m_status := MS_EXPIRED\<rparr>))
     (andThen (audit_record (ev_invitation_expired organizationId (fst m)))
     (case m_invitedByUserId (snd m) of None \<Rightarrow> ret ()
      | Some u \<Rightarrow>
          bind (findFirst notifications (\<lambda>_. related organizationId INVITATION_EXPIRED ''OrganizationMembership'' (fst m)))
            (\<lambda>existing.
          run_when (existing = None)
            (createForUserAndRoles organizationId u ADMIN_VISIBILITY_ROLES
               (sweep_notice INVITATION_EXPIRED ''OrganizationMembership'' (fst m) ''An invitation you sent has expired.'')))))"

definition invitationExpirationSweep :: "world \<Rightarrow> sweep_summary \<times> world" where
  "invitationExpirationSweep = sweep stale_invitations (\<lambda>_. True) expire_invitation"

section \<open>Expired compliance documents\<close>

definition EXPIRABLE_DOCUMENT_CODES :: "string list" where
  "EXPIRABLE_DOCUMENT_CODES = [''MC_AUTHORITY'', ''CARRIER_AGREEMENT'']"

definition approved_expirable :: "uuid \<Rightarrow> db \<Rightarrow> document_row \<Rightarrow> bool" where
  "approved_expirable organizationId s d \<longleftrightarrow>
     doc_organizationId d = organizationId \<and> doc_entityType d = DE_CARRIER \<and> doc_isCurrentVersion d \<and>
     doc_reviewStatus d = Some RV_APPROVED \<and> (\<exists>code \<in> set EXPIRABLE_DOCUMENT_CODES. document_code s d = Some code)"

definition stale_docs :: "uuid \<Rightarrow> db \<Rightarrow> (uuid \<times> document_row) list" where
  "stale_docs organizationId s =
     tbl_where (\<lambda>_ d. approved_expirable organizationId s d \<and>
        (case doc_expirationDate d of None \<Rightarrow> False | Some e \<Rightarrow> e < start_of_day (clock s))) (documents s)"

definition ev_item_expired :: "uuid \<Rightarrow> uuid \<Rightarrow> event_input" where
  "ev_item_expired organizationId documentId =
     system_event organizationId ''Compliance Item Expired'' ''Document'' documentId None None"

definition expire_document :: "uuid \<Rightarrow> uuid \<times> document_row \<Rightarrow> unit tx" where
  "expire_document organizationId d =
     andThen (update documents documents_update (fst d) (\<lambda>r. r\<lparr>doc_reviewStatus := Some RV_EXPIRED\<rparr>))
     (audit_record (ev_item_expired organizationId (fst d)))"

definition active_carriers :: "uuid \<Rightarrow> db \<Rightarrow> uuid list" where
  "active_carriers organizationId s =
     map fst (tbl_where (\<lambda>_ c. c_organizationId c = organizationId \<and> c_status c = CA_ACTIVE) (carriers s))"

definition recalculate_quietly :: "uuid \<Rightarrow> uuid \<Rightarrow> unit tx" where
  "recalculate_quietly organizationId carrierId = andThen (recalculate organizationId carrierId) (ret ())"

text \<open>The two passes are counted apart; the first component of the result counts documents.\<close>

definition compliance_org ::
  "uuid \<Rightarrow> (sweep_summary \<times> sweep_summary) \<times> world \<Rightarrow> (sweep_summary \<times> sweep_summary) \<times> world" where
  "compliance_org organizationId r =
     (let (docs, w1) = sweep_org stale_docs (\<lambda>_. True) expire_document organizationId (fst (fst r), snd r);
          (cars, w2) = sweep_org active_carriers (\<lambda>_. True) recalculate_quietly organizationId (snd (fst r), w1)
      in ((docs, cars), w2))"

definition carrierComplianceExpirationSweep :: "world \<Rightarrow> (sweep_summary \<times> sweep_summary) \<times> world" where
  "carrierComplianceExpirationSweep w =
     fold compliance_org (map fst (organizations (w_db w))) ((no_counts, no_counts), w)"

section \<open>Late loads\<close>

definition operational_loads :: "uuid \<Rightarrow> db \<Rightarrow> (uuid \<times> load_row) list" where
  "operational_loads organizationId s =
     tbl_where (\<lambda>_ l. l_organizationId l = organizationId \<and> l_status l \<in> {DISPATCHED, PICKUP, IN_TRANSIT}) (loads s)"

definition lateness_of_stop :: "stop_row \<Rightarrow> lateness_stop" where
  "lateness_of_stop p = \<lparr>ls_stopType = s_stopType p, ls_status = s_status p,
     ls_appointmentDatetime = s_appointmentDatetime p, ls_sequence = s_sequence p, ls_stopPurpose = Some (s_stopPurpose p)\<rparr>"

definition lateness_stops :: "uuid \<Rightarrow> db \<Rightarrow> lateness_stop list" where
  "lateness_stops loadId s = map (\<lambda>(_, p). lateness_of_stop p) (tbl_where (\<lambda>_ p. s_loadId p = loadId) (stops s))"

definition formatTimeOnly :: "(instant \<Rightarrow> nat \<times> nat) \<Rightarrow> instant \<Rightarrow> string" where
  "formatTimeOnly wall_clock t =
     (case wall_clock t of (hour24, minute) \<Rightarrow>
        show_nat (if hour24 mod 12 = 0 then 12 else hour24 mod 12) @ '':'' @ padStart 2 (CHR ''0'') (show_nat minute) @
        '' '' @ (if hour24 \<ge> 12 then ''PM'' else ''AM''))"

fun stopTypeLabel :: "stop_type \<Rightarrow> string" where
  "stopTypeLabel ST_PICKUP = ''Pickup''"
| "stopTypeLabel ST_DELIVERY = ''Delivery''"
| "stopTypeLabel ST_OTHER = ''Stop''"

definition late_stop :: "db \<Rightarrow> uuid \<Rightarrow> (stop_type \<times> instant) option" where
  "late_stop s loadId = findLateStop (lateness_stops loadId s) (clock s)"

definition late_message :: "(instant \<Rightarrow> nat \<times> nat) \<Rightarrow> string \<Rightarrow> stop_type \<times> instant \<Rightarrow> string" where
  "late_message wall_clock loadNumber stop = ''Load late '' @ dash @ '' '' @ loadNumber @ [CHR 0x0A] @
     stopTypeLabel (fst stop) @ '' appointment: '' @ formatTimeOnly wall_clock (snd stop)"

definition ev_late_sent :: "uuid \<Rightarrow> uuid \<Rightarrow> event_input" where
  "ev_late_sent organizationId loadId =
     system_event organizationId ''Load Late Notification Sent'' ''Load'' loadId None None"

text \<open>The records of this sweep: a load with its dispatcher and its late stop.\<close>

record late_load =
  ll_loadId :: uuid
  ll_loadNumber :: string
  ll_dispatcherId :: "uuid option"
  ll_stop :: "(stop_type \<times> instant) option"

definition late_loads :: "uuid \<Rightarrow> db \<Rightarrow> late_load list" where
  "late_loads organizationId s =
     map (\<lambda>(i, l). \<lparr>ll_loadId = i, ll_loadNumber = l_loadNumber l, ll_dispatcherId = l_assignedDispatcherId l,
        ll_stop = late_stop s i\<rparr>) (operational_loads organizationId s)"

definition notify_late :: "(instant \<Rightarrow> nat \<times> nat) \<Rightarrow> uuid \<Rightarrow> late_load \<Rightarrow> unit tx" where
  "notify_late wall_clock organizationId x =
     bind (findFirst notifications (\<lambda>_ n. related organizationId LOAD_LATE ''Load'' (ll_loadId x) n \<and> \<not> n_read n)) (\<lambda>existing.
     run_when (existing = None)
       (andThen (createForUserAndRoles organizationId (the (ll_dispatcherId x)) ADMIN_VISIBILITY_ROLES
          (sweep_notice LOAD_LATE ''Load'' (ll_loadId x) (late_message wall_clock (ll_loadNumber x) (the (ll_stop x)))))
        (audit_record (ev_late_sent organizationId (ll_loadId x)))))"

definition late_gate :: "late_load \<Rightarrow> bool" where
  "late_gate x \<longleftrightarrow> ll_dispatcherId x \<noteq> None \<and> ll_stop x \<noteq> None"

definition loadLatenessSweep :: "(instant \<Rightarrow> nat \<times> nat) \<Rightarrow> world \<Rightarrow> sweep_summary \<times> world" where
  "loadLatenessSweep wall_clock =
     sweep late_loads late_gate (notify_late wall_clock)"

section \<open>Check calls due and overdue\<close>

definition DUE_SOON_LEAD_MS :: int where
  "DUE_SOON_LEAD_MS = 15 * 60 * 1000"

text \<open>The last check call of a load, or else its dispatch.\<close>

definition last_check_call :: "uuid \<Rightarrow> db \<Rightarrow> instant option" where
  "last_check_call loadId s =
     foldl (\<lambda>latest (_, c). case latest of None \<Rightarrow> Some (cc_occurredAt c)
              | Some t \<Rightarrow> Some (if cc_occurredAt c > t then cc_occurredAt c else t))
       None (tbl_where (\<lambda>_ c. cc_loadId c = loadId) (check_calls s))"

definition last_activity :: "uuid \<Rightarrow> db \<Rightarrow> instant option" where
  "last_activity loadId s =
     coalesce (last_check_call loadId s) (map_option d_dispatchedAt (tbl_find loadId (dispatch_records s)))"

definition resolveDriverName :: "uuid \<Rightarrow> db \<Rightarrow> string option" where
  "resolveDriverName loadId s =
     (case tbl_find loadId (dispatch_records s) of None \<Rightarrow> None
      | Some d \<Rightarrow> (case d_sourceDriverId d of None \<Rightarrow> Some (d_driverName d)
          | Some k \<Rightarrow> (case tbl_find k (drivers s) of None \<Rightarrow> Some (d_driverName d)
              | Some r \<Rightarrow> Some (dr_firstName r @ '' '' @ dr_lastName r))))"

definition middle_dot :: string where
  "middle_dot = [CHR 0xC2, CHR 0xB7]"

definition buildDetailLine :: "string option \<Rightarrow> string \<Rightarrow> string" where
  "buildDetailLine driverName timeText =
     (if truthy driverName then ''Driver: '' @ the driverName @ '' '' @ middle_dot @ '' '' @ timeText else timeText)"

record silent_load =
  sl_loadId :: uuid
  sl_loadNumber :: string
  sl_dispatcherId :: "uuid option"
  sl_driverName :: "string option"
  sl_elapsed :: "int option"   \<comment> \<open>milliseconds since the last activity\<close>

definition silent_loads :: "uuid \<Rightarrow> db \<Rightarrow> silent_load list" where
  "silent_loads organizationId s =
     map (\<lambda>(i, l). \<lparr>sl_loadId = i, sl_loadNumber = l_loadNumber l, sl_dispatcherId = l_assignedDispatcherId l,
        sl_driverName = resolveDriverName i s, sl_elapsed = map_option (\<lambda>t. clock s - t) (last_activity i s)\<rparr>)
       (operational_loads organizationId s)"

definition ev_check_call_overdue :: "uuid \<Rightarrow> uuid \<Rightarrow> int \<Rightarrow> event_input" where
  "ev_check_call_overdue organizationId loadId reminderHours =
     system_event organizationId ''Check Call Overdue Reminder Sent'' ''Load'' loadId None
       (Some (JObj [(''reminderHours'', JInt reminderHours)]))"

definition ev_check_call_due :: "uuid \<Rightarrow> uuid \<Rightarrow> event_input" where
  "ev_check_call_due organizationId loadId =
     system_event organizationId ''Check Call Due Soon Reminder Sent'' ''Load'' loadId None None"

definition fireOverdue :: "int \<Rightarrow> uuid \<Rightarrow> silent_load \<Rightarrow> int \<Rightarrow> unit tx" where
  "fireOverdue reminderHours organizationId x elapsed =
     andThen (updateMany notifications_update
        (\<lambda>_ n. related organizationId NT_CHECK_CALL_DUE_SOON ''Load'' (sl_loadId x) n \<and> \<not> n_read n) (\<lambda>n. n\<lparr>n_read := True\<rparr>))
     (bind (findFirst notifications (\<lambda>_ n. related organizationId NT_CHECK_CALL_OVERDUE ''Load'' (sl_loadId x) n \<and> \<not> n_read n))
       (\<lambda>existing.
      run_when (existing = None)
       (andThen (createForUserAndRoles organizationId (the (sl_dispatcherId x)) ADMIN_VISIBILITY_ROLES
          (sweep_notice NT_CHECK_CALL_OVERDUE ''Load'' (sl_loadId x)
            (''Check call overdue '' @ dash @ '' '' @ sl_loadNumber x @ [CHR 0x0A] @ buildDetailLine (sl_driverName x)
              (show_nat (nat ((elapsed - reminderHours * hour_ms) div minute_ms)) @ '' min overdue''))))
        (audit_record (ev_check_call_overdue organizationId (sl_loadId x) reminderHours)))))"

definition fireDueSoon :: "int \<Rightarrow> uuid \<Rightarrow> silent_load \<Rightarrow> int \<Rightarrow> unit tx" where
  "fireDueSoon reminderHours organizationId x elapsed =
     bind (findFirst notifications (\<lambda>_ n. related organizationId NT_CHECK_CALL_DUE_SOON ''Load'' (sl_loadId x) n \<and> \<not> n_read n))
       (\<lambda>existing.
      run_when (existing = None)
       (andThen (createForUserAndRoles organizationId (the (sl_dispatcherId x)) ADMIN_VISIBILITY_ROLES
          (sweep_notice NT_CHECK_CALL_DUE_SOON ''Load'' (sl_loadId x)
            (''Check call due '' @ dash @ '' '' @ sl_loadNumber x @ [CHR 0x0A] @ buildDetailLine (sl_driverName x)
              (''Due in '' @ show_nat (nat (minutes_up (reminderHours * hour_ms - elapsed))) @ '' min''))))
        (audit_record (ev_check_call_due organizationId (sl_loadId x)))))"

definition remind :: "int \<Rightarrow> uuid \<Rightarrow> silent_load \<Rightarrow> unit tx" where
  "remind reminderHours organizationId x =
     (if the (sl_elapsed x) \<ge> reminderHours * hour_ms then fireOverdue reminderHours organizationId x (the (sl_elapsed x))
      else fireDueSoon reminderHours organizationId x (the (sl_elapsed x)))"

definition silent_gate :: "int \<Rightarrow> silent_load \<Rightarrow> bool" where
  "silent_gate reminderHours x \<longleftrightarrow> sl_dispatcherId x \<noteq> None \<and>
     (case sl_elapsed x of None \<Rightarrow> False | Some e \<Rightarrow> e \<ge> reminderHours * hour_ms - DUE_SOON_LEAD_MS)"

definition checkCallReminderSweep :: "int \<Rightarrow> world \<Rightarrow> sweep_summary \<times> world" where
  "checkCallReminderSweep reminderHours =
     sweep silent_loads (silent_gate reminderHours) (remind reminderHours)"

section \<open>Compliance items about to expire\<close>

text \<open>The calendar date of an instant (proleptic Gregorian, UTC) as \<^verbatim>\<open>toISOString().slice(0, 10)\<close> prints it.\<close>

definition civil_date :: "int \<Rightarrow> int \<times> int \<times> int" where
  "civil_date days =
     (let z = days + 719468; era = z div 146097; doe = z mod 146097;
          yoe = (doe - doe div 1460 + doe div 36524 - doe div 146096) div 365;
          doy = doe - (365 * yoe + yoe div 4 - yoe div 100); mp = (5 * doy + 2) div 153;
          d = doy - (153 * mp + 2) div 5 + 1; m = (if mp < 10 then mp + 3 else mp - 9)
      in (yoe + era * 400 + (if m \<le> 2 then 1 else 0), m, d))"

definition iso_date :: "instant \<Rightarrow> string" where
  "iso_date t = (case civil_date (t div day_ms) of (y, m, d) \<Rightarrow>
     padStart 4 (CHR ''0'') (show_nat (nat y)) @ ''-'' @ padStart 2 (CHR ''0'') (show_nat (nat m)) @ ''-'' @
     padStart 2 (CHR ''0'') (show_nat (nat d)))"

definition THRESHOLDS :: "(int \<times> notification_type) list" where
  "THRESHOLDS = [(30, COMPLIANCE_EXPIRING_30_DAY), (15, COMPLIANCE_EXPIRING_15_DAY), (7, COMPLIANCE_EXPIRING_7_DAY)]"

definition NOTIFICATION_ROLES :: "role list" where
  "NOTIFICATION_ROLES = [OPERATIONS_MANAGER, COMPLIANCE_REVIEWER]"

text \<open>From today to so many days from today, both included.\<close>

definition in_window :: "int \<Rightarrow> instant \<Rightarrow> instant \<Rightarrow> bool" where
  "in_window days t e \<longleftrightarrow> start_of_day t \<le> e \<and> e \<le> start_of_day t + days * day_ms"

definition expiring_docs :: "int \<Rightarrow> uuid \<Rightarrow> db \<Rightarrow> (uuid \<times> document_row) list" where
  "expiring_docs days organizationId s =
     tbl_where (\<lambda>_ d. approved_expirable organizationId s d \<and>
        (case doc_expirationDate d of None \<Rightarrow> False | Some e \<Rightarrow> in_window days (clock s) e)) (documents s)"

definition expiring_insurance :: "int \<Rightarrow> uuid \<Rightarrow> db \<Rightarrow> (uuid \<times> insurance_row) list" where
  "expiring_insurance days organizationId s =
     tbl_where (\<lambda>_ r. in_organizationId r = organizationId \<and> in_window days (clock s) (in_expirationDate r)) (carrier_insurance s)"

definition ev_expiration_sent :: "uuid \<Rightarrow> string \<Rightarrow> uuid \<Rightarrow> int \<Rightarrow> uuid \<Rightarrow> event_input" where
  "ev_expiration_sent organizationId entityType entityId days carrierId =
     system_event organizationId ''Expiration Notification Sent'' entityType entityId None
       (Some (JObj [(''thresholdDays'', JInt days), (''carrierId'', JId carrierId)]))"

definition expiry_message :: "string \<Rightarrow> carrier_row \<Rightarrow> instant \<Rightarrow> string" where
  "expiry_message what carrier t = what @ '' for '' @ c_legalName carrier @ '' expires '' @ iso_date t @
     '' (assignment eligible: '' @ (if c_assignmentEligible carrier then ''Yes'' else ''No'') @ '').''"

definition notify_expiring :: "int \<times> notification_type \<Rightarrow> uuid \<Rightarrow> string \<Rightarrow> uuid \<Rightarrow> uuid \<Rightarrow> string \<Rightarrow> instant \<Rightarrow> unit tx" where
  "notify_expiring threshold organizationId entityType entityId carrierId what t =
     bind (findFirst notifications (\<lambda>_. related organizationId (snd threshold) entityType entityId)) (\<lambda>alreadySent.
     if alreadySent \<noteq> None then ret ()
     else bind (findUnique carriers carrierId (\<lambda>c. c_organizationId c = organizationId)) (\<lambda>found.
       case found of None \<Rightarrow> ret ()
       | Some carrier \<Rightarrow>
           andThen (createForRoles organizationId NOTIFICATION_ROLES
             (sweep_notice (snd threshold) entityType entityId (expiry_message what carrier t)))
           (audit_record (ev_expiration_sent organizationId entityType entityId (fst threshold) carrierId))))"

definition document_label :: "db \<Rightarrow> document_row \<Rightarrow> string" where
  "document_label s d = (case tbl_find (doc_documentTypeId d) (document_types s) of None \<Rightarrow> [] | Some t \<Rightarrow> dt_label t)"

definition notify_document :: "int \<times> notification_type \<Rightarrow> uuid \<Rightarrow> uuid \<times> document_row \<Rightarrow> unit tx" where
  "notify_document threshold organizationId d =
     bind (gets (\<lambda>s. document_label s (snd d))) (\<lambda>label.
       notify_expiring threshold organizationId ''Document'' (fst d) (doc_entityId (snd d)) label
         (the (doc_expirationDate (snd d))))"

definition notify_insurance :: "int \<times> notification_type \<Rightarrow> uuid \<Rightarrow> uuid \<times> insurance_row \<Rightarrow> unit tx" where
  "notify_insurance threshold organizationId r =
     notify_expiring threshold organizationId ''CarrierInsurance'' (fst r) (in_carrierId (snd r))
       ((if in_coverageType (snd r) = AUTO_LIABILITY then ''Auto Liability'' else ''Cargo'') @ '' insurance'')
       (in_expirationDate (snd r))"

text \<open>Organizations are counted once, not once per threshold and pass.\<close>

definition list_records ::
  "('a \<Rightarrow> unit tx) \<Rightarrow> 'a list \<Rightarrow> sweep_summary \<times> world \<Rightarrow> sweep_summary \<times> world" where
  "list_records act found r =
     sweep_records act found ((fst r)\<lparr>sw_matched := sw_matched (fst r) + length found\<rparr>, snd r)"

definition expiring_threshold ::
  "uuid \<Rightarrow> int \<times> notification_type \<Rightarrow> sweep_summary \<times> world \<Rightarrow> sweep_summary \<times> world" where
  "expiring_threshold organizationId threshold r =
     (let r1 = list_records (notify_document threshold organizationId)
                 (expiring_docs (fst threshold) organizationId (w_db (snd r))) r
      in list_records (notify_insurance threshold organizationId)
           (expiring_insurance (fst threshold) organizationId (w_db (snd r1))) r1)"

definition expiring_org :: "uuid \<Rightarrow> sweep_summary \<times> world \<Rightarrow> sweep_summary \<times> world" where
  "expiring_org organizationId r =
     fold (expiring_threshold organizationId) THRESHOLDS ((fst r)\<lparr>sw_orgsScanned := sw_orgsScanned (fst r) + 1\<rparr>, snd r)"

definition complianceExpirationNotifications :: "world \<Rightarrow> sweep_summary \<times> world" where
  "complianceExpirationNotifications w = fold expiring_org (map fst (organizations (w_db w))) (no_counts, w)"

section \<open>A sweep stays in its organization\<close>

lemma confined_sweep_one:
  assumes "\<And>s x. wf_db s0 \<Longrightarrow> lawful org s0 s \<Longrightarrow> x \<in> set (listed org s) \<Longrightarrow> keeps (confined org s0) (act org x)"
  shows "keeps (confined org s0) (sweep_one P listed act org)"
  unfolding keeps_def
proof (intro allI impI)
  fix s x s'
  assume run: "sweep_one P listed act org s = Inr (x, s')"
  show "confined org s0 s s'"
  proof (cases "wf_db s0 \<and> lawful org s0 s")
    case True
    then show ?thesis
      using run assms by (fastforce simp: sweep_one_def tx_iff confined.R_refl dest: keepsD find_Some_iff' split: option.splits)
  qed (auto simp: confined_def)
qed

lemmas sweep_events = ev_quote_expired_def ev_invitation_expired_def ev_item_expired_def ev_late_sent_def ev_check_call_overdue_def
  ev_check_call_due_def ev_expiration_sent_def system_event_def

lemma confined_sweep:
  "keeps (confined org s0) (sweep_one P stale_quotes expire_quote org)"
  "keeps (confined org s0) (sweep_one P' stale_docs expire_document org)"
  "keeps (confined org s0) (sweep_one P'' stale_invitations expire_invitation org)"
  "keeps (confined org s0) (recalculate_quietly org c)"
  "keeps (confined org s0) (notify_late wall_clock org x)"
  "keeps (confined org s0) (remind h org y)"
  "keeps (confined org s0) (notify_document th org d)"
  "keeps (confined org s0) (notify_insurance th org r)"
proof -
  show "keeps (confined org s0) (sweep_one P stale_quotes expire_quote org)"
  proof (rule confined_sweep_one)
    fix s q assume "wf_db s0" "lawful org s0 s" "q \<in> set (stale_quotes org s)"
    then have own: "own q_organizationId quotes org (fst q) s0"
      by (cases q) (auto simp: stale_quotes_def tbl_where_iff intro: quotes_of.own_start_mem)
    show "keeps (confined org s0) (expire_quote org q)"
      unfolding expire_quote_def
      by ((rule confined_notification confined_rules own | (simp add: sweep_events related_def; fail))+)
  qed
  show "keeps (confined org s0) (sweep_one P' stale_docs expire_document org)"
  proof (rule confined_sweep_one)
    fix s d assume "wf_db s0" "lawful org s0 s" "d \<in> set (stale_docs org s)"
    then have own: "own doc_organizationId documents org (fst d) s0"
      by (cases d) (auto simp: stale_docs_def approved_expirable_def tbl_where_iff intro: documents_of.own_start_mem)
    show "keeps (confined org s0) (expire_document org d)"
      unfolding expire_document_def
      by ((rule confined_rules own | (simp add: sweep_events; fail))+)
  qed
  show "keeps (confined org s0) (sweep_one P'' stale_invitations expire_invitation org)"
  proof (rule confined_sweep_one)
    fix s m assume "wf_db s0" "lawful org s0 s" "m \<in> set (stale_invitations org s)"
    then have own: "own m_organizationId memberships org (fst m) s0"
      by (cases m) (auto simp: stale_invitations_def tbl_where_iff intro: memberships_of.own_start_mem)
    show "keeps (confined org s0) (expire_invitation org m)"
      unfolding expire_invitation_def
      by ((rule confined_notification confined_rules own | (simp add: sweep_events related_def; fail))+)
  qed
  show "keeps (confined org s0) (recalculate_quietly org c)"
    unfolding recalculate_quietly_def by (rule confined_eligibility confined_rules)+
  show "keeps (confined org s0) (notify_late wall_clock org x)"
    unfolding notify_late_def
    by ((rule confined_notification confined_rules | (simp add: sweep_events related_def; fail))+)
  show "keeps (confined org s0) (remind h org y)"
    unfolding remind_def fireOverdue_def fireDueSoon_def
    by ((rule confined_notification confined_rules | (simp add: sweep_events related_def; fail))+)
  show "keeps (confined org s0) (notify_document th org d)" "keeps (confined org s0) (notify_insurance th org r)"
    unfolding notify_document_def notify_insurance_def notify_expiring_def
    by ((rule confined_notification confined_rules | (simp add: sweep_events related_def; fail))+)
qed

end
