(* ===== verification/System.thy ===== *)
theory System
  imports Sweeps
begin

text \<open>
  The program as a whole: every state-changing service method and every record of a background sweep as a request, how a request runs
  against the database and the queues, and the worlds a deployment can reach. Requests come from
  an authenticated member of one organization (the middleware of backend/src/common/
  tenant-context fixes the organization); they run one after the other, which is what the row
  locks of the modelled transactions amount to.
\<close>

section \<open>Requests\<close>

datatype carrier_request =
    CreateCarrier create_carrier_dto
  | UpdateCarrier uuid update_carrier_dto
  | AddCarrierContact uuid contact_dto
  | AddInsurance uuid insurance_dto
  | AddFmcsaVerification uuid fmcsa_dto
  | AddServiceArea uuid service_area_dto
  | UpsertFactoringInfo uuid factoring_dto
  | AddDriver uuid add_driver_dto
  | UpdateDriver uuid uuid update_driver_dto
  | DeactivateDriver uuid uuid string
  | ReactivateDriver uuid uuid string
  | AddTruck uuid equipment_dto
  | AddTrailer uuid equipment_dto
  | ActivateCarrier uuid
  | BlockCarrier uuid string
  | DeactivateCarrier uuid string
  | ReactivateCarrier uuid string

datatype customer_request =
    CreateCustomer create_customer_dto
  | UpdateCustomer uuid update_customer_dto
  | ChangeCustomerStatus uuid customer_status
  | AddCustomerContact uuid contact_dto
  | AddLocation uuid location_dto
  | AddRateAgreement uuid rate_agreement_dto

datatype booking_request =
    CreateQuote create_quote_dto
  | MarkQuoteLost uuid string
  | ConvertQuote uuid cents bool
  | CreateLoad create_load_dto
  | UpdateReferenceNumbers uuid reference_numbers
  | LinkReturnLoad uuid uuid
  | AddCharge uuid add_charge_dto
  | CloseLoad uuid
  | CancelLoad uuid string
  | BeginSourcing uuid
  | LogSourcingAttempt uuid uuid "cents option" sourcing_outcome
  | AssignCarrier uuid uuid cents
  | CarrierRejected uuid string
  | GenerateRateConfirmation uuid bool

datatype dispatch_request =
    DispatchLoad uuid dispatch_dto
  | UpdateDispatch uuid update_dispatch_dto
  | RecordArrival uuid int "instant option"
  | RecordDeparture uuid int "instant option"
  | RescheduleStop uuid int instant
  | UpdateStops uuid "update_stop_item list"
  | InitiateReturn uuid return_stop_input return_stop_input
  | LogCheckCall uuid check_call_dto
  | SetRiskStatus uuid risk_status "string option"
  | AssignDispatcher uuid "uuid option"

datatype money_request =
    CreateInvoice create_invoice_dto
  | SendInvoice uuid string string string
  | RecordPayment uuid record_payment_dto
  | AddAdjustment uuid add_adjustment_dto
  | VoidInvoice uuid
  | CreateChargeType string string
  | UpdateChargeType uuid string
  | CreateCarrierPayment uuid create_carrier_payment_dto
  | SubmitCarrierPayment uuid
  | ApproveCarrierPayment uuid
  | RejectCarrierPayment uuid string
  | MarkPaid uuid "instant option"

datatype document_request =
    InitiateUpload create_document_dto
  | InitiatePodUpload uuid int create_document_dto
  | InitiatePopUpload uuid int create_document_dto
  | ConfirmUpload uuid
  | ApplyScanResult bool uuid scan_result string
  | ReviewDocument uuid review_decision "string option"
  | DeleteDocumentFamily uuid
  | MarkNotificationRead uuid
  | MarkAllNotificationsRead

text \<open>
  The records of the background sweeps, each handled in a transaction of its own. The organization
  is the one being swept; there is no user. What a sweep was configured with (the reminder hours,
  the threshold, the time zone) comes with the request.
\<close>

datatype sweep_request =
    ExpireQuote uuid
  | ExpireInvitation uuid
  | ExpireDocument uuid
  | RecalculateEligibility uuid
  | NotifyLateLoad "instant \<Rightarrow> nat \<times> nat" uuid
  | RemindCheckCall int uuid
  | NotifyExpiringDocument "int \<times> notification_type" uuid
  | NotifyExpiringInsurance "int \<times> notification_type" uuid

datatype draft_request = CreateDraft create_draft_dto | DeleteDraft uuid

datatype request =
    CarrierRequest carrier_request
  | CustomerRequest customer_request
  | BookingRequest booking_request
  | DispatchRequest dispatch_request
  | MoneyRequest money_request
  | DocumentRequest document_request
  | DraftRequest draft_request
  | SweepRequest sweep_request

section \<open>The transaction a request runs\<close>

definition discard :: "'a tx \<Rightarrow> unit tx" where
  "discard m = andThen m (ret ())"

fun carrier_tx :: "uuid \<Rightarrow> uuid \<Rightarrow> carrier_request \<Rightarrow> unit tx" where
  "carrier_tx org u (CreateCarrier dto) = discard (carrier_create org dto u)"
| "carrier_tx org u (UpdateCarrier c dto) = discard (carrier_update org c dto u)"
| "carrier_tx org u (AddCarrierContact c dto) = discard (carrier_addContact org c dto u)"
| "carrier_tx org u (AddInsurance c dto) = discard (addInsurance org c dto u)"
| "carrier_tx org u (AddFmcsaVerification c dto) = discard (addFmcsaVerification org c dto u)"
| "carrier_tx org u (AddServiceArea c dto) = discard (addServiceArea org c dto u)"
| "carrier_tx org u (UpsertFactoringInfo c dto) = discard (upsertFactoringInfo org c dto u)"
| "carrier_tx org u (AddDriver c dto) = discard (addDriver org c dto u)"
| "carrier_tx org u (UpdateDriver c d dto) = discard (updateDriver org c d dto u)"
| "carrier_tx org u (DeactivateDriver c d reason) = discard (deactivateDriver org c d reason u)"
| "carrier_tx org u (ReactivateDriver c d reason) = discard (reactivateDriver org c d reason u)"
| "carrier_tx org u (AddTruck c dto) = discard (addTruck org c dto u)"
| "carrier_tx org u (AddTrailer c dto) = discard (addTrailer org c dto u)"
| "carrier_tx org u (ActivateCarrier c) = discard (activate org c u)"
| "carrier_tx org u (BlockCarrier c reason) = discard (blockCarrier org c reason u)"
| "carrier_tx org u (DeactivateCarrier c reason) = discard (deactivateCarrier org c reason u)"
| "carrier_tx org u (ReactivateCarrier c reason) = discard (reactivateCarrier org c reason u)"

text \<open>Reading a date string is the standard library's business, hence a parameter.\<close>

fun customer_tx :: "(string \<Rightarrow> instant) \<Rightarrow> uuid \<Rightarrow> uuid \<Rightarrow> customer_request \<Rightarrow> unit tx" where
  "customer_tx pd org u (CreateCustomer dto) = discard (customer_create org dto u None)"
| "customer_tx pd org u (UpdateCustomer c dto) = discard (customer_update org c dto u)"
| "customer_tx pd org u (ChangeCustomerStatus c st) = discard (changeStatus org c st u)"
| "customer_tx pd org u (AddCustomerContact c dto) = discard (customer_addContact org c dto u)"
| "customer_tx pd org u (AddLocation c dto) = discard (addLocation org c dto u)"
| "customer_tx pd org u (AddRateAgreement c dto) = discard (addRateAgreement pd org c dto u)"

fun booking_tx :: "uuid \<Rightarrow> uuid \<Rightarrow> booking_request \<Rightarrow> unit tx" where
  "booking_tx org u (CreateQuote dto) = discard (quote_create org dto u)"
| "booking_tx org u (MarkQuoteLost q reason) = discard (markLost org q reason u)"
| "booking_tx org u (ConvertQuote q rate override) = discard (convert_tx org q rate override u)"
| "booking_tx org u (CreateLoad dto) = discard (createDirect_tx org dto u)"
| "booking_tx org u (UpdateReferenceNumbers l dto) = discard (updateReferenceNumbers org l dto u)"
| "booking_tx org u (LinkReturnLoad l original) = discard (linkReturnLoad org l original u)"
| "booking_tx org u (AddCharge l dto) = discard (addCharge org l dto u)"
| "booking_tx org u (CloseLoad l) = discard (closeLoad org l u)"
| "booking_tx org u (CancelLoad l reason) = discard (cancelLoad org l reason u)"
| "booking_tx org u (BeginSourcing l) = discard (beginSourcing org l u)"
| "booking_tx org u (LogSourcingAttempt l c rate out) = discard (logSourcingAttempt org l c rate out u)"
| "booking_tx org u (AssignCarrier l c rate) = discard (assignCarrier org l c rate u)"
| "booking_tx org u (CarrierRejected l reason) = discard (carrierRejected org l reason u)"
| "booking_tx org u (GenerateRateConfirmation l email) = discard (generateRateConfirmation_tx org l u)"

fun dispatch_tx :: "uuid \<Rightarrow> uuid \<Rightarrow> dispatch_request \<Rightarrow> unit tx" where
  "dispatch_tx org u (DispatchLoad l dto) = discard (dispatch org l dto u)"
| "dispatch_tx org u (UpdateDispatch l dto) = discard (updateDispatch org l dto u)"
| "dispatch_tx org u (RecordArrival l n t) = discard (recordArrival org l n t u)"
| "dispatch_tx org u (RecordDeparture l n t) = discard (recordDeparture org l n t u)"
| "dispatch_tx org u (RescheduleStop l n t) = discard (rescheduleStop org l n t u)"
| "dispatch_tx org u (UpdateStops l items) = discard (updateStops_tx org l items u)"
| "dispatch_tx org u (InitiateReturn l p d) = discard (initiateReturn org l p d u)"
| "dispatch_tx org u (LogCheckCall l dto) = discard (logCheckCall_tx org l dto u)"
| "dispatch_tx org u (SetRiskStatus l r reason) = discard (setRiskStatus org l r reason u)"
| "dispatch_tx org u (AssignDispatcher l d) = discard (assignDispatcher org l d u)"

fun money_tx :: "uuid \<Rightarrow> uuid \<Rightarrow> money_request \<Rightarrow> unit tx" where
  "money_tx org u (CreateInvoice dto) = discard (createInvoice org dto u)"
| "money_tx org u (SendInvoice i email subject message) = discard (sendInvoice_tx org i email u)"
| "money_tx org u (RecordPayment i dto) = discard (recordPayment org i dto u)"
| "money_tx org u (AddAdjustment i dto) = discard (addAdjustment org i dto u)"
| "money_tx org u (VoidInvoice i) = discard (voidInvoice org i u)"
| "money_tx org u (CreateChargeType code label) = discard (createChargeType org code label u)"
| "money_tx org u (UpdateChargeType i label) = discard (updateChargeType org i label u)"
| "money_tx org u (CreateCarrierPayment l dto) = discard (createCarrierPayment org l dto u)"
| "money_tx org u (SubmitCarrierPayment i) = discard (submitCarrierPayment org i u)"
| "money_tx org u (ApproveCarrierPayment i) = discard (approveCarrierPayment org i u)"
| "money_tx org u (RejectCarrierPayment i reason) = discard (rejectCarrierPayment org i reason u)"
| "money_tx org u (MarkPaid i d) = discard (markPaid_tx org i d u)"

text \<open>The upload entry points for a stop resolve the stop first, in a transaction that only reads.\<close>

definition stop_upload_tx :: "string \<Rightarrow> uuid \<Rightarrow> uuid \<Rightarrow> int \<Rightarrow> create_document_dto \<Rightarrow> uuid \<Rightarrow> unit tx" where
  "stop_upload_tx code org l n dto u =
     bind (resolve_stop_upload org l n code) (\<lambda>(stopId, typeId).
       discard (initiateUpload_tx org
         (dto\<lparr>cdd_entityType := DE_STOP, cdd_entityId := stopId, cdd_documentTypeId := typeId\<rparr>) u))"

definition confirm_tx :: "uuid \<Rightarrow> uuid \<Rightarrow> uuid \<Rightarrow> unit tx" where
  "confirm_tx org i u =
     bind (confirmUpload_read org i) (\<lambda>d. audit_record (ev_upload_confirmed org d u))"

fun document_tx :: "uuid \<Rightarrow> uuid \<Rightarrow> document_request \<Rightarrow> unit tx" where
  "document_tx org u (InitiateUpload dto) = discard (initiateUpload_tx org dto u)"
| "document_tx org u (InitiatePodUpload l n dto) = stop_upload_tx ''POD'' org l n dto u"
| "document_tx org u (InitiatePopUpload l n dto) = stop_upload_tx ''POP'' org l n dto u"
| "document_tx org u (ConfirmUpload i) = confirm_tx org i u"
| "document_tx org u (ApplyScanResult ok i result provider) = discard (applyScanResult_tx ok org i result provider)"
| "document_tx org u (ReviewDocument i decision reason) = discard (review org i decision reason u)"
| "document_tx org u (DeleteDocumentFamily i) = discard (deleteDocumentFamily org i u)"
| "document_tx org u (MarkNotificationRead i) = discard (markRead org u i)"
| "document_tx org u MarkAllNotificationsRead = discard (markAllRead org u)"

fun draft_tx :: "uuid \<Rightarrow> uuid \<Rightarrow> draft_request \<Rightarrow> unit tx" where
  "draft_tx org u (CreateDraft dto) = discard (draft_create org u dto)"
| "draft_tx org u (DeleteDraft i) = draft_delete org i"

fun sweep_tx :: "uuid \<Rightarrow> sweep_request \<Rightarrow> unit tx" where
  "sweep_tx org (ExpireQuote q) = sweep_one (\<lambda>x. fst x = q) stale_quotes expire_quote org"
| "sweep_tx org (ExpireInvitation m) = sweep_one (\<lambda>x. fst x = m) stale_invitations expire_invitation org"
| "sweep_tx org (ExpireDocument d) = sweep_one (\<lambda>x. fst x = d) stale_docs expire_document org"
| "sweep_tx org (RecalculateEligibility c) = sweep_one (\<lambda>x. x = c) active_carriers recalculate_quietly org"
| "sweep_tx org (NotifyLateLoad wall_clock l) =
     sweep_one (\<lambda>x. late_gate x \<and> ll_loadId x = l) late_loads (notify_late wall_clock) org"
| "sweep_tx org (RemindCheckCall h l) =
     sweep_one (\<lambda>x. silent_gate h x \<and> sl_loadId x = l) silent_loads (remind h) org"
| "sweep_tx org (NotifyExpiringDocument th d) = sweep_one (\<lambda>x. fst x = d) (expiring_docs (fst th)) (notify_document th) org"
| "sweep_tx org (NotifyExpiringInsurance th r) =
     sweep_one (\<lambda>x. fst x = r) (expiring_insurance (fst th)) (notify_insurance th) org"

fun request_tx :: "(string \<Rightarrow> instant) \<Rightarrow> uuid \<Rightarrow> uuid \<Rightarrow> request \<Rightarrow> unit tx" where
  "request_tx pd org u (CarrierRequest r) = carrier_tx org u r"
| "request_tx pd org u (CustomerRequest r) = customer_tx pd org u r"
| "request_tx pd org u (BookingRequest r) = booking_tx org u r"
| "request_tx pd org u (DispatchRequest r) = dispatch_tx org u r"
| "request_tx pd org u (MoneyRequest r) = money_tx org u r"
| "request_tx pd org u (DocumentRequest r) = document_tx org u r"
| "request_tx pd org u (DraftRequest r) = draft_tx org u r"
| "request_tx pd org u (SweepRequest r) = sweep_tx org r"

section \<open>Serving a request\<close>

text \<open>
  The methods that talk to a queue do so around their transaction; every other request is its
  transaction.
\<close>

fun handle :: "(string \<Rightarrow> instant) \<Rightarrow> uuid \<Rightarrow> uuid \<Rightarrow> request \<Rightarrow> world \<Rightarrow> world" where
  "handle pd org u (BookingRequest (CreateLoad dto)) w = snd (createDirect org dto u w)"
| "handle pd org u (BookingRequest (ConvertQuote q rate override)) w = snd (convert org q rate override u w)"
| "handle pd org u (BookingRequest (GenerateRateConfirmation l email)) w = snd (generateRateConfirmation org l email u w)"
| "handle pd org u (DispatchRequest (UpdateStops l items)) w = snd (updateStops org l items u w)"
| "handle pd org u (DispatchRequest (LogCheckCall l dto)) w = snd (logCheckCall org l dto u w)"
| "handle pd org u (MoneyRequest (SendInvoice i email subject message)) w = snd (sendInvoice org i email subject message u w)"
| "handle pd org u (MoneyRequest (MarkPaid i d)) w = snd (markPaid org i d u w)"
| "handle pd org u (DocumentRequest (InitiatePodUpload l n dto)) w = snd (initiatePodUpload org l n dto u w)"
| "handle pd org u (DocumentRequest (InitiatePopUpload l n dto)) w = snd (initiatePopUpload org l n dto u w)"
| "handle pd org u (DocumentRequest (ConfirmUpload i)) w = snd (confirmUpload org i u w)"
| "handle pd org u (DocumentRequest (ApplyScanResult ok i result provider)) w = snd (applyScanResult ok org i result provider w)"
| "handle pd org u r w = snd (withTenantTransaction (request_tx pd org u r) w)"

definition begin_request :: "instant \<Rightarrow> request_context option \<Rightarrow> world \<Rightarrow> world" where
  "begin_request t ctx w = w\<lparr>w_db := (w_db w)\<lparr>clock := t, context_of := ctx\<rparr>\<rparr>"

text \<open>
  One step of the deployment: a request served at some later time, or the queue server going away
  or coming back.
\<close>

inductive step :: "(string \<Rightarrow> instant) \<Rightarrow> world \<Rightarrow> world \<Rightarrow> bool" for pd where
  served: "clock (w_db w) \<le> t \<Longrightarrow> step pd w (handle pd org u req (begin_request t ctx w))"
| queue: "step pd w (w\<lparr>w_queue_up := b\<rparr>)"

text \<open>A deployment starts with organizations, members and the shared lookup rows, and nothing else.\<close>

definition fresh_db :: "db \<Rightarrow> bool" where
  "fresh_db s \<longleftrightarrow> wf_db s \<and> carriers s = [] \<and> drivers s = [] \<and> documents s = [] \<and> quotes s = [] \<and>
     loads s = [] \<and> stops s = [] \<and> charge_line_items s = [] \<and> invoices s = [] \<and> invoice_loads s = [] \<and>
     payments s = [] \<and> adjustments s = [] \<and> carrier_payments s = [] \<and> audit_logs s = [] \<and> domain_events s = [] \<and> sequences s = (\<lambda>_. None)"

inductive reachable :: "(string \<Rightarrow> instant) \<Rightarrow> world \<Rightarrow> bool" for pd where
  start: "fresh_db (w_db w) \<Longrightarrow> reachable pd w"
| step: "reachable pd w \<Longrightarrow> step pd w w' \<Longrightarrow> reachable pd w'"

inductive_cases stepE: "step pd w w'"

section \<open>Relations kept by a request\<close>

locale db_relation = state_relation R for R :: "db \<Rightarrow> db \<Rightarrow> bool"
begin

lemma across_transaction: "keeps R m \<Longrightarrow> R (w_db w) (w_db (snd (withTenantTransaction m w)))"
  by (auto simp: withTenantTransaction_def R_refl split: sum.split prod.split dest: keepsD)

lemma keeps_discard: "keeps R (discard m) \<longleftrightarrow> keeps R m"
  by (simp add: discard_def keeps_def tx_iff) blast

lemma across_rate_confirmation:
  assumes "keeps R (generateRateConfirmation_tx org l u)"
    and "\<And>e. ei_organizationId e = org \<Longrightarrow> keeps R (audit_record e)"
  shows "R (w_db w) (w_db (snd (generateRateConfirmation org l email u w)))"
proof -
  obtain r w1 where first: "then_enqueue (withTenantTransaction (generateRateConfirmation_tx org l u) w)
      (\<lambda>(_, documentId, _). [rate_confirmation_job org l documentId]) = (r, w1)" by fastforce
  have "w_db w1 = w_db (snd (withTenantTransaction (generateRateConfirmation_tx org l u) w))"
    using then_enqueue_db [of "withTenantTransaction (generateRateConfirmation_tx org l u) w"] first by (metis snd_conv)
  then have R1: "R (w_db w) (w_db w1)" using across_transaction [OF assms(1), of w] by simp
  have audit: "R (w_db w1) (w_db (snd (withTenantTransaction (audit_record (ev_rate_confirmation_sent org l d e u)) w2)))"
    if "w_db w2 = w_db w1" for d e w2
    using across_transaction [OF assms(2), of "ev_rate_confirmation_sent org l d e u" w2] that
    by (simp add: ev_rate_confirmation_sent_def)
  have mid: "w_db (snd (then_enqueue (Inr (), w1) f)) = w_db w1" for f
    by (simp add: then_enqueue_db)
  show ?thesis
  proof (cases r)
    case (Inl e)
    then show ?thesis using R1 first by (simp add: generateRateConfirmation_def)
  next
    case (Inr x)
    obtain load d mail where x: "x = (load, d, mail)" by (cases x) auto
    show ?thesis
    proof (cases "email \<and> truthy mail")
      case False
      then show ?thesis using R1 first Inr x by (auto simp: generateRateConfirmation_def)
    next
      case True
      obtain q w2 where second: "then_enqueue (Inr (), w1)
          (\<lambda>_. [rate_confirmation_email org l (l_loadNumber load) (the mail)]) = (q, w2)" by fastforce
      then have w2: "w_db w2 = w_db w1" using mid by (metis snd_conv)
      have "R (w_db w1) (w_db (snd (generateRateConfirmation org l email u w)))"
        using audit [OF w2, of d "the mail"] R_refl [of "w_db w1"] w2 first second Inr x True
        by (auto simp: generateRateConfirmation_def split: sum.splits prod.splits)
      then show ?thesis using R1 by (rule R_trans [rotated])
    qed
  qed
qed

lemma across_stop_upload:
  assumes "keeps R (stop_upload_tx code org l n dto u)"
  shows "R (w_db w) (w_db (snd (initiateStopUpload code org l n dto u w)))"
proof (cases "resolve_stop_upload org l n code (w_db w)")
  case (Inl e)
  then show ?thesis by (simp add: initiateStopUpload_def withTenantTransaction_def R_refl)
next
  case (Inr r)
  obtain stopId typeId where r: "r = ((stopId, typeId), w_db w)"
    using Inr by (auto simp: resolve_stop_upload_def findDocumentType_def tx_iff)
  let ?dto = "dto\<lparr>cdd_entityType := DE_STOP, cdd_entityId := stopId, cdd_documentTypeId := typeId\<rparr>"
  have run: "initiateStopUpload code org l n dto u w = withTenantTransaction (initiateUpload_tx org ?dto u) w"
    using Inr r by (simp add: initiateStopUpload_def initiateUpload_def withTenantTransaction_def)
  have "R (w_db w) s'" if "initiateUpload_tx org ?dto u (w_db w) = Inr (x, s')" for x s'
    using assms Inr r that by (auto simp: stop_upload_tx_def discard_def keeps_def tx_iff)
  then show ?thesis unfolding run
    by (auto simp: withTenantTransaction_def R_refl split: sum.split prod.split)
qed

lemma across_confirm:
  assumes "\<And>e. ei_organizationId e = org \<Longrightarrow> keeps R (audit_record e)"
  shows "R (w_db w) (w_db (snd (confirmUpload org i u w)))"
proof -
  obtain r w1 where first: "then_enqueue (withTenantTransaction (confirmUpload_read org i) w)
      (\<lambda>d. [scan_job org i (doc_fileStorageKey d)]) = (r, w1)" by fastforce
  have "w_db w1 = w_db (snd (withTenantTransaction (confirmUpload_read org i) w))"
    using then_enqueue_db [of "withTenantTransaction (confirmUpload_read org i) w"] first by (metis snd_conv)
  also have "\<dots> = w_db w"
    by (auto simp: withTenantTransaction_def confirmUpload_read_def tx_iff split: sum.split prod.split)
  finally have w1: "w_db w1 = w_db w" .
  have audit: "R (w_db w1) (w_db (snd (withTenantTransaction (audit_record (ev_upload_confirmed org d u)) w1)))" for d
    by (rule across_transaction, rule assms) (simp add: ev_upload_confirmed_def)
  show ?thesis
  proof (cases r)
    case (Inl e)
    then show ?thesis using first w1 R_refl [of "w_db w"] by (simp add: confirmUpload_def)
  next
    case (Inr d)
    then have "snd (confirmUpload org i u w) = snd (withTenantTransaction (audit_record (ev_upload_confirmed org d u)) w1)"
      using first by (simp add: confirmUpload_def split: sum.split prod.split)
    then show ?thesis using audit [of d] w1 by simp
  qed
qed

lemma across_scan:
  assumes "keeps R (applyScanResult_tx ok org i result provider)"
  shows "R (w_db w) (w_db (snd (applyScanResult ok org i result provider w)))"
  using assms R_refl
  by (auto simp: applyScanResult_def transaction_enqueueing_def split: sum.split prod.split dest: keepsD)

text \<open>What the transaction of a request keeps, and recording an event keeps, serving it keeps.\<close>

lemma across_request:
  assumes "keeps R (request_tx pd org u req)" and "\<And>e. ei_organizationId e = org \<Longrightarrow> keeps R (audit_record e)"
  shows "R (w_db w) (w_db (handle pd org u req w))"
proof -
  have plain: "R (w_db w) (w_db (snd (withTenantTransaction (request_tx pd org u req) w)))"
    by (rule across_transaction [OF assms(1)])
  have queued: "R (w_db w) (w_db (snd (then_enqueue (withTenantTransaction m w) f)))" if "keeps R m" for m :: "'c tx" and f
    using across_transaction [OF that, of w] by (simp add: then_enqueue_db)
  show ?thesis
  proof (cases "(pd, org, u, req, w)" rule: handle.cases)
    case (1 pd' org' u' dto w')
    then show ?thesis using assms(1) queued by (simp add: createDirect_def keeps_discard)
  next
    case (2 pd' org' u' q rate override w')
    then show ?thesis using assms(1) queued by (simp add: convert_def keeps_discard)
  next
    case (3 pd' org' u' l email w')
    then show ?thesis using assms across_rate_confirmation by (simp add: keeps_discard)
  next
    case (4 pd' org' u' l items w')
    then show ?thesis using assms(1) queued by (simp add: updateStops_def keeps_discard)
  next
    case (5 pd' org' u' l dto w')
    then show ?thesis using assms(1) queued by (simp add: logCheckCall_def keeps_discard)
  next
    case (6 pd' org' u' i email subject message w')
    then show ?thesis using assms(1) queued by (simp add: sendInvoice_def keeps_discard then_enqueue_db)
  next
    case (7 pd' org' u' i d w')
    then show ?thesis using assms(1) queued by (simp add: markPaid_def keeps_discard)
  next
    case (8 pd' org' u' l n dto w')
    then show ?thesis using assms(1) across_stop_upload by (simp add: initiatePodUpload_def)
  next
    case (9 pd' org' u' l n dto w')
    then show ?thesis using assms(1) across_stop_upload by (simp add: initiatePopUpload_def)
  next
    case (10 pd' org' u' i w')
    then show ?thesis using across_confirm assms(2) by simp
  next
    case (11 pd' org' u' ok i result provider w')
    then show ?thesis using assms(1) across_scan by (simp add: keeps_discard)
  qed (use plain in simp_all)
qed

end

end
