(* ===== verification/Safety.thy ===== *)
theory Safety
  imports System
begin

text \<open>
  What holds of every request whatever it does: it only touches its own organization's rows, it
  keeps the store well formed, and it only appends to the audit trail, whose entries and domain
  events stay in step.
\<close>

interpretation confined_db: db_relation "confined org s0" for org s0
  by unfold_locales

lemma confined_carrier_request: "keeps (confined org s0) (carrier_tx org u r)"
  by (cases r) (simp_all add: confined_db.keeps_discard confined_carrier)

lemma confined_customer_request: "keeps (confined org s0) (customer_tx pd org u r)"
  by (cases r) (simp_all add: confined_db.keeps_discard confined_customer)

lemma confined_booking_request: "keeps (confined org s0) (booking_tx org u r)"
  by (cases r) (simp_all add: confined_db.keeps_discard confined_load confined_quote confined_sourcing
      confined_rate_confirmation)

lemma confined_dispatch_request: "keeps (confined org s0) (dispatch_tx org u r)"
  by (cases r) (simp_all add: confined_db.keeps_discard confined_dispatch)

lemma confined_money_request: "keeps (confined org s0) (money_tx org u r)"
  by (cases r) (simp_all add: confined_db.keeps_discard confined_invoice confined_charge_type confined_carrier_pay)

lemma confined_stop_upload: "keeps (confined org s0) (stop_upload_tx code org l n dto u)"
  unfolding stop_upload_tx_def resolve_stop_upload_def discard_def tx_assoc
  by ((rule document_types_pure confined_document confined_rules | assumption | (simp; fail))+)

lemma confined_confirm: "keeps (confined org s0) (confirm_tx org i u)"
  unfolding confirm_tx_def confirmUpload_read_def require_document_def tx_assoc
  by ((rule confined_rules | assumption | (simp add: ev_upload_confirmed_def; fail))+)

lemma confined_document_request: "keeps (confined org s0) (document_tx org u r)"
  by (cases r) (simp_all add: confined_db.keeps_discard confined_document confined_stop_upload confined_confirm
      confined_notification)

lemma confined_sweep_request: "keeps (confined org s0) (sweep_tx org r)"
  by (cases r) (simp_all add: confined_sweep confined_sweep_one)

lemma confined_draft_request: "keeps (confined org s0) (draft_tx org u r)"
  by (cases r) (simp_all add: confined_db.keeps_discard confined_drafts)

lemma confined_request: "keeps (confined org s0) (request_tx pd org u req)"
  by (cases req) (simp_all add: confined_carrier_request confined_customer_request confined_booking_request
      confined_dispatch_request confined_money_request confined_document_request confined_draft_request confined_sweep_request)

lemma handle_lawful:
  assumes "wf_db (w_db w)"
  shows "lawful org (w_db w) (w_db (handle pd org u req w))"
proof -
  have "confined org (w_db w) (w_db w) (w_db (handle pd org u req w))"
    by (rule confined_db.across_request [OF confined_request confined_audit])
  then show ?thesis using assms lawful_refl [of org "w_db w"] by (simp add: confined_def)
qed

lemma handle_wf: "wf_db (w_db w) \<Longrightarrow> wf_db (w_db (handle pd org u req w))"
  using handle_lawful [of w org pd u req] by (simp add: lawful_def keeps_wf_def)

lemma begin_request_db: "w_db (begin_request t ctx w) = (w_db w)\<lparr>clock := t, context_of := ctx\<rparr>"
  by (simp add: begin_request_def)

lemma wf_begin [simp]: "wf_db (w_db (begin_request t ctx w)) = wf_db (w_db w)"
  by (simp add: begin_request_db wf_db_def)

lemma step_wf: "step pd w w' \<Longrightarrow> wf_db (w_db w) \<Longrightarrow> wf_db (w_db w')"
  by (erule stepE) (simp_all add: handle_wf)

lemma reachable_wf: "reachable pd w \<Longrightarrow> wf_db (w_db w)"
  by (induction rule: reachable.induct) (auto simp: fresh_db_def intro: step_wf)

text \<open>The trail of a deployment: a step appends entries that bear the time of the step.\<close>

lemma step_trail:
  assumes "step pd w w'" and "wf_db (w_db w)"
  shows "\<exists>es. audit_logs (w_db w') = audit_logs (w_db w) @ es \<and>
     domain_events (w_db w') = domain_events (w_db w) @ map event_of es \<and>
     (\<forall>a \<in> set es. a_createdAt a = clock (w_db w')) \<and> clock (w_db w) \<le> clock (w_db w')"
  using assms(1)
proof (rule stepE)
  fix t org u req ctx
  assume w': "w' = handle pd org u req (begin_request t ctx w)" and t: "clock (w_db w) \<le> t"
  have "lawful org (w_db (begin_request t ctx w)) (w_db w')"
    unfolding w' using assms(2) by (intro handle_lawful) simp
  then show ?thesis using t by (auto simp: lawful_def trail_grows_def stamped_def begin_request_db)
qed simp

definition trail_in_step :: "db \<Rightarrow> bool" where
  "trail_in_step s \<longleftrightarrow> domain_events s = map event_of (audit_logs s) \<and>
     sorted (map a_createdAt (audit_logs s)) \<and> (\<forall>a \<in> set (audit_logs s). a_createdAt a \<le> clock s)"

lemma step_trail_in_step:
  assumes "step pd w w'" and "wf_db (w_db w)" and "trail_in_step (w_db w)"
  shows "trail_in_step (w_db w')"
proof -
  obtain es where es: "audit_logs (w_db w') = audit_logs (w_db w) @ es"
      "domain_events (w_db w') = domain_events (w_db w) @ map event_of es"
    and new: "\<forall>a \<in> set es. a_createdAt a = clock (w_db w')" and le: "clock (w_db w) \<le> clock (w_db w')"
    using step_trail [OF assms(1,2)] by blast
  have "sorted (map a_createdAt es)"
    using new by (induction es) auto
  then show ?thesis
    using assms(3) es new le by (fastforce simp: trail_in_step_def sorted_append)
qed

lemma reachable_trail_in_step: "reachable pd w \<Longrightarrow> trail_in_step (w_db w)"
proof (induction rule: reachable.induct)
  case (start w)
  then show ?case by (simp add: fresh_db_def trail_in_step_def)
next
  case (step w w')
  then show ?case by (blast intro: step_trail_in_step reachable_wf)
qed

section \<open>Failure\<close>

text \<open>A request whose transaction throws leaves the database as it was.\<close>

lemma transaction_failed: "m (w_db w) = Inl e \<Longrightarrow> withTenantTransaction m w = (Inl e, w)"
  by (simp add: withTenantTransaction_def)

lemma then_enqueue_error: "then_enqueue (Inl e, w) f = (Inl e, w)"
  by (simp add: then_enqueue_def)

lemma discard_failed [simp]: "discard m s = Inl e \<longleftrightarrow> m s = Inl e"
  by (auto simp: discard_def tx_run split: sum.split)

lemma stop_upload_failed:
  assumes "stop_upload_tx code org l n dto u (w_db w) = Inl e"
  shows "snd (initiateStopUpload code org l n dto u w) = w"
proof (cases "resolve_stop_upload org l n code (w_db w)")
  case (Inr r)
  obtain stopId typeId where r: "r = ((stopId, typeId), w_db w)"
    using Inr by (auto simp: resolve_stop_upload_def findDocumentType_def tx_iff)
  then show ?thesis using assms Inr
    by (simp add: stop_upload_tx_def initiateStopUpload_def initiateUpload_def withTenantTransaction_def bind_run)
qed (simp add: initiateStopUpload_def withTenantTransaction_def)

lemma confirm_failed:
  assumes "confirm_tx org i u (w_db w) = Inl e"
  shows "w_db (snd (confirmUpload org i u w)) = w_db w"
proof (cases "confirmUpload_read org i (w_db w)")
  case (Inl e')
  then show ?thesis by (simp add: confirmUpload_def transaction_failed then_enqueue_error)
next
  case (Inr r)
  then show ?thesis using assms by (simp add: confirm_tx_def bind_run audit_record_run)
qed

lemma handle_failed:
  assumes "request_tx pd org u req (w_db w) = Inl e"
  shows "w_db (handle pd org u req w) = w_db w"
proof (cases "(pd, org, u, req, w)" rule: handle.cases)
qed (use assms in \<open>simp_all add: createDirect_def convert_def generateRateConfirmation_def updateStops_def
  logCheckCall_def sendInvoice_def markPaid_def initiatePodUpload_def initiatePopUpload_def applyScanResult_def
  transaction_enqueueing_def transaction_failed then_enqueue_error stop_upload_failed confirm_failed\<close>)

end
