(* ===== verification/Example.thy ===== *)
theory Example
  imports Safety
begin

text \<open>
  Concrete data for the witnesses: a deployment with one organization, its members and the shared
  document and charge types, and rows to put into it.
\<close>

definition blank_db :: db where
  "blank_db =
     \<lparr>organizations = [], memberships = [], sequences = (\<lambda>_. None), audit_logs = [],
      domain_events = [], notifications = [], customers = [], customer_contacts = [],
      customer_locations = [], rate_agreements = [], carriers = [], carrier_contacts = [],
      carrier_insurance = [], fmcsa_verifications = [], service_areas = [], factoring_infos = [],
      drivers = [], trucks = [], trailers = [], document_types = [],
      documents = [], quotes = [], quote_stops = [], loads = [],
      stops = [], sourcing_attempts = [], dispatch_records = [], check_calls = [],
      charge_types = [], charge_line_items = [], invoices = [], invoice_loads = [],
      invoice_line_items = [], payments = [], adjustments = [], carrier_payments = [],
      load_drafts = [], next_id = 100, clock = 1700000000000, context_of = None\<rparr>"

definition demo_org :: organization_row where
  "demo_org = \<lparr>o_legalName = ''Acme Brokers'', o_addressLine1 = ''1 Main St'', o_city = ''Omaha'', o_state = ''NE'',
     o_zip = ''68101'', o_country = ''US'', o_primaryContactName = ''A'', o_primaryContactEmail = ''a@acme.test'',
     o_primaryContactPhone = ''1'', o_defaultPaymentTerms = Some NET_30, o_subscriptionStatus = SUB_ACTIVE,
     o_trialStartedAt = None, o_trialEndsAt = None, o_maxCarriers = Some 2, o_maxDrivers = Some 2,
     o_subscriptionConvertedAt = None, o_subscriptionConvertedByUserId = None, o_createdByUserId = 9\<rparr>"

definition demo_member :: "uuid \<Rightarrow> role list \<Rightarrow> membership_row" where
  "demo_member user roles = \<lparr>m_organizationId = 1, m_userId = user, m_status = MS_ACTIVE, m_roles = roles,
     m_invitedByUserId = None, m_invitedAt = Some 0, m_invitationTokenHash = None, m_invitationExpiresAt = Some 0,
     m_activatedAt = Some 0, m_deactivatedAt = None, m_deactivatedByUserId = None\<rparr>"

definition demo_type :: "string \<Rightarrow> bool \<Rightarrow> document_type_row" where
  "demo_type code needsReview =
     \<lparr>dt_organizationId = None, dt_code = code, dt_label = code, dt_requiresReview = needsReview\<rparr>"

definition demo_db :: db where
  "demo_db = blank_db\<lparr>organizations := [(1, demo_org), (2, demo_org)],
     memberships := [(10, demo_member 7 [ADMIN]), (11, demo_member 8 [DISPATCHER])],
     document_types := [(20, demo_type ''W9'' True), (21, demo_type ''CARRIER_AGREEMENT'' True),
       (22, demo_type ''MC_AUTHORITY'' True), (23, demo_type ''POD'' False),
       (24, demo_type ''RATE_CONFIRMATION'' False), (25, demo_type ''INVOICE'' False),
       (26, demo_type ''SETTLEMENT'' False)],
     charge_types := [(30, \<lparr>ct_organizationId = None, ct_code = ''LINEHAUL'', ct_label = ''Linehaul'',
       ct_isSystemDefault = True\<rparr>)]\<rparr>"

definition demo_world :: world where
  "demo_world = \<lparr>w_db = demo_db, w_jobs = [], w_queue_up = True\<rparr>"

lemma demo_wf: "wf_db demo_db"
  by (simp add: wf_db_def demo_db_def blank_db_def table_ok_def)

lemma demo_fresh: "fresh_db demo_db"
  using demo_wf by (simp add: fresh_db_def demo_db_def blank_db_def)

section \<open>Rows and request bodies\<close>

definition demo_carrier :: "carrier_status \<Rightarrow> bool \<Rightarrow> carrier_row" where
  "demo_carrier st eligible =
     \<lparr>c_organizationId = 1, c_legalName = ''Acme Trucking'', c_dba = None, c_mcNumber = ''MC1'',
      c_dotNumber = ''DOT1'', c_addressLine1 = ''1 Main St'', c_city = ''Omaha'', c_state = ''NE'',
      c_zip = ''68101'', c_primaryContactName = ''A'', c_primaryContactPhone = ''1'',
      c_primaryContactEmail = ''a@acme.test'', c_status = st, c_assignmentEligible = eligible,
      c_ineligibilityReasons = None, c_createdByUserId = 7\<rparr>"

definition demo_customer :: "customer_status \<Rightarrow> customer_row" where
  "demo_customer st =
     \<lparr>cu_organizationId = 1, cu_legalName = ''Globex'', cu_billingAddressLine1 = ''2 Main St'',
      cu_billingCity = ''Omaha'', cu_billingState = ''NE'', cu_billingZip = ''68101'',
      cu_billingCountry = ''US'', cu_primaryContactName = ''G'', cu_primaryContactEmail = ''g@globex.test'',
      cu_primaryContactPhone = ''2'', cu_status = st, cu_accountOwnerUserId = None,
      cu_paymentTerms = NET_30, cu_paymentTermsSource = INHERITED, cu_createdByUserId = 7\<rparr>"

definition demo_load :: "load_status \<Rightarrow> uuid option \<Rightarrow> cents option \<Rightarrow> load_row" where
  "demo_load st carrier rate =
     \<lparr>l_organizationId = 1, l_loadNumber = ''LOAD-000001'', l_customerId = 50, l_bookingSource = BS_DIRECT,
      l_quoteId = None, l_status = st, l_equipmentType = DRY_VAN, l_customerRate = 150000,
      l_rateSource = MANUAL, l_rateAgreementId = None, l_customerPoNumber = None, l_bolNumber = None,
      l_pickupNumber = None, l_customerReferenceNumber = None, l_assignedCarrierId = carrier,
      l_carrierRate = rate, l_assignedDispatcherId = None, l_podStatus = POD_COMPLETE,
      l_riskStatus = RISK_NORMAL, l_riskReason = None, l_currentLocationCity = None,
      l_currentLocationState = None, l_currentLocationZip = None, l_currentLocationUpdatedAt = None,
      l_currentEta = None, l_invoiced = False, l_closedAt = None, l_closedByUserId = None,
      l_cancelledAt = None, l_cancelledByUserId = None, l_createdByUserId = 7, l_createdAt = 0,
      l_returnForLoadId = None\<rparr>"

definition demo_charge :: "charge_side \<Rightarrow> cents \<Rightarrow> charge_row" where
  "demo_charge side amount =
     \<lparr>ch_organizationId = 1, ch_loadId = 60, ch_side = side, ch_chargeTypeId = 30, ch_description = None,
      ch_quantity = 100, ch_unitRate = amount, ch_amount = amount, ch_source = ORIGINAL, ch_notes = None,
      ch_createdByUserId = 7\<rparr>"

definition demo_document :: "string \<Rightarrow> uuid \<Rightarrow> uuid \<Rightarrow> document_row" where
  "demo_document name typeId uploader =
     \<lparr>doc_organizationId = 1, doc_documentFamilyId = 70, doc_entityType = DE_CARRIER, doc_entityId = 40,
      doc_documentTypeId = typeId, doc_customTypeLabel = None, doc_fileStorageKey = [], doc_fileName = name,
      doc_fileSizeBytes = 1, doc_mimeType = ''application/pdf'', doc_versionNumber = 1,
      doc_isCurrentVersion = True, doc_scanStatus = SCAN_CLEAN, doc_scannedAt = None, doc_scanProvider = None,
      doc_reviewStatus = Some RV_PENDING_REVIEW, doc_generationStatus = None, doc_reviewedByUserId = None,
      doc_reviewedAt = None, doc_rejectionReason = None, doc_expirationDate = None,
      doc_uploadedByUserId = uploader, doc_uploadedAt = 0\<rparr>"

definition demo_carrier_dto :: create_carrier_dto where
  "demo_carrier_dto =
     \<lparr>ccd_legalName = ''Acme Trucking'', ccd_dba = None, ccd_mcNumber = ''MC1'', ccd_dotNumber = ''DOT1'',
      ccd_addressLine1 = ''1 Main St'', ccd_city = ''Omaha'', ccd_state = ''NE'', ccd_zip = ''68101'',
      ccd_primaryContactName = ''A'', ccd_primaryContactPhone = ''1'', ccd_primaryContactEmail = ''a@acme.test''\<rparr>"

text \<open>One request served in the demo deployment.\<close>

definition demo_step :: world where
  "demo_step = handle (\<lambda>_. 0) 1 7 (CarrierRequest (CreateCarrier demo_carrier_dto))
     (begin_request 1700000000001 None demo_world)"

lemma demo_step_reachable: "step (\<lambda>_. 0) demo_world demo_step" "reachable (\<lambda>_. 0) demo_world"
  "reachable (\<lambda>_. 0) demo_step"
proof -
  show s: "step (\<lambda>_. 0) demo_world demo_step"
    unfolding demo_step_def by (rule step.served) (simp add: demo_world_def demo_db_def blank_db_def)
  show r: "reachable (\<lambda>_. 0) demo_world"
    using demo_fresh by (intro reachable.start) (simp add: demo_world_def)
  show "reachable (\<lambda>_. 0) demo_step" using r s by (rule reachable.step)
qed

end
