(* ===== verification/Footprint.thy ===== *)
theory Footprint
  imports Example
begin

text \<open>
  Which tables each request writes. The footprint of a request is a set of table names; serving
  the request leaves every other table, the clock and the request context as they were. An
  invariant that only reads tables outside a request's footprint is therefore kept by it, so each
  invariant of the theories below only has to look at the requests that write its tables.
\<close>

datatype table_name =
    Organizations | Memberships | Sequences | AuditLogs | DomainEvents | Notifications | Customers
  | CustomerContacts | CustomerLocations | RateAgreements | Carriers | CarrierContacts
  | CarrierInsurance | FmcsaVerifications | ServiceAreas | FactoringInfos | Drivers | Trucks | Trailers
  | DocumentTypes | Documents | Quotes | QuoteStops | Loads | Stops | SourcingAttempts
  | DispatchRecords | CheckCalls | ChargeTypes | ChargeLineItems | Invoices | InvoiceLoads
  | InvoiceLineItems | Payments | Adjustments | CarrierPayments | LoadDrafts | TheClock | TheContext

fun untouched :: "table_name \<Rightarrow> db \<Rightarrow> db \<Rightarrow> bool" where
  "untouched Organizations s s' = (organizations s' = organizations s)"
| "untouched Memberships s s' = (memberships s' = memberships s)"
| "untouched Sequences s s' = (sequences s' = sequences s)"
| "untouched AuditLogs s s' = (audit_logs s' = audit_logs s)"
| "untouched DomainEvents s s' = (domain_events s' = domain_events s)"
| "untouched Notifications s s' = (notifications s' = notifications s)"
| "untouched Customers s s' = (customers s' = customers s)"
| "untouched CustomerContacts s s' = (customer_contacts s' = customer_contacts s)"
| "untouched CustomerLocations s s' = (customer_locations s' = customer_locations s)"
| "untouched RateAgreements s s' = (rate_agreements s' = rate_agreements s)"
| "untouched Carriers s s' = (carriers s' = carriers s)"
| "untouched CarrierContacts s s' = (carrier_contacts s' = carrier_contacts s)"
| "untouched CarrierInsurance s s' = (carrier_insurance s' = carrier_insurance s)"
| "untouched FmcsaVerifications s s' = (fmcsa_verifications s' = fmcsa_verifications s)"
| "untouched ServiceAreas s s' = (service_areas s' = service_areas s)"
| "untouched FactoringInfos s s' = (factoring_infos s' = factoring_infos s)"
| "untouched Drivers s s' = (drivers s' = drivers s)"
| "untouched Trucks s s' = (trucks s' = trucks s)"
| "untouched Trailers s s' = (trailers s' = trailers s)"
| "untouched DocumentTypes s s' = (document_types s' = document_types s)"
| "untouched Documents s s' = (documents s' = documents s)"
| "untouched Quotes s s' = (quotes s' = quotes s)"
| "untouched QuoteStops s s' = (quote_stops s' = quote_stops s)"
| "untouched Loads s s' = (loads s' = loads s)"
| "untouched Stops s s' = (stops s' = stops s)"
| "untouched SourcingAttempts s s' = (sourcing_attempts s' = sourcing_attempts s)"
| "untouched DispatchRecords s s' = (dispatch_records s' = dispatch_records s)"
| "untouched CheckCalls s s' = (check_calls s' = check_calls s)"
| "untouched ChargeTypes s s' = (charge_types s' = charge_types s)"
| "untouched ChargeLineItems s s' = (charge_line_items s' = charge_line_items s)"
| "untouched Invoices s s' = (invoices s' = invoices s)"
| "untouched InvoiceLoads s s' = (invoice_loads s' = invoice_loads s)"
| "untouched InvoiceLineItems s s' = (invoice_line_items s' = invoice_line_items s)"
| "untouched Payments s s' = (payments s' = payments s)"
| "untouched Adjustments s s' = (adjustments s' = adjustments s)"
| "untouched CarrierPayments s s' = (carrier_payments s' = carrier_payments s)"
| "untouched LoadDrafts s s' = (load_drafts s' = load_drafts s)"
| "untouched TheClock s s' = (clock s' = clock s)"
| "untouched TheContext s s' = (context_of s' = context_of s)"

definition only :: "table_name set \<Rightarrow> db \<Rightarrow> db \<Rightarrow> bool" where
  "only T s s' \<longleftrightarrow> (\<forall>n. n \<notin> T \<longrightarrow> untouched n s s')"

lemma untouched_refl: "untouched n s s"
  by (cases n) simp_all

lemma untouched_trans: "untouched n s t \<Longrightarrow> untouched n t u \<Longrightarrow> untouched n s u"
  by (cases n) simp_all

interpretation footprint: db_relation "only T" for T
  by unfold_locales (auto simp: only_def intro: untouched_refl untouched_trans)

section \<open>The primitives\<close>

definition slot_of :: "table_name \<Rightarrow> (('a table \<Rightarrow> 'a table) \<Rightarrow> db \<Rightarrow> db) \<Rightarrow> bool" where
  "slot_of n upd \<longleftrightarrow> (\<forall>f s m. m \<noteq> n \<longrightarrow> untouched m s (upd f s))"

lemma slotI: "(\<And>f s m. m \<noteq> n \<Longrightarrow> untouched m s (upd f s)) \<Longrightarrow> slot_of n upd"
  by (simp add: slot_of_def)

lemma slots:
  "slot_of Notifications notifications_update" "slot_of Customers customers_update"
  "slot_of CustomerContacts customer_contacts_update" "slot_of CustomerLocations customer_locations_update"
  "slot_of RateAgreements rate_agreements_update" "slot_of Carriers carriers_update"
  "slot_of CarrierContacts carrier_contacts_update" "slot_of CarrierInsurance carrier_insurance_update"
  "slot_of FmcsaVerifications fmcsa_verifications_update" "slot_of ServiceAreas service_areas_update"
  "slot_of FactoringInfos factoring_infos_update" "slot_of Drivers drivers_update"
  "slot_of Trucks trucks_update" "slot_of Trailers trailers_update" "slot_of Documents documents_update"
  "slot_of Quotes quotes_update" "slot_of QuoteStops quote_stops_update" "slot_of Loads loads_update"
  "slot_of Stops stops_update" "slot_of SourcingAttempts sourcing_attempts_update"
  "slot_of DispatchRecords dispatch_records_update" "slot_of CheckCalls check_calls_update"
  "slot_of ChargeTypes charge_types_update" "slot_of ChargeLineItems charge_line_items_update"
  "slot_of Invoices invoices_update" "slot_of InvoiceLoads invoice_loads_update"
  "slot_of InvoiceLineItems invoice_line_items_update" "slot_of Payments payments_update"
  "slot_of Adjustments adjustments_update" "slot_of CarrierPayments carrier_payments_update"
  "slot_of LoadDrafts load_drafts_update" "slot_of Memberships memberships_update"
  by (rule slotI, rename_tac m, case_tac m; simp)+

lemma untouched_next_id: "untouched n s (s\<lparr>next_id := k\<rparr>)"
  by (cases n) simp_all

lemma untouched_recorded: "n \<noteq> AuditLogs \<Longrightarrow> n \<noteq> DomainEvents \<Longrightarrow> untouched n s (recorded e s)"
  by (cases n) simp_all

lemma only_slot: "slot_of n upd \<Longrightarrow> n \<in> T \<Longrightarrow> only T s (upd f s)"
  unfolding only_def slot_of_def by metis

lemma only_supply: "slot_of n upd \<Longrightarrow> n \<in> T \<Longrightarrow> only T s (upd f (s\<lparr>next_id := k\<rparr>))"
  unfolding only_def slot_of_def by (metis untouched_next_id untouched_trans)

lemma footprint_writes:
  "slot_of n upd \<Longrightarrow> n \<in> T \<Longrightarrow> keeps (only T) (create upd r)"
  "slot_of n upd \<Longrightarrow> n \<in> T \<Longrightarrow> keeps (only T) (createMany upd rs)"
  "slot_of n upd \<Longrightarrow> n \<in> T \<Longrightarrow> keeps (only T) (createAt sel upd k r)"
  "slot_of n upd \<Longrightarrow> n \<in> T \<Longrightarrow> keeps (only T) (update sel upd k g)"
  "slot_of n upd \<Longrightarrow> n \<in> T \<Longrightarrow> keeps (only T) (updateMany upd P g)"
  "slot_of n upd \<Longrightarrow> n \<in> T \<Longrightarrow> keeps (only T) (deleteMany upd P)"
  by (auto simp: keeps_def tx_iff only_slot only_supply)

lemma footprint_audit: "{AuditLogs, DomainEvents} \<subseteq> T \<Longrightarrow> keeps (only T) (audit_record e)"
  by (auto simp: keeps_def tx_iff only_def intro: untouched_recorded)

lemma footprint_sequence: "Sequences \<in> T \<Longrightarrow> keeps (only T) (getNextNumber org ty)"
  unfolding keeps_def getNextNumber_iff only_def
  by (intro allI impI, rename_tac m, case_tac m) auto

lemma footprint_reads:
  "keeps (only T) (findUnique sel k P)" "keeps (only T) (findFirst sel Q)"
  "keeps (only T) (findMany sel Q)" "keeps (only T) (findUniqueOrThrow sel k P)" "keeps (only T) now"
  "keeps (only T) freshId"
  by (auto simp: keeps_def tx_iff footprint.R_refl only_def untouched_next_id)

lemmas footprint_entitlement = entitlement_keeps [where R = "only T" for T, OF footprint.R_refl]

lemmas footprint_rules = footprint_reads footprint_writes footprint_audit footprint_sequence footprint_entitlement
  footprint.keeps_intros slots

section \<open>The footprint of each request\<close>

definition logged :: "table_name set \<Rightarrow> table_name set" where
  "logged T = {AuditLogs, DomainEvents} \<union> T"

fun carrier_footprint :: "carrier_request \<Rightarrow> table_name set" where
  "carrier_footprint (AddCarrierContact _ _) = {CarrierContacts}"
| "carrier_footprint (AddInsurance _ _) = {CarrierInsurance, Carriers}"
| "carrier_footprint (AddFmcsaVerification _ _) = {FmcsaVerifications, Carriers}"
| "carrier_footprint (AddServiceArea _ _) = {ServiceAreas}"
| "carrier_footprint (UpsertFactoringInfo _ _) = {FactoringInfos}"
| "carrier_footprint (AddDriver _ _) = {Drivers}"
| "carrier_footprint (UpdateDriver _ _ _) = {Drivers}"
| "carrier_footprint (DeactivateDriver _ _ _) = {Drivers}"
| "carrier_footprint (ReactivateDriver _ _ _) = {Drivers}"
| "carrier_footprint (AddTruck _ _) = {Trucks}"
| "carrier_footprint (AddTrailer _ _) = {Trailers}"
| "carrier_footprint _ = {Carriers}"

fun customer_footprint :: "customer_request \<Rightarrow> table_name set" where
  "customer_footprint (AddCustomerContact _ _) = {CustomerContacts}"
| "customer_footprint (AddLocation _ _) = {CustomerLocations}"
| "customer_footprint (AddRateAgreement _ _) = {RateAgreements}"
| "customer_footprint _ = {Customers}"

fun booking_footprint :: "booking_request \<Rightarrow> table_name set" where
  "booking_footprint (CreateQuote _) = {Quotes, QuoteStops, Sequences}"
| "booking_footprint (MarkQuoteLost _ _) = {Quotes}"
| "booking_footprint (ConvertQuote _ _ _) = {Loads, Stops, ChargeLineItems, Sequences, Quotes}"
| "booking_footprint (CreateLoad _) = {Loads, Stops, ChargeLineItems, Sequences}"
| "booking_footprint (AddCharge _ _) = {ChargeLineItems}"
| "booking_footprint (CancelLoad _ _) = {Loads, Notifications}"
| "booking_footprint (LogSourcingAttempt _ _ _ _) = {SourcingAttempts}"
| "booking_footprint (AssignCarrier _ _ _) = {Loads, Carriers, SourcingAttempts, ChargeLineItems, Notifications}"
| "booking_footprint (CarrierRejected _ _) = {Loads, SourcingAttempts, ChargeLineItems}"
| "booking_footprint (GenerateRateConfirmation _ _) = {Loads, Documents}"
| "booking_footprint _ = {Loads}"

fun dispatch_footprint :: "dispatch_request \<Rightarrow> table_name set" where
  "dispatch_footprint (DispatchLoad _ _) = {Loads, Carriers, DispatchRecords}"
| "dispatch_footprint (UpdateDispatch _ _) = {DispatchRecords}"
| "dispatch_footprint (RecordArrival _ _ _) = {Stops, Loads}"
| "dispatch_footprint (RecordDeparture _ _ _) = {Stops, Loads}"
| "dispatch_footprint (RescheduleStop _ _ _) = {Stops}"
| "dispatch_footprint (UpdateStops _ _) = {Stops, Loads}"
| "dispatch_footprint (InitiateReturn _ _ _) = {Stops, Loads}"
| "dispatch_footprint (LogCheckCall _ _) = {CheckCalls, Loads}"
| "dispatch_footprint _ = {Loads}"

fun money_footprint :: "money_request \<Rightarrow> table_name set" where
  "money_footprint (CreateInvoice _) = {Invoices, InvoiceLoads, InvoiceLineItems, Loads, Sequences}"
| "money_footprint (SendInvoice _ _ _ _) = {Invoices, Documents}"
| "money_footprint (RecordPayment _ _) = {Invoices, Payments}"
| "money_footprint (AddAdjustment _ _) = {Invoices, Adjustments}"
| "money_footprint (VoidInvoice _) = {Invoices, Loads}"
| "money_footprint (CreateChargeType _ _) = {ChargeTypes}"
| "money_footprint (UpdateChargeType _ _) = {ChargeTypes}"
| "money_footprint (MarkPaid _ _) = {CarrierPayments, Documents}"
| "money_footprint _ = {CarrierPayments}"

fun document_footprint :: "document_request \<Rightarrow> table_name set" where
  "document_footprint (ConfirmUpload _) = {}"
| "document_footprint (ApplyScanResult _ _ _ _) = {Documents, Notifications, Loads}"
| "document_footprint (ReviewDocument _ _ _) = {Documents, Notifications, Carriers}"
| "document_footprint (MarkNotificationRead _) = {Notifications}"
| "document_footprint MarkAllNotificationsRead = {Notifications}"
| "document_footprint _ = {Documents}"

fun sweep_footprint :: "sweep_request \<Rightarrow> table_name set" where
  "sweep_footprint (ExpireQuote _) = {Quotes, Notifications}"
| "sweep_footprint (ExpireInvitation _) = {Memberships, Notifications}"
| "sweep_footprint (ExpireDocument _) = {Documents}"
| "sweep_footprint (RecalculateEligibility _) = {Carriers}"
| "sweep_footprint _ = {Notifications}"

fun footprint_of :: "request \<Rightarrow> table_name set" where
  "footprint_of (CarrierRequest r) = logged (carrier_footprint r)"
| "footprint_of (CustomerRequest r) = logged (customer_footprint r)"
| "footprint_of (BookingRequest r) = logged (booking_footprint r)"
| "footprint_of (DispatchRequest r) = logged (dispatch_footprint r)"
| "footprint_of (MoneyRequest r) = logged (money_footprint r)"
| "footprint_of (DocumentRequest r) = logged (document_footprint r)"
| "footprint_of (DraftRequest r) = logged {LoadDrafts}"
| "footprint_of (SweepRequest r) = logged (sweep_footprint r)"

section \<open>The shared steps\<close>

lemma footprint_notify:
  assumes "Notifications \<in> T"
  shows "keeps (only T) (createForRoles org roles i)" "keeps (only T) (createForUserAndRoles org u roles i)"
    "keeps (only T) (notify_once org kind i' u' m)" "keeps (only T) (notifyCarrierAssigned org l n c rt)"
    "keeps (only T) (markRead org u n')" "keeps (only T) (markAllRead org u)"
  unfolding createForRoles_def createForUserAndRoles_def notification_create_def notify_once_def
    notifyCarrierAssigned_def markRead_def markAllRead_def
  by ((rule footprint_rules | (simp add: assms; fail))+)

lemma footprint_recalculate:
  "{Carriers, AuditLogs, DomainEvents} \<subseteq> T \<Longrightarrow> keeps (only T) (recalculate org c)"
  "keeps (only T) (checkActivationReadiness org c)"
  unfolding recalculate_def checkActivationReadiness_def by ((rule footprint_rules | (simp; fail))+)

lemma footprint_generated: "Documents \<in> T \<Longrightarrow> keeps (only T) (create_generated d)"
  unfolding create_generated_def by ((rule footprint_rules | (simp; fail))+)

lemma footprint_pure:
  "keeps (only T) (require_carrier org c)" "keeps (only T) (require_driver org c d)"
  "keeps (only T) (require_customer org c)" "keeps (only T) (require_load org c)"
  "keeps (only T) (require_quote org c)" "keeps (only T) (require_invoice org c)"
  "keeps (only T) (require_carrier_payment org c)" "keeps (only T) (require_document org c)"
  "keeps (only T) (check_license org c li ex)" "keeps (only T) (findLinehaulType org)"
  "keeps (only T) (findDocumentType org code)" "keeps (only T) (latest_assigned_attempt org c ca)"
  "keeps (only T) (find_stop org c n)" "keeps (only T) (require_trackable_stop org c row n)"
  "keeps (only T) (validateSourceResources org ca src)" "keeps (only T) (assertUploadPermission ty)"
  "keeps (only T) (assertEntityExists org ty c)" "keeps (only T) (check_stop_document org c code)"
  "keeps (only T) (require_roles rs msg)" "keeps (only T) (confirmUpload_read org c)"
  "keeps (only T) (resolve_stop_upload org c n code)"
  "keeps (only T) (resolveRate org c o1 o2 o3 o4 eq rate)"
  unfolding require_carrier_def require_driver_def require_customer_def require_load_def require_quote_def
    require_invoice_def require_carrier_payment_def require_document_def check_license_def
    assertNoDuplicateLicense_def findLinehaulType_def findDocumentType_def latest_assigned_attempt_def
    find_stop_def require_trackable_stop_def validateSourceResources_def assertUploadPermission_def
    assertEntityExists_def check_stop_document_def require_roles_def current_roles_def
    confirmUpload_read_def resolve_stop_upload_def resolveRate_def findMatch_def
  by (rule footprint_rules)+

lemmas footprint_steps = footprint_pure footprint_notify footprint_recalculate footprint_generated footprint_rules

section \<open>Every request stays within its footprint\<close>

lemma footprint_allows:
  "{AuditLogs, DomainEvents} \<subseteq> T \<Longrightarrow> keeps (only T) (assertCustomerAllowsBooking org c cu ok u)"
  unfolding assertCustomerAllowsBooking_def by ((rule footprint_steps | (simp; fail))+)

lemma footprint_booking:
  assumes "{Loads, Stops, ChargeLineItems, Sequences, AuditLogs, DomainEvents} \<subseteq> T"
  shows "keeps (only T) (createFromBooking org bp u)"
  unfolding createFromBooking_def createOriginalCustomerLinehaulCharge_def Let_def
  by ((rule footprint_steps | (use assms in simp; fail))+)

lemma footprint_reEvaluate:
  assumes "{Loads, AuditLogs, DomainEvents} \<subseteq> T"
  shows "keeps (only T) (reEvaluateLoadStatus org l row)" and "keeps (only T) (recalculatePodStatus org l)"
  unfolding reEvaluateLoadStatus_def recalculatePodStatus_def
  by ((rule footprint_steps | (use assms in simp; fail))+)

lemma footprint_linehaul:
  assumes "ChargeLineItems \<in> T"
  shows "keeps (only T) (createOriginalCarrierLinehaulCharge org l rate u)"
    and "keeps (only T) (removeOriginalCarrierLinehaulCharge org l)"
  unfolding createOriginalCarrierLinehaulCharge_def removeOriginalCarrierLinehaulCharge_def
  by ((rule footprint_steps | (use assms in simp; fail))+)

lemma footprint_next_version: "Documents \<in> T \<Longrightarrow> keeps (only T) (next_version org fam)"
  unfolding next_version_def by ((rule footprint_steps | (simp; fail))+)

lemma footprint_upload:
  "{Documents, AuditLogs, DomainEvents} \<subseteq> T \<Longrightarrow> keeps (only T) (initiateUpload_tx org dto u)"
  unfolding initiateUpload_tx_def Let_def by ((rule footprint_next_version footprint_steps | (simp; fail))+)

lemmas footprint_compound = footprint_allows footprint_booking footprint_reEvaluate footprint_linehaul footprint_upload

lemma footprint_carrier: "keeps (only (logged (carrier_footprint r))) (carrier_tx org u r)"
  by (cases r; simp only: carrier_tx.simps footprint.keeps_discard carrier_footprint.simps;
      unfold carrier_ops Let_def; (rule footprint_steps | (simp add: logged_def; fail))+)

lemma footprint_customer: "keeps (only (logged (customer_footprint r))) (customer_tx pd org u r)"
  by (cases r; simp only: customer_tx.simps footprint.keeps_discard customer_footprint.simps;
      unfold customer_create_def customer_update_def changeStatus_def customer_addContact_def addLocation_def
        addRateAgreement_def Let_def;
      (rule footprint_steps | (simp add: logged_def; fail))+)

lemma footprint_booking_request: "keeps (only (logged (booking_footprint r))) (booking_tx org u r)"
  by (cases r; simp only: booking_tx.simps footprint.keeps_discard booking_footprint.simps;
      unfold quote_create_def markLost_def convert_tx_def createDirect_tx_def updateReferenceNumbers_def
        linkReturnLoad_def addCharge_def closeLoad_def cancelLoad_def beginSourcing_def logSourcingAttempt_def
        assignCarrier_def carrierRejected_def generateRateConfirmation_tx_def Let_def;
      (rule footprint_compound footprint_steps | (simp add: logged_def; fail))+)

lemma footprint_dispatch: "keeps (only (logged (dispatch_footprint r))) (dispatch_tx org u r)"
  by (cases r; simp only: dispatch_tx.simps footprint.keeps_discard dispatch_footprint.simps;
      unfold dispatch_def updateDispatch_def recordArrival_def recordDeparture_def rescheduleStop_def
        updateStops_tx_def update_one_stop_def initiateReturn_def logCheckCall_tx_def setRiskStatus_def
        assignDispatcher_def Let_def;
      (rule footprint_compound footprint_steps | (simp add: logged_def; fail))+)

lemma footprint_money: "keeps (only (logged (money_footprint r))) (money_tx org u r)"
  by (cases r; simp only: money_tx.simps footprint.keeps_discard money_footprint.simps;
      unfold createInvoice_def writeInvoice_def set_invoiced_def sendInvoice_tx_def recordPayment_def
        addAdjustment_def voidInvoice_def recalculateInvoiceBalance_def createChargeType_def updateChargeType_def
        createCarrierPayment_def submitCarrierPayment_def approveCarrierPayment_def rejectCarrierPayment_def
        markPaid_tx_def Let_def;
      (rule footprint_compound footprint_steps | (simp add: logged_def; fail))+)

lemma footprint_document: "keeps (only (logged (document_footprint r))) (document_tx org u r)"
  by (cases r; simp only: document_tx.simps footprint.keeps_discard document_footprint.simps;
      (unfold stop_upload_tx_def confirm_tx_def applyScanResult_tx_def recalculate_for_stop_def review_def
        deleteDocumentFamily_def discard_def Let_def)?;
      (rule footprint_compound footprint_steps | (simp add: logged_def; fail))+)

lemma footprint_sweep: "keeps (only (logged (sweep_footprint r))) (sweep_tx org r)"
  by (cases r; simp only: sweep_tx.simps sweep_footprint.simps;
      unfold sweep_one_def expire_quote_def expire_invitation_def expire_document_def recalculate_quietly_def notify_late_def remind_def
        fireOverdue_def fireDueSoon_def notify_document_def notify_insurance_def notify_expiring_def;
      (rule footprint_compound footprint_steps | (simp add: logged_def; fail))+)

lemma footprint_draft: "keeps (only (logged {LoadDrafts})) (draft_tx org u r)"
  by (cases r; simp only: draft_tx.simps footprint.keeps_discard;
      unfold draft_create_def create_draft_def draft_delete_def;
      (rule footprint_steps | (simp add: logged_def; fail))+)

lemma footprint_request: "keeps (only (footprint_of r)) (request_tx pd org u r)"
  by (cases r) (simp_all add: footprint_carrier footprint_customer footprint_booking_request
      footprint_dispatch footprint_money footprint_document footprint_draft footprint_sweep)

lemma handle_only: "only (footprint_of req) (w_db w) (w_db (handle pd org u req w))"
proof (rule footprint.across_request [OF footprint_request])
  show "keeps (only (footprint_of req)) (audit_record e)" for e
    by (rule footprint_audit) (cases req; simp add: logged_def)
qed

end
