(* ===== verification/Invariants.thy ===== *)
theory Invariants
  imports Footprint
begin

text \<open>
  How an invariant of the database is carried from the fresh deployment to every reachable world.
  The locale asks for the tables the invariant reads, that it holds of a fresh database, and that
  the requests whose footprint meets those tables keep it; the footprints account for all the
  others. Most invariants speak of every row of one table; the rules of the second section follow
  them through the primitives.
\<close>

section \<open>Invariants of a deployment\<close>

definition preserves :: "(db \<Rightarrow> bool) \<Rightarrow> db \<Rightarrow> db \<Rightarrow> bool" where
  "preserves I s s' \<longleftrightarrow> (I s \<longrightarrow> I s')"

interpretation preserves: db_relation "preserves I" for I
  by unfold_locales (auto simp: preserves_def)

text \<open>An operation guards an invariant when it keeps it in well-formed stores.\<close>

definition guards :: "(db \<Rightarrow> bool) \<Rightarrow> 'a tx \<Rightarrow> bool" where
  "guards I m \<longleftrightarrow> (\<forall>s x s'. m s = Inr (x, s') \<longrightarrow> wf_db s \<longrightarrow> I s \<longrightarrow> I s')"

lemma guardsI: "(\<And>s x s'. m s = Inr (x, s') \<Longrightarrow> wf_db s \<Longrightarrow> I s \<Longrightarrow> I s') \<Longrightarrow> guards I m"
  by (simp add: guards_def)

lemma guards_preserves: "keeps (preserves I) m \<Longrightarrow> guards I m"
  by (auto simp: guards_def keeps_def preserves_def)

lemma guards_discard [simp]: "guards I (discard m) \<longleftrightarrow> guards I m"
  by (auto simp: guards_def discard_def tx_iff)

text \<open>A sweep's record is found in the state its transaction runs in.\<close>

lemma guards_sweep_one:
  assumes "\<And>s x y s'. x \<in> set (listed org s) \<Longrightarrow> act org x s = Inr (y, s') \<Longrightarrow> wf_db s \<Longrightarrow> I s \<Longrightarrow> I s'"
  shows "guards I (sweep_one P listed act org)"
  by (rule guardsI)
     (auto simp: sweep_one_def tx_iff dest: find_Some_iff' split: option.splits intro: assms)

definition reads :: "table_name set \<Rightarrow> (db \<Rightarrow> bool) \<Rightarrow> bool" where
  "reads D I \<longleftrightarrow> (\<forall>s s'. (\<forall>n \<in> D. untouched n s s') \<longrightarrow> I s \<longrightarrow> I s')"

lemma preserves_only: "reads D I \<Longrightarrow> keeps (only T) m \<Longrightarrow> D \<inter> T = {} \<Longrightarrow> keeps (preserves I) m"
  unfolding keeps_def preserves_def reads_def only_def by blast

locale deployment_invariant =
  fixes I :: "db \<Rightarrow> bool" and D :: "table_name set"
  assumes fresh: "fresh_db s \<Longrightarrow> I s"
    and frame: "reads D I"
    and off_request: "D \<inter> {AuditLogs, DomainEvents, TheClock, TheContext} = {}"
    and writers: "D \<inter> footprint_of req \<noteq> {} \<Longrightarrow> guards I (request_tx pd org u req)"
begin

lemma keeps_request: "keeps (preserves (\<lambda>s. wf_db s \<and> I s)) (request_tx pd org u req)"
  unfolding keeps_def
proof (intro allI impI)
  fix s x s' assume run: "request_tx pd org u req s = Inr (x, s')"
  have "I s'" if "wf_db s" and "I s"
  proof (cases "D \<inter> footprint_of req = {}")
    case True
    then have "keeps (preserves I) (request_tx pd org u req)"
      by (rule preserves_only [OF frame footprint_request])
    then show ?thesis using run that by (auto simp: keeps_def preserves_def)
  next
    case False
    then show ?thesis using writers [of req pd org u] run that by (simp add: guards_def)
  qed
  moreover have "wf_db s'" if "wf_db s"
    using confined_start [OF confined_request that run] by simp
  ultimately show "preserves (\<lambda>s. wf_db s \<and> I s) s s'" by (simp add: preserves_def)
qed

lemma keeps_audit: "keeps (preserves (\<lambda>s. wf_db s \<and> I s)) (audit_record e)"
proof -
  have "I (recorded e s)" if "I s" for s
    using frame off_request that untouched_recorded unfolding reads_def by blast
  then show ?thesis using wf_recorded by (auto simp: keeps_def preserves_def tx_iff keeps_wf_def)
qed

lemma across_step:
  assumes "step pd w w'" and "wf_db (w_db w)" and "I (w_db w)"
  shows "I (w_db w')"
  using assms(1)
proof (rule stepE)
  fix t org u req ctx
  assume w': "w' = handle pd org u req (begin_request t ctx w)"
  have "untouched n (w_db w) (w_db (begin_request t ctx w))" if "n \<in> D" for n
    using that off_request by (cases n) (auto simp: begin_request_db)
  then have "I (w_db (begin_request t ctx w))" using assms(3) frame unfolding reads_def by blast
  moreover have "preserves (\<lambda>s. wf_db s \<and> I s) (w_db (begin_request t ctx w)) (w_db w')"
    unfolding w' by (rule preserves.across_request [OF keeps_request keeps_audit])
  ultimately show ?thesis using assms(2) by (simp add: preserves_def)
qed (use assms(3) in simp)

text \<open>Kept along any run from a state that has it, and hence had by every state of a deployment.\<close>

theorem kept:
  assumes "rtranclp (step pd) w w'" and "wf_db (w_db w)" and "I (w_db w)"
  shows "I (w_db w')"
proof -
  have "I (w_db w') \<and> wf_db (w_db w')" using assms
    by (induction rule: rtranclp_induct) (auto intro: across_step step_wf)
  then show ?thesis by simp
qed

theorem holds: "reachable pd w \<Longrightarrow> I (w_db w)"
  by (induction rule: reachable.induct) (auto intro: fresh across_step reachable_wf)

end

section \<open>Every row of a table\<close>

definition rows :: "('a \<Rightarrow> bool) \<Rightarrow> 'a table \<Rightarrow> bool" where
  "rows P t \<longleftrightarrow> (\<forall>(i, r) \<in> set t. P r)"

lemma rows_Nil [simp]: "rows P []"
  by (simp add: rows_def)

lemma rows_ins [simp]: "rows P (tbl_ins k r t) \<longleftrightarrow> P r \<and> rows P t"
  by (simp add: rows_def)

lemma rows_insMany: "rows P t \<Longrightarrow> (\<And>r. r \<in> set rs \<Longrightarrow> P r) \<Longrightarrow> rows P (tbl_insMany n rs t)"
  unfolding rows_def by (auto dest: tbl_insMany_rows)

text \<open>An update by key rewrites the row a lookup finds, and no other.\<close>

lemma rows_upd: "rows P t \<Longrightarrow> (\<And>r. tbl_find k t = Some r \<Longrightarrow> P r \<Longrightarrow> P (f r)) \<Longrightarrow> rows P (tbl_upd k f t)"
  unfolding rows_def tbl_find_def by (induction t) (auto split: if_splits)

lemma rows_updMany:
  "rows P t \<Longrightarrow> (\<And>i r. (i, r) \<in> set t \<Longrightarrow> Q i r \<Longrightarrow> P r \<Longrightarrow> P (f r)) \<Longrightarrow> rows P (tbl_updMany Q f t)"
  unfolding rows_def by (auto simp: set_tbl_updMany)

lemma rows_del: "rows P t \<Longrightarrow> rows P (tbl_del Q t)"
  unfolding rows_def by (auto simp: set_tbl_del)

lemma rows_find: "rows P t \<Longrightarrow> tbl_find k t = Some r \<Longrightarrow> P r"
  unfolding rows_def by (auto dest: tbl_find_in_set)

lemma rows_mem: "rows P t \<Longrightarrow> (k, r) \<in> set t \<Longrightarrow> P r"
  unfolding rows_def by auto

lemma tbl_upd_twice [simp]: "tbl_upd k g (tbl_upd k f t) = tbl_upd k (\<lambda>r. g (f r)) t"
  by (induction t) auto

definition rows_in :: "(db \<Rightarrow> 'a table) \<Rightarrow> ('a \<Rightarrow> bool) \<Rightarrow> db \<Rightarrow> bool" where
  "rows_in sel P s \<longleftrightarrow> rows P (sel s)"

text \<open>The primitives on the table itself; what the new or rewritten row needs is left to the caller.\<close>

definition slot_sel :: "(db \<Rightarrow> 'a table) \<Rightarrow> (('a table \<Rightarrow> 'a table) \<Rightarrow> db \<Rightarrow> db) \<Rightarrow> bool" where
  "slot_sel sel upd \<longleftrightarrow> (\<forall>f s. sel (upd f s) = f (sel s)) \<and> (\<forall>n s. sel (s\<lparr>next_id := n\<rparr>) = sel s)"

lemma slot_sels:
  "slot_sel carriers carriers_update" "slot_sel drivers drivers_update" "slot_sel documents documents_update"
  "slot_sel quotes quotes_update" "slot_sel loads loads_update" "slot_sel stops stops_update"
  "slot_sel invoices invoices_update" "slot_sel carrier_payments carrier_payments_update"
  by (simp_all add: slot_sel_def)

lemma rows_writes:
  "slot_sel sel upd \<Longrightarrow> P r \<Longrightarrow> keeps (preserves (rows_in sel P)) (create upd r)"
  "slot_sel sel upd \<Longrightarrow> (\<And>r. r \<in> set rs \<Longrightarrow> P r) \<Longrightarrow> keeps (preserves (rows_in sel P)) (createMany upd rs)"
  "slot_sel sel upd \<Longrightarrow> (\<And>r. P r \<Longrightarrow> P (f r)) \<Longrightarrow> keeps (preserves (rows_in sel P)) (update sel upd k f)"
  "slot_sel sel upd \<Longrightarrow> (\<And>i r. Q i r \<Longrightarrow> P r \<Longrightarrow> P (f r)) \<Longrightarrow>
     keeps (preserves (rows_in sel P)) (updateMany upd Q f)"
  "slot_sel sel upd \<Longrightarrow> keeps (preserves (rows_in sel P)) (deleteMany upd Q)"
  by (auto simp: keeps_def preserves_def rows_in_def slot_sel_def tx_iff
      intro!: rows_insMany rows_upd rows_updMany rows_del)

text \<open>The rest of an operation: steps that stay off the table.\<close>

lemma off_table: "reads {n} I \<Longrightarrow> keeps (only (- {n})) m \<Longrightarrow> keeps (preserves I) m"
  by (erule preserves_only) auto

lemma reads_rows:
  "reads {Carriers} (rows_in carriers P1)" "reads {Drivers} (rows_in drivers P2)"
  "reads {Documents} (rows_in documents P3)" "reads {Quotes} (rows_in quotes P4)"
  "reads {Loads} (rows_in loads P5)" "reads {Stops} (rows_in stops P6)"
  "reads {Invoices} (rows_in invoices P7)" "reads {CarrierPayments} (rows_in carrier_payments P8)"
  by (simp_all add: reads_def rows_in_def)

lemma reads_mono: "reads D I \<Longrightarrow> D \<subseteq> E \<Longrightarrow> reads E I"
  unfolding reads_def by blast

lemma reads_conj: "reads D I \<Longrightarrow> reads E J \<Longrightarrow> reads (D \<union> E) (\<lambda>s. I s \<and> J s)"
  unfolding reads_def by (meson UnCI)

section \<open>What a handler's guards teach\<close>

text \<open>
  A handler looks a row up, checks it, and later rewrites it. Until the first write to the table,
  the table is the one the handler started from, so the checks speak of the row that the write
  finds. The judgement carries that table along.
\<close>

definition guarded :: "(db \<Rightarrow> 'a table) \<Rightarrow> ('a \<Rightarrow> bool) \<Rightarrow> 'a table \<Rightarrow> 'b tx \<Rightarrow> bool" where
  "guarded sel P t m \<longleftrightarrow>
     (\<forall>s x s'. sel s = t \<longrightarrow> distinct (map fst t) \<longrightarrow> rows P t \<longrightarrow> m s = Inr (x, s') \<longrightarrow> rows P (sel s'))"

definition same :: "(db \<Rightarrow> 'v) \<Rightarrow> db \<Rightarrow> db \<Rightarrow> bool" where
  "same sel s s' \<longleftrightarrow> sel s' = sel s"

definition keyed :: "(db \<Rightarrow> 'a table) \<Rightarrow> bool" where
  "keyed sel \<longleftrightarrow> (\<forall>s. wf_db s \<longrightarrow> distinct (map fst (sel s)))"

lemma keyed_tables: "keyed carriers" "keyed drivers" "keyed documents" "keyed quotes" "keyed loads" "keyed stops"
  "keyed invoices" "keyed carrier_payments"
  by (simp_all add: keyed_def wf_db_def table_ok_def)

lemma guarded_start: "keyed sel \<Longrightarrow> (\<And>t. guarded sel P t m) \<Longrightarrow> guards (rows_in sel P) m"
  unfolding guarded_def guards_def keyed_def rows_in_def by blast

lemma guarded_end: "keeps (preserves (rows_in sel P)) m \<Longrightarrow> guarded sel P t m"
  by (auto simp: guarded_def keeps_def preserves_def rows_in_def)

lemma guarded_bind: "keeps (same sel) m \<Longrightarrow> (\<And>x. guarded sel P t (f x)) \<Longrightarrow> guarded sel P t (bind m f)"
  unfolding guarded_def keeps_def same_def bind_iff by metis

lemma guarded_andThen: "keeps (same sel) m \<Longrightarrow> guarded sel P t n \<Longrightarrow> guarded sel P t (andThen m n)"
  unfolding andThen_def by (rule guarded_bind)

lemma guarded_throw_if: "(\<not> b \<Longrightarrow> guarded sel P t n) \<Longrightarrow> guarded sel P t (andThen (throw_if b e) n)"
  by (auto simp: guarded_def tx_iff)

lemma guarded_require: "(\<And>v. x = Some v \<Longrightarrow> guarded sel P t (f v)) \<Longrightarrow> guarded sel P t (bind (require x e) f)"
  by (auto simp: guarded_def tx_iff)

lemma guarded_findUnique:
  "(\<And>r. tbl_find k t = Some r \<Longrightarrow> Q r \<Longrightarrow> guarded sel P t (f (Some r))) \<Longrightarrow> guarded sel P t (f None) \<Longrightarrow>
     guarded sel P t (bind (findUnique sel k Q) f)"
  by (auto simp: guarded_def tx_iff split: option.splits if_splits)

lemma guarded_findUniqueOrThrow:
  "(\<And>r. tbl_find k t = Some r \<Longrightarrow> Q r \<Longrightarrow> guarded sel P t (f r)) \<Longrightarrow>
     guarded sel P t (bind (findUniqueOrThrow sel k Q) f)"
  by (auto simp: guarded_def tx_iff)

lemma guarded_findFirst:
  assumes "\<And>i r. tbl_find i t = Some r \<Longrightarrow> Q i r \<Longrightarrow> guarded sel P t (f (Some (i, r)))"
    and "guarded sel P t (f None)"
  shows "guarded sel P t (bind (findFirst sel Q) f)"
proof -
  have "guarded sel P t (f (tbl_first Q t))" if "distinct (map fst t)"
  proof (cases "tbl_first Q t")
    case (Some p)
    then show ?thesis using assms(1) [of "fst p" "snd p"] tbl_first_SomeD [of Q t "fst p" "snd p"] that
      by (simp add: tbl_find_def)
  qed (simp add: assms(2))
  then show ?thesis by (auto simp: guarded_def tx_iff)
qed

lemma guarded_findMany: "guarded sel P t (f (tbl_where Q t)) \<Longrightarrow> guarded sel P t (bind (findMany sel Q) f)"
  by (auto simp: guarded_def tx_iff)

lemma guarded_gets: "(\<And>s. sel s = t \<Longrightarrow> guarded sel P t (f (g s))) \<Longrightarrow> guarded sel P t (bind (gets g) f)"
  by (auto simp: guarded_def tx_iff)

lemma guarded_update:
  assumes "slot_sel sel upd" and "\<And>r. tbl_find k t = Some r \<Longrightarrow> P r \<Longrightarrow> P (f r)"
    and g: "\<And>x. keeps (preserves (rows_in sel P)) (g x)"
  shows "guarded sel P t (bind (update sel upd k f) g)"
  unfolding guarded_def
proof (intro allI impI)
  fix s x s' assume t: "sel s = t" "distinct (map fst t)" "rows P t" and run: "bind (update sel upd k f) g s = Inr (x, s')"
  then obtain y where g': "g y (upd (tbl_upd k f) s) = Inr (x, s')" by (auto simp: tx_iff)
  have "rows P (sel (upd (tbl_upd k f) s))"
    using assms(1,2) t(1,3) by (auto simp: slot_sel_def intro!: rows_upd)
  then show "rows P (sel s')" using g [of y] g' by (auto simp: keeps_def preserves_def rows_in_def)
qed

lemma guarded_update_then:
  "slot_sel sel upd \<Longrightarrow> (\<And>r. tbl_find k t = Some r \<Longrightarrow> P r \<Longrightarrow> P (f r)) \<Longrightarrow>
     keeps (preserves (rows_in sel P)) n \<Longrightarrow> guarded sel P t (andThen (update sel upd k f) n)"
  unfolding andThen_def by (rule guarded_update)

lemma guarded_updateMany:
  assumes "slot_sel sel upd" and "\<And>i r. (i, r) \<in> set t \<Longrightarrow> Q i r \<Longrightarrow> P r \<Longrightarrow> P (f r)"
    and n: "keeps (preserves (rows_in sel P)) n"
  shows "guarded sel P t (andThen (updateMany upd Q f) n)"
  unfolding guarded_def
proof (intro allI impI)
  fix s x s' assume t: "sel s = t" "distinct (map fst t)" "rows P t" and run: "andThen (updateMany upd Q f) n s = Inr (x, s')"
  have "rows P (sel (upd (tbl_updMany Q f) s))"
    using assms(1,2) t(1,3) by (auto simp: slot_sel_def intro!: rows_updMany)
  then show "rows P (sel s')" using n run by (auto simp: keeps_def preserves_def rows_in_def tx_iff)
qed

lemma bind_if: "bind (if b then m else n) f = (if b then bind m f else bind n f)"
  by simp

lemma guarded_if: "(b \<Longrightarrow> guarded sel P t m) \<Longrightarrow> (\<not> b \<Longrightarrow> guarded sel P t n) \<Longrightarrow> guarded sel P t (if b then m else n)"
  by simp

lemma guarded_case_prod: "(\<And>a b. p = (a, b) \<Longrightarrow> guarded sel P t (f a b)) \<Longrightarrow> guarded sel P t (case p of (a, b) \<Rightarrow> f a b)"
  by (cases p) simp

lemma guarded_case_option:
  "(x = None \<Longrightarrow> guarded sel P t m) \<Longrightarrow> (\<And>v. x = Some v \<Longrightarrow> guarded sel P t (f v)) \<Longrightarrow>
     guarded sel P t (case x of None \<Rightarrow> m | Some v \<Rightarrow> f v)"
  by (cases x) simp_all

text \<open>The rules in the order in which they are tried: what teaches first, plain sequencing last.\<close>

lemmas guarded_rules = guarded_throw_if guarded_require guarded_findUnique guarded_findUniqueOrThrow
  guarded_findFirst guarded_findMany guarded_gets guarded_update guarded_update_then guarded_updateMany guarded_if
  guarded_case_prod guarded_case_option guarded_bind guarded_andThen

lemma same_only:
  "keeps (only (- {Carriers})) m \<Longrightarrow> keeps (same carriers) m" "keeps (only (- {Drivers})) m \<Longrightarrow> keeps (same drivers) m"
  "keeps (only (- {Documents})) m \<Longrightarrow> keeps (same documents) m" "keeps (only (- {Quotes})) m \<Longrightarrow> keeps (same quotes) m"
  "keeps (only (- {Loads})) m \<Longrightarrow> keeps (same loads) m" "keeps (only (- {Stops})) m \<Longrightarrow> keeps (same stops) m"
  "keeps (only (- {Invoices})) m \<Longrightarrow> keeps (same invoices) m"
  "keeps (only (- {CarrierPayments})) m \<Longrightarrow> keeps (same carrier_payments) m"
  by (force simp: keeps_def same_def only_def dest: spec)+

end
