(* ===== verification/Controls.thy ===== *)
theory Controls
  imports Invariants
begin

text \<open>
  The controls a brokerage is audited on, as invariants of every reachable world: a carrier
  payment is approved by somebody other than its preparer and only with method and reference, a
  compliance document by somebody other than its uploader, and only an active carrier is ever
  flagged eligible.
\<close>

section \<open>Carrier payments\<close>

text \<open>
  Submitted payments bear method and reference number; approved and paid ones an approver who did
  not prepare them; only paid ones a payment date.
\<close>

definition payment_controlled :: "carrier_payment_row \<Rightarrow> bool" where
  "payment_controlled p \<longleftrightarrow>
     (cp_status p \<noteq> CP_DRAFT \<longrightarrow> truthy (cp_method p) \<and> truthy (cp_referenceNumber p)) \<and>
     (cp_status p \<in> {CP_APPROVED, CP_PAID} \<longrightarrow>
        (\<exists>a. cp_approvedByUserId p = Some a \<and> a \<noteq> cp_preparedByUserId p)) \<and>
     (cp_status p = CP_PAID \<longleftrightarrow> cp_paidAt p \<noteq> None)"

lemma payment_rows:
  "payment_controlled (new_carrier_payment org l c dto u t)"
  "payment_controlled p \<Longrightarrow> cp_status p = CP_DRAFT \<Longrightarrow> truthy (cp_method p) \<Longrightarrow> truthy (cp_referenceNumber p) \<Longrightarrow>
     payment_controlled (mark_submitted t p)"
  "payment_controlled p \<Longrightarrow> cp_status p = CP_PENDING_APPROVAL \<Longrightarrow> cp_preparedByUserId p \<noteq> u \<Longrightarrow>
     payment_controlled (mark_approved u t p)"
  "payment_controlled p \<Longrightarrow> cp_status p = CP_PENDING_APPROVAL \<Longrightarrow> payment_controlled (mark_rejected u reason t p)"
  "payment_controlled p \<Longrightarrow> cp_status p = CP_APPROVED \<Longrightarrow> payment_controlled (mark_paid t p)"
  by (auto simp: payment_controlled_def new_carrier_payment_def mark_submitted_def mark_approved_def
      mark_rejected_def mark_paid_def)

lemma create_generated_iff [tx_iff]:
  "create_generated d s = Inr z \<longleftrightarrow>
     (\<exists>x. tbl_find (next_id s) (tbl_ins (next_id s) d (documents s)) = Some x \<and>
        z = (next_id s, s\<lparr>documents := tbl_upd (next_id s)
               (\<lambda>x. x\<lparr>doc_fileStorageKey := buildDocumentKey (doc_organizationId d) (next_id s)\<rparr>)
               (tbl_ins (next_id s) d (documents s)), next_id := Suc (next_id s)\<rparr>))"
  by (auto simp: create_generated_def tx_iff)

lemma findDocumentType_iff [tx_iff]:
  "findDocumentType org code s = Inr z \<longleftrightarrow>
     z = (tbl_first (\<lambda>_ d. dt_code d = code \<and> (dt_organizationId d = Some org \<or> dt_organizationId d = None))
            (document_types s), s)"
  by (simp add: findDocumentType_def tx_iff)

lemma payment_operations:
  "guards (rows_in carrier_payments payment_controlled) (createCarrierPayment org l dto u)"
  "guards (rows_in carrier_payments payment_controlled) (submitCarrierPayment org i u)"
  "guards (rows_in carrier_payments payment_controlled) (approveCarrierPayment org i u)"
  "guards (rows_in carrier_payments payment_controlled) (rejectCarrierPayment org i reason u)"
  "guards (rows_in carrier_payments payment_controlled) (markPaid_tx org i d u)"
  by (rule guardsI; auto simp: createCarrierPayment_def submitCarrierPayment_def approveCarrierPayment_def
      rejectCarrierPayment_def markPaid_tx_def tx_iff Let_def rows_in_def intro!: rows_upd payment_rows)+

interpretation payments: deployment_invariant "rows_in carrier_payments payment_controlled" "{CarrierPayments}"
proof
  show "guards (rows_in carrier_payments payment_controlled) (request_tx pd org u req)"
    if "{CarrierPayments} \<inter> footprint_of req \<noteq> {}" for pd org u req
    using that
    by (cases req; rename_tac r; case_tac r; simp add: logged_def payment_operations)
qed (simp_all add: reads_rows fresh_db_def rows_in_def)

section \<open>Compliance documents\<close>

text \<open>
  A document that was reviewed has a reviewer, and that is not the uploader; one that was approved
  is of a kind that is reviewed at all.
\<close>

definition document_controlled :: "document_row \<Rightarrow> bool" where
  "document_controlled d \<longleftrightarrow>
     (doc_reviewStatus d \<in> {Some RV_APPROVED, Some RV_REJECTED, Some RV_EXPIRED} \<longleftrightarrow> doc_reviewedByUserId d \<noteq> None) \<and>
     (\<forall>a. doc_reviewedByUserId d = Some a \<longrightarrow> a \<noteq> doc_uploadedByUserId d) \<and>
     1 \<le> doc_versionNumber d"

lemma document_rows_controlled:
  "document_controlled (generated_document org f ty e dt n u t)"
  "document_controlled (rate_confirmation_document org f l dt n u t)"
  "1 \<le> v \<Longrightarrow> document_controlled (new_document org dto f v rr u t)"
  "document_controlled (d\<lparr>doc_fileStorageKey := k\<rparr>) = document_controlled d"
  "document_controlled (d\<lparr>doc_isCurrentVersion := b\<rparr>) = document_controlled d"
  "document_controlled (scanned res pr k t d) = document_controlled d"
  "document_controlled d \<Longrightarrow> doc_uploadedByUserId d \<noteq> u \<Longrightarrow> document_controlled (reviewed dec reason u t d)"
  by (cases dec; simp add: document_controlled_def generated_document_def rate_confirmation_document_def
      new_document_def scanned_def reviewed_def)+

lemma next_version_iff [tx_iff]:
  "next_version org fam s = Inr z \<longleftrightarrow>
     (case fam of None \<Rightarrow> z = ((next_id s, 1), s\<lparr>next_id := Suc (next_id s)\<rparr>)
      | Some f \<Rightarrow> \<exists>i d r. tbl_first (\<lambda>_ d. doc_organizationId d = org \<and> doc_documentFamilyId d = f \<and>
                doc_isCurrentVersion d) (documents s) = Some (i, d) \<and> tbl_find i (documents s) = Some r \<and>
          z = ((f, doc_versionNumber d + 1), documents_update (tbl_upd i (\<lambda>d. d\<lparr>doc_isCurrentVersion := False\<rparr>)) s))"
  by (auto simp: next_version_def tx_iff split: option.split)

lemma preserves_documents_off:
  "keeps (only (- {Documents})) m \<Longrightarrow> keeps (preserves (rows_in documents P)) m"
  by (rule off_table [OF reads_rows(3)])

lemma controlled_version:
  assumes "next_version org fam s = Inr (v, s')" and "rows_in documents document_controlled s"
  shows "1 \<le> snd v \<and> rows_in documents document_controlled s'"
proof (cases fam)
  case None
  then show ?thesis using assms by (auto simp: tx_iff rows_in_def)
next
  case (Some f)
  then obtain i d where d: "(i, d) \<in> set (documents s)" and v: "v = (f, doc_versionNumber d + 1)"
    and s': "s' = documents_update (tbl_upd i (\<lambda>d. d\<lparr>doc_isCurrentVersion := False\<rparr>)) s"
    using assms(1) by (auto simp: tx_iff dest: tbl_first_SomeD)
  have "document_controlled d" using assms(2) d by (auto simp: rows_in_def dest: rows_mem)
  then have "1 \<le> snd v" by (simp add: v document_controlled_def)
  moreover have "rows_in documents document_controlled s'"
    using assms(2) by (auto simp: s' rows_in_def document_rows_controlled intro!: rows_upd)
  ultimately show ?thesis ..
qed

lemma controlled_upload:
  "keeps (preserves (rows_in documents document_controlled)) (initiateUpload_tx org dto u)"
proof -
  have tail: "keeps (preserves (rows_in documents document_controlled))
      (bind now (\<lambda>t. bind (create documents_update (new_document org dto (fst v) (snd v) rr u t)) (\<lambda>i.
         bind (update documents documents_update i (\<lambda>d. d\<lparr>doc_fileStorageKey := buildDocumentKey org i\<rparr>)) (\<lambda>x.
         andThen (audit_record (ev i)) (ret (i, x))))))" if "1 \<le> snd v" for v rr ev
    by ((rule rows_writes slot_sels preserves.keeps_bind preserves.keeps_andThen preserves_documents_off
          footprint_steps | (simp add: that document_rows_controlled; fail))+)
  have mid: "keeps (preserves (rows_in documents document_controlled)) (bind (next_version org fam)
      (\<lambda>v. bind now (\<lambda>t. bind (create documents_update (new_document org dto (fst v) (snd v) rr u t)) (\<lambda>i.
         bind (update documents documents_update i (\<lambda>d. d\<lparr>doc_fileStorageKey := buildDocumentKey org i\<rparr>)) (\<lambda>x.
         andThen (audit_record (ev i)) (ret (i, x)))))))" for fam rr ev
    unfolding keeps_def bind_iff [where m = "next_version org fam"]
    using tail controlled_version unfolding keeps_def preserves_def by blast
  show ?thesis unfolding initiateUpload_tx_def
    by ((rule mid preserves.keeps_intros preserves_documents_off footprint_steps | (simp; fail))+)
qed

lemma controlled_review: "guards (rows_in documents document_controlled) (review org i dec reason u)"
proof (rule guardsI)
  fix s x s'
  assume run: "review org i dec reason u s = Inr (x, s')" and inv: "rows_in documents document_controlled s"
  define tail where "tail d = andThen (audit_record (ev_review org i d dec reason u))
      (andThen (if doc_entityType d = DE_CARRIER then andThen (recalculate org (doc_entityId d)) (ret ()) else ret ())
      (run_when (dec = REJECTED) (notify_once org COMPLIANCE_DOCUMENT_REJECTED i (doc_uploadedByUserId d)
         (rejection_message d reason))))" for d
  obtain d s1 y where d: "tbl_find i (documents s) = Some d" "doc_uploadedByUserId d \<noteq> u"
    and s1: "s1 = documents_update (tbl_upd i (reviewed dec reason u (clock s))) s" and tail: "tail d s1 = Inr (y, s')"
    using run unfolding review_def tail_def
    by (auto simp: bind_iff andThen_iff require_document_iff gets_iff throw_if_iff now_iff update_iff ret_iff)
  have "rows_in documents document_controlled s1"
    using inv d by (auto simp: s1 rows_in_def intro!: rows_upd document_rows_controlled)
  moreover have "keeps (preserves (rows_in documents document_controlled)) (tail d)"
    unfolding tail_def by ((rule preserves_documents_off footprint_steps | (simp; fail))+)
  ultimately show "rows_in documents document_controlled s'" using tail by (auto simp: keeps_def preserves_def)
qed

lemma controlled_generated:
  "document_controlled d \<Longrightarrow> keeps (preserves (rows_in documents document_controlled)) (create_generated d)"
  unfolding create_generated_def
  by ((rule rows_writes slot_sels preserves.keeps_intros | (simp add: document_rows_controlled; fail))+)

lemma document_operations:
  "keeps (preserves (rows_in documents document_controlled)) (generateRateConfirmation_tx org l u)"
  "keeps (preserves (rows_in documents document_controlled)) (sendInvoice_tx org i e u)"
  "keeps (preserves (rows_in documents document_controlled)) (markPaid_tx org i dd u)"
  "keeps (preserves (rows_in documents document_controlled)) (stop_upload_tx code org l n dto u)"
  "keeps (preserves (rows_in documents document_controlled)) (applyScanResult_tx ok org i res prov)"
  "keeps (preserves (rows_in documents document_controlled)) (deleteDocumentFamily org i u)"
  unfolding generateRateConfirmation_tx_def sendInvoice_tx_def markPaid_tx_def stop_upload_tx_def
    applyScanResult_tx_def deleteDocumentFamily_def discard_def recalculate_for_stop_def Let_def
  by ((rule controlled_upload controlled_generated rows_writes slot_sels preserves.keeps_intros
        preserves_documents_off footprint_compound footprint_steps
       | (simp add: document_rows_controlled; fail))+)

lemma controlled_expiry: "guards (rows_in documents document_controlled) (sweep_one P stale_docs expire_document org)"
proof (rule guards_sweep_one)
  fix s x y s'
  assume x: "x \<in> set (stale_docs org s)" and run: "expire_document org x s = Inr (y, s')" and wf: "wf_db s"
    and inv: "rows_in documents document_controlled s"
  obtain i d where id: "x = (i, d)" by (cases x)
  have d: "(i, d) \<in> set (documents s)" "doc_reviewStatus d = Some RV_APPROVED"
    using x id by (auto simp: stale_docs_def approved_expirable_def tbl_where_iff)
  have "tbl_find i (documents s) = Some d"
    using d(1) wf by (simp add: tbl_find_def wf_db_def table_ok_def)
  moreover have "documents s' = tbl_upd i (\<lambda>r. r\<lparr>doc_reviewStatus := Some RV_EXPIRED\<rparr>) (documents s)"
    using run id by (auto simp: expire_document_def tx_iff)
  ultimately show "rows_in documents document_controlled s'"
    using inv d(2) by (auto simp: rows_in_def document_controlled_def intro!: rows_upd)
qed

interpretation reviews: deployment_invariant "rows_in documents document_controlled" "{Documents}"
proof
  show "guards (rows_in documents document_controlled) (request_tx pd org u req)"
    if "{Documents} \<inter> footprint_of req \<noteq> {}" for pd org u req
    using that
    by (cases req; rename_tac r; case_tac r;
        simp add: logged_def controlled_review controlled_expiry guards_preserves controlled_upload document_operations)
qed (simp_all add: reads_rows fresh_db_def rows_in_def)

section \<open>The eligibility flag\<close>

text \<open>Only an active carrier is flagged eligible, and then no reason is stored against it.\<close>

definition flag_sound :: "carrier_row \<Rightarrow> bool" where
  "flag_sound c \<longleftrightarrow> (c_assignmentEligible c \<longrightarrow> c_status c = CA_ACTIVE \<and> c_ineligibilityReasons c = Some [])"

lemma flag_rows:
  "flag_sound (new_carrier org dto u)"
  "flag_sound (apply_carrier_dto dto' c) = flag_sound c"
  "flag_sound c \<Longrightarrow> flag_sound (c\<lparr>c_status := CA_ACTIVE\<rparr>)"
  "flag_sound (store_eligibility (status_reasons (c_status c) @ rs) c)"
  by (auto simp: flag_sound_def new_carrier_def apply_carrier_dto_def store_eligibility_def)

lemma preserves_carriers_off:
  "keeps (only (- {Carriers})) m \<Longrightarrow> keeps (preserves (rows_in carriers P)) m"
  by (rule off_table [OF reads_rows(1)])

lemma flag_recalculate: "keeps (preserves (rows_in carriers flag_sound)) (recalculate org c)"
  by (auto simp: keeps_def preserves_def recalculate_iff rows_in_def recalculated_carriers
      eligibility_reasons_def flag_rows intro!: rows_upd)

text \<open>A transition breaks the flag for a moment; the recalculation that follows mends it.\<close>

lemma flag_transition:
  "guards (rows_in carriers flag_sound)
     (bind (transitionStatus org c from st action msg reason u) (\<lambda>x. andThen (recalculate org c) (ret x)))"
proof (rule guardsI)
  fix s x s'
  assume run: "bind (transitionStatus org c from st action msg reason u) (\<lambda>x. andThen (recalculate org c) (ret x)) s = Inr (x, s')"
    and inv: "rows_in carriers flag_sound s"
  then obtain r rs where "tbl_find c (carriers s) = Some r"
    and "carriers s' = tbl_upd c (\<lambda>r. store_eligibility (status_reasons st @ rs) (r\<lparr>c_status := st\<rparr>)) (carriers s)"
    by (auto simp: transitionStatus_def tx_iff recalculated_carriers tbl_find_upd eligibility_reasons_def)
  moreover have "flag_sound (store_eligibility (status_reasons st @ rs) (q\<lparr>c_status := st\<rparr>))" for q
    using flag_rows(4) [of "q\<lparr>c_status := st\<rparr>" rs] by simp
  ultimately show "rows_in carriers flag_sound s'"
    using inv by (auto simp: rows_in_def intro!: rows_upd)
qed

lemma guards_andThen: "keeps (\<lambda>s s'. s' = s) m \<Longrightarrow> guards I n \<Longrightarrow> guards I (andThen m n)"
  unfolding guards_def keeps_def andThen_iff by blast

lemma flag_life_cycle:
  "guards (rows_in carriers flag_sound) (blockCarrier org c r u)"
  "guards (rows_in carriers flag_sound) (deactivateCarrier org c r u)"
  "guards (rows_in carriers flag_sound) (reactivateCarrier org c r u)"
  unfolding blockCarrier_def deactivateCarrier_def reactivateCarrier_def
  by (rule flag_transition guards_andThen [OF entitlement_keeps(2) flag_transition] refl)+

lemma flag_operations:
  "keeps (preserves (rows_in carriers flag_sound)) (carrier_create org ccd u)"
  "keeps (preserves (rows_in carriers flag_sound)) (carrier_update org c ucd u)"
  "keeps (preserves (rows_in carriers flag_sound)) (addInsurance org c ind u)"
  "keeps (preserves (rows_in carriers flag_sound)) (addFmcsaVerification org c fmd u)"
  "keeps (preserves (rows_in carriers flag_sound)) (activate org c u)"
  "keeps (preserves (rows_in carriers flag_sound)) (assignCarrier org l c rate u)"
  "keeps (preserves (rows_in carriers flag_sound)) (dispatch org l did u)"
  "keeps (preserves (rows_in carriers flag_sound)) (review org i dec reason u)"
  "keeps (preserves (rows_in carriers flag_sound)) (sweep_one P active_carriers recalculate_quietly org)"
  unfolding sweep_one_def recalculate_quietly_def carrier_create_def carrier_update_def addInsurance_def addFmcsaVerification_def activate_def
    assignCarrier_def dispatch_def review_def
  by ((rule flag_recalculate rows_writes slot_sels preserves.keeps_intros preserves_carriers_off
        footprint_compound footprint_steps
       | (simp add: flag_rows; fail))+)

interpretation flags: deployment_invariant "rows_in carriers flag_sound" "{Carriers}"
proof
  show "guards (rows_in carriers flag_sound) (request_tx pd org u req)"
    if "{Carriers} \<inter> footprint_of req \<noteq> {}" for pd org u req
    using that
    by (cases req; rename_tac r; case_tac r; simp add: logged_def flag_life_cycle guards_preserves flag_operations)
qed (simp_all add: reads_rows fresh_db_def rows_in_def)

end
