(* ===== verification/LoadStates.thy ===== *)
theory LoadStates
  imports Invariants
begin

text \<open>
  Invariants of every reachable world about the life of a load: which fields each status of a load
  implies, the time line of a stop, and the status of a quote.
\<close>

section \<open>Loads\<close>

text \<open>
  A carrier and its rate are on record together, from assignment to delivery; a cancelled load
  knows when and by whom, a closed one likewise; only delivered or closed loads are invoiced; a
  risk flag comes with a reason, and a cleared one without.
\<close>

definition with_carrier :: "load_status set" where
  "with_carrier = {CARRIER_ASSIGNED, RATE_CONFIRMATION, DISPATCHED, PICKUP, IN_TRANSIT, DELIVERED}"

definition carrier_recorded :: "load_row \<Rightarrow> bool" where
  "carrier_recorded l \<longleftrightarrow>
     (l_assignedCarrierId l = None \<longleftrightarrow> l_carrierRate l = None) \<and>
     (l_status l \<in> with_carrier \<longrightarrow> l_assignedCarrierId l \<noteq> None) \<and>
     (l_status l \<in> {BOOKED, CARRIER_SOURCING} \<longrightarrow> l_assignedCarrierId l = None)"

definition end_recorded :: "load_row \<Rightarrow> bool" where
  "end_recorded l \<longleftrightarrow>
     (l_status l = CANCELLED \<longrightarrow> l_cancelledAt l \<noteq> None \<and> l_cancelledByUserId l \<noteq> None) \<and>
     (l_cancelledAt l \<noteq> None \<longrightarrow> l_status l \<in> {CANCELLED, CLOSED}) \<and>
     (l_status l = CLOSED \<longleftrightarrow> l_closedAt l \<noteq> None) \<and> (l_status l = CLOSED \<longleftrightarrow> l_closedByUserId l \<noteq> None) \<and>
     (l_invoiced l \<longrightarrow> l_status l \<in> {DELIVERED, CLOSED})"

definition risk_reasoned :: "load_row \<Rightarrow> bool" where
  "risk_reasoned l \<longleftrightarrow>
     (l_riskStatus l = RISK_NORMAL \<longleftrightarrow> l_riskReason l = None) \<and>
     (l_riskStatus l \<noteq> RISK_NORMAL \<longrightarrow> truthy (l_riskReason l))"

definition load_sound :: "load_row \<Rightarrow> bool" where
  "load_sound l \<longleftrightarrow> carrier_recorded l \<and> end_recorded l \<and> risk_reasoned l"

lemma derive_changes:
  assumes "deriveLoadStatus st sts \<noteq> st"
  shows "st \<in> {DISPATCHED, PICKUP, IN_TRANSIT}" and "deriveLoadStatus st sts \<in> {PICKUP, IN_TRANSIT, DELIVERED}"
  using assms by (auto simp: deriveLoadStatus_def DERIVABLE_STATUSES_def Let_def split: if_splits)

lemma load_row_updates:
  "load_sound (new_load org n bp u t)"
  "load_sound l \<Longrightarrow> load_sound (apply_references rn l)"
  "load_sound l \<Longrightarrow> load_sound (l\<lparr>l_returnForLoadId := x\<rparr>)"
  "load_sound l \<Longrightarrow> load_sound (l\<lparr>l_podStatus := p\<rparr>)"
  "load_sound l \<Longrightarrow> load_sound (l\<lparr>l_assignedDispatcherId := y\<rparr>)"
  "load_sound l \<Longrightarrow> load_sound (apply_check_call cc t was l)"
  "load_sound l \<Longrightarrow> load_sound (l\<lparr>l_status := CLOSED, l_closedAt := Some t, l_closedByUserId := Some u\<rparr>)"
  "load_sound l \<Longrightarrow> l_status l \<in> set CANCELLABLE_STATUSES \<Longrightarrow>
     load_sound (l\<lparr>l_status := CANCELLED, l_cancelledAt := Some t, l_cancelledByUserId := Some u\<rparr>)"
  "load_sound l \<Longrightarrow> l_status l = BOOKED \<Longrightarrow> load_sound (l\<lparr>l_status := CARRIER_SOURCING\<rparr>)"
  "load_sound l \<Longrightarrow> l_status l = CARRIER_SOURCING \<Longrightarrow> load_sound (l\<lparr>l_status := CARRIER_ASSIGNED,
     l_assignedCarrierId := Some c, l_carrierRate := Some r\<rparr>)"
  "load_sound l \<Longrightarrow> l_status l = CARRIER_ASSIGNED \<Longrightarrow> load_sound (l\<lparr>l_status := CARRIER_SOURCING,
     l_assignedCarrierId := None, l_carrierRate := None\<rparr>)"
  "load_sound l \<Longrightarrow> l_status l = CARRIER_ASSIGNED \<Longrightarrow> load_sound (l\<lparr>l_status := RATE_CONFIRMATION\<rparr>)"
  "load_sound l \<Longrightarrow> l_status l = RATE_CONFIRMATION \<Longrightarrow> load_sound (l\<lparr>l_status := DISPATCHED\<rparr>)"
  "load_sound l \<Longrightarrow> load_sound (l\<lparr>l_invoiced := False\<rparr>)"
  "load_sound l \<Longrightarrow> l_status l \<in> {DELIVERED, CLOSED} \<Longrightarrow> load_sound (l\<lparr>l_invoiced := True\<rparr>)"
  by ((cases "l_status l"; simp add: load_sound_def carrier_recorded_def end_recorded_def with_carrier_def
        risk_reasoned_def new_load_def apply_references_def apply_check_call_def CANCELLABLE_STATUSES_def;
        fastforce?)+)

lemma load_risk_set:
  "load_sound l \<Longrightarrow> rs \<noteq> RISK_NORMAL \<longrightarrow> truthy rr \<Longrightarrow>
     load_sound (l\<lparr>l_riskStatus := rs, l_riskReason := (if rs = RISK_NORMAL then None else rr)\<rparr>)"
proof -
  have "carrier_recorded (l\<lparr>l_riskStatus := rs, l_riskReason := x\<rparr>) = carrier_recorded l"
    and "end_recorded (l\<lparr>l_riskStatus := rs, l_riskReason := x\<rparr>) = end_recorded l" for x
    by (simp_all add: carrier_recorded_def end_recorded_def)
  moreover assume "load_sound l" and "rs \<noteq> RISK_NORMAL \<longrightarrow> truthy rr"
  ultimately show ?thesis by (cases rr) (auto simp: load_sound_def risk_reasoned_def)
qed

lemma load_status_derived:
  "load_sound l \<Longrightarrow> load_sound (l\<lparr>l_status := deriveLoadStatus (l_status l) sts\<rparr>)"
proof (cases "deriveLoadStatus (l_status l) sts = l_status l")
  case False
  define st where "st = deriveLoadStatus (l_status l) sts"
  have "l_status l \<in> {DISPATCHED, PICKUP, IN_TRANSIT}" "st \<in> {PICKUP, IN_TRANSIT, DELIVERED}"
    using derive_changes [OF False] by (simp_all add: st_def)
  moreover assume "load_sound l"
  ultimately show ?thesis unfolding st_def [symmetric]
    by (elim insertE emptyE; simp add: load_sound_def carrier_recorded_def end_recorded_def risk_reasoned_def with_carrier_def)
qed simp

lemma preserves_loads_off:
  "keeps (only (- {Loads})) m \<Longrightarrow> keeps (preserves (rows_in loads P)) m"
  by (rule off_table [OF reads_rows(5)])

lemma guarded_loads_off:
  "keeps (only (- {Loads})) m \<Longrightarrow> guarded loads P t m"
  by (rule guarded_end [OF preserves_loads_off])

lemma guarded_reEvaluate:
  assumes "tbl_find i t = Some load" and "\<And>x. keeps (preserves (rows_in loads load_sound)) (f x)"
  shows "guarded loads load_sound t (bind (reEvaluateLoadStatus org i load) f)"
  unfolding reEvaluateLoadStatus_def tx_assoc bind_if
  by ((rule guarded_gets guarded_if guarded_update slot_sels guarded_end preserves.keeps_intros assms(2)
        preserves_loads_off footprint_steps | (use assms(1) in \<open>auto intro: load_status_derived; fail\<close>))+)

lemma same_loads: "keeps (only (- {Loads})) m \<Longrightarrow> keeps (same loads) m"
  by (rule same_only)

lemmas load_teaching = guarded_throw_if guarded_require guarded_findUnique guarded_if guarded_case_prod

lemmas load_steps = guarded_update rows_writes slot_sels guarded_bind guarded_andThen same_loads guarded_loads_off
  preserves.keeps_intros preserves_loads_off footprint_compound footprint_steps

lemma load_operations_benign:
  "keeps (preserves (rows_in loads load_sound)) (createFromBooking org bp u)"
  "keeps (preserves (rows_in loads load_sound)) (updateReferenceNumbers org l rn u)"
  "keeps (preserves (rows_in loads load_sound)) (linkReturnLoad org l l' u)"
  "keeps (preserves (rows_in loads load_sound)) (closeLoad org l u)"
  "keeps (preserves (rows_in loads load_sound)) (recalculatePodStatus org l)"
  "keeps (preserves (rows_in loads load_sound)) (logCheckCall_tx org l cad u)"
  "keeps (preserves (rows_in loads load_sound)) (assignDispatcher org l d u)"
  "keeps (preserves (rows_in loads load_sound)) (voidInvoice org i u)"
  unfolding createFromBooking_def createOriginalCustomerLinehaulCharge_def updateReferenceNumbers_def linkReturnLoad_def closeLoad_def recalculatePodStatus_def
    logCheckCall_tx_def assignDispatcher_def voidInvoice_def set_invoiced_def Let_def
  by ((rule rows_writes slot_sels preserves.keeps_intros preserves_loads_off footprint_compound footprint_steps
       | (simp add: load_row_updates; fail))+)

lemma load_operations_booking:
  "keeps (preserves (rows_in loads load_sound)) (createDirect_tx org cld u)"
  "keeps (preserves (rows_in loads load_sound)) (convert_tx org q rate ok u)"
  "keeps (preserves (rows_in loads load_sound)) (applyScanResult_tx sok org i res prov)"
  unfolding createDirect_tx_def convert_tx_def applyScanResult_tx_def recalculate_for_stop_def Let_def
  by ((rule load_operations_benign rows_writes slot_sels preserves.keeps_intros preserves_loads_off
        footprint_allows footprint_steps | (simp; fail))+)

lemma load_operations_guarded:
  "guards (rows_in loads load_sound) (beginSourcing org l u)"
  "guards (rows_in loads load_sound) (assignCarrier org l c rt u)"
  "guards (rows_in loads load_sound) (carrierRejected org l reason u)"
  "guards (rows_in loads load_sound) (generateRateConfirmation_tx org l u)"
  "guards (rows_in loads load_sound) (dispatch org l did u)"
  "guards (rows_in loads load_sound) (cancelLoad org l reason u)"
  "guards (rows_in loads load_sound) (setRiskStatus org l rs rr u)"
  unfolding beginSourcing_def assignCarrier_def carrierRejected_def generateRateConfirmation_tx_def dispatch_def
    cancelLoad_def setRiskStatus_def require_load_def tx_assoc
  by (rule guarded_start, rule keyed_tables,
      (rule load_teaching load_steps | (simp add: load_row_updates; fail)
       | (rule load_risk_set, assumption, blast))+)+

text \<open>The operations that end in a re-evaluation read the load once, at the start.\<close>

lemma load_operations_derived:
  "guards (rows_in loads load_sound) (recordArrival org l n ts u)"
  "guards (rows_in loads load_sound) (recordDeparture org l n ts u)"
  "guards (rows_in loads load_sound) (updateStops_tx org l items u)"
  "guards (rows_in loads load_sound) (initiateReturn org l rp rd u)"
  unfolding recordArrival_def recordDeparture_def updateStops_tx_def update_one_stop_def initiateReturn_def
    require_load_def Let_def tx_assoc
  by (rule guarded_start, rule keyed_tables,
      (rule load_teaching guarded_reEvaluate load_steps | (simp; fail))+)+

text \<open>The invoice builder checks every load it goes on to flag.\<close>

lemma guarded_writeInvoice:
  assumes "\<And>i l. (i, l) \<in> set t \<Longrightarrow> l_organizationId l = org \<Longrightarrow> i \<in> set (cid_loadIds dto) \<Longrightarrow>
             l_status l \<in> {DELIVERED, CLOSED}"
  shows "guarded loads load_sound t (writeInvoice org dto billed u)"
  unfolding writeInvoice_def set_invoiced_def Let_def
proof ((rule guarded_updateMany slot_sels guarded_bind guarded_andThen same_loads footprint_steps | (simp; fail))+)
  fix i r
  assume "(i, r) \<in> set t" and "l_organizationId r = org \<and> i \<in> set (cid_loadIds dto)" and "load_sound r"
  then show "load_sound (r\<lparr>l_invoiced := True\<rparr>)" using assms by (intro load_row_updates) blast+
qed ((rule preserves.keeps_intros preserves_loads_off footprint_steps | (simp; fail))+)

lemma load_operation_invoice: "guards (rows_in loads load_sound) (createInvoice org dto u)"
  unfolding createInvoice_def
proof (rule guarded_start [OF keyed_tables(5)], (rule guarded_findMany guarded_gets guarded_throw_if)+)
  fix t :: "load_row table" and s
  let ?billed = "map (include_charges s) (tbl_where (\<lambda>i l. i \<in> set (cid_loadIds dto) \<and> l_organizationId l = org) t)"
  assume ok: "\<not> (\<exists>b \<in> set ?billed. l_status (bl_load b) \<notin> {DELIVERED, CLOSED} \<or> l_invoiced (bl_load b))"
  have "l_status l \<in> {DELIVERED, CLOSED}"
    if "(i, l) \<in> set t" and "l_organizationId l = org" and "i \<in> set (cid_loadIds dto)" for i l
  proof -
    have "include_charges s (i, l) \<in> set ?billed" using that by (auto simp: tbl_where_iff)
    then show ?thesis using ok by (force simp: include_charges_def)
  qed
  then show "guarded loads load_sound t (writeInvoice org dto ?billed u)" by (rule guarded_writeInvoice)
qed

interpretation states: deployment_invariant "rows_in loads load_sound" "{Loads}"
proof
  show "guards (rows_in loads load_sound) (request_tx pd org u req)"
    if "{Loads} \<inter> footprint_of req \<noteq> {}" for pd org u req
    using that
    by (cases req; rename_tac r; case_tac r;
        simp add: logged_def guards_preserves load_operations_benign load_operations_booking
          load_operations_guarded load_operations_derived load_operation_invoice)
qed (simp_all add: reads_rows fresh_db_def rows_in_def)

section \<open>Stops\<close>

text \<open>The status of a stop says which of its times are on record, and they are in order.\<close>

fun stop_timely :: "stop_row \<Rightarrow> bool" where
  "stop_timely p = (case s_status p of
       SS_PENDING \<Rightarrow> s_actualArrival p = None \<and> s_actualDeparture p = None
     | SS_ARRIVED \<Rightarrow> s_actualArrival p \<noteq> None \<and> s_actualDeparture p = None
     | SS_COMPLETED \<Rightarrow> (\<exists>a d. s_actualArrival p = Some a \<and> s_actualDeparture p = Some d \<and> a \<le> d))"

lemma stop_row_updates:
  "stop_timely (new_stop org l i)" "stop_timely (return_stop org l ri n ty)"
  "stop_timely (apply_stop_item si p) = stop_timely p"
  "stop_timely (p\<lparr>s_appointmentDatetime := x\<rparr>) = stop_timely p"
  "stop_timely p \<Longrightarrow> s_status p = SS_PENDING \<Longrightarrow>
     stop_timely (p\<lparr>s_actualArrival := Some t, s_status := SS_ARRIVED\<rparr>)"
  "stop_timely p \<Longrightarrow> s_status p = SS_ARRIVED \<Longrightarrow> \<not> (case s_actualArrival p of None \<Rightarrow> False | Some a \<Rightarrow> t < a) \<Longrightarrow>
     stop_timely (p\<lparr>s_actualDeparture := Some t, s_status := SS_COMPLETED\<rparr>)"
  by (auto simp: new_stop_def return_stop_def apply_stop_item_def split: stop_status.split option.splits)

lemma preserves_stops_off: "keeps (only (- {Stops})) m \<Longrightarrow> keeps (preserves (rows_in stops P)) m"
  by (rule off_table [OF reads_rows(6)])

lemma guarded_stops_off: "keeps (only (- {Stops})) m \<Longrightarrow> guarded stops P t m"
  by (rule guarded_end [OF preserves_stops_off])

lemma same_stops: "keeps (only (- {Stops})) m \<Longrightarrow> keeps (same stops) m"
  by (rule same_only)

lemma guarded_trackable:
  assumes "\<And>i p. tbl_find i t = Some p \<Longrightarrow> guarded stops P t (f (i, p))"
  shows "guarded stops P t (bind (require_trackable_stop org l row n) f)"
  unfolding require_trackable_stop_def find_stop_def tx_assoc
  by (rule guarded_andThen, (rule same_stops footprint_steps)+,
      (rule guarded_findFirst guarded_require | (use assms in \<open>auto; fail\<close>))+)

lemma stop_operations:
  "keeps (preserves (rows_in stops stop_timely)) (createDirect_tx org cld u)"
  "keeps (preserves (rows_in stops stop_timely)) (convert_tx org q rate ok u)"
  "keeps (preserves (rows_in stops stop_timely)) (rescheduleStop org l n a u)"
  "keeps (preserves (rows_in stops stop_timely)) (updateStops_tx org l items u)"
  "keeps (preserves (rows_in stops stop_timely)) (initiateReturn org l rp rd u)"
  unfolding createDirect_tx_def convert_tx_def createFromBooking_def createOriginalCustomerLinehaulCharge_def
    rescheduleStop_def updateStops_tx_def update_one_stop_def initiateReturn_def Let_def
  by ((rule rows_writes slot_sels preserves.keeps_intros preserves_stops_off footprint_compound footprint_steps
       | (auto simp: stop_row_updates simp del: stop_timely.simps; fail))+)

lemma stop_progress_operations:
  "guards (rows_in stops stop_timely) (recordArrival org l n ts u)"
  "guards (rows_in stops stop_timely) (recordDeparture org l n ts u)"
  unfolding recordArrival_def recordDeparture_def Let_def
  by (rule guarded_start, rule keyed_tables,
      (rule guarded_throw_if guarded_trackable guarded_update slot_sels guarded_bind guarded_andThen same_stops
         guarded_stops_off preserves.keeps_intros preserves_stops_off footprint_compound footprint_steps
       | (simp add: stop_row_updates del: stop_timely.simps; fail))+)+

interpretation timeline: deployment_invariant "rows_in stops stop_timely" "{Stops}"
proof
  show "guards (rows_in stops stop_timely) (request_tx pd org u req)"
    if "{Stops} \<inter> footprint_of req \<noteq> {}" for pd org u req
    using that
    by (cases req; rename_tac r; case_tac r;
        simp add: logged_def guards_preserves stop_operations stop_progress_operations)
qed (simp_all add: reads_rows fresh_db_def rows_in_def)

section \<open>Quotes\<close>

text \<open>A quote is won exactly when it has a load, and lost exactly when it has a loss reason.\<close>

definition quote_settled :: "quote_row \<Rightarrow> bool" where
  "quote_settled q \<longleftrightarrow> (q_status q = QS_WON \<longleftrightarrow> q_resultingLoadId q \<noteq> None) \<and>
     (q_status q = QS_LOST \<longleftrightarrow> q_lossReason q \<noteq> None)"

lemma preserves_quotes_off: "keeps (only (- {Quotes})) m \<Longrightarrow> keeps (preserves (rows_in quotes P)) m"
  by (rule off_table [OF reads_rows(4)])

lemma guarded_quotes_off: "keeps (only (- {Quotes})) m \<Longrightarrow> guarded quotes P t m"
  by (rule guarded_end [OF preserves_quotes_off])

lemma same_quotes: "keeps (only (- {Quotes})) m \<Longrightarrow> keeps (same quotes) m"
  by (rule same_only)

lemma quote_creation: "keeps (preserves (rows_in quotes quote_settled)) (quote_create org cqd u)"
  unfolding quote_create_def Let_def
  by ((rule rows_writes slot_sels preserves.keeps_intros preserves_quotes_off footprint_steps
       | (simp add: quote_settled_def new_quote_def; fail))+)

lemma quote_operations:
  "guards (rows_in quotes quote_settled) (markLost org q reason u)"
  "guards (rows_in quotes quote_settled) (convert_tx org q rate ok u)"
  unfolding markLost_def convert_tx_def require_quote_def tx_assoc
  by (rule guarded_start, rule keyed_tables,
      (rule load_teaching guarded_update guarded_update_then slot_sels guarded_bind guarded_andThen same_quotes
         guarded_quotes_off preserves.keeps_intros preserves_quotes_off footprint_compound footprint_steps
       | (simp add: quote_settled_def; fail))+)+

lemma quote_expiry: "guards (rows_in quotes quote_settled) (sweep_one P stale_quotes expire_quote org)"
proof (rule guards_sweep_one)
  fix s x y s'
  assume x: "x \<in> set (stale_quotes org s)" and run: "expire_quote org x s = Inr (y, s')" and wf: "wf_db s"
    and inv: "rows_in quotes quote_settled s"
  obtain i q where iq: "x = (i, q)" by (cases x)
  have q: "(i, q) \<in> set (quotes s)" "q_status q = QS_OPEN"
    using x iq by (auto simp: stale_quotes_def tbl_where_iff)
  have "tbl_find i (quotes s) = Some q"
    using q(1) wf by (simp add: tbl_find_def wf_db_def table_ok_def)
  moreover have "quotes s' = tbl_upd i (\<lambda>r. r\<lparr>q_status := QS_LOST, q_lossReason := Some ''Expired''\<rparr>) (quotes s)"
    using run iq by (auto simp: expire_quote_def tx_iff split: if_splits)
  ultimately show "rows_in quotes quote_settled s'"
    using inv q(2) by (auto simp: rows_in_def quote_settled_def intro!: rows_upd)
qed

interpretation settlement: deployment_invariant "rows_in quotes quote_settled" "{Quotes}"
proof
  show "guards (rows_in quotes quote_settled) (request_tx pd org u req)"
    if "{Quotes} \<inter> footprint_of req \<noteq> {}" for pd org u req
    using that by (cases req; rename_tac r; case_tac r; simp add: logged_def quote_operations quote_expiry guards_preserves quote_creation)
qed (simp_all add: reads_rows fresh_db_def rows_in_def)

end
