(* ===== verification/PlanLimits.thy ===== *)
theory PlanLimits
  imports Invariants
begin

text \<open>
  The limits of an organization's plan as invariants of every reachable world: the carriers and
  the drivers that count never exceed the configured maximum, whatever sequence of creations,
  activations and reactivations is served.
\<close>

section \<open>Counting rows\<close>

definition count_rows :: "('a \<Rightarrow> bool) \<Rightarrow> 'a table \<Rightarrow> nat" where
  "count_rows P t = length (filter (\<lambda>(_, r). P r) t)"

lemma count_ins: "count_rows P (tbl_ins k r t) = count_rows P t + (if P r then 1 else 0)"
  by (simp add: count_rows_def tbl_ins_def)

lemma count_upd_le:
  "(\<And>r. tbl_find k t = Some r \<Longrightarrow> P (f r) \<Longrightarrow> P r) \<Longrightarrow> count_rows P (tbl_upd k f t) \<le> count_rows P t"
  unfolding tbl_find_def
proof (induction t)
  case (Cons p t)
  obtain i r where p: "p = (i, r)" by (cases p)
  show ?case
  proof (cases "i = k")
    case True
    then show ?thesis using Cons.prems [of r] p by (simp add: count_rows_def)
  next
    case False
    then have "count_rows P (tbl_upd k f t) \<le> count_rows P t" using Cons p by simp
    then show ?thesis using False p by (simp add: count_rows_def)
  qed
qed (simp add: count_rows_def)

lemma count_upd_Suc: "count_rows P (tbl_upd k f t) \<le> Suc (count_rows P t)"
  by (induction t) (auto simp: count_rows_def)

text \<open>The limit over all organizations, for a predicate of the organization and the row.\<close>

definition limited :: "(organization_row \<Rightarrow> nat option) \<Rightarrow> (uuid \<Rightarrow> 'a \<Rightarrow> bool) \<Rightarrow> organization_row table \<Rightarrow> 'a table \<Rightarrow> bool" where
  "limited limit counted orgs t \<longleftrightarrow>
     (\<forall>org r m. tbl_find org orgs = Some r \<longrightarrow> limit r = Some m \<longrightarrow> count_rows (counted org) t \<le> m)"

lemma limited_upd:
  assumes "limited limit counted orgs t" and "\<And>org r. tbl_find k t = Some r \<Longrightarrow> counted org (f r) \<Longrightarrow> counted org r"
  shows "limited limit counted orgs (tbl_upd k f t)"
proof -
  have "count_rows (counted org) (tbl_upd k f t) \<le> count_rows (counted org) t" for org
    using assms(2) by (rule count_upd_le)
  then show ?thesis using assms(1) unfolding limited_def by (meson order_trans)
qed

text \<open>What a gate says: below the limit, one more row fits.\<close>

definition room :: "(organization_row \<Rightarrow> nat option) \<Rightarrow> (uuid \<Rightarrow> 'a \<Rightarrow> bool) \<Rightarrow> organization_row table \<Rightarrow> 'a table \<Rightarrow> uuid \<Rightarrow> bool" where
  "room limit counted orgs t org \<longleftrightarrow>
     (\<exists>r. tbl_find org orgs = Some r \<and> (\<forall>m. limit r = Some m \<longrightarrow> count_rows (counted org) t < m))"

lemma limited_ins:
  assumes "limited limit counted orgs t" and "room limit counted orgs t org"
    and "\<And>org'. counted org' r \<Longrightarrow> org' = org"
  shows "limited limit counted orgs (tbl_ins k r t)"
  unfolding limited_def
proof (intro allI impI)
  fix org' q m assume q: "tbl_find org' orgs = Some q" "limit q = Some m"
  have le: "count_rows (counted org') t \<le> m" using assms(1) q by (auto simp: limited_def)
  show "count_rows (counted org') (tbl_ins k r t) \<le> m"
  proof (cases "org' = org")
    case True
    then have "count_rows (counted org') t < m" using assms(2) q by (auto simp: room_def)
    then show ?thesis by (simp add: count_ins)
  next
    case False
    then show ?thesis using assms(3) [of org'] le by (auto simp: count_ins)
  qed
qed

lemma limited_upd_room:
  assumes "limited limit counted orgs t" and "room limit counted orgs t org"
    and "\<And>org' r. tbl_find k t = Some r \<Longrightarrow> counted org' (f r) \<Longrightarrow> counted org' r \<or> org' = org"
  shows "limited limit counted orgs (tbl_upd k f t)"
  unfolding limited_def
proof (intro allI impI)
  fix org' q m assume q: "tbl_find org' orgs = Some q" "limit q = Some m"
  show "count_rows (counted org') (tbl_upd k f t) \<le> m"
  proof (cases "org' = org")
    case True
    then have "count_rows (counted org') t < m" using assms(2) q by (auto simp: room_def)
    then show ?thesis using count_upd_Suc [of "counted org'" k f t] by simp
  next
    case False
    then have "count_rows (counted org') (tbl_upd k f t) \<le> count_rows (counted org') t"
      using assms(3) by (intro count_upd_le) blast
    also have "\<dots> \<le> m" using assms(1) q by (auto simp: limited_def)
    finally show ?thesis .
  qed
qed

section \<open>Carriers\<close>

definition carriers_within :: "db \<Rightarrow> bool" where
  "carriers_within s \<longleftrightarrow> limited o_maxCarriers counted_carrier (organizations s) (carriers s)"

lemma carriers_within_iff:
  "carriers_within s \<longleftrightarrow> (\<forall>org r m. tbl_find org (organizations s) = Some r \<longrightarrow> o_maxCarriers r = Some m \<longrightarrow>
     carrier_count org s \<le> m)"
  by (simp add: carriers_within_def limited_def carrier_count_def count_rows_def tbl_where_def)

lemma carrier_room_room:
  "carrier_room org s \<Longrightarrow> room o_maxCarriers counted_carrier (organizations s) (carriers s) org"
  by (auto simp: carrier_room_def room_def carrier_count_def count_rows_def tbl_where_def split: option.splits)

lemma reads_carriers_within: "reads {Organizations, Carriers} carriers_within"
  by (simp add: reads_def carriers_within_def)

lemma carriers_within_off:
  "keeps (only (- {Organizations, Carriers})) m \<Longrightarrow> keeps (preserves carriers_within) m"
  by (rule preserves_only [OF reads_carriers_within]) auto

lemma carriers_within_update:
  "(\<And>org r. counted_carrier org (f r) \<Longrightarrow> counted_carrier org r) \<Longrightarrow>
     keeps (preserves carriers_within) (update carriers carriers_update k f)"
  by (auto simp: keeps_def preserves_def carriers_within_def tx_iff intro!: limited_upd)

lemma counted_updates:
  "counted_carrier org (apply_carrier_dto dto c) = counted_carrier org c"
  "counted_carrier org (store_eligibility rs c) = counted_carrier org c"
  "counted_carrier org (c\<lparr>c_assignmentEligible := e, c_ineligibilityReasons := x\<rparr>) = counted_carrier org c"
  by (simp_all add: counted_carrier_def apply_carrier_dto_def store_eligibility_def)

lemma carriers_within_recalculate: "keeps (preserves carriers_within) (recalculate org c)"
  unfolding recalculate_def
  by ((rule carriers_within_update preserves.keeps_intros carriers_within_off footprint_steps
       | (simp add: counted_updates; fail))+)

lemma carriers_within_benign:
  "keeps (preserves carriers_within) (carrier_update org c ucd u)"
  "keeps (preserves carriers_within) (addInsurance org c ind u)"
  "keeps (preserves carriers_within) (addFmcsaVerification org c fmd u)"
  "keeps (preserves carriers_within) (assignCarrier org l c rate u)"
  "keeps (preserves carriers_within) (dispatch org l did u)"
  "keeps (preserves carriers_within) (review org i dec reason u)"
  "keeps (preserves carriers_within) (sweep_one P active_carriers recalculate_quietly org)"
  unfolding sweep_one_def recalculate_quietly_def carrier_update_def addInsurance_def addFmcsaVerification_def assignCarrier_def dispatch_def review_def
  by ((rule carriers_within_recalculate carriers_within_update preserves.keeps_intros carriers_within_off
        footprint_compound footprint_steps | (simp add: counted_updates; fail))+)

lemma transition_then_recalculate:
  "bind (transitionStatus org c from st action msg reason u) (\<lambda>x. andThen (recalculate org c) (ret x)) s = Inr (y, s') \<Longrightarrow>
     \<exists>r rs. tbl_find c (carriers s) = Some r \<and> c_organizationId r = org \<and> c_status r \<in> set from \<and>
       organizations s' = organizations s \<and>
       carriers s' = tbl_upd c (\<lambda>r. store_eligibility rs (r\<lparr>c_status := st\<rparr>)) (carriers s)"
  by (auto simp: transitionStatus_def tx_iff recalculated_carriers tbl_find_upd)

lemma carriers_within_life_cycle:
  "guards carriers_within (carrier_create org ccd u)" "guards carriers_within (activate org c u)"
  "guards carriers_within (blockCarrier org c reason u)" "guards carriers_within (deactivateCarrier org c reason u)"
  "guards carriers_within (reactivateCarrier org c reason u)"
proof -
  show "guards carriers_within (carrier_create org ccd u)"
  proof (rule guardsI)
    fix s x s' assume run: "carrier_create org ccd u s = Inr (x, s')" and ok: "carriers_within s"
    then have "carrier_room org s" and "organizations s' = organizations s"
      and "carriers s' = tbl_ins (next_id s) (new_carrier org ccd u) (carriers s)"
      by (auto simp: carrier_create_def tx_iff split: option.splits)
    then show "carriers_within s'"
      using ok limited_ins [OF _ carrier_room_room]
      by (simp add: carriers_within_def counted_carrier_def new_carrier_def)
  qed
  show "guards carriers_within (activate org c u)"
  proof (rule guardsI)
    fix s x s' assume run: "activate org c u s = Inr (x, s')" and ok: "carriers_within s"
    then obtain r rs where "tbl_find c (carriers s) = Some r" "c_status r = CA_PENDING"
      and "organizations s' = organizations s"
      and "carriers s' = tbl_upd c (\<lambda>r. store_eligibility rs (r\<lparr>c_status := CA_ACTIVE\<rparr>)) (carriers s)"
      by (auto simp: activate_def tx_iff recalculated_carriers tbl_find_upd)
    then show "carriers_within s'" using ok
      by (auto simp: carriers_within_def counted_carrier_def store_eligibility_def intro!: limited_upd)
  qed
  have down: "guards carriers_within
      (bind (transitionStatus org c [CA_ACTIVE] st action msg reason u) (\<lambda>x. andThen (recalculate org c) (ret x)))" for st action msg
  proof (rule guardsI)
    fix s x s'
    assume run: "bind (transitionStatus org c [CA_ACTIVE] st action msg reason u) (\<lambda>x. andThen (recalculate org c) (ret x)) s = Inr (x, s')"
      and ok: "carriers_within s"
    then obtain r rs where "tbl_find c (carriers s) = Some r" "c_status r = CA_ACTIVE" "organizations s' = organizations s"
      "carriers s' = tbl_upd c (\<lambda>r. store_eligibility rs (r\<lparr>c_status := st\<rparr>)) (carriers s)"
      using transition_then_recalculate [OF run] by auto
    then show "carriers_within s'" using ok
      by (auto simp: carriers_within_def counted_carrier_def store_eligibility_def intro!: limited_upd)
  qed
  show "guards carriers_within (blockCarrier org c reason u)" unfolding blockCarrier_def by (rule down)
  show "guards carriers_within (deactivateCarrier org c reason u)" unfolding deactivateCarrier_def by (rule down)
  show "guards carriers_within (reactivateCarrier org c reason u)"
  proof (rule guardsI)
    fix s x s' assume run: "reactivateCarrier org c reason u s = Inr (x, s')" and ok: "carriers_within s"
    then have r: "carrier_room org s"
      and "bind (transitionStatus org c [CA_BLOCKED, CA_INACTIVE] CA_ACTIVE ''Carrier Reactivated''
              ''Only a Blocked or Inactive carrier can be reactivated.'' reason u)
             (\<lambda>x. andThen (recalculate org c) (ret x)) s = Inr (x, s')"
      by (simp_all add: reactivateCarrier_def andThen_iff assertCarrierSlotAvailable_iff)
    then obtain q rs where "tbl_find c (carriers s) = Some q" "c_organizationId q = org" "organizations s' = organizations s"
      "carriers s' = tbl_upd c (\<lambda>r. store_eligibility rs (r\<lparr>c_status := CA_ACTIVE\<rparr>)) (carriers s)"
      using transition_then_recalculate by blast
    then show "carriers_within s'" using ok carrier_room_room [OF r]
      by (auto simp: carriers_within_def counted_carrier_def store_eligibility_def intro!: limited_upd_room)
  qed
qed

interpretation carrier_limit: deployment_invariant carriers_within "{Organizations, Carriers}"
proof
  show "guards carriers_within (request_tx pd org u req)"
    if "{Organizations, Carriers} \<inter> footprint_of req \<noteq> {}" for pd org u req
    using that
    by (cases req; rename_tac r; case_tac r;
        simp add: logged_def carriers_within_life_cycle guards_preserves carriers_within_benign)
qed (simp_all add: reads_carriers_within fresh_db_def carriers_within_def limited_def count_rows_def)

section \<open>Drivers\<close>

definition drivers_within :: "db \<Rightarrow> bool" where
  "drivers_within s \<longleftrightarrow> limited o_maxDrivers counted_driver (organizations s) (drivers s)"

lemma drivers_within_iff:
  "drivers_within s \<longleftrightarrow> (\<forall>org r m. tbl_find org (organizations s) = Some r \<longrightarrow> o_maxDrivers r = Some m \<longrightarrow>
     driver_count org s \<le> m)"
  by (simp add: drivers_within_def limited_def driver_count_def count_rows_def tbl_where_def)

lemma driver_room_room:
  "driver_room org s \<Longrightarrow> room o_maxDrivers counted_driver (organizations s) (drivers s) org"
  by (auto simp: driver_room_def room_def driver_count_def count_rows_def tbl_where_def split: option.splits)

lemma drivers_within_operations:
  "guards drivers_within (addDriver org c addd u)" "guards drivers_within (updateDriver org c d udd u)"
  "guards drivers_within (deactivateDriver org c d reason u)"
proof (rule_tac [!] guardsI)
  fix s x s' assume ok: "drivers_within s"
  show "drivers_within s'" if "addDriver org c addd u s = Inr (x, s')"
  proof -
    have "driver_room org s" and "organizations s' = organizations s"
      and "drivers s' = tbl_ins (next_id s) (new_driver org c addd) (drivers s)"
      using that by (auto simp: addDriver_def tx_iff)
    then show ?thesis using ok limited_ins [OF _ driver_room_room]
      by (simp add: drivers_within_def counted_driver_def new_driver_def)
  qed
next
  fix s x s' assume ok: "drivers_within s"
  show "drivers_within s'" if "updateDriver org c d udd u s = Inr (x, s')"
    using that ok
    by (auto simp: updateDriver_def tx_iff drivers_within_def counted_driver_def apply_driver_dto_def
        intro!: limited_upd split: if_splits)
next
  fix s x s' assume ok: "drivers_within s"
  show "drivers_within s'" if "deactivateDriver org c d reason u s = Inr (x, s')"
    using that ok
    by (auto simp: deactivateDriver_def transitionDriverActive_def tx_iff drivers_within_def counted_driver_def
        intro!: limited_upd)
qed

lemma drivers_within_reactivate: "guards drivers_within (reactivateDriver org c d reason u)"
proof (rule guardsI)
  fix s x s' assume run: "reactivateDriver org c d reason u s = Inr (x, s')" and ok: "drivers_within s"
  then obtain r where "driver_room org s" "tbl_find d (drivers s) = Some r" "dr_organizationId r = org"
    "organizations s' = organizations s" "drivers s' = tbl_upd d (\<lambda>d. d\<lparr>dr_active := True\<rparr>) (drivers s)"
    by (auto simp: reactivateDriver_def transitionDriverActive_def tx_iff)
  then show "drivers_within s'" using ok driver_room_room
    by (auto simp: drivers_within_def counted_driver_def intro!: limited_upd_room)
qed

interpretation driver_limit: deployment_invariant drivers_within "{Organizations, Drivers}"
proof
  show "guards drivers_within (request_tx pd org u req)"
    if "{Organizations, Drivers} \<inter> footprint_of req \<noteq> {}" for pd org u req
    using that
    by (cases req; rename_tac r; case_tac r;
        simp add: logged_def drivers_within_operations drivers_within_reactivate)
  show "reads {Organizations, Drivers} drivers_within" by (simp add: reads_def drivers_within_def)
qed (simp_all add: fresh_db_def drivers_within_def limited_def count_rows_def)

end
