(* ===== verification/Numbering.thy ===== *)
theory Numbering
  imports Invariants
begin

text \<open>
  The numbers an organization's loads, quotes and invoices bear, in every reachable world: each is
  the formatted value of its sequence, at most the value the sequence has reached, and no two rows
  of an organization share one.
\<close>

definition numbered :: "sequence_type \<Rightarrow> ('a \<Rightarrow> uuid) \<Rightarrow> ('a \<Rightarrow> string) \<Rightarrow> (uuid \<Rightarrow> nat) \<Rightarrow> 'a table \<Rightarrow> bool" where
  "numbered ty org_of num_of cur t \<longleftrightarrow>
     (\<forall>(i, r) \<in> set t. \<exists>n. 0 < n \<and> n \<le> cur (org_of r) \<and> num_of r = format ty n) \<and>
     (\<forall>(i, r) \<in> set t. \<forall>(j, q) \<in> set t. org_of r = org_of q \<longrightarrow> num_of r = num_of q \<longrightarrow> i = j)"

lemma numbered_Nil [simp]: "numbered ty org_of num_of cur []"
  by (simp add: numbered_def)

text \<open>Rewriting rows without touching organization or number.\<close>

lemma numbered_rewrite:
  assumes "numbered ty org_of num_of cur t"
    and "\<And>i r. (i, r) \<in> set t' \<Longrightarrow> \<exists>q. (i, q) \<in> set t \<and> org_of r = org_of q \<and> num_of r = num_of q"
  shows "numbered ty org_of num_of cur t'"
proof -
  have "\<exists>n. 0 < n \<and> n \<le> cur (org_of r) \<and> num_of r = format ty n" if "(i, r) \<in> set t'" for i r
    using assms(1) assms(2) [OF that] unfolding numbered_def by fastforce
  moreover have "i = j" if "(i, r) \<in> set t'" "(j, q) \<in> set t'" "org_of r = org_of q" "num_of r = num_of q" for i j r q
    using assms(1) assms(2) [OF that(1)] assms(2) [OF that(2)] that(3,4) unfolding numbered_def by fastforce
  ultimately show ?thesis unfolding numbered_def by blast
qed

lemma numbered_upd:
  "numbered ty org_of num_of cur t \<Longrightarrow> (\<And>r. org_of (f r) = org_of r \<and> num_of (f r) = num_of r) \<Longrightarrow>
     numbered ty org_of num_of cur (tbl_upd k f t)"
  by (erule numbered_rewrite) (drule set_tbl_upd_subset, auto)

lemma numbered_updMany:
  "numbered ty org_of num_of cur t \<Longrightarrow> (\<And>r. org_of (f r) = org_of r \<and> num_of (f r) = num_of r) \<Longrightarrow>
     numbered ty org_of num_of cur (tbl_updMany Q f t)"
  by (erule numbered_rewrite) (auto simp: set_tbl_updMany)

text \<open>The next number of the organization, for a new row of it.\<close>

lemma numbered_ins:
  assumes "numbered ty org_of num_of cur t" and "org_of r = org" and "num_of r = format ty (Suc (cur org))"
    and "\<And>o'. cur' o' = (if o' = org then Suc (cur org) else cur o')"
  shows "numbered ty org_of num_of cur' (tbl_ins k r t)"
proof -
  have row: "\<exists>n. 0 < n \<and> n \<le> cur (org_of q) \<and> num_of q = format ty n" if "(j, q) \<in> set t" for j q
    using assms(1) that unfolding numbered_def by blast
  have fresh: "num_of q \<noteq> format ty (Suc (cur org))" if "(j, q) \<in> set t" "org_of q = org" for j q
    using row [OF that(1)] that(2) by auto
  have old: "\<exists>n. 0 < n \<and> n \<le> cur' (org_of q) \<and> num_of q = format ty n" if "(j, q) \<in> set t" for j q
  proof -
    from row [OF that] obtain n where n: "0 < n" "n \<le> cur (org_of q)" "num_of q = format ty n" by blast
    have "cur (org_of q) \<le> cur' (org_of q)" by (simp add: assms(4))
    then show ?thesis using n by (intro exI [of _ n]) simp
  qed
  have new: "\<exists>n. 0 < n \<and> n \<le> cur' (org_of r) \<and> num_of r = format ty n"
    using assms(2-4) by (intro exI [of _ "Suc (cur org)"]) simp
  have unique: "i = j" if "(i, q) \<in> set t" "(j, q') \<in> set t" "org_of q = org_of q'" "num_of q = num_of q'" for i j q q'
    using assms(1) that unfolding numbered_def by blast
  have apart: "num_of q \<noteq> num_of r" if "(j, q) \<in> set t" "org_of q = org_of r" for j q
    using fresh that assms(2,3) by simp
  have "i = j" if "(i, q) \<in> insert (k, r) (set t)" "(j, q') \<in> insert (k, r) (set t)" "org_of q = org_of q'"
      "num_of q = num_of q'" for i j q q'
    using that unique [of i q j q'] apart [of i q] apart [of j q'] by auto
  moreover have "\<exists>n. 0 < n \<and> n \<le> cur' (org_of q) \<and> num_of q = format ty n" if "(j, q) \<in> insert (k, r) (set t)" for j q
    using that old [of j q] new by auto
  ultimately show ?thesis unfolding numbered_def set_tbl_ins by blast
qed

section \<open>The three numbered tables\<close>

definition loads_numbered :: "db \<Rightarrow> bool" where
  "loads_numbered s \<longleftrightarrow>
     numbered SEQ_LOAD l_organizationId l_loadNumber (\<lambda>org. sequence_current s org SEQ_LOAD) (loads s)"

definition quotes_numbered :: "db \<Rightarrow> bool" where
  "quotes_numbered s \<longleftrightarrow>
     numbered SEQ_QUOTE q_organizationId q_quoteNumber (\<lambda>org. sequence_current s org SEQ_QUOTE) (quotes s)"

definition invoices_numbered :: "db \<Rightarrow> bool" where
  "invoices_numbered s \<longleftrightarrow>
     numbered SEQ_INVOICE i_organizationId i_invoiceNumber (\<lambda>org. sequence_current s org SEQ_INVOICE) (invoices s)"

lemma reads_numbered:
  "reads {Loads, Sequences} loads_numbered" "reads {Quotes, Sequences} quotes_numbered"
  "reads {Invoices, Sequences} invoices_numbered"
  by (simp_all add: reads_def loads_numbered_def quotes_numbered_def invoices_numbered_def sequence_current_def)

lemma numbered_off:
  "keeps (only (- {Loads, Sequences})) m \<Longrightarrow> keeps (preserves loads_numbered) m"
  "keeps (only (- {Quotes, Sequences})) m \<Longrightarrow> keeps (preserves quotes_numbered) m"
  "keeps (only (- {Invoices, Sequences})) m \<Longrightarrow> keeps (preserves invoices_numbered) m"
  by (erule preserves_only [OF reads_numbered(1)] preserves_only [OF reads_numbered(2)]
      preserves_only [OF reads_numbered(3)]; auto)+

lemma numbered_writes:
  "(\<And>r. l_organizationId (f r) = l_organizationId r \<and> l_loadNumber (f r) = l_loadNumber r) \<Longrightarrow>
     keeps (preserves loads_numbered) (update loads loads_update k f)"
  "(\<And>r. l_organizationId (f r) = l_organizationId r \<and> l_loadNumber (f r) = l_loadNumber r) \<Longrightarrow>
     keeps (preserves loads_numbered) (updateMany loads_update Q f)"
  "(\<And>r. q_organizationId (g r) = q_organizationId r \<and> q_quoteNumber (g r) = q_quoteNumber r) \<Longrightarrow>
     keeps (preserves quotes_numbered) (update quotes quotes_update k g)"
  "(\<And>r. i_organizationId (h r) = i_organizationId r \<and> i_invoiceNumber (h r) = i_invoiceNumber r) \<Longrightarrow>
     keeps (preserves invoices_numbered) (update invoices invoices_update k h)"
  by (auto simp: keeps_def preserves_def loads_numbered_def quotes_numbered_def invoices_numbered_def
      sequence_current_def tx_iff intro!: numbered_upd numbered_updMany)

lemma numbered_other_sequence:
  "ty \<noteq> SEQ_LOAD \<Longrightarrow> keeps (preserves loads_numbered) (getNextNumber org ty)"
  "ty \<noteq> SEQ_QUOTE \<Longrightarrow> keeps (preserves quotes_numbered) (getNextNumber org ty)"
  "ty \<noteq> SEQ_INVOICE \<Longrightarrow> keeps (preserves invoices_numbered) (getNextNumber org ty)"
  by (auto simp: keeps_def preserves_def loads_numbered_def quotes_numbered_def invoices_numbered_def
      sequence_current_def tx_iff)

section \<open>Booking\<close>

lemma linehaul_off:
  "createOriginalCustomerLinehaulCharge org l rate u s = Inr (x, s') \<Longrightarrow>
     only {ChargeLineItems} s s'"
proof (rule keepsD [where R = "only {ChargeLineItems}"])
  show "keeps (only {ChargeLineItems}) (createOriginalCustomerLinehaulCharge org l rate u)"
    unfolding createOriginalCustomerLinehaulCharge_def by ((rule footprint_steps | (simp; fail))+)
qed

lemma booking_writes:
  assumes "createFromBooking org bp u s = Inr (x, s')"
  shows "loads s' = tbl_ins (next_id s)
      (new_load org (format SEQ_LOAD (Suc (sequence_current s org SEQ_LOAD))) bp u (clock s)) (loads s)"
    and "sequences s' = (sequences s)((org, SEQ_LOAD) := Some (Suc (sequence_current s org SEQ_LOAD)))"
    and "fst x = next_id s"
proof -
  let ?n = "Suc (sequence_current s org SEQ_LOAD)"
  have "\<exists>s1 s2 y. createOriginalCustomerLinehaulCharge org (next_id s) (l_customerRate
          (new_load org (format SEQ_LOAD ?n) bp u (clock s))) u s1 = Inr (y, s2) \<and>
      loads s1 = tbl_ins (next_id s) (new_load org (format SEQ_LOAD ?n) bp u (clock s)) (loads s) \<and>
      sequences s1 = (sequences s)((org, SEQ_LOAD) := Some ?n) \<and>
      loads s' = loads s2 \<and> sequences s' = sequences s2 \<and> fst x = next_id s"
    using assms
    by (clarsimp simp: createFromBooking_def tx_iff Let_def) (intro exI conjI, assumption, simp_all)
  then obtain s1 s2 y where s1: "loads s1 = tbl_ins (next_id s) (new_load org (format SEQ_LOAD ?n) bp u (clock s)) (loads s)"
      "sequences s1 = (sequences s)((org, SEQ_LOAD) := Some ?n)"
    and line: "createOriginalCustomerLinehaulCharge org (next_id s) (l_customerRate
        (new_load org (format SEQ_LOAD ?n) bp u (clock s))) u s1 = Inr (y, s2)"
    and s': "loads s' = loads s2" "sequences s' = sequences s2" and x: "fst x = next_id s"
    by blast
  have "only {ChargeLineItems} s1 s2" using line by (rule linehaul_off)
  then have "untouched Loads s1 s2" and "untouched Sequences s1 s2" by (simp_all only: only_def) blast+
  then show "loads s' = tbl_ins (next_id s) (new_load org (format SEQ_LOAD ?n) bp u (clock s)) (loads s)"
    and "sequences s' = (sequences s)((org, SEQ_LOAD) := Some ?n)" and "fst x = next_id s"
    using s1 s' x by simp_all
qed

lemma loads_numbered_booking: "keeps (preserves loads_numbered) (createFromBooking org bp u)"
  unfolding keeps_def preserves_def
proof (intro allI impI)
  fix s x s' assume run: "createFromBooking org bp u s = Inr (x, s')" and ok: "loads_numbered s"
  show "loads_numbered s'"
    unfolding loads_numbered_def booking_writes(1) [OF run]
    by (rule numbered_ins [where org = org, OF ok [unfolded loads_numbered_def]])
       (simp_all add: new_load_def sequence_current_def booking_writes(2) [OF run])
qed

lemma loads_numbered_operations:
  "keeps (preserves loads_numbered) (booking_tx org u br)"
  "keeps (preserves loads_numbered) (dispatch_tx org u dr)"
  by (cases br; simp only: booking_tx.simps preserves.keeps_discard;
      (unfold quote_create_def markLost_def convert_tx_def createDirect_tx_def updateReferenceNumbers_def
        linkReturnLoad_def addCharge_def closeLoad_def cancelLoad_def beginSourcing_def logSourcingAttempt_def
        assignCarrier_def carrierRejected_def generateRateConfirmation_tx_def Let_def)?;
      (rule loads_numbered_booking numbered_other_sequence numbered_writes preserves.keeps_intros numbered_off
         footprint_allows footprint_linehaul footprint_steps
       | (simp add: apply_references_def; fail))+)
     (cases dr; simp only: dispatch_tx.simps preserves.keeps_discard;
      (unfold dispatch_def updateDispatch_def recordArrival_def recordDeparture_def rescheduleStop_def
        updateStops_tx_def update_one_stop_def initiateReturn_def logCheckCall_tx_def setRiskStatus_def
        assignDispatcher_def reEvaluateLoadStatus_def Let_def)?;
      (rule numbered_writes preserves.keeps_intros numbered_off footprint_steps
       | (simp add: apply_check_call_def; fail))+)

lemma loads_numbered_money:
  "keeps (preserves loads_numbered) (createInvoice org cid u)"
  "keeps (preserves loads_numbered) (voidInvoice org i u)"
  "keeps (preserves loads_numbered) (applyScanResult_tx ok org i res prov)"
  unfolding createInvoice_def writeInvoice_def voidInvoice_def set_invoiced_def applyScanResult_tx_def
    recalculate_for_stop_def recalculatePodStatus_def Let_def
  by ((rule numbered_other_sequence numbered_writes preserves.keeps_intros numbered_off footprint_steps
       | (simp; fail))+)

interpretation load_numbers: deployment_invariant loads_numbered "{Loads, Sequences}"
proof
  show "guards loads_numbered (request_tx pd org u req)"
    if "{Loads, Sequences} \<inter> footprint_of req \<noteq> {}" for pd org u req
    using that
    by (cases req; simp add: guards_preserves loads_numbered_operations;
        rename_tac r; case_tac r; simp add: logged_def guards_preserves loads_numbered_money)
qed (simp_all add: reads_numbered fresh_db_def loads_numbered_def)

section \<open>Quotes and invoices\<close>

lemma quotes_numbered_create: "keeps (preserves quotes_numbered) (quote_create org cqd u)"
  unfolding keeps_def preserves_def
proof (intro allI impI)
  fix s x s' assume run: "quote_create org cqd u s = Inr (x, s')" and ok: "quotes_numbered s"
  let ?n = "Suc (sequence_current s org SEQ_QUOTE)"
  obtain rate where "quotes s' = tbl_ins (next_id s) (new_quote org (format SEQ_QUOTE ?n) cqd rate u (clock s)) (quotes s)"
    and "sequences s' = (sequences s)((org, SEQ_QUOTE) := Some ?n)"
    using run by (fastforce simp: quote_create_def tx_iff Let_def dest: resolveRate_pure)
  then show "quotes_numbered s'"
    unfolding quotes_numbered_def
    by (auto simp: new_quote_def sequence_current_def intro!: numbered_ins [where org = org, OF ok [unfolded quotes_numbered_def]])
qed

lemma quotes_numbered_operations:
  "keeps (preserves quotes_numbered) (markLost org q reason u)"
  "keeps (preserves quotes_numbered) (convert_tx org q rate ok u)"
  "keeps (preserves quotes_numbered) (createDirect_tx org cld u)"
  "keeps (preserves quotes_numbered) (createInvoice org cid u)"
  "keeps (preserves quotes_numbered) (sweep_one P stale_quotes expire_quote org)"
  unfolding sweep_one_def expire_quote_def markLost_def convert_tx_def createDirect_tx_def createFromBooking_def createOriginalCustomerLinehaulCharge_def
    createInvoice_def writeInvoice_def set_invoiced_def Let_def
  by ((rule numbered_other_sequence numbered_writes preserves.keeps_intros numbered_off footprint_allows footprint_steps
       | (simp; fail))+)

interpretation quote_numbers: deployment_invariant quotes_numbered "{Quotes, Sequences}"
proof
  show "guards quotes_numbered (request_tx pd org u req)"
    if "{Quotes, Sequences} \<inter> footprint_of req \<noteq> {}" for pd org u req
    using that
    by (cases req; rename_tac r; case_tac r;
        simp add: logged_def guards_preserves quotes_numbered_create quotes_numbered_operations)
qed (simp_all add: reads_numbered fresh_db_def quotes_numbered_def)

lemma invoices_numbered_create: "keeps (preserves invoices_numbered) (createInvoice org cid u)"
  unfolding keeps_def preserves_def
proof (intro allI impI)
  fix s x s' assume run: "createInvoice org cid u s = Inr (x, s')" and ok: "invoices_numbered s"
  let ?n = "Suc (sequence_current s org SEQ_INVOICE)"
  obtain total where "invoices s' = tbl_ins (next_id s)
      (new_invoice org (format SEQ_INVOICE ?n) (cid_customerId cid) total u (clock s)) (invoices s)"
    and "sequences s' = (sequences s)((org, SEQ_INVOICE) := Some ?n)"
    using run by (auto simp: createInvoice_def writeInvoice_def set_invoiced_def tx_iff Let_def split: if_splits)
  then show "invoices_numbered s'"
    unfolding invoices_numbered_def
    by (auto simp: new_invoice_def sequence_current_def intro!: numbered_ins [where org = org, OF ok [unfolded invoices_numbered_def]])
qed

lemma invoices_numbered_operations:
  "keeps (preserves invoices_numbered) (sendInvoice_tx org i e u)"
  "keeps (preserves invoices_numbered) (recordPayment org i rp u)"
  "keeps (preserves invoices_numbered) (addAdjustment org i aa u)"
  "keeps (preserves invoices_numbered) (voidInvoice org i u)"
  "keeps (preserves invoices_numbered) (quote_create org cqd u)"
  "keeps (preserves invoices_numbered) (convert_tx org q rate ok u)"
  "keeps (preserves invoices_numbered) (createDirect_tx org cld u)"
  unfolding sendInvoice_tx_def recordPayment_def addAdjustment_def voidInvoice_def recalculateInvoiceBalance_def
    set_invoiced_def quote_create_def convert_tx_def createDirect_tx_def createFromBooking_def
    createOriginalCustomerLinehaulCharge_def Let_def
  by ((rule numbered_other_sequence numbered_writes preserves.keeps_intros numbered_off footprint_allows footprint_steps
       | (simp add: mark_sent_def set_balance_def; fail))+)

interpretation invoice_numbers: deployment_invariant invoices_numbered "{Invoices, Sequences}"
proof
  show "guards invoices_numbered (request_tx pd org u req)"
    if "{Invoices, Sequences} \<inter> footprint_of req \<noteq> {}" for pd org u req
    using that
    by (cases req; rename_tac r; case_tac r;
        simp add: logged_def guards_preserves invoices_numbered_create invoices_numbered_operations)
qed (simp_all add: reads_numbered fresh_db_def invoices_numbered_def)

end
