(* ===== verification/Billing.thy ===== *)
theory Billing
  imports Numbering
begin

text \<open>
  The link between loads and invoices, as an invariant of every reachable world: an invoice's load
  rows point at an invoice and a load of the same organization, a load is on at most one invoice
  that is not void, and its invoiced flag says exactly whether it is on one.
\<close>

definition live :: "invoice_row table \<Rightarrow> invoice_load_row \<Rightarrow> bool" where
  "live invs il \<longleftrightarrow> (\<exists>r. tbl_find (il_invoiceId il) invs = Some r \<and> i_status r \<noteq> IV_VOID)"

definition linked :: "invoice_row table \<Rightarrow> load_row table \<Rightarrow> invoice_load_row \<Rightarrow> bool" where
  "linked invs lds il \<longleftrightarrow>
     map_option i_organizationId (tbl_find (il_invoiceId il) invs) = Some (il_organizationId il) \<and>
     map_option l_organizationId (tbl_find (il_loadId il) lds) = Some (il_organizationId il)"

text \<open>A row rewritten without touching a projection.\<close>

lemma map_find_updMany:
  "(\<And>r. p (f r) = p r) \<Longrightarrow> map_option p (tbl_find i (tbl_updMany Q f t)) = map_option p (tbl_find i t)"
  by (simp add: tbl_find_updMany option.map_comp o_def if_distrib cong: if_cong)

lemma map_find_upd:
  "(\<And>r. p (f r) = p r) \<Longrightarrow> map_option p (tbl_find i (tbl_upd k f t)) = map_option p (tbl_find i t)"
  by (simp add: tbl_find_upd option.map_comp o_def)

definition billing :: "invoice_row table \<Rightarrow> invoice_load_row table \<Rightarrow> load_row table \<Rightarrow> bool" where
  "billing invs ils lds \<longleftrightarrow>
     (\<forall>k il. (k, il) \<in> set ils \<longrightarrow> linked invs lds il) \<and>
     (\<forall>k il j jl. (k, il) \<in> set ils \<longrightarrow> (j, jl) \<in> set ils \<longrightarrow> live invs il \<longrightarrow> live invs jl \<longrightarrow>
        il_loadId il = il_loadId jl \<longrightarrow> k = j \<and> il = jl) \<and>
     (\<forall>i l. tbl_find i lds = Some l \<longrightarrow>
        (l_invoiced l \<longleftrightarrow> (\<exists>k il. (k, il) \<in> set ils \<and> il_loadId il = i \<and> live invs il)))"

lemma billingI:
  "(\<And>k il. (k, il) \<in> set ils \<Longrightarrow> linked invs lds il) \<Longrightarrow>
   (\<And>k il j jl. (k, il) \<in> set ils \<Longrightarrow> (j, jl) \<in> set ils \<Longrightarrow> live invs il \<Longrightarrow> live invs jl \<Longrightarrow>
      il_loadId il = il_loadId jl \<Longrightarrow> k = j \<and> il = jl) \<Longrightarrow>
   (\<And>i l. tbl_find i lds = Some l \<Longrightarrow>
      l_invoiced l \<longleftrightarrow> (\<exists>k il. (k, il) \<in> set ils \<and> il_loadId il = i \<and> live invs il)) \<Longrightarrow>
   billing invs ils lds"
  unfolding billing_def by presburger

lemma billing_link: "billing invs ils lds \<Longrightarrow> (k, il) \<in> set ils \<Longrightarrow> linked invs lds il"
  unfolding billing_def by presburger

lemma billing_unique:
  "billing invs ils lds \<Longrightarrow> (k, il) \<in> set ils \<Longrightarrow> (j, jl) \<in> set ils \<Longrightarrow> live invs il \<Longrightarrow> live invs jl \<Longrightarrow>
     il_loadId il = il_loadId jl \<Longrightarrow> k = j \<and> il = jl"
  unfolding billing_def by presburger

lemma billing_flag:
  "billing invs ils lds \<Longrightarrow> tbl_find i lds = Some l \<Longrightarrow>
     l_invoiced l \<longleftrightarrow> (\<exists>k il. (k, il) \<in> set ils \<and> il_loadId il = i \<and> live invs il)"
  unfolding billing_def by presburger

definition billed_once :: "db \<Rightarrow> bool" where
  "billed_once s \<longleftrightarrow> billing (invoices s) (invoice_loads s) (loads s)"

lemma billing_Nil: "rows (\<lambda>l. \<not> l_invoiced l) lds \<Longrightarrow> billing invs [] lds"
  by (auto simp: billing_def dest: rows_find)

section \<open>Writes that do not matter to it\<close>

definition load_key :: "load_row \<Rightarrow> uuid \<times> bool" where
  "load_key l = (l_organizationId l, l_invoiced l)"

definition invoice_key :: "invoice_row \<Rightarrow> uuid \<times> bool" where
  "invoice_key r = (i_organizationId r, i_status r = IV_VOID)"

lemma billing_loads:
  assumes "billing invs ils lds"
    and "\<And>i. map_option load_key (tbl_find i lds') = map_option load_key (tbl_find i lds)"
  shows "billing invs ils lds'"
proof -
  have bwd: "\<exists>l. tbl_find i lds = Some l \<and> load_key l = load_key l'" if "tbl_find i lds' = Some l'" for i l'
    using assms(2) [of i] that by (cases "tbl_find i lds") auto
  have "map_option fst (map_option load_key (tbl_find i lds')) = map_option fst (map_option load_key (tbl_find i lds))" for i
    by (simp only: assms(2))
  then have "map_option l_organizationId (tbl_find i lds') = map_option l_organizationId (tbl_find i lds)" for i
    by (simp add: option.map_comp o_def load_key_def)
  then have "linked invs lds' il = linked invs lds il" for il by (simp add: linked_def)
  moreover have "l_invoiced l' \<longleftrightarrow> (\<exists>k il. (k, il) \<in> set ils \<and> il_loadId il = i \<and> live invs il)"
    if "tbl_find i lds' = Some l'" for i l'
  proof -
    from bwd [OF that] obtain l where "tbl_find i lds = Some l" "l_invoiced l = l_invoiced l'"
      by (auto simp: load_key_def)
    then show ?thesis using assms(1) unfolding billing_def by blast
  qed
  ultimately show ?thesis using assms(1) unfolding billing_def by simp
qed

lemma billing_invoices:
  assumes "billing invs ils lds"
    and "\<And>i. map_option invoice_key (tbl_find i invs') = map_option invoice_key (tbl_find i invs)"
  shows "billing invs' ils lds"
proof -
  have "map_option fst (map_option invoice_key (tbl_find i invs')) = map_option fst (map_option invoice_key (tbl_find i invs))" for i
    by (simp only: assms(2))
  then have "map_option i_organizationId (tbl_find i invs') = map_option i_organizationId (tbl_find i invs)" for i
    by (simp add: option.map_comp o_def invoice_key_def)
  then have "linked invs' lds il = linked invs lds il" for il by (simp add: linked_def)
  moreover have live: "live t il \<longleftrightarrow> (case map_option invoice_key (tbl_find (il_invoiceId il) t) of
      None \<Rightarrow> False | Some q \<Rightarrow> \<not> snd q)" for t il
    by (auto simp: live_def invoice_key_def split: option.split)
  have "live invs' il = live invs il" for il by (simp only: live assms(2))
  ultimately show ?thesis using assms(1) unfolding billing_def by simp
qed

text \<open>A new load is on no invoice, because every load on one exists already.\<close>

lemma billing_new_load:
  assumes "billing invs ils lds" and "tbl_find k lds = None" and "\<not> l_invoiced r"
  shows "billing invs ils (tbl_ins k r lds)"
proof -
  have other: "il_loadId il \<noteq> k" if "(j, il) \<in> set ils" for j il
    using assms(1,2) that unfolding billing_def linked_def by fastforce
  have "linked invs (tbl_ins k r lds) il" if "linked invs lds il" for il
    using that by (auto simp: linked_def tbl_find_ins_old)
  moreover have "l_invoiced l \<longleftrightarrow> (\<exists>j il. (j, il) \<in> set ils \<and> il_loadId il = i \<and> live invs il)"
    if "tbl_find i (tbl_ins k r lds) = Some l" for i l
  proof (cases "i = k")
    case True
    then have "l = r" using that assms(2) by (simp add: tbl_find_ins)
    moreover have "\<not> (\<exists>j il. (j, il) \<in> set ils \<and> il_loadId il = i \<and> live invs il)" using other True by auto
    ultimately show ?thesis using assms(3) by simp
  next
    case False
    then have "tbl_find i lds = Some l" using that assms(2) by (simp add: tbl_find_ins)
    then show ?thesis using assms(1) unfolding billing_def by blast
  qed
  ultimately show ?thesis using assms(1) unfolding billing_def by blast
qed

section \<open>Building and voiding an invoice\<close>

lemma billing_create:
  assumes ok: "billing invs ils lds" and fresh: "tbl_find v invs = None" "i_organizationId r = org" "i_status r \<noteq> IV_VOID"
    and rows: "\<And>il. il \<in> set new \<Longrightarrow> il_invoiceId il = v \<and> il_organizationId il = org \<and>
        (\<exists>l. tbl_find (il_loadId il) lds = Some l \<and> l_organizationId l = org \<and> \<not> l_invoiced l)"
    and ids: "distinct (map il_loadId new)" "set (map il_loadId new) = ids"
  shows "billing (tbl_ins v r invs) (tbl_insMany n new ils)
     (tbl_updMany (\<lambda>i l. l_organizationId l = org \<and> i \<in> ids) (\<lambda>l. l\<lparr>l_invoiced := True\<rparr>) lds)"
    (is "billing ?invs ?ils ?lds")
proof -
  have old_inv: "tbl_find i ?invs = tbl_find i invs" if "tbl_find i invs \<noteq> None" for i
    using that by (auto dest: tbl_find_ins_old)
  have v: "tbl_find v ?invs = Some r" using fresh(1) by (simp add: tbl_find_ins)
  have link_old: "linked invs lds il" if "(k, il) \<in> set ils" for k il using ok that by (rule billing_link)
  have live_old: "live ?invs il = live invs il" if "(k, il) \<in> set ils" for k il
    using link_old [OF that] old_inv unfolding live_def linked_def by auto
  have live_new: "live ?invs il" if "il \<in> set new" for il
    using rows [OF that] v fresh(3) by (auto simp: live_def)
  have cases: "(k, il) \<in> set ils \<or> (\<exists>j < length new. k = n + j \<and> il = new ! j)" if "(k, il) \<in> set ?ils" for k il
    using that by (simp add: set_tbl_insMany)
  have free: "\<not> (il_loadId il = il_loadId jl \<and> live invs il)" if "(k, il) \<in> set ils" "jl \<in> set new" for k il jl
    using rows [OF that(2)] ok that(1) unfolding billing_def by fastforce
  have find: "tbl_find i ?lds = map_option (\<lambda>l. if l_organizationId l = org \<and> i \<in> ids then l\<lparr>l_invoiced := True\<rparr> else l) (tbl_find i lds)" for i
    by (simp add: tbl_find_updMany)
  have "linked ?invs ?lds il" if "(k, il) \<in> set ?ils" for k il
    using cases [OF that]
  proof
    assume "(k, il) \<in> set ils"
    then have "linked invs lds il" by (rule link_old)
    then show ?thesis by (auto simp: linked_def map_find_updMany tbl_find_ins_old)
  next
    assume "\<exists>j < length new. k = n + j \<and> il = new ! j"
    then have "il \<in> set new" by auto
    then show ?thesis using rows [of il] v fresh(2) by (auto simp: linked_def map_find_updMany)
  qed
  moreover have "k = j \<and> il = jl" if "(k, il) \<in> set ?ils" "(j, jl) \<in> set ?ils" "live ?invs il" "live ?invs jl" "il_loadId il = il_loadId jl"
    for k il j jl
    using cases [OF that(1)] cases [OF that(2)]
  proof (elim disjE)
    assume old: "(k, il) \<in> set ils" "(j, jl) \<in> set ils"
    then show ?thesis using that(3,4) live_old by (intro billing_unique [OF ok old _ _ that(5)]) simp_all
  next
    assume "(k, il) \<in> set ils" "\<exists>m < length new. j = n + m \<and> jl = new ! m"
    then show ?thesis using free [of k il jl] live_old that(3,5) by auto
  next
    assume "\<exists>m < length new. k = n + m \<and> il = new ! m" "(j, jl) \<in> set ils"
    then show ?thesis using free [of j jl il] live_old that(4,5) by auto
  next
    assume "\<exists>m < length new. k = n + m \<and> il = new ! m" "\<exists>m < length new. j = n + m \<and> jl = new ! m"
    then obtain m m' where m: "m < length new" "k = n + m" "il = new ! m" and m': "m' < length new" "j = n + m'" "jl = new ! m'"
      by blast
    then have "map il_loadId new ! m = map il_loadId new ! m'" using that(5) by simp
    then have "m = m'" using ids(1) m(1) m'(1) by (metis length_map nth_eq_iff_index_eq)
    then show ?thesis using m m' by simp
  qed
  moreover have "l_invoiced l \<longleftrightarrow> (\<exists>k il. (k, il) \<in> set ?ils \<and> il_loadId il = i \<and> live ?invs il)" if "tbl_find i ?lds = Some l" for i l
  proof (cases "i \<in> ids")
    case True
    then obtain il where il: "il \<in> set new" "il_loadId il = i" using ids(2) by auto
    then obtain q where q: "tbl_find i lds = Some q" "l_organizationId q = org" using rows [OF il(1)] by auto
    then have "l_invoiced l" using that True by (auto simp: find)
    moreover obtain m where "m < length new" "new ! m = il" using il(1) by (auto simp: in_set_conv_nth)
    then have "(n + m, il) \<in> set ?ils" by (auto simp: set_tbl_insMany)
    ultimately show ?thesis using il live_new by blast
  next
    case False
    then have l: "tbl_find i lds = Some l" using that by (auto simp: find)
    have "il_loadId il \<noteq> i" if "il \<in> set new" for il using that False ids(2) by auto
    then have down: "(k, il) \<in> set ils" if "(k, il) \<in> set ?ils" "il_loadId il = i" for k il
      using cases [OF that(1)] that(2) nth_mem \<open>\<And>il. il \<in> set new \<Longrightarrow> il_loadId il \<noteq> i\<close> by blast
    have up: "(k, il) \<in> set ?ils" if "(k, il) \<in> set ils" for k il
      using that by (simp add: set_tbl_insMany)
    have "(\<exists>k il. (k, il) \<in> set ?ils \<and> il_loadId il = i \<and> live ?invs il) \<longleftrightarrow> (\<exists>k il. (k, il) \<in> set ils \<and> il_loadId il = i \<and> live invs il)"
      using down up live_old by metis
    then show ?thesis using billing_flag [OF ok l] by blast
  qed
  ultimately show ?thesis by (intro billingI) blast+
qed

lemma billing_void:
  assumes ok: "billing invs ils lds" and r: "tbl_find v invs = Some r" "i_status r \<noteq> IV_VOID" "i_organizationId r = org"
    and ids: "ids = {il_loadId il | k il. (k, il) \<in> set ils \<and> il_organizationId il = org \<and> il_invoiceId il = v}"
  shows "billing (tbl_upd v (\<lambda>r. r\<lparr>i_status := IV_VOID\<rparr>) invs) ils
     (tbl_updMany (\<lambda>i l. l_organizationId l = org \<and> i \<in> ids) (\<lambda>l. l\<lparr>l_invoiced := False\<rparr>) lds)"
    (is "billing ?invs ils ?lds")
proof -
  have live: "live ?invs il \<longleftrightarrow> live invs il \<and> il_invoiceId il \<noteq> v" for il
    using r by (auto simp: live_def tbl_find_upd)
  have find: "tbl_find i ?lds = map_option (\<lambda>l. if l_organizationId l = org \<and> i \<in> ids then l\<lparr>l_invoiced := False\<rparr> else l) (tbl_find i lds)" for i
    by (simp add: tbl_find_updMany)
  have link: "linked invs lds il" if "(k, il) \<in> set ils" for k il using ok that by (rule billing_link)
  have mine: "il_organizationId il = org" if "(k, il) \<in> set ils" "il_invoiceId il = v" for k il
    using link [OF that(1)] that(2) r by (auto simp: linked_def)
  have "linked ?invs ?lds il" if "linked invs lds il" for il
    using that by (simp add: linked_def map_find_updMany map_find_upd)
  moreover have "l_invoiced l \<longleftrightarrow> (\<exists>k il. (k, il) \<in> set ils \<and> il_loadId il = i \<and> live ?invs il)" if "tbl_find i ?lds = Some l" for i l
  proof (cases "i \<in> ids")
    case True
    then obtain k il where il: "(k, il) \<in> set ils" "il_organizationId il = org" "il_invoiceId il = v" "il_loadId il = i"
      using ids by blast
    then have "\<not> l_invoiced l" using that link [OF il(1)] True by (auto simp: find linked_def)
    moreover have "il_invoiceId jl = v" if "(j, jl) \<in> set ils" "il_loadId jl = i" "live invs jl" for j jl
    proof -
      have "live invs il" using r il(3) by (auto simp: live_def)
      then show ?thesis using billing_unique [OF ok that(1) il(1)] that(2,3) il(3,4) by auto
    qed
    ultimately show ?thesis using live by blast
  next
    case False
    then have l: "tbl_find i lds = Some l" using that by (auto simp: find)
    have "il_invoiceId il \<noteq> v" if "(k, il) \<in> set ils" "il_loadId il = i" for k il
      using mine that False ids by blast
    then have "(\<exists>k il. (k, il) \<in> set ils \<and> il_loadId il = i \<and> live ?invs il) \<longleftrightarrow> (\<exists>k il. (k, il) \<in> set ils \<and> il_loadId il = i \<and> live invs il)"
      using live by blast
    then show ?thesis using billing_flag [OF ok l] by blast
  qed
  moreover have "k = j \<and> il = jl" if "(k, il) \<in> set ils" "(j, jl) \<in> set ils" "live ?invs il" "live ?invs jl"
      "il_loadId il = il_loadId jl" for k il j jl
    using that live by (intro billing_unique [OF ok]) simp_all
  ultimately show ?thesis using billing_link [OF ok] by (intro billingI) blast+
qed

section \<open>The requests\<close>

lemma reads_billed: "reads {Invoices, InvoiceLoads, Loads} billed_once"
  by (simp add: reads_def billed_once_def)

lemma billed_off:
  "keeps (only (- {Invoices, InvoiceLoads, Loads})) m \<Longrightarrow> keeps (preserves billed_once) m"
  by (rule preserves_only [OF reads_billed]) auto

lemma billed_writes:
  "(\<And>l. load_key (f l) = load_key l) \<Longrightarrow> keeps (preserves billed_once) (update loads loads_update k f)"
  "(\<And>r. invoice_key (g r) = invoice_key r) \<Longrightarrow> keeps (preserves billed_once) (update invoices invoices_update k g)"
  by (auto simp: keeps_def preserves_def billed_once_def tx_iff map_find_upd intro: billing_loads billing_invoices)

lemma billed_dispatch: "keeps (preserves billed_once) (dispatch_tx org u dr)"
  by (cases dr; simp only: dispatch_tx.simps preserves.keeps_discard;
      (unfold dispatch_def updateDispatch_def recordArrival_def recordDeparture_def rescheduleStop_def
        updateStops_tx_def update_one_stop_def initiateReturn_def logCheckCall_tx_def setRiskStatus_def
        assignDispatcher_def reEvaluateLoadStatus_def Let_def)?;
      (rule billed_writes preserves.keeps_intros billed_off footprint_steps
       | (simp add: load_key_def apply_check_call_def; fail))+)

lemma billed_booking:
  "keeps (preserves billed_once) (updateReferenceNumbers org l rn u)"
  "keeps (preserves billed_once) (linkReturnLoad org l l' u)"
  "keeps (preserves billed_once) (closeLoad org l u)"
  "keeps (preserves billed_once) (cancelLoad org l reason u)"
  "keeps (preserves billed_once) (beginSourcing org l u)"
  "keeps (preserves billed_once) (assignCarrier org l c rate u)"
  "keeps (preserves billed_once) (carrierRejected org l reason u)"
  "keeps (preserves billed_once) (generateRateConfirmation_tx org l u)"
  "keeps (preserves billed_once) (applyScanResult_tx ok org i res prov)"
  unfolding updateReferenceNumbers_def linkReturnLoad_def closeLoad_def cancelLoad_def beginSourcing_def
    assignCarrier_def carrierRejected_def generateRateConfirmation_tx_def applyScanResult_tx_def
    recalculate_for_stop_def recalculatePodStatus_def Let_def
  by ((rule billed_writes preserves.keeps_intros billed_off footprint_linehaul footprint_steps
       | (simp add: load_key_def apply_references_def; fail))+)

lemma billed_loads_created:
  assumes run: "createFromBooking org bp u s = Inr (x, s')" and ok: "billed_once s" and fresh: "tbl_find (next_id s) (loads s) = None"
  shows "billed_once s'"
proof -
  have "only {Loads, Stops, ChargeLineItems, Sequences, AuditLogs, DomainEvents} s s'"
    by (rule keepsD [OF footprint_booking run]) simp
  then have "untouched Invoices s s'" and "untouched InvoiceLoads s s'" by (simp_all only: only_def) blast+
  then show ?thesis
    using billing_new_load [OF ok [unfolded billed_once_def] fresh] booking_writes(1) [OF run]
    by (simp add: billed_once_def new_load_def)
qed

lemma assertCustomerAllowsBooking_frame:
  "assertCustomerAllowsBooking org c cu ok u s = Inr (x, s') \<Longrightarrow> loads s' = loads s \<and> invoices s' = invoices s \<and>
     invoice_loads s' = invoice_loads s \<and> next_id s' = next_id s"
  by (auto simp: assertCustomerAllowsBooking_def tx_iff split: if_splits)

lemma fresh_row:
  "wf_db s \<Longrightarrow> tbl_find (next_id s) (loads s) = None"
  "wf_db s \<Longrightarrow> tbl_find (next_id s) (invoices s) = None"
  unfolding wf_db_def by (elim conjE, rule tbl_find_fresh [OF _ order_refl], assumption)+

lemma billed_created:
  "guards billed_once (createDirect_tx org cld u)" "guards billed_once (convert_tx org q rate ok u)"
proof (rule_tac [!] guardsI)
  fix s x s' assume run: "createDirect_tx org cld u s = Inr (x, s')" and wf: "wf_db s" and ok: "billed_once s"
  have "\<exists>bp s1. createFromBooking org bp u s1 = Inr (x, s') \<and> loads s1 = loads s \<and> invoices s1 = invoices s \<and>
      invoice_loads s1 = invoice_loads s \<and> next_id s1 = next_id s"
    using run unfolding createDirect_tx_def bind_iff andThen_iff require_iff
    by (clarsimp simp: require_customer_def bind_iff findUnique_iff require_iff
        dest!: assertCustomerAllowsBooking_frame resolveRate_pure) blast
  then show "billed_once s'" using ok fresh_row(1) [OF wf] billed_loads_created by (metis billed_once_def)
next
  fix s x s' assume run: "convert_tx org q rate ok u s = Inr (x, s')" and wf: "wf_db s" and inv: "billed_once s"
  have "\<exists>bp s1 y s2. createFromBooking org bp u s1 = Inr (y, s2) \<and> loads s1 = loads s \<and> invoices s1 = invoices s \<and>
      invoice_loads s1 = invoice_loads s \<and> next_id s1 = next_id s \<and> loads s' = loads s2 \<and> invoices s' = invoices s2 \<and>
      invoice_loads s' = invoice_loads s2"
    using run unfolding convert_tx_def bind_iff andThen_iff throw_if_iff
    by (auto simp: require_customer_def require_quote_iff bind_iff findUnique_iff require_iff findMany_iff update_iff
        audit_record_iff run_when_iff ret_iff dest!: assertCustomerAllowsBooking_frame split: if_splits) blast+
  then show "billed_once s'" using inv fresh_row(1) [OF wf] billed_loads_created by (metis billed_once_def)
qed

text \<open>Status changes of an invoice other than voiding it.\<close>

lemma balance_void: "balance_status st remaining paid = IV_VOID \<longleftrightarrow> st = IV_VOID"
  by (simp add: balance_status_def)

lemma billed_status:
  assumes "billed_once s" and "tbl_find i (invoices s) = Some r" and "invoices s' = tbl_upd i f (invoices s)"
    and "invoice_key (f r) = invoice_key r" and "invoice_loads s' = invoice_loads s" and "loads s' = loads s"
  shows "billed_once s'"
  using assms billing_invoices [of "invoices s" "invoice_loads s" "loads s" "tbl_upd i f (invoices s)"]
  by (simp add: billed_once_def tbl_find_upd)

lemma billed_balance: "keeps (preserves billed_once) (recalculateInvoiceBalance org i)"
  unfolding keeps_def preserves_def
proof (intro allI impI)
  fix s x s' assume run: "recalculateInvoiceBalance org i s = Inr (x, s')" and ok: "billed_once s"
  then obtain r st rem where r: "tbl_find i (invoices s) = Some r" and s': "s' = invoices_update (tbl_upd i (set_balance rem
      (balance_status (i_status r) st (js_sum (invoice_payments org i s))))) s"
    by (auto simp: recalculateInvoiceBalance_def tx_iff Let_def)
  show "billed_once s'"
    by (rule billed_status [OF ok r, where f = "set_balance rem
        (balance_status (i_status r) st (js_sum (invoice_payments org i s)))"]) (simp_all add: s' invoice_key_def set_balance_def balance_void)
qed

lemma billed_money:
  "guards billed_once (sendInvoice_tx org i e u)" "guards billed_once (recordPayment org i rp u)"
  "guards billed_once (addAdjustment org i aa u)"
proof -
  show "guards billed_once (sendInvoice_tx org i e u)"
  proof (rule guardsI)
    fix s x s' assume run: "sendInvoice_tx org i e u s = Inr (x, s')" and ok: "billed_once s"
    then obtain r t due where r: "tbl_find i (invoices s) = Some r" "i_status r = IV_DRAFT"
      and s': "invoices s' = tbl_upd i (mark_sent t due) (invoices s)" "invoice_loads s' = invoice_loads s" "loads s' = loads s"
      by (auto simp: sendInvoice_tx_def require_invoice_def create_generated_def findDocumentType_def tx_iff Let_def
          split: option.splits if_splits)
    show "billed_once s'"
      by (rule billed_status [OF ok r(1) s'(1)]) (simp_all add: s' r invoice_key_def mark_sent_def)
  qed
  show "guards billed_once (recordPayment org i rp u)" "guards billed_once (addAdjustment org i aa u)"
    unfolding recordPayment_def addAdjustment_def
    by (rule guards_preserves, (rule billed_balance preserves.keeps_intros billed_off footprint_steps | (simp; fail))+)+
qed

lemma billed_invoice: "guards billed_once (createInvoice org dto u)"
proof (rule guardsI)
  fix s x s' assume run: "createInvoice org dto u s = Inr (x, s')" and wf: "wf_db s" and ok: "billed_once s"
  let ?found = "tbl_where (\<lambda>i l. i \<in> set (cid_loadIds dto) \<and> l_organizationId l = org) (loads s)"
  let ?new = "map (new_invoice_load org (next_id s)) (map (include_charges s) ?found)"
  obtain r where inv: "invoices s' = tbl_ins (next_id s) r (invoices s)" "i_organizationId r = org" "i_status r \<noteq> IV_VOID"
    and ils: "invoice_loads s' = tbl_insMany (Suc (next_id s)) ?new (invoice_loads s)"
    and lds: "loads s' = tbl_updMany (\<lambda>i l. l_organizationId l = org \<and> i \<in> set (cid_loadIds dto)) (\<lambda>l. l\<lparr>l_invoiced := True\<rparr>) (loads s)"
    and len: "length ?found = length (cid_loadIds dto)"
    and open_loads: "\<forall>b \<in> set (map (include_charges s) ?found). \<not> l_invoiced (bl_load b)"
    using run by (auto simp: createInvoice_def writeInvoice_def set_invoiced_def tx_iff Let_def new_invoice_def split: if_splits)
  note fresh = fresh_row(2) [OF wf]
  have keys: "distinct (map fst ?found)" using wf
    by (simp add: tbl_where_def wf_db_def table_ok_def distinct_map_filter)
  have loadIds: "map il_loadId ?new = map fst ?found"
    by (simp add: new_invoice_load_def include_charges_def o_def)
  have "set (map fst ?found) \<subseteq> set (cid_loadIds dto)" by (auto simp: tbl_where_iff)
  moreover have "card (set (cid_loadIds dto)) \<le> card (set (map fst ?found))"
    using distinct_card [OF keys] card_length [of "cid_loadIds dto"] len by simp
  ultimately have ids: "set (map fst ?found) = set (cid_loadIds dto)" by (intro card_seteq) simp_all
  have row: "il_invoiceId il = next_id s \<and> il_organizationId il = org \<and>
      (\<exists>l. tbl_find (il_loadId il) (loads s) = Some l \<and> l_organizationId l = org \<and> \<not> l_invoiced l)" if "il \<in> set ?new" for il
  proof -
    from that obtain i l where il: "(i, l) \<in> set ?found"
      "il = new_invoice_load org (next_id s) (include_charges s (i, l))" by auto
    then have "tbl_find i (loads s) = Some l" "l_organizationId l = org"
      using wf by (auto simp: tbl_where_iff wf_db_def table_ok_def tbl_find_def)
    moreover have "\<not> l_invoiced l" using open_loads il(1) by (fastforce simp: include_charges_def)
    ultimately show ?thesis by (simp add: il(2) new_invoice_load_def include_charges_def)
  qed
  show "billed_once s'" unfolding billed_once_def inv(1) ils lds
    by (rule billing_create [OF ok [unfolded billed_once_def] fresh inv(2,3) row]) (simp_all only: loadIds keys ids)
qed

lemma billed_voided: "guards billed_once (voidInvoice org i u)"
proof (rule guardsI)
  fix s x s' assume run: "voidInvoice org i u s = Inr (x, s')" and ok: "billed_once s"
  let ?ids = "{il_loadId il | k il. (k, il) \<in> set (invoice_loads s) \<and> il_organizationId il = org \<and> il_invoiceId il = i}"
  have ids: "(\<lambda>i. i \<in> set (map (\<lambda>(_, il). il_loadId il)
      (tbl_where (\<lambda>_ il. il_organizationId il = org \<and> il_invoiceId il = i') (invoice_loads s)))) =
      (\<lambda>i. i \<in> {il_loadId il | k il. (k, il) \<in> set (invoice_loads s) \<and> il_organizationId il = org \<and> il_invoiceId il = i'})" for i'
    by (force simp: tbl_where_def)
  obtain r where r: "tbl_find i (invoices s) = Some r" "i_status r \<noteq> IV_VOID" "i_organizationId r = org"
    and s': "invoices s' = tbl_upd i (\<lambda>r. r\<lparr>i_status := IV_VOID\<rparr>) (invoices s)" "invoice_loads s' = invoice_loads s"
      "loads s' = tbl_updMany (\<lambda>i l. l_organizationId l = org \<and> i \<in> ?ids) (\<lambda>l. l\<lparr>l_invoiced := False\<rparr>) (loads s)"
    using run by (auto simp: voidInvoice_def require_invoice_def set_invoiced_def tx_iff Let_def ids [of i, THEN fun_cong]
        simp del: set_map split: option.splits if_splits)
  show "billed_once s'" unfolding billed_once_def s'
    by (rule billing_void [OF ok [unfolded billed_once_def] r]) simp
qed

interpretation billed: deployment_invariant billed_once "{Invoices, InvoiceLoads, Loads}"
proof
  show "guards billed_once (request_tx pd org u req)"
    if "{Invoices, InvoiceLoads, Loads} \<inter> footprint_of req \<noteq> {}" for pd org u req
    using that
    by (cases req; simp add: guards_preserves billed_dispatch; rename_tac r; case_tac r;
        simp add: logged_def guards_preserves billed_booking billed_created billed_money billed_invoice billed_voided)
  show "billed_once s" if "fresh_db s" for s
    using that by (simp add: fresh_db_def billed_once_def billing_Nil)
qed (simp_all add: reads_billed)

end
