(* ===== verification/Scenario.thy ===== *)
theory Scenario
  imports Controls LoadStates PlanLimits Billing
begin

text \<open>
  A small deployment and a few runs of it, evaluated request by request, so that the invariants
  of a deployment can be read off states that really hold loads, invoices, quotes and documents.
\<close>

definition small_db :: db where
  "small_db = blank_db\<lparr>organizations := [(1, demo_org)], customers := [(50, demo_customer CU_ACTIVE)],
     document_types := [(20, demo_type ''W9'' True)]\<rparr>"

definition small_world :: world where
  "small_world = \<lparr>w_db = small_db, w_jobs = [], w_queue_up = True\<rparr>"

definition office :: "request_context option" where
  "office = Some \<lparr>rc_userId = Some 7, rc_requestId = ''r'', rc_roles = [ADMIN]\<rparr>"

text \<open>Requests of organization 1, served one second apart.\<close>

definition serve :: "(uuid \<times> request) list \<Rightarrow> world \<Rightarrow> world" where
  "serve reqs w = foldl (\<lambda>w (u, req). handle (\<lambda>_. 0) 1 u req (begin_request (clock (w_db w) + 1000) office w)) w reqs"

lemma serve_steps: "rtranclp (step (\<lambda>_. 0)) w (serve reqs w)"
proof (induction reqs arbitrary: w)
  case (Cons p reqs)
  obtain u req where p: "p = (u, req)" by (cases p)
  have "step (\<lambda>_. 0) w (handle (\<lambda>_. 0) 1 u req (begin_request (clock (w_db w) + 1000) office w))"
    by (rule step.served) simp
  then show ?case using Cons.IH by (simp add: serve_def p converse_rtranclp_into_rtranclp)
qed (simp add: serve_def)

lemma small_fresh: "fresh_db small_db"
  by (simp add: fresh_db_def small_db_def blank_db_def wf_db_def table_ok_def)

lemma small_reachable: "reachable (\<lambda>_. 0) (serve reqs small_world)"
  using serve_steps [of small_world reqs]
proof (induction rule: rtranclp_induct)
  case base
  show ?case using small_fresh by (intro reachable.start) (simp add: small_world_def)
next
  case (step w w')
  then show ?case by (blast intro: reachable.step)
qed

text \<open>No request writes to the table of organizations.\<close>

lemma handle_organizations: "organizations (w_db (handle pd org u req w)) = organizations (w_db w)"
proof -
  have "Organizations \<notin> footprint_of req"
    by (cases req; rename_tac r; case_tac r) (simp_all add: logged_def)
  then show ?thesis using handle_only [of req w pd org u] unfolding only_def by (metis untouched.simps(1))
qed

lemma serve_organizations: "organizations (w_db (serve reqs w)) = organizations (w_db w)"
proof (induction reqs arbitrary: w)
  case (Cons p reqs)
  obtain u req where p: "p = (u, req)" by (cases p)
  have "organizations (w_db (serve (p # reqs) w)) =
      organizations (w_db (serve reqs (handle (\<lambda>_. 0) 1 u req (begin_request (clock (w_db w) + 1000) office w))))"
    by (simp add: serve_def p)
  then show ?case by (simp add: Cons.IH handle_organizations begin_request_db)
qed (simp add: serve_def)

section \<open>Request bodies\<close>

definition demo_stop :: "int \<Rightarrow> stop_type \<Rightarrow> load_stop_input" where
  "demo_stop n ty =
     \<lparr>lsi_sequence = n, lsi_stopType = ty, lsi_customerLocationId = None, lsi_companyName = None,
      lsi_addressLine1 = None, lsi_city = ''Omaha'', lsi_state = ''NE'', lsi_zip = ''68101'',
      lsi_appointmentDatetime = None, lsi_contactName = None, lsi_contactPhone = None, lsi_notes = None\<rparr>"

definition demo_load_dto :: create_load_dto where
  "demo_load_dto =
     \<lparr>cld_customerId = 50, cld_stops = [demo_stop 1 ST_PICKUP, demo_stop 2 ST_DELIVERY],
      cld_equipmentType = DRY_VAN, cld_customerRate = 150000, cld_references = no_references,
      cld_confirmInactiveCustomerOverride = False\<rparr>"

definition demo_quote_stop :: "int \<Rightarrow> stop_type \<Rightarrow> quote_stop_input" where
  "demo_quote_stop n ty =
     \<lparr>qsi_sequence = n, qsi_stopType = ty, qsi_addressCity = ''Omaha'', qsi_addressState = ''NE'',
      qsi_addressZip = ''68101'', qsi_appointmentNotes = None\<rparr>"

definition demo_quote_dto :: create_quote_dto where
  "demo_quote_dto =
     \<lparr>cqd_customerId = 50, cqd_stops = [demo_quote_stop 1 ST_PICKUP, demo_quote_stop 2 ST_DELIVERY],
      cqd_equipmentType = DRY_VAN, cqd_customerRate = 90000, cqd_expirationDate = None\<rparr>"

definition demo_upload :: create_document_dto where
  "demo_upload =
     \<lparr>cdd_entityType = DE_CUSTOMER, cdd_entityId = 50, cdd_documentTypeId = 20, cdd_customTypeLabel = None,
      cdd_fileName = ''scan.pdf'', cdd_mimeType = ''application/pdf'', cdd_fileSizeBytes = 1,
      cdd_existingDocumentFamilyId = None, cdd_expirationDate = None\<rparr>"

definition demo_invoice_dto :: "uuid list \<Rightarrow> create_invoice_dto" where
  "demo_invoice_dto loadIds = \<lparr>cid_customerId = 50, cid_loadIds = loadIds, cid_podWarningAcknowledged = True\<rparr>"

text \<open>A carrier payment one member has prepared and submitted.\<close>

definition pending_payment :: carrier_payment_row where
  "pending_payment = (new_carrier_payment 1 60 40
     \<lparr>ccp_paymentType = CPT_BALANCE, ccp_amount = 100, ccp_method = Some ''ACH'', ccp_referenceNumber = Some ''R'',
      ccp_notes = None\<rparr> 7 0)\<lparr>cp_status := CP_PENDING_APPROVAL\<rparr>"

section \<open>Runs\<close>

text \<open>A load booked, closed and invoiced.\<close>

definition billing_run :: "(uuid \<times> request) list" where
  "billing_run = [(7, BookingRequest (CreateLoad demo_load_dto)), (7, BookingRequest (CloseLoad 100)),
     (7, MoneyRequest (CreateInvoice (demo_invoice_dto [100])))]"

text \<open>A document of a customer uploaded by one member and approved by another.\<close>

definition review_run :: "(uuid \<times> request) list" where
  "review_run = [(7, DocumentRequest (InitiateUpload demo_upload)), (8, DocumentRequest (ReviewDocument 101 APPROVED None))]"

text \<open>A quote given and lost.\<close>

definition quote_run :: "(uuid \<times> request) list" where
  "quote_run = [(7, BookingRequest (CreateQuote demo_quote_dto)), (7, BookingRequest (MarkQuoteLost 100 ''price''))]"

text \<open>A carrier added, the first of the two the plan allows.\<close>

definition carrier_run :: "(uuid \<times> request) list" where
  "carrier_run = [(7, CarrierRequest (CreateCarrier demo_carrier_dto))]"

definition carrier_added_world :: world where
  "carrier_added_world = serve carrier_run small_world"

text \<open>The equations that evaluate a run: the store, the demo data, and the operations of each run.\<close>

lemmas evaluation =
  tx_run serve_def begin_request_def discard_def withTenantTransaction_def trim_def day_ms_def start_of_day_def tbl_find_def tbl_ins_def tbl_insMany_def
  tbl_updMany_def tbl_del_def tbl_where_def tbl_first_def js_set_def small_world_def
  small_db_def blank_db_def demo_org_def demo_customer_def demo_type_def office_def Let_def

lemmas evaluation_booking =
  active_agreement_def add_jobs_def assertCanCreateOperationalRecord_def
  assertCustomerAllowsBooking_def assertNotExpired_def charge_label_def checklist_entry_def
  closeLoad_def createDirect_def createDirect_tx_def createFromBooking_def createInvoice_def
  createOriginalCustomerLinehaulCharge_def customer_side_def document_code_def double_scale_def
  enqueueStopLocationResolution_def evaluateClosingChecklist_def findLinehaulType_def
  findMatch_def firstPickup_def include_charges_def incomplete_pod_def js_add_def js_number_def
  js_sub_def js_sum_def json_checklist_item_def lane_matches_def lastDelivery_def
  lineItemsData_def line_total_def linehaul_charge_def loadTotal_def new_invoice_def
  new_invoice_load_def new_load_def new_stop_def readOrganizationSubscription_def
  remaining_carrier_balance_def require_customer_def require_load_def resolveEffectiveStatus_def
  resolveRate_def round_double_def round_half_even_def round_pos_def sequence_current_def
  set_invoiced_def stop_location_job_def then_enqueue_def toFixed2_def withTenantTransaction_def
  writeInvoice_def

lemmas evaluation_documents =
  ADMIN_VISIBILITY_ROLES_def CARRIER_DOCUMENT_UPLOAD_ROLES_def POD_UPLOAD_ROLES_def
  RATE_CONFIRMATION_INTAKE_UPLOAD_ROLES_def REQUIRED_COMPLIANCE_CODES_def
  SUPPORTED_ENTITY_TYPES_def active_with_role_def assertEntityExists_def
  assertUploadPermission_def buildDocumentKey_def check_stop_document_def compliance_docs_def
  computeComplianceReasons_def current_roles_def document_code_def document_reasons_def
  exists_in_def fmcsa_reasons_def has_role_def initiateUpload_tx_def insurance_reasons_def
  isAcceptableFmcsaResult_def labelFor_def latest_fmcsa_def new_document_def next_version_def
  notification_of_def notify_once_def recalculate_def rejection_message_def require_document_def
  require_roles_def required_stop_type_def requires_review_def review_def role_members_def
  status_reasons_def upload_action_def valid_coverage_def reviewed_def

lemmas evaluation_quotes =
  active_agreement_def assertCanCreateOperationalRecord_def assertNotExpired_def
  defaultExpirationDate_def findMatch_def firstQuotePickup_def lane_matches_def
  lastQuoteDelivery_def markLost_def new_quote_def new_quote_stop_def quote_create_def
  readOrganizationSubscription_def require_customer_def require_quote_def
  resolveEffectiveStatus_def resolveRate_def sequence_current_def

lemma billing_run_result:
  "(let s = w_db (serve billing_run small_world) in
     (map (\<lambda>(i, l). (i, l_status l, l_invoiced l, l_loadNumber l)) (loads s),
      map (\<lambda>(i, r). (i, i_status r)) (invoices s), map (\<lambda>(i, il). (i, il_invoiceId il, il_loadId il)) (invoice_loads s),
      map (\<lambda>(i, p). (i, s_status p)) (stops s))) =
   ([(100, CLOSED, True, format SEQ_LOAD 1)], [(103, IV_DRAFT)], [(104, 103, 100)], [(101, SS_PENDING), (102, SS_PENDING)])"
  by (simp add: evaluation evaluation_booking billing_run_def demo_load_dto_def demo_stop_def no_references_def
      demo_invoice_dto_def del: One_nat_def)

lemma review_run_result:
  "map (\<lambda>(i, d). (i, doc_reviewStatus d, doc_reviewedByUserId d, doc_uploadedByUserId d))
     (documents (w_db (serve review_run small_world))) = [(101, Some RV_APPROVED, Some 8, 7)]"
  by (simp add: evaluation evaluation_documents review_run_def demo_upload_def del: One_nat_def)

lemma quote_run_result:
  "map (\<lambda>(i, q). (i, q_status q, q_lossReason q)) (quotes (w_db (serve quote_run small_world))) =
     [(100, QS_LOST, Some ''price'')]"
  by (simp add: evaluation evaluation_quotes quote_run_def demo_quote_dto_def demo_quote_stop_def del: One_nat_def)

text \<open>The rows those runs leave, one by one.\<close>

lemma rows_in_find: "rows_in sel P s \<Longrightarrow> tbl_find k (sel s) = Some r \<Longrightarrow> P r"
  unfolding rows_in_def by (rule rows_find)

lemma rows_inI: "(\<And>k r. (k, r) \<in> set (sel s) \<Longrightarrow> P r) \<Longrightarrow> rows_in sel P s"
  by (auto simp: rows_in_def rows_def)

lemma map_single: "map (\<lambda>(i, r). (i, f r)) t = [(k, y)] \<Longrightarrow> \<exists>r. t = [(k, r)] \<and> f r = y"
  by (cases t) auto

definition billed_world :: world where
  "billed_world = serve billing_run small_world"

definition reviewed_world :: world where
  "reviewed_world = serve review_run small_world"

definition lost_world :: world where
  "lost_world = serve quote_run small_world"

lemma scenario_reachable:
  "reachable (\<lambda>_. 0) billed_world" "reachable (\<lambda>_. 0) reviewed_world" "reachable (\<lambda>_. 0) lost_world"
  by (simp_all add: billed_world_def reviewed_world_def lost_world_def small_reachable)

lemma billed_world_load:
  "\<exists>l. loads (w_db billed_world) = [(100, l)] \<and> l_status l = CLOSED \<and> l_invoiced l \<and> l_loadNumber l = format SEQ_LOAD 1"
  using billing_run_result by (auto simp: Let_def billed_world_def dest!: map_single)

lemma billed_world_invoice:
  "\<exists>r il. invoices (w_db billed_world) = [(103, r)] \<and> i_status r = IV_DRAFT \<and>
     invoice_loads (w_db billed_world) = [(104, il)] \<and> il_invoiceId il = 103 \<and> il_loadId il = 100"
  using billing_run_result by (auto simp: Let_def billed_world_def dest!: map_single)

lemma billed_world_stops:
  "\<exists>p q. stops (w_db billed_world) = [(101, p), (102, q)] \<and> s_status p = SS_PENDING"
  using billing_run_result by (auto simp: Let_def billed_world_def map_eq_Cons_conv)

lemma reviewed_world_document:
  "\<exists>d. documents (w_db reviewed_world) = [(101, d)] \<and> doc_reviewStatus d = Some RV_APPROVED \<and>
     doc_reviewedByUserId d = Some 8 \<and> doc_uploadedByUserId d = 7"
  using map_single [OF review_run_result] by (auto simp: reviewed_world_def)

lemma lost_world_quote:
  "\<exists>q. quotes (w_db lost_world) = [(100, q)] \<and> q_status q = QS_LOST \<and> q_lossReason q = Some ''price''"
  using map_single [OF quote_run_result] by (auto simp: lost_world_def)

end
