(* ===== verification/MoneyProperties.thy ===== *)
theory MoneyProperties
  imports Scenario
begin

text \<open>
  The money theorems: what invoices, payments and carrier balances come to exactly although the
  code computes them in floating point, where it does not, and the round trip of billing.
\<close>

section \<open>Balances\<close>

lemma approx_sign:
  assumes "approx n v c" and "n \<le> 4500"
  shows "0 < c \<Longrightarrow> 0 < v" and "c < 0 \<Longrightarrow> v < 0"
proof -
  have "of_nat n \<le> (of_nat 4500 :: rat)" using assms(2) by (simp only: of_nat_le_iff)
  then have "of_nat n * err_unit \<le> 4500 * err_unit" using err_unit_pos by simp
  also have "\<dots> < 1 / 200" by (simp add: err_unit_def)
  finally have near: "\<bar>v - of_int c / 100\<bar> < 1 / 200" using assms(1) unfolding approx_def by linarith
  show "0 < v" if "0 < c"
  proof -
    have "(1 :: rat) \<le> of_int c" using that by simp
    then show ?thesis using near by linarith
  qed
  show "v < 0" if "c < 0"
  proof -
    have "(of_int c :: rat) \<le> of_int (- 1)" using that by (simp only: of_int_le_iff)
    then show ?thesis using near by linarith
  qed
qed

lemma sum_abs_bound: "\<bar>sum_list cs\<bar> \<le> sum_list (map abs (cs :: int list))"
  by (induction cs) auto

lemma remaining_approx:
  assumes len: "length paid + length credits + length debits \<le> 1000"
    and size: "\<bar>invoiceTotal\<bar> + sum_list (map abs paid) + sum_list (map abs credits) + sum_list (map abs debits) \<le> 10 ^ 12"
  shows "approx (7 + 3 * (length paid + length credits + length debits)) (remaining_of invoiceTotal paid credits debits)
           (invoiceTotal - sum_list paid - sum_list credits + sum_list debits)"
proof -
  note bounds = sum_abs_bound [of paid] sum_abs_bound [of credits] sum_abs_bound [of debits]
  have sums: "approx (3 * length paid) (js_sum paid) (sum_list paid)" "approx (3 * length credits) (js_sum credits) (sum_list credits)"
      "approx (3 * length debits) (js_sum debits) (sum_list debits)"
    by (rule js_sum_approx; use len size bounds in linarith)+
  have a: "approx 1 (js_number invoiceTotal) invoiceTotal"
    by (rule approx_number) (use size bounds in \<open>simp add: in_column_def\<close>)
  have b: "approx (1 + 3 * length paid + 2) (js_sub (js_number invoiceTotal) (js_sum paid)) (invoiceTotal - sum_list paid)"
    by (rule approx_sub [OF a sums(1)]) (use len size bounds in \<open>auto simp: in_column_def\<close>)
  have c: "approx (1 + 3 * length paid + 2 + 3 * length credits + 2)
      (js_sub (js_sub (js_number invoiceTotal) (js_sum paid)) (js_sum credits)) (invoiceTotal - sum_list paid - sum_list credits)"
    by (rule approx_sub [OF b sums(2)]) (use len size bounds in \<open>auto simp: in_column_def\<close>)
  have d: "approx (1 + 3 * length paid + 2 + 3 * length credits + 2 + 3 * length debits + 2)
      (remaining_of invoiceTotal paid credits debits) (invoiceTotal - sum_list paid - sum_list credits + sum_list debits)"
    unfolding remaining_of_def
    by (rule approx_add [OF c sums(3)]) (use len size bounds in \<open>auto simp: in_column_def\<close>)
  show ?thesis by (rule approx_mono [OF d]) simp
qed

text \<open>What is left of an invoice: the total less payments and credits, plus debits.\<close>

definition owed :: "uuid \<Rightarrow> uuid \<Rightarrow> cents \<Rightarrow> db \<Rightarrow> cents" where
  "owed org i invoiceTotal s = invoiceTotal - sum_list (invoice_payments org i s) -
     sum_list (invoice_adjustments org i CREDIT s) + sum_list (invoice_adjustments org i DEBIT s)"

definition of_column_size :: "uuid \<Rightarrow> uuid \<Rightarrow> cents \<Rightarrow> db \<Rightarrow> bool" where
  "of_column_size org i invoiceTotal s \<longleftrightarrow>
     length (invoice_payments org i s) + length (invoice_adjustments org i CREDIT s) +
       length (invoice_adjustments org i DEBIT s) \<le> 1000 \<and>
     \<bar>invoiceTotal\<bar> + sum_list (map abs (invoice_payments org i s)) +
       sum_list (map abs (invoice_adjustments org i CREDIT s)) +
       sum_list (map abs (invoice_adjustments org i DEBIT s)) \<le> 10 ^ 12"

lemma recalculate_balance_run:
  "recalculateInvoiceBalance org i s = Inr ((balance, status), s') \<Longrightarrow> tbl_find i (invoices s) = Some r \<Longrightarrow>
     (let v = remaining_of (i_total r) (invoice_payments org i s) (invoice_adjustments org i CREDIT s)
                (invoice_adjustments org i DEBIT s) in
      balance = toFixed2 v \<and> status = balance_status (i_status r) v (js_sum (invoice_payments org i s)) \<and>
      s' = invoices_update (tbl_upd i (set_balance balance status)) s)"
  by (auto simp: recalculateInvoiceBalance_def tx_iff Let_def)

lemma balance_views [simp]:
  "invoice_payments org i (invoices_update f s) = invoice_payments org i s"
  "invoice_adjustments org i k (invoices_update f s) = invoice_adjustments org i k s"
  "invoice_payments org i (recorded e s) = invoice_payments org i s"
  "invoice_adjustments org i k (recorded e s) = invoice_adjustments org i k s"
  by (simp_all add: invoice_payments_def invoice_adjustments_def)

lemma recordPayment_run:
  assumes "recordPayment org i dto u s = Inr ((pid, p, balance, status), s')" and "tbl_find i (invoices s) = Some r"
  defines "v \<equiv> remaining_of (i_total r) (invoice_payments org i s') (invoice_adjustments org i CREDIT s')
                (invoice_adjustments org i DEBIT s')"
  shows "balance = toFixed2 v \<and> status = balance_status (i_status r) v (js_sum (invoice_payments org i s')) \<and>
     i_status r \<in> {IV_SENT, IV_PARTIALLY_PAID} \<and> p = new_payment org i dto u \<and> payments s' = tbl_ins pid p (payments s) \<and>
     tbl_find i (invoices s') = Some (set_balance balance status r)"
  using assms(1,2) unfolding v_def
  by (auto simp: recordPayment_def require_invoice_def tx_iff Let_def tbl_find_upd
      dest!: recalculate_balance_run split: option.splits if_splits)

text \<open>
  C18. A payment leaves the exact balance. After a payment is recorded, and as long as the amounts
  are of the size of the columns and all payments positive, the remaining balance is to the cent
  the invoice total less payments and credits plus debits; a positive balance makes the invoice
  partially paid and a negative one makes it paid.
\<close>

theorem payment_balance_exact:
  assumes "recordPayment org i dto u s = Inr ((pid, p, balance, status), s')" and "tbl_find i (invoices s) = Some r"
    and "of_column_size org i (i_total r) s'" and "0 < sum_list (invoice_payments org i s')"
  shows "balance = owed org i (i_total r) s' \<and>
     map_option i_remainingBalance (tbl_find i (invoices s')) = Some balance \<and>
     (0 < balance \<longrightarrow> status = IV_PARTIALLY_PAID) \<and> (balance < 0 \<longrightarrow> status = IV_PAID)"
proof -
  let ?paid = "invoice_payments org i s'" and ?credits = "invoice_adjustments org i CREDIT s'"
    and ?debits = "invoice_adjustments org i DEBIT s'"
  let ?v = "remaining_of (i_total r) ?paid ?credits ?debits"
  have run: "balance = toFixed2 ?v" "status = balance_status (i_status r) ?v (js_sum ?paid)"
      "i_status r \<in> {IV_SENT, IV_PARTIALLY_PAID}" "tbl_find i (invoices s') = Some (set_balance balance status r)"
    using recordPayment_run [OF assms(1,2)] by simp_all
  have size: "length ?paid + length ?credits + length ?debits \<le> 1000"
      "\<bar>i_total r\<bar> + sum_list (map abs ?paid) + sum_list (map abs ?credits) + sum_list (map abs ?debits) \<le> 10 ^ 12"
    using assms(3) by (simp_all add: of_column_size_def)
  have v: "approx (7 + 3 * (length ?paid + length ?credits + length ?debits)) ?v (owed org i (i_total r) s')"
    unfolding owed_def by (rule remaining_approx [OF size])
  have small: "7 + 3 * (length ?paid + length ?credits + length ?debits) \<le> 4500" using size(1) by simp
  have balance: "balance = owed org i (i_total r) s'" unfolding run(1) by (rule toFixed2_approx [OF v small])
  have abs_nonneg: "0 \<le> sum_list (map abs (cs :: int list))" for cs by (induction cs) auto
  have "approx (3 * length ?paid) (js_sum ?paid) (sum_list ?paid)"
    by (rule js_sum_approx; use size abs_nonneg [of ?credits] abs_nonneg [of ?debits] in linarith)
  then have "0 < js_sum ?paid" by (rule approx_sign(1)) (use size(1) assms(4) in simp_all)
  then show ?thesis
    using run(2-4) balance approx_sign [OF v small] by (auto simp: balance_status_def set_balance_def)
qed

definition demo_invoice :: "invoice_status \<Rightarrow> cents \<Rightarrow> invoice_row" where
  "demo_invoice st amount = (new_invoice 1 ''INV-000001'' 50 amount 7 0)\<lparr>i_status := st\<rparr>"

definition invoice_db :: "cents \<Rightarrow> db" where
  "invoice_db amount = small_db\<lparr>invoices := [(90, demo_invoice IV_SENT amount)]\<rparr>"

definition demo_payment_dto :: "cents \<Rightarrow> record_payment_dto" where
  "demo_payment_dto amount = \<lparr>rp_amount = amount, rp_paymentDate = 0, rp_method = ''ACH'',
     rp_referenceNumber = None, rp_notes = None\<rparr>"

lemmas payment_evaluation = recordPayment_def require_invoice_def recalculateInvoiceBalance_def invoice_db_def small_db_def
  blank_db_def demo_invoice_def new_invoice_def demo_payment_dto_def new_payment_def invoice_payments_def
  invoice_adjustments_def tx_run tbl_find_def tbl_ins_def tbl_where_def Let_def start_of_day_def day_ms_def

lemma payment_recorded:
  "\<exists>p status s'. recordPayment 1 90 (demo_payment_dto 4000) 7 (invoice_db 10000) =
       Inr ((100, p, toFixed2 (remaining_of 10000 [4000] [] []), status), s') \<and>
     invoice_payments 1 90 s' = [4000] \<and> invoice_adjustments 1 90 CREDIT s' = [] \<and> invoice_adjustments 1 90 DEBIT s' = []"
  by (simp add: payment_evaluation)

theorem payment_balance_exact_witness:
  "\<exists>p s'. recordPayment 1 90 (demo_payment_dto 4000) 7 (invoice_db 10000) = Inr ((100, p, 6000, IV_PARTIALLY_PAID), s')"
proof -
  obtain p status s' where run: "recordPayment 1 90 (demo_payment_dto 4000) 7 (invoice_db 10000) =
       Inr ((100, p, toFixed2 (remaining_of 10000 [4000] [] []), status), s')"
      and views: "invoice_payments 1 90 s' = [4000]" "invoice_adjustments 1 90 CREDIT s' = []" "invoice_adjustments 1 90 DEBIT s' = []"
    using payment_recorded by blast
  have r: "tbl_find 90 (invoices (invoice_db 10000)) = Some (demo_invoice IV_SENT 10000)"
    by (simp add: invoice_db_def tbl_find_def)
  have "toFixed2 (remaining_of 10000 [4000] [] []) = 6000 \<and> status = IV_PARTIALLY_PAID"
    using payment_balance_exact [OF run r] views
    by (simp add: of_column_size_def owed_def demo_invoice_def new_invoice_def)
  then show ?thesis using run by auto
qed

section \<open>Rounding evaluated\<close>

lemma scaled_lt:
  assumes "0 < x"
  shows "x * pow2 (double_scale x) < 2 ^ 53"
proof -
  obtain p q where pq: "quotient_of x = (p, q)" by (cases "quotient_of x")
  then have q: "0 < q" and x: "x = of_int p / of_int q"
    using quotient_of_denom_pos quotient_of_div by blast+
  then have p: "0 < p" using assms by (simp add: zero_less_divide_iff)
  obtain m where m: "bitlen p = int (Suc m)" "(of_int p :: rat) < 2 ^ Suc m" using bitlen_bounds [OF p] by blast
  obtain n where n: "bitlen q = int (Suc n)" "2 ^ n \<le> (of_int q :: rat)" using bitlen_bounds [OF q] by blast
  let ?k = "53 - (bitlen p - bitlen q)"
  have k: "pow2 ?k = 2 ^ (53 + n) / 2 ^ m"
    using pow2_diff [of "53 + n" m] by (simp add: m n algebra_simps)
  have "x * pow2 ?k < 2 ^ Suc m / 2 ^ n * (2 ^ (53 + n) / 2 ^ m)"
    unfolding k x using m(2) n(2) q p by (intro mult_strict_right_mono frac_less) auto
  also have "\<dots> = 2 ^ 54" by (simp add: power_add)
  finally have "x * pow2 ?k < 2 ^ 54" .
  show ?thesis
  proof (cases "2 ^ 53 \<le> x * pow2 ?k")
    case True
    then have "double_scale x = ?k - 1" by (simp add: double_scale_def pq Let_def)
    moreover have "x * pow2 (?k - 1) < 2 ^ 53" using \<open>x * pow2 ?k < 2 ^ 54\<close> unfolding pow2_minus_one by simp
    ultimately show ?thesis by (simp only:)
  next
    case False
    then have "double_scale x = ?k" by (simp add: double_scale_def pq Let_def)
    then show ?thesis using False by (simp only: not_le)
  qed
qed

lemma pow2_mono: "j < k \<Longrightarrow> 2 * pow2 j \<le> pow2 k"
proof -
  assume "j < k"
  then obtain d where k: "k = j + int (Suc d)" by (metis zless_iff_Suc_zadd)
  have add: "pow2 (j + int e) = pow2 j * 2 ^ e" for e
  proof (induction e)
    case (Suc e)
    have "pow2 (j + int e) = pow2 (j + int (Suc e)) / 2"
      using pow2_minus_one [of "j + int (Suc e)"] by (simp add: algebra_simps)
    then show ?case using Suc by simp
  qed simp
  have "(1 :: rat) \<le> 2 ^ d" by simp
  then have "2 * pow2 j * 1 \<le> 2 * pow2 j * 2 ^ d" by (intro mult_left_mono) (simp_all add: order_less_imp_le)
  then show ?thesis unfolding k add by simp
qed

lemma scale_unique:
  assumes "2 ^ 52 \<le> x * pow2 k" and "x * pow2 k < 2 ^ 53"
  shows "double_scale x = k"
proof -
  have x: "0 < x" using assms(1) pow2_pos [of k]
    by (metis less_le_trans zero_less_mult_pos2 zero_less_numeral zero_less_power)
  let ?j = "double_scale x"
  have twice: "x * pow2 b < 2 * (x * pow2 a) \<Longrightarrow> \<not> a < b" for a b
  proof
    assume l: "x * pow2 b < 2 * (x * pow2 a)" and "a < b"
    then have "x * (2 * pow2 a) \<le> x * pow2 b" using pow2_mono x by (intro mult_left_mono) simp_all
    then show False using l by simp
  qed
  have "\<not> ?j < k" and "\<not> k < ?j"
    by (rule twice; use assms scaled_ge [OF x] scaled_lt [OF x] in simp)+
  then show ?thesis by simp
qed

lemma round_double_eq:
  assumes "2 ^ 52 \<le> x * pow2 k" and "x * pow2 k < 2 ^ 53" and "0 < x" and "\<bar>x * pow2 k - of_int n\<bar> < 1 / 2"
  shows "round_double x = of_int n / pow2 k"
proof -
  have "\<bar>of_int (round_half_even (x * pow2 k)) - of_int n\<bar> < (1 :: rat)"
    using round_half_even_error [of "x * pow2 k"] assms(4) by linarith
  then have "(of_int \<bar>round_half_even (x * pow2 k) - n\<bar> :: rat) < of_int 1" by simp
  then have "\<bar>round_half_even (x * pow2 k) - n\<bar> < 1" by (simp only: of_int_less_iff)
  then have "round_half_even (x * pow2 k) = n" by simp
  then show ?thesis using assms(3) by (simp add: round_double_def round_pos_def scale_unique [OF assms(1,2)])
qed

lemma round_double_positive: "0 < x \<Longrightarrow> 0 < round_double x"
proof -
  assume x: "0 < x"
  then have "x / 2 ^ 53 \<le> x / 2" by simp
  moreover have "\<bar>round_double x - x\<bar> \<le> x / 2 ^ 53" using round_double_error [of x] x by (simp only: abs_of_pos)
  ultimately show ?thesis using x by linarith
qed

lemma numbers_of_cents:
  "js_number 10 = 7205759403792794 / 2 ^ 56" "js_number 80 = 7205759403792794 / 2 ^ 53"
  "js_number 70 = 6305039478318694 / 2 ^ 53"
  using round_double_eq [of "1 / 10" 56 7205759403792794] round_double_eq [of "7 / 10" 53 6305039478318694]
    round_double_eq [of "4 / 5" 53 7205759403792794]
  by (simp_all add: js_number_def pow2_def)

lemma sum_of_cents: "js_sum [10] = 7205759403792794 / 2 ^ 56" "js_sum [10, 70] = 7205759403792793 / 2 ^ 53"
proof -
  have a: "js_add 0 (js_number 10) = 7205759403792794 / 2 ^ 56"
    using round_double_eq [of "7205759403792794 / 2 ^ 56" 56 7205759403792794]
    by (simp add: js_add_def numbers_of_cents pow2_def)
  then show "js_sum [10] = 7205759403792794 / 2 ^ 56" by (simp only: js_sum_def foldl_Cons foldl_Nil)
  show "js_sum [10, 70] = 7205759403792793 / 2 ^ 53"
    using round_double_eq [of "7205759403792794 / 2 ^ 56 + 6305039478318694 / 2 ^ 53" 53 7205759403792793]
    unfolding js_sum_def foldl_Cons foldl_Nil a by (simp add: js_add_def numbers_of_cents pow2_def)
qed

text \<open>
  C19. The last payment can fail to settle. An invoice over 0.80 paid with 0.10 and then 0.70 is
  left with a balance of 0.00 and the status partially paid, because the code compares the
  unrounded floating-point remainder with zero.
\<close>

theorem paid_in_full_stays_partially_paid:
  "\<exists>x s1 p s2. recordPayment 1 90 (demo_payment_dto 10) 7 (invoice_db 80) = Inr (x, s1) \<and>
     recordPayment 1 90 (demo_payment_dto 70) 7 s1 = Inr ((101, p, 0, IV_PARTIALLY_PAID), s2) \<and>
     owed 1 90 80 s2 = 0"
proof -
  have zero: "toFixed2 (remaining_of 80 [10, 70] [] []) = 0"
    by (rule toFixed2_approx [OF remaining_approx [of "[10, 70]" "[]" "[]" 80, simplified]]) simp
  have pos: "0 < remaining_of 80 [10, 70] [] []" "0 < remaining_of 80 [10] [] []"
    by (simp_all add: remaining_of_def js_sub_def js_add_def js_sum_def [of "[]"] round_double_positive
        numbers_of_cents sum_of_cents)
  have paid: "0 < js_sum [10, 70]" "0 < js_sum [10]" by (simp_all add: sum_of_cents)
  then show ?thesis using zero pos paid
    by (simp add: payment_evaluation set_balance_def owed_def balance_status_def)
qed

section \<open>Invoices\<close>

text \<open>The loads an invoice is asked for, with their charges, and the amounts it bills.\<close>

definition selected :: "uuid \<Rightarrow> create_invoice_dto \<Rightarrow> db \<Rightarrow> billed_load list" where
  "selected org dto s = map (include_charges s)
     (tbl_where (\<lambda>i l. i \<in> set (cid_loadIds dto) \<and> l_organizationId l = org) (loads s))"

definition charged :: "billed_load \<Rightarrow> cents list" where
  "charged b = map (\<lambda>(_, _, c). ch_amount c) (customer_side b)"

definition may_invoice :: "create_invoice_dto \<Rightarrow> billed_load \<Rightarrow> bool" where
  "may_invoice dto b \<longleftrightarrow> l_customerId (bl_load b) = cid_customerId dto \<and>
     l_status (bl_load b) \<in> {DELIVERED, CLOSED} \<and> \<not> l_invoiced (bl_load b) \<and>
     (l_podStatus (bl_load b) = POD_COMPLETE \<or> cid_podWarningAcknowledged dto)"

lemma writeInvoice_total: "\<exists>z. writeInvoice org dto billed u s = Inr z"
  by (auto simp: writeInvoice_def set_invoiced_def tx_run Let_def)

lemma createInvoice_run:
  "createInvoice org dto u s =
     (if length (selected org dto s) \<noteq> length (cid_loadIds dto) then Inl (NotFoundError ''One or more Loads not found.'')
      else if \<exists>b \<in> set (selected org dto s). l_customerId (bl_load b) \<noteq> cid_customerId dto
        then Inl (BusinessRuleError ''All selected Loads must belong to the same Customer.'')
      else if \<exists>b \<in> set (selected org dto s). l_status (bl_load b) \<notin> {DELIVERED, CLOSED} \<or> l_invoiced (bl_load b)
        then Inl (BusinessRuleError ''All selected Loads must be Delivered or Closed, and not already invoiced.'')
      else if incomplete_pod (selected org dto s) \<noteq> [] \<and> \<not> cid_podWarningAcknowledged dto
        then Inl (PodIncompleteWarningError ''POD is incomplete for one or more selected Loads.'' (incomplete_pod (selected org dto s)))
      else writeInvoice org dto (selected org dto s) u s)"
  by (auto simp add: createInvoice_def tx_run selected_def [symmetric])

text \<open>
  C20. An invoice is created exactly when it may be: every load asked for exists once in the
  organization, belongs to the customer, is delivered or closed and not yet invoiced, and has its
  proof of delivery unless the caller has acknowledged that it is missing.
\<close>

theorem invoice_created_iff:
  "(\<exists>z. createInvoice org dto u s = Inr z) \<longleftrightarrow>
     length (selected org dto s) = length (cid_loadIds dto) \<and> (\<forall>b \<in> set (selected org dto s). may_invoice dto b)"
proof -
  let ?b = "selected org dto s"
  have pod: "incomplete_pod ?b = [] \<longleftrightarrow> (\<forall>b \<in> set ?b. l_podStatus (bl_load b) = POD_COMPLETE)"
    by (simp add: incomplete_pod_def filter_empty_conv)
  show ?thesis unfolding createInvoice_run using writeInvoice_total [of org dto ?b u s] pod
    by (auto simp: may_invoice_def)
qed

lemma sum_concat: "sum_list (concat xss) = sum_list (map sum_list (xss :: int list list))"
  by (induction xss) simp_all

lemma part_bounds:
  assumes "xs \<in> set xss"
  shows "length xs \<le> length (concat xss)" and "sum_list (map abs (xs :: int list)) \<le> sum_list (map abs (concat xss))"
proof -
  have nonneg: "0 \<le> sum_list (map abs (ys :: int list))" for ys by (induction ys) auto
  show "length xs \<le> length (concat xss)" using assms by (induction xss) auto
  show "sum_list (map abs xs) \<le> sum_list (map abs (concat xss))"
    using assms nonneg by (induction xss) (auto simp: add_increasing2 add_increasing)
qed

lemma sum_abs_sums: "sum_list (map abs (map sum_list xss)) \<le> sum_list (map abs (concat (xss :: int list list)))"
proof (induction xss)
  case (Cons xs xss)
  then show ?case using sum_abs_bound [of xs] by simp
qed simp

lemma line_total_exact:
  assumes "length billed \<le> 1500" and "length (concat (map charged billed)) \<le> 1500"
    and "sum_list (map abs (concat (map charged billed))) \<le> 10 ^ 12"
  shows "line_total (lineItemsData org i billed) = sum_list (concat (map charged billed))"
proof (cases "length billed > 1")
  case True
  have load: "toFixed2 (loadTotal b) = sum_list (charged b)" if "b \<in> set billed" for b
    unfolding loadTotal_def charged_def [symmetric]
    by (rule toFixed2_js_sum) (use part_bounds [of "charged b" "map charged billed"] that assms in auto)
  then have items: "map li_amount (lineItemsData org i billed) = map sum_list (map charged billed)"
    using True by (simp add: lineItemsData_def)
  show ?thesis unfolding line_total_def items sum_concat
    by (rule toFixed2_js_sum) (use assms(1,3) sum_abs_sums [of "map charged billed"] in simp_all)
next
  case False
  then have items: "map li_amount (lineItemsData org i billed) = concat (map charged billed)"
    by (simp add: lineItemsData_def charged_def [abs_def] map_concat o_def split_def)
  show ?thesis unfolding line_total_def items by (rule toFixed2_js_sum [OF assms(2,3)])
qed

text \<open>
  C21. An invoice bills exactly the customer charges of its loads: although line items and totals
  are added up in floating point, the total and the balance of a new invoice are, to the cent, the
  sum of the customer-side charges of the selected loads, whether they appear one by one or
  consolidated per load (for up to 1500 loads and charges, and amounts of the columns' size).
\<close>

theorem invoice_total_exact:
  assumes "createInvoice org dto u s = Inr ((i, r), s')"
    and "length (selected org dto s) \<le> 1500" and "length (concat (map charged (selected org dto s))) \<le> 1500"
    and "sum_list (map abs (concat (map charged (selected org dto s)))) \<le> 10 ^ 12"
  shows "i_total r = sum_list (concat (map charged (selected org dto s))) \<and> i_remainingBalance r = i_total r \<and>
     i_status r = IV_DRAFT"
proof -
  have "i_total r = line_total (lineItemsData org 0 (selected org dto s)) \<and> i_remainingBalance r = i_total r \<and> i_status r = IV_DRAFT"
    using assms(1) by (auto simp: createInvoice_def writeInvoice_def set_invoiced_def tx_iff Let_def new_invoice_def selected_def
        split: if_splits)
  then show ?thesis using line_total_exact [OF assms(2-4)] by simp
qed

definition delivered_db :: db where
  "delivered_db = small_db\<lparr>loads := [(60, demo_load DELIVERED (Some 40) (Some 100))],
     charge_line_items := [(61, demo_charge CUSTOMER_SIDE 150010), (62, demo_charge CUSTOMER_SIDE 20),
       (63, demo_charge CARRIER_SIDE 100)]\<rparr>"

lemma delivered_selected:
  "selected 1 (demo_invoice_dto [60]) delivered_db =
     [\<lparr>bl_id = 60, bl_load = demo_load DELIVERED (Some 40) (Some 100),
       bl_charges = [(61, [], demo_charge CUSTOMER_SIDE 150010), (62, [], demo_charge CUSTOMER_SIDE 20),
         (63, [], demo_charge CARRIER_SIDE 100)]\<rparr>]"
  by (simp add: selected_def delivered_db_def demo_invoice_dto_def tbl_where_def include_charges_def demo_load_def
      demo_charge_def charge_label_def small_db_def blank_db_def tbl_find_def)

lemma delivered_charged: "map charged (selected 1 (demo_invoice_dto [60]) delivered_db) = [[150010, 20]]"
  unfolding delivered_selected by (simp add: charged_def customer_side_def demo_charge_def)

lemma delivered_invoiced: "\<exists>z. createInvoice 1 (demo_invoice_dto [60]) 7 delivered_db = Inr z"
  unfolding createInvoice_run delivered_selected
  using writeInvoice_total by (simp add: demo_invoice_dto_def demo_load_def)

theorem invoice_created_iff_witness: "\<exists>z. createInvoice 1 (demo_invoice_dto [60]) 7 delivered_db = Inr z"
  using invoice_created_iff [of 1 "demo_invoice_dto [60]" 7 delivered_db] unfolding delivered_selected
  by (simp add: may_invoice_def demo_invoice_dto_def demo_load_def)

theorem invoice_total_exact_witness:
  "\<exists>i r s'. createInvoice 1 (demo_invoice_dto [60]) 7 delivered_db = Inr ((i, r), s') \<and> i_total r = 150030"
proof -
  obtain i r s' where run: "createInvoice 1 (demo_invoice_dto [60]) 7 delivered_db = Inr ((i, r), s')"
    using delivered_invoiced by auto
  have "i_total r = 150030"
    using invoice_total_exact [OF run] unfolding delivered_charged unfolding delivered_selected by simp
  then show ?thesis using run by blast
qed

lemma createInvoice_writes:
  assumes "createInvoice org dto u s = Inr ((i, r), s')"
  shows "i = next_id s \<and> invoices s' = tbl_ins i r (invoices s) \<and> i_organizationId r = org \<and> i_status r = IV_DRAFT \<and>
     invoice_loads s' = tbl_insMany (Suc i) (map (new_invoice_load org i) (selected org dto s)) (invoice_loads s) \<and>
     loads s' = tbl_updMany (\<lambda>i l. l_organizationId l = org \<and> i \<in> set (cid_loadIds dto)) (\<lambda>l. l\<lparr>l_invoiced := True\<rparr>) (loads s) \<and>
     length (selected org dto s) = length (cid_loadIds dto) \<and> (\<forall>b \<in> set (selected org dto s). \<not> l_invoiced (bl_load b))"
  using assms unfolding createInvoice_run
  by (auto simp: writeInvoice_def set_invoiced_def tx_iff Let_def new_invoice_def split: if_splits)

lemma selected_ids:
  assumes "wf_db s" and "length (selected org dto s) = length (cid_loadIds dto)"
  shows "set (map bl_id (selected org dto s)) = set (cid_loadIds dto)"
proof -
  have ids: "map bl_id (selected org dto s) =
      map fst (tbl_where (\<lambda>i l. i \<in> set (cid_loadIds dto) \<and> l_organizationId l = org) (loads s))"
    by (simp add: selected_def include_charges_def o_def)
  then have distinct: "distinct (map bl_id (selected org dto s))" using assms(1)
    by (simp add: tbl_where_def wf_db_def table_ok_def distinct_map_filter)
  have "set (map bl_id (selected org dto s)) \<subseteq> set (cid_loadIds dto)" unfolding ids by (auto simp: tbl_where_iff)
  moreover have "card (set (cid_loadIds dto)) \<le> card (set (map bl_id (selected org dto s)))"
    using distinct_card [OF distinct] card_length [of "cid_loadIds dto"] assms(2) by simp
  ultimately show ?thesis by (intro card_seteq) simp_all
qed

lemma map_enumerate: "map (\<lambda>(_, x). f x) (List.enumerate n xs) = map f xs"
  by (induction xs arbitrary: n) simp_all

lemma updMany_undo:
  assumes "\<And>i r. (i, r) \<in> set t \<Longrightarrow> P i r \<Longrightarrow> g (f r) = r" and "\<And>i r. P i (f r) = P i r"
  shows "tbl_updMany P g (tbl_updMany P f t) = t"
  unfolding tbl_updMany_def map_map
  by (rule map_idI) (use assms in \<open>auto split: if_splits\<close>)

text \<open>
  C22. Voiding undoes invoicing. In a deployment's database, an invoice just created can be
  voided, and that leaves the table of loads as it was before the invoice: every load is free to
  be invoiced again.
\<close>

theorem create_then_void:
  assumes "wf_db s" and "billed_once s" and "createInvoice org dto u s = Inr ((i, r), s1)"
  shows "\<exists>s2. voidInvoice org i u' s1 = Inr (r\<lparr>i_status := IV_VOID\<rparr>, s2) \<and> loads s2 = loads s"
proof -
  note w = createInvoice_writes [OF assms(3)]
  let ?new = "map (new_invoice_load org i) (selected org dto s)"
  let ?P = "\<lambda>k l. l_organizationId l = org \<and> k \<in> set (cid_loadIds dto)"
  have fresh: "tbl_find i (invoices s) = None" using fresh_row(2) [OF assms(1)] w by simp
  then have r: "tbl_find i (invoices s1) = Some r" using w by (simp add: tbl_find_ins)
  have old: "il_invoiceId il \<noteq> i" if "(k, il) \<in> set (invoice_loads s)" for k il
    using assms(2) that fresh unfolding billed_once_def billing_def linked_def by fastforce
  let ?rows = "tbl_where (\<lambda>_ il. il_organizationId il = org \<and> il_invoiceId il = i) (invoice_loads s1)"
  have "?rows = List.enumerate (Suc i) ?new"
  proof -
    have "filter (\<lambda>(_, il). il_organizationId il = org \<and> il_invoiceId il = i) (invoice_loads s) = []"
      using old by (auto simp: filter_empty_conv)
    moreover have "filter (\<lambda>(_, il). il_organizationId il = org \<and> il_invoiceId il = i) (List.enumerate (Suc i) ?new) =
        List.enumerate (Suc i) ?new"
      by (rule filter_True) (auto simp: in_set_enumerate_eq new_invoice_load_def)
    ultimately show ?thesis using w by (simp add: tbl_where_def tbl_insMany_def)
  qed
  then have released: "map (\<lambda>(_, il). il_loadId il) ?rows = map bl_id (selected org dto s)"
    by (simp add: map_enumerate new_invoice_load_def o_def)
  have ids: "set (map bl_id (selected org dto s)) = set (cid_loadIds dto)" using assms(1) w by (intro selected_ids) simp_all
  have undo: "tbl_updMany ?P (\<lambda>l. l\<lparr>l_invoiced := False\<rparr>) (loads s1) = loads s"
  proof -
    have "loads s1 = tbl_updMany ?P (\<lambda>l. l\<lparr>l_invoiced := True\<rparr>) (loads s)" using w by simp
    moreover have "tbl_updMany ?P (\<lambda>l. l\<lparr>l_invoiced := False\<rparr>) (tbl_updMany ?P (\<lambda>l. l\<lparr>l_invoiced := True\<rparr>) (loads s)) = loads s"
    proof (rule updMany_undo)
      fix k l assume "(k, l) \<in> set (loads s)" and "?P k l"
      then have "include_charges s (k, l) \<in> set (selected org dto s)" by (auto simp: selected_def tbl_where_iff)
      then have "\<not> l_invoiced l" using w by (auto simp: include_charges_def)
      then show "(l\<lparr>l_invoiced := True\<rparr>)\<lparr>l_invoiced := False\<rparr> = l" by simp
    qed simp
    ultimately show ?thesis by simp
  qed
  have "\<exists>s2. voidInvoice org i u' s1 = Inr (r\<lparr>i_status := IV_VOID\<rparr>, s2) \<and>
      loads s2 = tbl_updMany (\<lambda>k l. l_organizationId l = org \<and> k \<in> set (map (\<lambda>(_, il). il_loadId il) ?rows))
        (\<lambda>l. l\<lparr>l_invoiced := False\<rparr>) (loads s1)"
    using r w by (simp add: voidInvoice_def require_invoice_def set_invoiced_def tx_run Let_def del: set_map)
  then show ?thesis unfolding released ids undo .
qed

theorem create_then_void_witness:
  "\<exists>i r s1 s2. createInvoice 1 (demo_invoice_dto [60]) 7 delivered_db = Inr ((i, r), s1) \<and>
     voidInvoice 1 i 8 s1 = Inr (r\<lparr>i_status := IV_VOID\<rparr>, s2) \<and> loads s2 = loads delivered_db"
proof -
  obtain i r s1 where run: "createInvoice 1 (demo_invoice_dto [60]) 7 delivered_db = Inr ((i, r), s1)"
    using delivered_invoiced by auto
  have "wf_db delivered_db" by (simp add: delivered_db_def small_db_def blank_db_def wf_db_def table_ok_def)
  moreover have "billed_once delivered_db"
    by (simp add: billed_once_def billing_def delivered_db_def small_db_def blank_db_def demo_load_def tbl_find_def)
  ultimately show ?thesis using create_then_void [OF _ _ run, of 8] run by blast
qed

section \<open>What a carrier is still owed\<close>

text \<open>
  C23. The carrier's balance is exact. What is left to pay on a load is, to the cent, the agreed
  rate plus the carrier-side adjustments less the payments already made (for up to 700 of each and
  amounts of the columns' size).
\<close>

theorem carrier_balance_exact:
  assumes "length (carrier_accessorials org l s) \<le> 700" and "length (carrier_paid org l s) \<le> 700"
    and "\<bar>rate\<bar> + sum_list (map abs (carrier_accessorials org l s)) + sum_list (map abs (carrier_paid org l s)) \<le> 10 ^ 12"
  shows "cb_remainingCarrierBalance (computeCarrierBalance org l (Some rate) s) =
     Some (rate + sum_list (carrier_accessorials org l s) - sum_list (carrier_paid org l s))"
proof -
  let ?acc = "carrier_accessorials org l s" and ?paid = "carrier_paid org l s"
  note bounds = sum_abs_bound [of ?acc] sum_abs_bound [of ?paid]
  have acc: "approx (3 * length ?acc) (js_sum ?acc) (sum_list ?acc)"
    by (rule js_sum_approx; use assms bounds in linarith)
  have paid: "approx (3 * length ?paid) (js_sum ?paid) (sum_list ?paid)"
    by (rule js_sum_approx; use assms bounds in linarith)
  have a: "approx 1 (js_number rate) rate"
    by (rule approx_number) (use assms(3) bounds in \<open>simp add: in_column_def\<close>)
  have b: "approx (1 + 3 * length ?acc + 2) (js_add (js_number rate) (js_sum ?acc)) (rate + sum_list ?acc)"
    by (rule approx_add [OF a acc]) (use assms bounds in \<open>auto simp: in_column_def\<close>)
  have c: "approx (1 + 3 * length ?acc + 2 + 3 * length ?paid + 2)
      (js_sub (js_add (js_number rate) (js_sum ?acc)) (js_sum ?paid)) (rate + sum_list ?acc - sum_list ?paid)"
    by (rule approx_sub [OF b paid]) (use assms bounds in \<open>auto simp: in_column_def\<close>)
  show ?thesis
    using toFixed2_approx [OF c] assms(1,2) by (simp add: computeCarrierBalance_def Let_def)
qed

definition carrier_paid_db :: db where
  "carrier_paid_db = small_db\<lparr>
     charge_line_items := [(61, (demo_charge CARRIER_SIDE 5000)\<lparr>ch_source := ADJUSTMENT\<rparr>)],
     carrier_payments := [(80, pending_payment\<lparr>cp_status := CP_PAID\<rparr>)]\<rparr>"

theorem carrier_balance_exact_witness:
  "cb_remainingCarrierBalance (computeCarrierBalance 1 60 (Some 120000) carrier_paid_db) = Some 124900"
proof -
  have views: "carrier_accessorials 1 60 carrier_paid_db = [5000]" "carrier_paid 1 60 carrier_paid_db = [100]"
    by (simp_all add: carrier_accessorials_def carrier_paid_def carrier_paid_db_def demo_charge_def pending_payment_def
        new_carrier_payment_def tbl_where_def)
  show ?thesis using carrier_balance_exact [of 1 60 carrier_paid_db 120000] unfolding views by simp
qed

end
