(* ===== verification/BookingProperties.thy ===== *)
theory BookingProperties
  imports Scenario
begin

text \<open>
  Properties of a load from booking to dispatch: the gates in front of booking, assignment and
  dispatch, the status derived from the stops, the proof-of-delivery milestone, rejection,
  cancellation and conversion.
\<close>

section \<open>Tables\<close>

lemma tbl_upd_back:
  assumes "tbl_find k t = Some r" and "f (g r) = r"
  shows "tbl_upd k f (tbl_upd k g t) = t"
  using assms unfolding tbl_find_def by (induction t) (auto split: if_splits)

lemma tbl_del_ins: "P k r \<Longrightarrow> (\<And>i x. (i, x) \<in> set t \<Longrightarrow> \<not> P i x) \<Longrightarrow> tbl_del P (tbl_ins k r t) = t"
  by (auto simp: tbl_del_def tbl_ins_def filter_id_conv)

section \<open>Assignment\<close>

text \<open>What a carrier must satisfy to be given a load.\<close>

definition assignable :: "uuid \<Rightarrow> uuid \<Rightarrow> db \<Rightarrow> bool" where
  "assignable org c s \<longleftrightarrow>
     (\<exists>carrier. tbl_find c (carriers s) = Some carrier \<and> c_organizationId carrier = org \<and>
        c_status carrier = CA_ACTIVE \<and> computeComplianceReasons org c s = [])"

text \<open>The state a step that cannot fail leaves behind.\<close>

definition after :: "unit tx \<Rightarrow> db \<Rightarrow> db" where
  "after m s = snd (projr (m s))"

lemma after_run: "\<exists>s'. m s = Inr ((), s') \<Longrightarrow> m s = Inr ((), after m s)"
  by (auto simp: after_def)

lemma linehaul_run: "createOriginalCarrierLinehaulCharge org l rate u s =
    Inr ((), after (createOriginalCarrierLinehaulCharge org l rate u) s)"
  by (rule after_run)
    (simp add: createOriginalCarrierLinehaulCharge_def findLinehaulType_def tx_run split: option.split prod.split)

lemma notified_run: "notifyCarrierAssigned org l n name rate s = Inr ((), after (notifyCarrierAssigned org l n name rate) s)"
  by (rule after_run) (simp add: notifyCarrierAssigned_def tx_run)

lemma require_load_run:
  "require_load org l s = (case tbl_find l (loads s) of
     None \<Rightarrow> Inl (NotFoundError ''Load not found.'')
   | Some load \<Rightarrow> if l_organizationId load = org then Inr (load, s) else Inl (NotFoundError ''Load not found.''))"
  by (simp add: require_load_def tx_run split: option.split)

lemma require_carrier_run:
  "require_carrier org c s = (case tbl_find c (carriers s) of
     None \<Rightarrow> Inl (NotFoundError ''Carrier not found.'')
   | Some r \<Rightarrow> if c_organizationId r = org then Inr (r, s) else Inl (NotFoundError ''Carrier not found.''))"
  by (simp add: require_carrier_def tx_run split: option.split)

lemma assignable_iff:
  "assignable org c s \<longleftrightarrow> (\<exists>carrier. tbl_find c (carriers s) = Some carrier \<and> c_organizationId carrier = org \<and>
     eligibility_reasons org c carrier s = [])"
  by (simp add: assignable_def eligibility_reasons_def)

lemma assignCarrier_succeeds_iff:
  "(\<exists>z. assignCarrier org l c rate u s = Inr z) \<longleftrightarrow>
     (\<exists>load. tbl_find l (loads s) = Some load \<and> l_organizationId load = org \<and> l_status load = CARRIER_SOURCING) \<and>
     assignable org c s"
  unfolding assignCarrier_def assignable_iff
  by (simp add: tx_run require_load_run require_carrier_run recalculate_run linehaul_run notified_run
      split: option.split)

text \<open>
  C24. The assignment gate. A carrier is assigned to a load exactly when the load is in carrier
  sourcing and the carrier is one of the organization, active, and without any reason for
  ineligibility when the gate is evaluated: the flag stored before plays no part.
\<close>

theorem assignment_gate:
  "(\<exists>z. assignCarrier org l c rate u s = Inr z) \<longleftrightarrow>
     (\<exists>load carrier. tbl_find l (loads s) = Some load \<and> l_organizationId load = org \<and>
        l_status load = CARRIER_SOURCING \<and> tbl_find c (carriers s) = Some carrier \<and>
        c_organizationId carrier = org \<and> c_status carrier = CA_ACTIVE \<and> computeComplianceReasons org c s = [])"
  unfolding assignCarrier_succeeds_iff assignable_def by blast

definition linehaul_type :: "uuid \<Rightarrow> db \<Rightarrow> (uuid \<times> charge_type_row) option" where
  "linehaul_type org s = tbl_first (\<lambda>_ c. ct_code c = ''LINEHAUL'' \<and>
     (ct_organizationId c = Some org \<or> ct_organizationId c = None)) (charge_types s)"

lemma notified_only: "only {Notifications} s (after (notifyCarrierAssigned org l n name rate) s)"
proof -
  have "keeps (only {Notifications}) (notifyCarrierAssigned org l n name rate)"
    unfolding notifyCarrierAssigned_def by (rule footprint_notify footprint_rules | simp)+
  then show ?thesis using notified_run by (rule keepsD)
qed

lemma notified_frame:
  "loads (after (notifyCarrierAssigned org l n name rate) s) = loads s"
  "charge_line_items (after (notifyCarrierAssigned org l n name rate) s) = charge_line_items s"
  "charge_types (after (notifyCarrierAssigned org l n name rate) s) = charge_types s"
  "sourcing_attempts (after (notifyCarrierAssigned org l n name rate) s) = sourcing_attempts s"
  using notified_only [of s org l n name rate] unfolding only_def
  by (metis table_name.distinct singletonD untouched.simps)+

lemma linehaul_after:
  "after (createOriginalCarrierLinehaulCharge org l rate u) s =
     (case linehaul_type org s of None \<Rightarrow> s
      | Some (typeId, _) \<Rightarrow> s\<lparr>next_id := Suc (next_id s),
          charge_line_items := tbl_ins (next_id s) (linehaul_charge org l CARRIER_SIDE typeId rate u) (charge_line_items s)\<rparr>)"
  by (simp add: after_def createOriginalCarrierLinehaulCharge_def findLinehaulType_def linehaul_type_def tx_run
      split: option.split prod.split)

lemma assignCarrier_writes:
  assumes "assignCarrier org l c rate u s = Inr (row, s')"
  obtains load where "tbl_find l (loads s) = Some load" and "l_organizationId load = org"
    and "l_status load = CARRIER_SOURCING" and "assignable org c s"
    and "row = load\<lparr>l_status := CARRIER_ASSIGNED, l_assignedCarrierId := Some c, l_carrierRate := Some rate\<rparr>"
    and "loads s' = tbl_upd l (\<lambda>l. l\<lparr>l_status := CARRIER_ASSIGNED, l_assignedCarrierId := Some c,
           l_carrierRate := Some rate\<rparr>) (loads s)"
    and "charge_types s' = charge_types s"
    and "charge_line_items s' = (case linehaul_type org s of None \<Rightarrow> charge_line_items s
         | Some (typeId, _) \<Rightarrow> tbl_ins (next_id s + 1) (linehaul_charge org l CARRIER_SIDE typeId rate u) (charge_line_items s))"
    and "sourcing_attempts s' =
           tbl_ins (next_id s) (new_attempt org l c (Some rate) SO_ASSIGNED u (clock s)) (sourcing_attempts s)"
proof -
  obtain load where load: "tbl_find l (loads s) = Some load" "l_organizationId load = org" "l_status load = CARRIER_SOURCING"
    and ok: "assignable org c s"
    using assms assignCarrier_succeeds_iff [of org l c rate u s] by blast
  from ok obtain carrier where carrier: "tbl_find c (carriers s) = Some carrier" "c_organizationId carrier = org"
    "eligibility_reasons org c carrier s = []" by (auto simp: assignable_iff)
  show thesis using assms load carrier unfolding assignCarrier_def
    by (intro that [OF load ok]; cases "linehaul_type org s")
      (auto simp: tx_iff linehaul_run notified_run notified_frame linehaul_after linehaul_type_def)
qed

text \<open>
  C25. An assigned carrier is compliant. When an assignment succeeds, the newest current document of
  each required kind is approved, auto liability and cargo are insured by an unexpired policy whose
  certificate is approved, and the latest FMCSA verification is an authorization; and the load on
  record names the carrier and its rate.
\<close>

theorem assigned_carrier_compliant:
  assumes "assignCarrier org l c rate u s = Inr (row, s')"
  shows "(\<forall>code \<in> set REQUIRED_COMPLIANCE_CODES. approved_on_file org c s code) \<and>
     insured org c s AUTO_LIABILITY \<and> insured org c s CARGO \<and> authorized org c s \<and>
     tbl_find l (loads s') = Some row \<and> l_status row = CARRIER_ASSIGNED \<and>
     l_assignedCarrierId row = Some c \<and> l_carrierRate row = Some rate"
  using assms
proof (rule assignCarrier_writes)
  fix load
  assume load: "tbl_find l (loads s) = Some load"
    and row: "row = load\<lparr>l_status := CARRIER_ASSIGNED, l_assignedCarrierId := Some c, l_carrierRate := Some rate\<rparr>"
    and loads: "loads s' = tbl_upd l (\<lambda>l. l\<lparr>l_status := CARRIER_ASSIGNED, l_assignedCarrierId := Some c,
           l_carrierRate := Some rate\<rparr>) (loads s)"
    and "assignable org c s"
  then have "computeComplianceReasons org c s = []" by (auto simp: assignable_def)
  with load row loads compliant_when_no_reasons [OF this] show ?thesis by (simp add: tbl_find_upd)
qed

text \<open>A carrier with everything in order, and a load looking for one.\<close>

definition approved_document :: "string \<Rightarrow> uuid \<Rightarrow> document_row" where
  "approved_document name typeId = (demo_document name typeId 7)\<lparr>doc_reviewStatus := Some RV_APPROVED,
     doc_reviewedByUserId := Some 8, doc_reviewedAt := Some 0\<rparr>"

definition demo_insurance :: "coverage_type \<Rightarrow> insurance_row" where
  "demo_insurance cov = \<lparr>in_organizationId = 1, in_carrierId = 40, in_coverageType = cov, in_coverageAmount = 100,
     in_insuranceCompany = ''I'', in_agentContact = None, in_effectiveDate = 0, in_expirationDate = 1800000000000,
     in_coiDocumentId = 70\<rparr>"

definition assignable_db :: db where
  "assignable_db = demo_db\<lparr>loads := [(60, demo_load CARRIER_SOURCING None None)], carriers := [(40, demo_carrier CA_ACTIVE False)],
     documents := [(70, approved_document ''w9.pdf'' 20), (71, approved_document ''noa.pdf'' 21),
       (72, approved_document ''mc.pdf'' 22)],
     carrier_insurance := [(73, demo_insurance AUTO_LIABILITY), (74, demo_insurance CARGO)],
     fmcsa_verifications := [(75, \<lparr>f_organizationId = 1, f_carrierId = 40, f_verificationDate = 0,
       f_resultStatus = '' authorized'', f_verifiedByUserId = 7, f_authorityInfo = None, f_notes = None\<rparr>)]\<rparr>"

lemmas assignable_data = assignable_db_def demo_db_def blank_db_def demo_load_def demo_carrier_def
  approved_document_def demo_document_def demo_insurance_def demo_type_def

lemma demo_assignable: "assignable 1 40 assignable_db"
  by (simp add: assignable_def assignable_data no_reasons_iff REQUIRED_COMPLIANCE_CODES_def compliance_doc_def
      compliance_docs_def document_code_def tbl_find_def tbl_where_def valid_coverage_def fmcsa_reasons_def
      latest_fmcsa_def isAcceptableFmcsaResult_def trim_def toLowerCase_def lower_char_def is_space_def)

lemma demo_assigned: "\<exists>row s'. assignCarrier 1 60 40 rate 7 assignable_db = Inr (row, s')"
proof -
  have "\<exists>z. assignCarrier 1 60 40 rate 7 assignable_db = Inr z"
    unfolding assignCarrier_succeeds_iff using demo_assignable by (simp add: assignable_data tbl_find_def)
  then show ?thesis by auto
qed

theorem assigned_carrier_compliant_witness:
  "\<exists>row s'. assignCarrier 1 60 40 90000 7 assignable_db = Inr (row, s') \<and> insured 1 40 assignable_db CARGO \<and>
     l_carrierRate row = Some 90000"
  using demo_assigned assigned_carrier_compliant by blast

lemma latest_attempt:
  "\<exists>x. latest_assigned_attempt org l c s = Inr (x, s) \<and>
     (\<forall>i a. x = Some (i, a) \<longrightarrow> (\<exists>r. tbl_find i (sourcing_attempts s) = Some r))"
proof -
  let ?rows = "tbl_where (\<lambda>_ a. sa_organizationId a = org \<and> sa_loadId a = l \<and>
      (case c of None \<Rightarrow> True | Some c \<Rightarrow> sa_carrierId a = c) \<and> sa_outcome a = SO_ASSIGNED) (sourcing_attempts s)"
  let ?x = "List.find (\<lambda>_. True) (sort_key (\<lambda>(_, a). - sa_loggedAt a) ?rows)"
  have "\<exists>r. tbl_find i (sourcing_attempts s) = Some r" if "?x = Some (i, a)" for i a
  proof -
    have "(i, a) \<in> set (sourcing_attempts s)" using find_sort_key(1) [OF that] by (simp add: tbl_where_iff)
    then show ?thesis unfolding tbl_find_def by (metis weak_map_of_SomeI)
  qed
  then show ?thesis by (intro exI [of _ ?x]) (simp add: latest_assigned_attempt_def tx_run)
qed

lemma reject_run:
  assumes "tbl_find l (loads s) = Some load" and "l_organizationId load = org" and "l_status load = CARRIER_ASSIGNED"
  shows "\<exists>row s'. carrierRejected org l reason u s = Inr (row, s') \<and>
     loads s' = tbl_upd l (\<lambda>l. l\<lparr>l_status := CARRIER_SOURCING, l_assignedCarrierId := None, l_carrierRate := None\<rparr>) (loads s) \<and>
     charge_line_items s' = (case linehaul_type org s of None \<Rightarrow> charge_line_items s
       | Some (typeId, _) \<Rightarrow> tbl_del (\<lambda>_. original_carrier_linehaul org l typeId) (charge_line_items s))"
proof -
  obtain x where "latest_assigned_attempt org l (l_assignedCarrierId load) s = Inr (x, s)"
    and "\<And>i a. x = Some (i, a) \<Longrightarrow> \<exists>r. tbl_find i (sourcing_attempts s) = Some r" 
    using latest_attempt by blast
  then show ?thesis using assms
    by (cases x; cases "linehaul_type org s")
      (fastforce simp: carrierRejected_def removeOriginalCarrierLinehaulCharge_def findLinehaulType_def
        linehaul_type_def tx_run require_load_run)+
qed

text \<open>
  C26. Rejection undoes assignment. Of a load that had no carrier, an assignment can be rejected
  right away, and that restores the load and the charges of the organization: the linehaul charge
  the assignment added is gone, and no other.
\<close>

theorem assign_then_reject:
  assumes "assignCarrier org l c rate u s = Inr (row, s')"
    and "tbl_find l (loads s) = Some load" and "l_assignedCarrierId load = None" and "l_carrierRate load = None"
    and "\<And>i ch typeId. (i, ch) \<in> set (charge_line_items s) \<Longrightarrow> \<not> original_carrier_linehaul org l typeId ch"
  shows "\<exists>row' s''. carrierRejected org l reason u' s' = Inr (row', s'') \<and> loads s'' = loads s \<and>
     charge_line_items s'' = charge_line_items s"
  using assms(1)
proof (rule assignCarrier_writes)
  fix load'
  assume load': "tbl_find l (loads s) = Some load'" "l_organizationId load' = org" "l_status load' = CARRIER_SOURCING"
    and loads: "loads s' = tbl_upd l (\<lambda>l. l\<lparr>l_status := CARRIER_ASSIGNED, l_assignedCarrierId := Some c,
           l_carrierRate := Some rate\<rparr>) (loads s)"
    and types: "charge_types s' = charge_types s"
    and charges: "charge_line_items s' = (case linehaul_type org s of None \<Rightarrow> charge_line_items s
         | Some (typeId, _) \<Rightarrow> tbl_ins (next_id s + 1) (linehaul_charge org l CARRIER_SIDE typeId rate u) (charge_line_items s))"
  have [simp]: "load' = load" using load'(1) assms(2) by simp
  have "tbl_find l (loads s') = Some (load\<lparr>l_status := CARRIER_ASSIGNED, l_assignedCarrierId := Some c, l_carrierRate := Some rate\<rparr>)"
    using load' by (simp add: loads tbl_find_upd)
  then obtain row' s'' where run: "carrierRejected org l reason u' s' = Inr (row', s'')"
    and after: "loads s'' = tbl_upd l (\<lambda>l. l\<lparr>l_status := CARRIER_SOURCING, l_assignedCarrierId := None, l_carrierRate := None\<rparr>) (loads s')"
     "charge_line_items s'' = (case linehaul_type org s' of None \<Rightarrow> charge_line_items s'
       | Some (typeId, _) \<Rightarrow> tbl_del (\<lambda>_. original_carrier_linehaul org l typeId) (charge_line_items s'))"
    using reject_run [of l s' _ org reason u'] load'(2) by fastforce
  have "loads s'' = loads s" unfolding after(1) loads
    by (rule tbl_upd_back [OF assms(2)]) (use load' assms(3,4) in simp)
  moreover have "linehaul_type org s' = linehaul_type org s" by (simp add: linehaul_type_def types)
  then have "charge_line_items s'' = charge_line_items s" unfolding after(2) charges using assms(5)
    by (auto intro!: tbl_del_ins simp: original_carrier_linehaul_def linehaul_charge_def split: option.split)
  ultimately show ?thesis using run by blast
qed

theorem assign_then_reject_witness:
  "\<exists>row s' row' s''. assignCarrier 1 60 40 90000 7 assignable_db = Inr (row, s') \<and>
     carrierRejected 1 60 ''no truck'' 7 s' = Inr (row', s'') \<and> loads s'' = loads assignable_db"
proof -
  obtain row s' where run: "assignCarrier 1 60 40 90000 7 assignable_db = Inr (row, s')" using demo_assigned by blast
  show ?thesis
    using assign_then_reject [OF run, of "demo_load CARRIER_SOURCING None None" "''no truck''" 7] run
    by (auto simp: assignable_data tbl_find_def)
qed

section \<open>Dispatch\<close>

text \<open>A driver, truck or trailer named for a dispatch is an active one of the carrier.\<close>

definition resource_ok :: "(db \<Rightarrow> 'a table) \<Rightarrow> ('a \<Rightarrow> uuid) \<Rightarrow> ('a \<Rightarrow> uuid) \<Rightarrow> ('a \<Rightarrow> bool) \<Rightarrow> uuid \<Rightarrow> uuid \<Rightarrow>
    uuid option \<Rightarrow> db \<Rightarrow> bool" where
  "resource_ok sel org_of carrier_of active org c ref s \<longleftrightarrow>
     (case ref of None \<Rightarrow> True | Some i \<Rightarrow> \<exists>r. tbl_find i (sel s) = Some r \<and> org_of r = org \<and> carrier_of r = c \<and> active r)"

definition resources_ok :: "uuid \<Rightarrow> uuid \<Rightarrow> source_resources \<Rightarrow> db \<Rightarrow> bool" where
  "resources_ok org c src s \<longleftrightarrow>
     resource_ok drivers dr_organizationId dr_carrierId dr_active org c (sr_driverId src) s \<and>
     resource_ok trucks eq_organizationId eq_carrierId eq_active org c (sr_truckId src) s \<and>
     resource_ok trailers eq_organizationId eq_carrierId eq_active org c (sr_trailerId src) s"

lemma validate_iff: "(validateSourceResources org (Some c) src s = Inr z) \<longleftrightarrow> resources_ok org c src s \<and> z = ((), s)"
  by (auto simp: validateSourceResources_def resources_ok_def resource_ok_def carrier_resource_def tx_iff
      split: option.splits if_splits)

lemma on_file_recalculated: "rate_confirmation_on_file org l (recalculated org c r s) = rate_confirmation_on_file org l s"
  by (simp add: rate_confirmation_on_file_def document_code_def)

lemma resources_recalculated: "resources_ok org c src (recalculated org c r s) = resources_ok org c src s"
  by (simp add: resources_ok_def resource_ok_def split: option.split)

text \<open>
  C27. The dispatch gate. A load is dispatched exactly when it has reached rate confirmation with
  carrier and rate on record, the carrier is still assignable at that moment, a current rate
  confirmation is on file, every driver, truck and trailer named is an active one of that carrier,
  and the load has no dispatch record yet.
\<close>

theorem dispatch_gate:
  "(\<exists>z. dispatch org l dto u s = Inr z) \<longleftrightarrow>
     (\<exists>load c. tbl_find l (loads s) = Some load \<and> l_organizationId load = org \<and> l_status load = RATE_CONFIRMATION \<and>
        l_assignedCarrierId load = Some c \<and> l_carrierRate load \<noteq> None \<and> assignable org c s \<and>
        rate_confirmation_on_file org l s \<and> resources_ok org c (did_source dto) s \<and>
        tbl_find l (dispatch_records s) = None)"
  unfolding dispatch_def assignable_iff
  by (auto simp: tx_iff validate_iff on_file_recalculated resources_recalculated)

section \<open>The status derived from the stops\<close>

text \<open>What the derivation reads off the stops: the standard pickups and the last standard delivery.\<close>

definition pickups_done :: "stop_progress list \<Rightarrow> bool" where
  "pickups_done sts \<longleftrightarrow> (\<forall>p \<in> set sts. sp_stopType p = ST_PICKUP \<longrightarrow> isStandard p \<longrightarrow> sp_status p = SS_COMPLETED)"

definition pickup_started :: "stop_progress list \<Rightarrow> bool" where
  "pickup_started sts \<longleftrightarrow> (\<exists>p \<in> set sts. sp_stopType p = ST_PICKUP \<and> isStandard p \<and> sp_status p \<noteq> SS_PENDING)"

definition delivery :: "stop_progress \<Rightarrow> bool" where
  "delivery p \<longleftrightarrow> sp_stopType p = ST_DELIVERY \<and> isStandard p"

definition last_delivery_done :: "stop_progress list \<Rightarrow> bool" where
  "last_delivery_done sts \<longleftrightarrow>
     (\<exists>d \<in> set sts. delivery d \<and> sp_status d = SS_COMPLETED \<and>
        (\<forall>e \<in> set sts. delivery e \<longrightarrow> sp_sequence e \<le> sp_sequence d))"

lemma sorted_last: "sorted (map f zs) \<Longrightarrow> y \<in> set zs \<Longrightarrow> f y \<le> f (last zs)"
  by (induction zs) (auto split: if_splits)

lemma last_of_sorted:
  fixes f :: "'a \<Rightarrow> int"
  assumes "distinct (map f xs)" and "xs \<noteq> []"
  shows "last (sort_key f xs) = x \<longleftrightarrow> x \<in> set xs \<and> (\<forall>y \<in> set xs. f y \<le> f x)"
proof -
  let ?s = "sort_key f xs"
  have ne: "?s \<noteq> []" using assms(2) by (metis set_empty set_sort)
  have le: "f y \<le> f (last ?s)" if "y \<in> set xs" for y
    using that by (intro sorted_last) simp_all
  have mem: "last ?s \<in> set xs" using last_in_set [OF ne] by simp
  have inj: "inj_on f (set xs)" using assms(1) by (simp add: distinct_map)
  show ?thesis using le mem inj by (auto intro: antisym dest: inj_onD)
qed

text \<open>
  The derivation in one equation, for stops whose sequence numbers are distinct: it reads the stops
  as a set.
\<close>

definition derived_status :: "load_status \<Rightarrow> stop_progress list \<Rightarrow> load_status" where
  "derived_status cur sts =
     (if cur \<notin> {DISPATCHED, PICKUP, IN_TRANSIT} then cur
      else if pickups_done sts then (if last_delivery_done sts then DELIVERED else IN_TRANSIT)
      else if pickup_started sts then PICKUP else cur)"

lemma unique_pick: "(\<And>x. a = x \<longleftrightarrow> P x) \<Longrightarrow> Q a \<longleftrightarrow> (\<exists>x. P x \<and> Q x)"
  by metis

lemma final_delivery:
  assumes "distinct (map sp_sequence sts)"
  defines "ds \<equiv> sort_key sp_sequence (filter (\<lambda>s. sp_stopType s = ST_DELIVERY \<and> isStandard s) sts)"
  shows "(case (if ds = [] then None else Some (last ds)) of None \<Rightarrow> False | Some d \<Rightarrow> sp_status d = SS_COMPLETED) \<longleftrightarrow>
     last_delivery_done sts"
proof -
  let ?f = "filter (\<lambda>s. sp_stopType s = ST_DELIVERY \<and> isStandard s) sts"
  have d: "distinct (map sp_sequence ?f)" using assms(1) by (rule distinct_map_filter)
  have set: "set ?f = {p \<in> set sts. delivery p}" by (auto simp: delivery_def)
  show ?thesis
  proof (cases "?f = []")
    case True
    then show ?thesis unfolding ds_def by (auto simp: last_delivery_done_def filter_empty_conv delivery_def)
  next
    case False
    then have "ds \<noteq> []" unfolding ds_def by (metis set_empty set_sort)
    moreover have "last ds = x \<longleftrightarrow> x \<in> set ?f \<and> (\<forall>y \<in> set ?f. sp_sequence y \<le> sp_sequence x)" for x
      unfolding ds_def by (rule last_of_sorted [OF d False])
    note picked = unique_pick [where Q = "\<lambda>d. sp_status d = SS_COMPLETED", OF this]
    ultimately show ?thesis unfolding set last_delivery_done_def by (auto simp: picked set)
  qed
qed

text \<open>
  C28. The derived status depends on what has happened at the stops, and on nothing else. For stops
  with distinct sequence numbers, in whatever order the database returns them, a load on the road
  is delivered exactly when all its standard pickups and its last standard delivery are completed,
  in transit when only the pickups are, at pickup when one has been reached; every other load keeps
  its status.
\<close>

theorem derivation_refines:
  assumes "distinct (map sp_sequence sts)"
  shows "deriveLoadStatus cur sts = derived_status cur sts"
proof -
  have "(\<forall>p \<in> set (filter (\<lambda>s. sp_stopType s = ST_PICKUP \<and> isStandard s) sts). sp_status p = SS_COMPLETED) = pickups_done sts"
    "(\<exists>p \<in> set (filter (\<lambda>s. sp_stopType s = ST_PICKUP \<and> isStandard s) sts). sp_status p \<noteq> SS_PENDING) = pickup_started sts"
    by (auto simp: pickups_done_def pickup_started_def)
  then show ?thesis
    unfolding deriveLoadStatus_def Let_def final_delivery [OF assms] derived_status_def DERIVABLE_STATUSES_def
    by simp
qed

definition demo_progress :: "int \<Rightarrow> stop_type \<Rightarrow> stop_status \<Rightarrow> stop_progress" where
  "demo_progress n ty st = \<lparr>sp_stopType = ty, sp_stopPurpose = None, sp_status = st, sp_sequence = n\<rparr>"

theorem derivation_refines_witness:
  "deriveLoadStatus IN_TRANSIT [demo_progress 3 ST_DELIVERY SS_COMPLETED, demo_progress 2 ST_DELIVERY SS_PENDING,
     demo_progress 1 ST_PICKUP SS_COMPLETED] = DELIVERED"
  using derivation_refines [of "[demo_progress 3 ST_DELIVERY SS_COMPLETED, demo_progress 2 ST_DELIVERY SS_PENDING,
     demo_progress 1 ST_PICKUP SS_COMPLETED]" IN_TRANSIT]
  by (simp add: demo_progress_def derived_status_def pickups_done_def last_delivery_done_def delivery_def isStandard_def)

lemma derive_standard: "deriveLoadStatus cur (filter isStandard sts) = deriveLoadStatus cur sts"
proof -
  have "filter (\<lambda>s. sp_stopType s = ty \<and> isStandard s) (filter isStandard sts) =
      filter (\<lambda>s. sp_stopType s = ty \<and> isStandard s) sts" for ty
    unfolding filter_filter by (rule filter_cong) auto
  then show ?thesis by (simp add: deriveLoadStatus_def)
qed

text \<open>
  Deriving is settled after one step and blind to returns: deriving again from the same stops
  changes nothing, and leaving out the return stops gives the same status.
\<close>

theorem derivation_settles:
  "deriveLoadStatus (deriveLoadStatus cur sts) sts = deriveLoadStatus cur sts \<and>
   deriveLoadStatus cur (filter isStandard sts) = deriveLoadStatus cur sts"
proof -
  obtain P Q R where "deriveLoadStatus c sts = (if c \<notin> {DISPATCHED, PICKUP, IN_TRANSIT} then c
      else if P \<and> Q then DELIVERED else if Q then IN_TRANSIT else if R then PICKUP else c)" for c
    unfolding deriveLoadStatus_def DERIVABLE_STATUSES_def Let_def list.set by blast
  then show ?thesis by (cases cur) (simp_all add: derive_standard)
qed

section \<open>Returns\<close>

lemma progress_ins:
  assumes "tbl_where (load_stops org l) (stops s') = tbl_where (load_stops org l) (stops s) @ new"
    and "\<forall>(_, p) \<in> set new. s_stopPurpose p \<noteq> STANDARD"
  shows "filter isStandard (load_progress org l s') = filter isStandard (load_progress org l s)"
  using assms(2)
  by (auto simp: load_progress_def assms(1) filter_empty_conv isStandard_def stop_progress_of_def)

lemma derive_blind: "filter isStandard sts = filter isStandard sts' \<Longrightarrow> deriveLoadStatus cur sts = deriveLoadStatus cur sts'"
  by (metis derive_standard)

text \<open>
  Initiating a return leaves the status alone. On a load whose status agrees with its stops,
  the two stops of a return are appended as pending, after every other stop in sequence, and the
  load is as it was.
\<close>

theorem return_keeps_status:
  assumes "initiateReturn org l back home u s = Inr ((new, load'), s')"
    and "tbl_find l (loads s) = Some load" and "deriveLoadStatus (l_status load) (load_progress org l s) = l_status load"
  shows "loads s' = loads s \<and> load' = load \<and> map (s_stopPurpose \<circ> snd) new = [RETURN, RETURN] \<and>
     tbl_where (load_stops org l) (stops s') = tbl_where (load_stops org l) (stops s) @ new"
proof -
  let ?n = "next_sequence org l s"
  let ?p = "return_stop org l back ?n ST_PICKUP" and ?d = "return_stop org l home (?n + 1) ST_DELIVERY"
  have new: "new = [(next_id s, ?p), (Suc (next_id s), ?d)]"
    and stops: "stops s' = tbl_ins (Suc (next_id s)) ?d (tbl_ins (next_id s) ?p (stops s))"
    and load: "(if deriveLoadStatus (l_status load) (load_progress org l s') = l_status load
       then loads s' = loads s \<and> load' = load else True)"
    using assms(1,2) unfolding initiateReturn_def reEvaluateLoadStatus_def
    by (auto simp: tx_iff Let_def load_progress_def split: if_splits option.splits)
  have "load_stops org l k ?p" "load_stops org l k ?d" for k by (simp_all add: load_stops_def return_stop_def)
  then have rows: "tbl_where (load_stops org l) (stops s') = tbl_where (load_stops org l) (stops s) @ new"
    by (simp add: stops new tbl_where_def tbl_ins_def)
  have "filter isStandard (load_progress org l s') = filter isStandard (load_progress org l s)"
    by (rule progress_ins [OF rows]) (simp add: new return_stop_def)
  from derive_blind [OF this] load rows assms(3) show ?thesis by (simp add: new return_stop_def)
qed

definition demo_stop_row :: "int \<Rightarrow> stop_type \<Rightarrow> stop_row" where
  "demo_stop_row n ty = new_stop 1 60 (demo_stop n ty)"

definition demo_return :: return_stop_input where
  "demo_return = \<lparr>rsi_customerLocationId = None, rsi_companyName = ''R'', rsi_addressLine1 = ''1'', rsi_city = ''Omaha'',
     rsi_state = ''NE'', rsi_zip = ''1'', rsi_appointmentDatetime = None, rsi_contactName = None,
     rsi_contactPhone = None, rsi_notes = None\<rparr>"

text \<open>A load on the road whose delivery has a proof of delivery.\<close>

definition road_db :: db where
  "road_db = demo_db\<lparr>loads := [(60, demo_load DISPATCHED (Some 40) (Some 100))],
     stops := [(61, demo_stop_row 1 ST_PICKUP), (62, demo_stop_row 2 ST_DELIVERY)],
     documents := [(70, (demo_document ''pod.pdf'' 23 7)\<lparr>doc_entityType := DE_STOP, doc_entityId := 62\<rparr>)]\<rparr>"

lemmas road_data = road_db_def demo_db_def blank_db_def demo_stop_row_def new_stop_def demo_stop_def demo_document_def demo_type_def

lemma road_progress: "load_progress 1 60 road_db = map stop_progress_of [demo_stop_row 1 ST_PICKUP, demo_stop_row 2 ST_DELIVERY]"
  by (simp add: load_progress_def tbl_where_def load_stops_def road_data)

theorem return_keeps_status_witness:
  "\<exists>new load' s'. initiateReturn 1 60 demo_return demo_return 7 road_db = Inr ((new, load'), s') \<and> loads s' = loads road_db"
proof -
  have load: "tbl_find 60 (loads road_db) = Some (demo_load DISPATCHED (Some 40) (Some 100))"
    by (simp add: road_db_def tbl_find_def)
  have pending: "deriveLoadStatus DISPATCHED (load_progress 1 60 road_db) = DISPATCHED"
    unfolding road_progress by (simp add: deriveLoadStatus_def DERIVABLE_STATUSES_def Let_def stop_progress_of_def
        isStandard_def demo_stop_row_def new_stop_def demo_stop_def)
  have "\<exists>z. initiateReturn 1 60 demo_return demo_return 7 road_db = Inr z"
    using load by (auto simp: initiateReturn_def reEvaluateLoadStatus_def require_load_run tx_run demo_load_def
        POST_DISPATCH_STATUSES_def Let_def split: option.split)
  then obtain new load' s' where run: "initiateReturn 1 60 demo_return demo_return 7 road_db = Inr ((new, load'), s')" by auto
  from return_keeps_status [OF run load] pending run show ?thesis by (simp add: demo_load_def)
qed

section \<open>Proof of delivery\<close>

text \<open>The stop has a clean, current proof of delivery.\<close>

definition has_pod :: "uuid \<Rightarrow> uuid \<Rightarrow> db \<Rightarrow> bool" where
  "has_pod org stopId s \<longleftrightarrow> (\<exists>d \<in> snd ` set (documents s). doc_organizationId d = org \<and> doc_entityType d = DE_STOP \<and>
     doc_entityId d = stopId \<and> doc_isCurrentVersion d \<and> doc_scanStatus d = SCAN_CLEAN \<and> document_code s d = Some ''POD'')"

lemma stops_with_pod_set:
  "set (stops_with_pod org l s) = {i \<in> fst ` set (standard_deliveries org l s). has_pod org i s}"
  by (force simp: stops_with_pod_def pod_documents_def tbl_where_iff has_pod_def)

lemma all_covered: "{i \<in> fst ` D. P i} = fst ` D \<longleftrightarrow> (\<forall>(i, p) \<in> D. P i)"
  by force

lemma pod_counts:
  assumes "wf_db s"
  shows "length (stops_with_pod org l s) \<le> length (standard_deliveries org l s)"
    and "length (stops_with_pod org l s) = length (standard_deliveries org l s) \<longleftrightarrow>
       (\<forall>(i, p) \<in> set (standard_deliveries org l s). has_pod org i s)"
proof -
  let ?w = "stops_with_pod org l s" and ?d = "standard_deliveries org l s"
  have "distinct (map fst ?d)" using assms
    by (auto simp: standard_deliveries_def tbl_where_def wf_db_def table_ok_def intro: distinct_map_filter)
  then have d: "length ?d = card (fst ` set ?d)" by (metis distinct_card length_map set_map)
  have "distinct ?w" by (simp add: stops_with_pod_def)
  then have w: "length ?w = card (set ?w)" by (rule distinct_card [symmetric])
  have sub: "set ?w \<subseteq> fst ` set ?d" by (auto simp: stops_with_pod_set)
  then show "length ?w \<le> length ?d" unfolding d w by (intro card_mono) simp_all
  have "card (set ?w) = card (fst ` set ?d) \<longleftrightarrow> set ?w = fst ` set ?d"
    using sub by (metis card_subset_eq List.finite_set finite_imageI)
  then show "length ?w = length ?d \<longleftrightarrow> (\<forall>(i, p) \<in> set ?d. has_pod org i s)"
    unfolding d w stops_with_pod_set all_covered [symmetric] .
qed

text \<open>
  C29. The proof-of-delivery milestone. After a recalculation the load's milestone is complete
  exactly when every standard delivery has a clean current proof of delivery (and there is one at
  all), not received when none has, and partial otherwise; the milestone is on record.
\<close>

theorem pod_milestone:
  assumes "recalculatePodStatus org l s = Inr (p, s')" and "wf_db s"
  defines "deliveries \<equiv> set (standard_deliveries org l s)"
  shows "(p = POD_COMPLETE \<longleftrightarrow> deliveries \<noteq> {} \<and> (\<forall>(i, d) \<in> deliveries. has_pod org i s)) \<and>
     (p = POD_NOT_RECEIVED \<longleftrightarrow> (\<forall>(i, d) \<in> deliveries. \<not> has_pod org i s)) \<and>
     map_option l_podStatus (tbl_find l (loads s')) = Some p"
proof -
  have p: "p = derive_pod_status org l s" and stored: "map_option l_podStatus (tbl_find l (loads s')) = Some p"
    using assms(1) by (auto simp: recalculatePodStatus_def tx_iff tbl_find_upd split: if_splits)
  have none: "length (stops_with_pod org l s) = 0 \<longleftrightarrow> (\<forall>(i, d) \<in> deliveries. \<not> has_pod org i s)"
    unfolding length_0_conv set_empty [symmetric] stops_with_pod_set deliveries_def by auto
  have empty: "deliveries = {} \<longleftrightarrow> length (standard_deliveries org l s) = 0" by (simp add: deliveries_def)
  note counts = pod_counts [OF assms(2), of org l, folded deliveries_def]
  show ?thesis unfolding p [unfolded derive_pod_status_def pod_status_of_def] counts(2) [symmetric] none [symmetric] empty
    using counts(1) stored p [unfolded derive_pod_status_def pod_status_of_def] by auto
qed

theorem pod_milestone_witness:
  "\<exists>s'. recalculatePodStatus 1 60 road_db = Inr (POD_COMPLETE, s')"
proof -
  have wf: "wf_db road_db" by (simp add: wf_db_def road_db_def demo_db_def blank_db_def table_ok_def)
  have deliveries: "standard_deliveries 1 60 road_db = [(62, demo_stop_row 2 ST_DELIVERY)]" and pod: "has_pod 1 62 road_db"
    by (simp_all add: standard_deliveries_def has_pod_def tbl_where_def road_data document_code_def tbl_find_def)
  have "\<exists>z. recalculatePodStatus 1 60 road_db = Inr z"
    by (auto simp: recalculatePodStatus_def tx_run road_db_def tbl_find_def demo_load_def)
  then obtain p s' where run: "recalculatePodStatus 1 60 road_db = Inr (p, s')" by auto
  then show ?thesis using pod_milestone [OF run wf] deliveries pod by auto
qed

section \<open>Cancelling and closing\<close>

text \<open>
  Cancelling is for loads not yet dispatched, and once. A load is cancelled exactly when it is
  booked, in sourcing, assigned or at rate confirmation.
\<close>

theorem cancel_gate:
  "(\<exists>z. cancelLoad org l reason u s = Inr z) \<longleftrightarrow>
     (\<exists>load. tbl_find l (loads s) = Some load \<and> l_organizationId load = org \<and>
        l_status load \<in> {BOOKED, CARRIER_SOURCING, CARRIER_ASSIGNED, RATE_CONFIRMATION})"
  by (auto simp: cancelLoad_def CANCELLABLE_STATUSES_def require_load_run tx_run split: option.split)

lemma close_run:
  assumes "tbl_find l (loads s) = Some load" and "l_organizationId load = org" and "l_status load \<noteq> CLOSED"
  shows "\<exists>row cl s'. closeLoad org l u s = Inr ((row, cl), s') \<and> tbl_find l (loads s') = Some row \<and>
     row = load\<lparr>l_status := CLOSED, l_closedAt := Some (clock s), l_closedByUserId := Some u\<rparr>"
  using assms by (simp add: closeLoad_def require_load_run tx_run tbl_find_upd)

lemma ready_to_invoice:
  assumes "tbl_find l (loads s) = Some row" and "l_organizationId row = org" and "l_status row \<in> {DELIVERED, CLOSED}"
    and "\<not> l_invoiced row"
  shows "\<exists>q. getReadyToInvoice org None s = Inr (q, s) \<and> (l, row, customer_charges_total l s) \<in> set q"
  using assms tbl_find_in_set [OF assms(1)] by (force simp: getReadyToInvoice_def tx_run tbl_where_iff)



section \<open>Booking\<close>

text \<open>The result of a step that cannot fail.\<close>

definition outcome_of :: "'a tx \<Rightarrow> db \<Rightarrow> 'a" where
  "outcome_of m s = fst (projr (m s))"

lemma resolveRate_iff:
  "resolveRate org c oc os dc ds eq rate s = Inr z \<longleftrightarrow> z = (outcome_of (resolveRate org c oc os dc ds eq rate) s, s)"
proof -
  have "\<exists>x. resolveRate org c oc os dc ds eq rate s = Inr (x, s)" by (simp add: resolveRate_def findMatch_def tx_run)
  then show ?thesis by (auto simp: outcome_of_def)
qed

lemma customer_linehaul_iff:
  "createOriginalCustomerLinehaulCharge org l rate u s = Inr z \<longleftrightarrow>
     z = ((), after (createOriginalCustomerLinehaulCharge org l rate u) s)"
proof -
  have "createOriginalCustomerLinehaulCharge org l rate u s = Inr ((), after (createOriginalCustomerLinehaulCharge org l rate u) s)"
    by (rule after_run)
      (simp add: createOriginalCustomerLinehaulCharge_def findLinehaulType_def tx_run split: option.split prod.split)
  then show ?thesis by auto
qed

lemma not_expired_recorded: "not_expired org (recorded e s) = not_expired org s"
  by (simp add: not_expired_def split: option.split)

lemma createFromBooking_iff:
  "createFromBooking org bp u s = Inr z \<longleftrightarrow> not_expired org s \<and> z = projr (createFromBooking org bp u s)"
proof -
  have "not_expired org s \<Longrightarrow> \<exists>z. createFromBooking org bp u s = Inr z"
    by (auto simp: createFromBooking_def tx_iff Let_def customer_linehaul_iff)
  moreover have "createFromBooking org bp u s = Inr z \<Longrightarrow> not_expired org s"
    by (auto simp: createFromBooking_def tx_iff)
  ultimately show ?thesis by auto
qed

lemma allows_booking_iff:
  "assertCustomerAllowsBooking org c customer ok u s = Inr z \<longleftrightarrow>
     cu_status customer = CU_ACTIVE \<and> z = ((), s) \<or>
     cu_status customer = CU_INACTIVE \<and> ok \<and> z = ((), recorded (ev_inactive_override org c u) s)"
  by (cases "cu_status customer") (auto simp: assertCustomerAllowsBooking_def tx_iff)

text \<open>
  The booking gate. A load is booked directly exactly when it has a pickup and a delivery, the
  customer is one of the organization that is active, or inactive with an explicit override, and
  the organization's subscription has not expired.
\<close>

theorem booking_gate:
  "(\<exists>z. createDirect_tx org dto u s = Inr z) \<longleftrightarrow>
     firstPickup (cld_stops dto) \<noteq> None \<and> lastDelivery (cld_stops dto) \<noteq> None \<and>
     (\<exists>customer. tbl_find (cld_customerId dto) (customers s) = Some customer \<and> cu_organizationId customer = org \<and>
        (cu_status customer = CU_ACTIVE \<or> cu_status customer = CU_INACTIVE \<and> cld_confirmInactiveCustomerOverride dto)) \<and>
     not_expired org s"
  by (auto simp: createDirect_tx_def tx_iff allows_booking_iff resolveRate_iff createFromBooking_iff
      not_expired_recorded simp del: split_paired_Ex)

lemma createFromBooking_writes:
  assumes "createFromBooking org bp u s = Inr ((i, load, sts), s')"
  shows "quotes s' = quotes s \<and> (\<exists>n. load = new_load org n bp u (clock s)) \<and>
     map snd sts = map (new_stop org i) (bp_stops bp)"
proof -
  have "only (- {Quotes}) s s'"
    using assms footprint_booking [of "- {Quotes}" org bp u] by (auto simp: keeps_def)
  then have "untouched Quotes s s'" unfolding only_def by blast
  then show ?thesis using assms by (auto simp: createFromBooking_def tx_iff Let_def simp del: upt_Suc)
qed

lemma convert_tx_writes:
  assumes "convert_tx org q rate ok u s = Inr ((i, load, sts), s')"
  obtains quote n and t :: db where "tbl_find q (quotes s) = Some quote" and "q_status quote = QS_OPEN"
    and "quote_stops t = quote_stops s"
    and "load = new_load org n (conversion_params q quote (tbl_where (\<lambda>_ p. qs_quoteId p = q) (quote_stops t)) rate) u (clock t)"
    and "map snd sts = map (new_stop org i) (bp_stops (conversion_params q quote (tbl_where (\<lambda>_ p. qs_quoteId p = q) (quote_stops t)) rate))"
    and "tbl_find q (quotes s') = Some (quote\<lparr>q_status := QS_WON, q_resultingLoadId := Some i\<rparr>)"
proof -
  from assms obtain quote t s1 customer where quote: "tbl_find q (quotes s) = Some quote" "q_status quote = QS_OPEN"
    and allowed: "assertCustomerAllowsBooking org (q_customerId quote) customer ok u s = Inr ((), t)"
    and booked: "createFromBooking org (conversion_params q quote (tbl_where (\<lambda>_ p. qs_quoteId p = q) (quote_stops t)) rate) u t
       = Inr ((i, load, sts), s1)"
    and s': "quotes s' = tbl_upd q (\<lambda>q. q\<lparr>q_status := QS_WON, q_resultingLoadId := Some i\<rparr>) (quotes s1)"
    unfolding convert_tx_def by (fastforce simp: tx_iff split: if_splits)
  have t: "quotes t = quotes s" "quote_stops t = quote_stops s" using allowed by (auto simp: allows_booking_iff)
  obtain n where q1: "quotes s1 = quotes t"
    and load: "load = new_load org n (conversion_params q quote (tbl_where (\<lambda>_ p. qs_quoteId p = q) (quote_stops t)) rate) u (clock t)"
    and sts: "map snd sts = map (new_stop org i) (bp_stops (conversion_params q quote (tbl_where (\<lambda>_ p. qs_quoteId p = q) (quote_stops t)) rate))"
    using createFromBooking_writes [OF booked] by (elim conjE exE)
  have "tbl_find q (quotes s') = Some (quote\<lparr>q_status := QS_WON, q_resultingLoadId := Some i\<rparr>)"
    using quote t s' q1 by (simp add: tbl_find_upd)
  then show thesis by (rule that [OF quote t(2) load sts])
qed


definition quoted_db :: db where
  "quoted_db = small_db\<lparr>quotes := [(80, new_quote 1 ''QUOTE-000001'' demo_quote_dto (None, MANUAL) 7 0)],
     quote_stops := [(81, new_quote_stop 1 80 (demo_quote_stop 1 ST_PICKUP)), (82, new_quote_stop 1 80 (demo_quote_stop 2 ST_DELIVERY))]\<rparr>"

lemma quoted_converts: "\<exists>z. convert_tx 1 80 95000 False 7 quoted_db = Inr z"
proof -
  let ?q = "new_quote 1 ''QUOTE-000001'' demo_quote_dto (None, MANUAL) 7 0"
  let ?bp = "conversion_params 80 ?q (tbl_where (\<lambda>_ p. qs_quoteId p = 80) (quote_stops quoted_db)) 95000"
  have "not_expired 1 quoted_db"
    by (simp add: not_expired_def quoted_db_def small_db_def blank_db_def tbl_find_def demo_org_def resolveEffectiveStatus_def)
  then obtain b where "createFromBooking 1 ?bp 7 quoted_db = Inr b" by (simp only: createFromBooking_iff)
  then obtain k l ps s1 where booked: "createFromBooking 1 ?bp 7 quoted_db = Inr ((k, l, ps), s1)" by (metis prod.exhaust)
  then have "quotes s1 = [(80, ?q)]" using createFromBooking_writes [OF booked] by (simp add: quoted_db_def)
  moreover have "assertCustomerAllowsBooking 1 50 (demo_customer CU_ACTIVE) False 7 quoted_db = Inr ((), quoted_db)"
    by (simp add: allows_booking_iff demo_customer_def)
  moreover have "require_customer 1 50 quoted_db = Inr (demo_customer CU_ACTIVE, quoted_db)"
    by (simp add: require_customer_iff quoted_db_def small_db_def tbl_find_def demo_customer_def)
  moreover have "require_quote 1 80 quoted_db = Inr (?q, quoted_db)"
    by (simp add: require_quote_iff quoted_db_def tbl_find_def new_quote_def)
  ultimately show ?thesis
    using booked by (simp add: convert_tx_def tx_run tbl_find_def) (simp add: new_quote_def demo_quote_dto_def tx_run tbl_find_def)
qed


text \<open>
  The rate on record says where it came from. Looking up a rate changes nothing; it finds an
  agreement exactly when an active one of the customer fits the lane and equipment, and calls the
  rate agreed only when it equals that agreement's.
\<close>

theorem rate_resolution:
  assumes "resolveRate org c oc os dc ds eq rate s = Inr ((agreement, source), s')"
  shows "s' = s \<and> (source = MANUAL \<longleftrightarrow> agreement = None) \<and>
     (agreement = None \<longleftrightarrow> \<not> (\<exists>(i, r) \<in> set (rate_agreements s).
        active_agreement org c eq (start_of_day (clock s)) r \<and> lane_matches oc os dc ds r)) \<and>
     (\<forall>i. agreement = Some i \<longrightarrow> (\<exists>r. (i, r) \<in> set (rate_agreements s) \<and>
        active_agreement org c eq (start_of_day (clock s)) r \<and> lane_matches oc os dc ds r \<and>
        (source = RATE_AGREEMENT \<longleftrightarrow> ra_rate r = rate)))"
proof -
  obtain m where m: "findMatch org c oc os dc ds eq s = Inr (m, s)" by (auto simp: findMatch_def tx_run)
  show ?thesis
  proof (cases m)
    case None
    then show ?thesis using assms m findMatch_None [of org c oc os dc ds eq s s]
      by (auto simp: resolveRate_def tx_iff)
  next
    case (Some p)
    obtain i suggested where p: "p = (i, suggested)" by (cases p)
    from findMatch_Some [of org c oc os dc ds eq s i suggested s] m Some p
    obtain r where r: "(i, r) \<in> set (rate_agreements s)" "active_agreement org c eq (start_of_day (clock s)) r"
      "lane_matches oc os dc ds r" "ra_rate r = suggested" by blast
    have "s' = s \<and> agreement = Some i \<and> source = (if suggested = rate then RATE_AGREEMENT else MANUAL_OVERRIDE)"
      using assms m Some p by (simp add: resolveRate_def tx_iff)
    with r show ?thesis by auto
  qed
qed

definition lane_agreement :: "cents \<Rightarrow> rate_agreement_row" where
  "lane_agreement rate = \<lparr>ra_organizationId = 1, ra_customerId = 50, ra_originCity = ''Omaha'', ra_originState = ''NE'',
     ra_destinationCity = ''Boise'', ra_destinationState = ''ID'', ra_equipmentType = DRY_VAN, ra_rate = rate,
     ra_rateType = ''FLAT'', ra_effectiveDate = 0, ra_expirationDate = None, ra_fuelSurchargeRules = None, ra_notes = None\<rparr>"

theorem rate_resolution_witness:
  "resolveRate 1 50 ''Omaha'' ''NE'' ''Boise'' ''ID'' DRY_VAN 120000
       (small_db\<lparr>rate_agreements := [(85, lane_agreement 120000)]\<rparr>) =
     Inr ((Some 85, RATE_AGREEMENT), small_db\<lparr>rate_agreements := [(85, lane_agreement 120000)]\<rparr>) \<and>
   (\<exists>r. (85, r) \<in> set (rate_agreements (small_db\<lparr>rate_agreements := [(85, lane_agreement 120000)]\<rparr>)) \<and> ra_rate r = 120000)"
proof -
  let ?s = "small_db\<lparr>rate_agreements := [(85, lane_agreement 120000)]\<rparr>"
  have run: "resolveRate 1 50 ''Omaha'' ''NE'' ''Boise'' ''ID'' DRY_VAN 120000 ?s = Inr ((Some 85, RATE_AGREEMENT), ?s)"
    by (simp add: resolveRate_def findMatch_def tx_run tbl_where_def lane_agreement_def active_agreement_def lane_matches_def
        start_of_day_def day_ms_def small_db_def blank_db_def)
  from rate_resolution [OF run] run show ?thesis by blast
qed

section \<open>Numbers\<close>

text \<open>
  A number is handed out once and can be read back. The next number of a sequence is one more
  than the last, leaves every other sequence of every organization alone, and its printed form
  determines it; the next one after it differs.
\<close>

theorem sequence_roundtrip:
  assumes "getNextNumber org ty s = Inr (n, s')" and "getNextNumber org ty s' = Inr (m, s'')"
  shows "n = sequence_current s org ty + 1 \<and> read_nat (drop (length (sequence_prefix ty) + 1) (format ty n)) = n \<and>
     format ty m \<noteq> format ty n \<and>
     (\<forall>org' ty'. (org', ty') \<noteq> (org, ty) \<longrightarrow> sequence_current s' org' ty' = sequence_current s org' ty')"
  using assms by (auto simp: getNextNumber_iff sequence_current_def read_format)

theorem sequence_roundtrip_witness:
  "\<exists>n s' m s''. getNextNumber 1 SEQ_LOAD small_db = Inr (n, s') \<and> getNextNumber 1 SEQ_LOAD s' = Inr (m, s'') \<and>
     format SEQ_LOAD m \<noteq> format SEQ_LOAD n"
proof -
  obtain n s' where one: "getNextNumber 1 SEQ_LOAD small_db = Inr (n, s')" by (auto simp: getNextNumber_run)
  obtain m s'' where two: "getNextNumber 1 SEQ_LOAD s' = Inr (m, s'')" by (auto simp: getNextNumber_run)
  from sequence_roundtrip [OF one two] one two show ?thesis by blast
qed

end
