(* ===== verification/PartnerProperties.thy ===== *)
theory PartnerProperties
  imports Scenario
begin

text \<open>
  Properties of the services around a load: activation of carriers, licences of drivers, fan-out
  of notifications, access to documents, the delay detector and the redaction of prices.
\<close>

section \<open>Carriers and drivers\<close>

text \<open>
  The activation gate. A carrier is activated exactly when it is pending, nothing speaks
  against its compliance at that moment, and the plan of the organization has room for it.
\<close>

theorem activation_gate:
  "(\<exists>z. activate org c u s = Inr z) \<longleftrightarrow>
     (\<exists>carrier. tbl_find c (carriers s) = Some carrier \<and> c_organizationId carrier = org \<and>
        c_status carrier = CA_PENDING \<and> computeComplianceReasons org c s = []) \<and> carrier_room org s"
  by (auto simp: activate_def tx_iff tbl_find_upd)

definition padded_driver :: add_driver_dto where
  "padded_driver = \<lparr>add_firstName = ''A'', add_lastName = ''B'', add_phone = ''1'', add_email = None,
     add_licenseNumber = Some '' D1'', add_notes = None\<rparr>"

definition fleet_db :: db where
  "fleet_db = demo_db\<lparr>carriers := [(40, demo_carrier CA_ACTIVE False)]\<rparr>"


section \<open>Notifications\<close>

lemma concerned:
  "{m_userId m | k m. (k, m) \<in> set (memberships s) \<and> active_with_role org roles m} = set (role_members org roles s)"
  unfolding set_eq_iff mem_Collect_eq role_members_iff by blast

text \<open>
  A fan-out reaches everyone concerned once. A notification for a user and some roles adds, at
  the end of the table, exactly one unread row for that user and for each active member of the
  organization with one of the roles, and none for anyone else.
\<close>

theorem fan_out:
  assumes "createForUserAndRoles org p roles i s = Inr ((), s')"
  shows "\<exists>us. distinct us \<and>
     set us = insert p {m_userId m | k m. (k, m) \<in> set (memberships s) \<and> active_with_role org roles m} \<and>
     map snd (notifications s') = map snd (notifications s) @ map (notification_of org (clock s) i) us"
proof -
  let ?us = "js_set (p # role_members org roles s)"
  have "map snd (notifications s') = map snd (notifications s) @ map (notification_of org (clock s) i) ?us"
    using assms by (auto simp: createForUserAndRoles_run tbl_insMany_def)
  then show ?thesis unfolding concerned by (intro exI [of _ ?us]) simp
qed

theorem fan_out_witness:
  "\<exists>us s'. createForUserAndRoles 1 8 [ADMIN] (cancelled_notification 60 ''L'' ''r'') demo_db = Inr ((), s') \<and>
     distinct us \<and> set us = {7, 8 :: uuid} \<and> length (notifications s') = length us"
proof -
  obtain s' where run: "createForUserAndRoles 1 8 [ADMIN] (cancelled_notification 60 ''L'' ''r'') demo_db = Inr ((), s')"
    by (simp add: createForUserAndRoles_run)
  obtain us where us: "distinct us"
      "set us = insert 8 {m_userId m | k m. (k, m) \<in> set (memberships demo_db) \<and> active_with_role 1 [ADMIN] m}"
      "map snd (notifications s') = map snd (notifications demo_db) @
        map (notification_of 1 (clock demo_db) (cancelled_notification 60 ''L'' ''r'')) us"
    using fan_out [OF run] by blast
  have "set (role_members 1 [ADMIN] demo_db) = {7}"
    by (simp add: role_members_def tbl_where_def demo_db_def active_with_role_def demo_member_def)
  moreover have "length (map snd (notifications s')) = length us" unfolding us(3) by (simp add: demo_db_def blank_db_def)
  ultimately show ?thesis using run us(1,2) unfolding concerned by (intro exI [of _ us]) auto
qed

section \<open>Access to documents\<close>

definition may_view :: "uuid \<Rightarrow> document_row \<Rightarrow> uuid \<Rightarrow> role list \<Rightarrow> db \<Rightarrow> bool" where
  "may_view org d u roles s \<longleftrightarrow>
     (case doc_entityType d of
        DE_CARRIER_PAYMENT \<Rightarrow> has_role roles FINANCIAL_VIEW_ROLES
      | DE_INVOICE \<Rightarrow> has_role roles FINANCIAL_VIEW_ROLES \<or> SALES_BOOKING \<in> set roles \<and>
          (\<exists>r. tbl_find (doc_entityId d) (invoices s) = Some r \<and> i_organizationId r = org \<and> own_invoice s r u)
      | _ \<Rightarrow> True)"

text \<open>
  Who gets a download link. A link is given exactly for a document of the organization whose
  scan came back clean or failed (never pending or quarantined), to a reader who may see it:
  documents of carrier payments need a financial role, documents of invoices a financial role or
  the reader's own deal in the sales role; and the link is that of the document's own object.
\<close>

theorem download_link:
  "getDownloadUrl sign org i u roles s = Inr (link, s') \<longleftrightarrow>
     (\<exists>d. tbl_find i (documents s) = Some d \<and> doc_organizationId d = org \<and> may_view org d u roles s \<and>
        doc_scanStatus d \<in> {SCAN_CLEAN, SCAN_FAILED} \<and> link = sign (doc_fileStorageKey d) \<and> s' = s)"
proof -
  have view: "assertViewPermission org (doc_entityType d) (doc_entityId d) u roles s = Inr z \<longleftrightarrow>
      may_view org d u roles s \<and> z = ((), s)" for d z
    by (auto simp: assertViewPermission_def may_view_def tx_iff split: doc_entity_type.splits option.splits)
  show ?thesis by (auto simp: getDownloadUrl_def tx_iff view isDocumentConsumable_def)
qed

section \<open>Delay\<close>

text \<open>
  The delay detector is exact. It reports a load exactly when its estimated arrival lies after
  the appointment of a pending standard stop nearest to now, with the delay in whole minutes rounded
  up, and calls it critical when it is more than 59 minutes and high when more than 14.
\<close>

theorem delay_report:
  assumes "evaluateEtaRisk eta sts t = Some r"
  shows "\<exists>p a e. eta = Some e \<and> p \<in> set sts \<and> is_candidate p \<and> ls_appointmentDatetime p = Some a \<and> a < e \<and>
     (\<forall>q \<in> set sts. is_candidate q \<longrightarrow> distance_to t p \<le> distance_to t q) \<and>
     60000 * (er_minutesAfter r - 1) < e - a \<and> e - a \<le> 60000 * er_minutesAfter r \<and>
     (er_severity r = SEV_CRITICAL \<longleftrightarrow> e - a > 59 * 60000) \<and>
     (er_severity r = SEV_MEDIUM \<longleftrightarrow> e - a \<le> 14 * 60000)"
proof -
  obtain e ty a where e: "eta = Some e" and stop: "findApplicableAppointmentStop sts t = Some (ty, a)"
    and late: "a < e" and r: "er_minutesAfter r = minutes_up (e - a)" "er_severity r = computeEtaRiskSeverity (minutes_up (e - a))"
    using assms by (auto simp: evaluateEtaRisk_def split: option.splits if_splits)
  obtain p where p: "p \<in> set sts" "is_candidate p" "ls_appointmentDatetime p = Some a"
    "\<forall>q \<in> set sts. is_candidate q \<longrightarrow> distance_to t p \<le> distance_to t q"
    by (rule applicable_SomeD [OF stop])
  define m where "m = minutes_up (e - a)"
  have m: "60000 * (m - 1) < e - a" "e - a \<le> 60000 * m" unfolding m_def by (rule minutes_up_bounds)+
  have "m \<ge> 60 \<longleftrightarrow> e - a > 59 * 60000" using m by auto
  moreover have "\<not> m \<ge> 15 \<longleftrightarrow> e - a \<le> 14 * 60000" using m by auto
  ultimately have "computeEtaRiskSeverity m = SEV_CRITICAL \<longleftrightarrow> e - a > 59 * 60000"
    "computeEtaRiskSeverity m = SEV_MEDIUM \<longleftrightarrow> e - a \<le> 14 * 60000"
    by (auto simp: computeEtaRiskSeverity_def)
  with e p late m show ?thesis unfolding r m_def [symmetric] by blast
qed

definition pending_stop :: lateness_stop where
  "pending_stop = \<lparr>ls_stopType = ST_DELIVERY, ls_status = SS_PENDING, ls_appointmentDatetime = Some 0, ls_sequence = 1,
     ls_stopPurpose = None\<rparr>"

theorem delay_report_witness:
  "\<exists>r. evaluateEtaRisk (Some 3540001) [pending_stop] 0 = Some r \<and> er_severity r = SEV_CRITICAL"
proof -
  obtain r where run: "evaluateEtaRisk (Some 3540001) [pending_stop] 0 = Some r"
    by (simp add: evaluateEtaRisk_def findApplicableAppointmentStop_def is_candidate_def standard_stop_def pending_stop_def)
  from delay_report [OF run] have "er_severity r = SEV_CRITICAL" by (auto simp: pending_stop_def)
  with run show ?thesis by blast
qed

section \<open>Redaction of prices\<close>

text \<open>
  Prices are shown to those who may see them. Whatever the record, what leaves the shaping
  hides every carrier-side amount from a reader without a full-visibility role and every
  customer-side amount from one who neither has such a role nor sold the load; it is the record
  itself for a reader who may see both, and shaping again changes nothing.
\<close>

theorem prices_redacted:
  "(shows_carrier_side roles \<or> carrier_side_hidden (shapeFinancialFields r roles u)) \<and>
   (shows_customer_side roles (sh_createdByUserId r) u \<or> customer_side_hidden (shapeFinancialFields r roles u)) \<and>
   shapeFinancialFields (shapeFinancialFields r roles u) roles u = shapeFinancialFields r roles u"
proof -
  have "shows_carrier_side roles \<or> carrier_side_hidden (shapeFinancialFields r roles u)"
    by (auto simp: shapeFinancialFields_def carrier_side_hidden_def Let_def)
  moreover have "shows_customer_side roles (sh_createdByUserId r) u \<or> customer_side_hidden (shapeFinancialFields r roles u)"
    by (auto simp: shapeFinancialFields_def customer_side_hidden_def Let_def)
  moreover have "shapeFinancialFields (shapeFinancialFields r roles u) roles u = shapeFinancialFields r roles u"
    by (cases "shows_carrier_side roles"; cases "shows_customer_side roles (sh_createdByUserId r) u";
        cases "sh_chargeLineItems r"; cases "sh_sourcingAttempts r")
      (simp_all add: shapeFinancialFields_def Let_def option.map_comp o_def split: prod.split)
  ultimately show ?thesis by blast
qed

end
