(* ===== verification/Attention.thy ===== *)
theory Attention
  imports Sweeps
begin

text \<open>
  The attention items of a load and the five background sweeps that keep them: backend/src/modules/
  background-jobs/services (eta-risk, stale-location, appointment-imminent, missing-pod and
  manual-risk-flag). All five have the same loop and the same lifecycle, so the loop is written
  once, over the type of the item, the type that suppresses it, the candidates and what the detector says of a
  candidate. The table of attention items is kept beside the database, which the sweeps only read,
  except for the audit entries they append. The clock does not move during a sweep.
\<close>

section \<open>The table\<close>

datatype attention_type =
    PICKUP_MISSED | DELIVERY_MISSED | ETA_AFTER_APPOINTMENT | APPOINTMENT_IMMINENT_NO_CHECK_CALL
  | STALE_LOCATION | UNASSIGNED_DISPATCHER | STUCK_CARRIER_SOURCING | AT_CHECK_CALL_OVERDUE
  | STUCK_LOAD_STATUS | MISSING_POD | UNRESOLVED_LOCATION | MISSING_REQUIRED_DOCUMENT
  | AT_CHECK_CALL_DUE_SOON | APPOINTMENT_CHANGED | MANUAL_RISK_FLAG

datatype attention_status = AT_ACTIVE | AT_RESOLVED

record attention_row =
  at_organizationId :: uuid
  at_loadId :: uuid
  at_type :: attention_type
  at_severity :: attention_severity
  at_status :: attention_status
  at_title :: string
  at_reason :: string
  at_suggestedActions :: json
  at_metadata :: json
  at_detectedAt :: instant
  at_updatedAt :: instant
  at_resolvedAt :: "instant option"

record monitor =
  mo_db :: db
  mo_items :: "attention_row table"

type_synonym 'a mtx = "(monitor, app_error, 'a) txn"

text \<open>A step on the database alone.\<close>

definition on_db :: "'a tx \<Rightarrow> 'a mtx" where
  "on_db m = (\<lambda>s. case m (mo_db s) of Inl e \<Rightarrow> Inl e | Inr (x, d) \<Rightarrow> Inr (x, s\<lparr>mo_db := d\<rparr>))"

definition create_item :: "attention_row \<Rightarrow> uuid mtx" where
  "create_item r = (\<lambda>s. let k = next_id (mo_db s) in
     Inr (k, s\<lparr>mo_db := (mo_db s)\<lparr>next_id := Suc k\<rparr>, mo_items := tbl_ins k r (mo_items s)\<rparr>))"

text \<open>Every update also sets the column \<^verbatim>\<open>updatedAt\<close>.\<close>

definition update_item :: "uuid \<Rightarrow> (attention_row \<Rightarrow> attention_row) \<Rightarrow> attention_row mtx" where
  "update_item k f = (\<lambda>s. case tbl_find k (mo_items s) of None \<Rightarrow> Inl (PrismaError ''P2025'')
     | Some r \<Rightarrow> Inr ((f r)\<lparr>at_updatedAt := clock (mo_db s)\<rparr>,
          s\<lparr>mo_items := tbl_upd k (\<lambda>r. (f r)\<lparr>at_updatedAt := clock (mo_db s)\<rparr>) (mo_items s)\<rparr>))"

section \<open>The lifecycle of an item\<close>

record attention_content =
  ac_severity :: attention_severity
  ac_title :: string
  ac_reason :: string
  ac_metadata :: json

fun severity_name :: "attention_severity \<Rightarrow> string" where
  "severity_name SEV_CRITICAL = ''CRITICAL''"
| "severity_name SEV_HIGH = ''HIGH''"
| "severity_name SEV_MEDIUM = ''MEDIUM''"
| "severity_name SEV_INFO = ''INFO''"

fun attention_type_name :: "attention_type \<Rightarrow> string" where
  "attention_type_name PICKUP_MISSED = ''PICKUP_MISSED''"
| "attention_type_name DELIVERY_MISSED = ''DELIVERY_MISSED''"
| "attention_type_name ETA_AFTER_APPOINTMENT = ''ETA_AFTER_APPOINTMENT''"
| "attention_type_name APPOINTMENT_IMMINENT_NO_CHECK_CALL = ''APPOINTMENT_IMMINENT_NO_CHECK_CALL''"
| "attention_type_name STALE_LOCATION = ''STALE_LOCATION''"
| "attention_type_name UNASSIGNED_DISPATCHER = ''UNASSIGNED_DISPATCHER''"
| "attention_type_name STUCK_CARRIER_SOURCING = ''STUCK_CARRIER_SOURCING''"
| "attention_type_name AT_CHECK_CALL_OVERDUE = ''CHECK_CALL_OVERDUE''"
| "attention_type_name STUCK_LOAD_STATUS = ''STUCK_LOAD_STATUS''"
| "attention_type_name MISSING_POD = ''MISSING_POD''"
| "attention_type_name UNRESOLVED_LOCATION = ''UNRESOLVED_LOCATION''"
| "attention_type_name MISSING_REQUIRED_DOCUMENT = ''MISSING_REQUIRED_DOCUMENT''"
| "attention_type_name AT_CHECK_CALL_DUE_SOON = ''CHECK_CALL_DUE_SOON''"
| "attention_type_name APPOINTMENT_CHANGED = ''APPOINTMENT_CHANGED''"
| "attention_type_name MANUAL_RISK_FLAG = ''MANUAL_RISK_FLAG''"

definition suggestedActions :: json where
  "suggestedActions = JArr [JObj [(''type'', JStr ''VIEW_LOAD'')]]"

text \<open>The compound unique key of the table.\<close>

definition item_key :: "uuid \<Rightarrow> uuid \<Rightarrow> attention_type \<Rightarrow> attention_row \<Rightarrow> bool" where
  "item_key organizationId loadId ty r \<longleftrightarrow>
     at_organizationId r = organizationId \<and> at_loadId r = loadId \<and> at_type r = ty"

definition find_item :: "uuid \<Rightarrow> uuid \<Rightarrow> attention_type \<Rightarrow> (uuid \<times> attention_row) option mtx" where
  "find_item organizationId loadId ty = gets (\<lambda>s. tbl_first (\<lambda>_. item_key organizationId loadId ty) (mo_items s))"

definition resolveItem :: "uuid \<Rightarrow> unit mtx" where
  "resolveItem attentionItemId =
     bind (gets (\<lambda>s. clock (mo_db s))) (\<lambda>t.
     andThen (update_item attentionItemId (\<lambda>r. r\<lparr>at_status := AT_RESOLVED, at_resolvedAt := Some t\<rparr>)) (ret ()))"

definition ev_attention :: "string \<Rightarrow> uuid \<Rightarrow> uuid \<Rightarrow> attention_type \<Rightarrow> attention_content \<Rightarrow> event_input" where
  "ev_attention action organizationId loadId ty c =
     system_event organizationId action ''Load'' loadId None
       (Some (JObj [(''type'', JStr (attention_type_name ty)), (''severity'', JStr (severity_name (ac_severity c)))]))"

definition new_item :: "uuid \<Rightarrow> uuid \<Rightarrow> attention_type \<Rightarrow> instant \<Rightarrow> attention_content \<Rightarrow> attention_row" where
  "new_item organizationId loadId ty t c =
     \<lparr>at_organizationId = organizationId, at_loadId = loadId, at_type = ty, at_severity = ac_severity c,
      at_status = AT_ACTIVE, at_title = ac_title c, at_reason = ac_reason c, at_suggestedActions = suggestedActions,
      at_metadata = ac_metadata c, at_detectedAt = t, at_updatedAt = t, at_resolvedAt = None\<rparr>"

definition refreshed :: "attention_content \<Rightarrow> attention_row \<Rightarrow> attention_row" where
  "refreshed c r = r\<lparr>at_severity := ac_severity c, at_title := ac_title c, at_reason := ac_reason c,
     at_suggestedActions := suggestedActions, at_metadata := ac_metadata c\<rparr>"

definition reactivated :: "instant \<Rightarrow> attention_content \<Rightarrow> attention_row \<Rightarrow> attention_row" where
  "reactivated t c r = (refreshed c r)\<lparr>at_status := AT_ACTIVE, at_detectedAt := t, at_resolvedAt := None\<rparr>"

text \<open>No risk, or a risk another item stands for: an active item is resolved.\<close>

definition clear_item :: "(uuid \<times> attention_row) option \<Rightarrow> unit mtx" where
  "clear_item existing =
     (case existing of None \<Rightarrow> ret ()
      | Some (i, r) \<Rightarrow> run_when (at_status r = AT_ACTIVE) (resolveItem i))"

definition raise_item ::
  "uuid \<Rightarrow> uuid \<Rightarrow> attention_type \<Rightarrow> attention_content \<Rightarrow> (uuid \<times> attention_row) option \<Rightarrow> unit mtx" where
  "raise_item organizationId loadId ty c existing =
     bind (gets (\<lambda>s. clock (mo_db s))) (\<lambda>t.
     case existing of
       None \<Rightarrow> andThen (create_item (new_item organizationId loadId ty t c))
                (on_db (audit_record (ev_attention ''Attention Item Detected'' organizationId loadId ty c)))
     | Some (i, r) \<Rightarrow>
         if at_status r = AT_ACTIVE then andThen (update_item i (refreshed c)) (ret ())
         else andThen (update_item i (reactivated t c))
                (on_db (audit_record (ev_attention ''Attention Item Reactivated'' organizationId loadId ty c))))"

definition isSuppressed :: "attention_type option \<Rightarrow> uuid \<Rightarrow> uuid \<Rightarrow> bool mtx" where
  "isSuppressed suppressing organizationId loadId =
     (case suppressing of None \<Rightarrow> ret False
      | Some ty \<Rightarrow> bind (find_item organizationId loadId ty) (\<lambda>item.
          ret (case item of None \<Rightarrow> False | Some (_, r) \<Rightarrow> at_status r = AT_ACTIVE)))"

definition applyResult ::
  "attention_type \<Rightarrow> attention_type option \<Rightarrow> uuid \<Rightarrow> uuid \<Rightarrow> attention_content option \<Rightarrow> unit mtx" where
  "applyResult ty suppressing organizationId loadId risk =
     bind (find_item organizationId loadId ty) (\<lambda>existing.
     bind (isSuppressed suppressing organizationId loadId) (\<lambda>suppressed.
       case risk of None \<Rightarrow> clear_item existing
       | Some c \<Rightarrow> if suppressed then clear_item existing else raise_item organizationId loadId ty c existing))"

section \<open>The loop\<close>

definition itemTransaction :: "'a mtx \<Rightarrow> monitor \<Rightarrow> (app_error + 'a) \<times> monitor" where
  "itemTransaction m s = (case m s of Inl e \<Rightarrow> (Inl e, s) | Inr (x, s') \<Rightarrow> (Inr x, s'))"

fun apply_records ::
  "attention_type \<Rightarrow> attention_type option \<Rightarrow> uuid \<Rightarrow> (uuid \<times> attention_content option) list \<Rightarrow>
     sweep_summary \<times> monitor \<Rightarrow> sweep_summary \<times> monitor" where
  "apply_records ty suppressing organizationId [] r = r"
| "apply_records ty suppressing organizationId ((loadId, risk) # xs) (c, s) =
     (case itemTransaction (applyResult ty suppressing organizationId loadId risk) s of
        (Inr _, s') \<Rightarrow> apply_records ty suppressing organizationId xs (count_record True c, s')
      | (Inl _, s') \<Rightarrow> apply_records ty suppressing organizationId xs (count_record False c, s'))"

definition active_items :: "attention_type \<Rightarrow> uuid \<Rightarrow> monitor \<Rightarrow> (uuid \<times> attention_row) list" where
  "active_items ty organizationId s =
     tbl_where (\<lambda>_ r. at_organizationId r = organizationId \<and> at_type r = ty \<and> at_status r = AT_ACTIVE) (mo_items s)"

fun resolve_all :: "uuid list \<Rightarrow> monitor \<Rightarrow> monitor" where
  "resolve_all [] s = s"
| "resolve_all (i # is) s = resolve_all is (snd (itemTransaction (resolveItem i) s))"

text \<open>Items of loads that are no longer listed.\<close>

definition resolve_orphans :: "attention_type \<Rightarrow> uuid \<Rightarrow> uuid list \<Rightarrow> monitor \<Rightarrow> monitor" where
  "resolve_orphans ty organizationId loadIds s =
     resolve_all (map fst (filter (\<lambda>(_, r). at_loadId r \<notin> set loadIds) (active_items ty organizationId s))) s"

definition attention_org ::
  "attention_type \<Rightarrow> attention_type option \<Rightarrow> (uuid \<Rightarrow> db \<Rightarrow> (uuid \<times> 'c) list) \<Rightarrow>
     ('c \<Rightarrow> instant \<Rightarrow> attention_content option) \<Rightarrow> uuid \<Rightarrow> sweep_summary \<times> monitor \<Rightarrow> sweep_summary \<times> monitor" where
  "attention_org ty suppressing listed content organizationId r =
     (let found = listed organizationId (mo_db (snd r));
          t = clock (mo_db (snd r));
          c = (fst r)\<lparr>sw_orgsScanned := sw_orgsScanned (fst r) + 1, sw_matched := sw_matched (fst r) + length found\<rparr>;
          (c', s') = apply_records ty suppressing organizationId (map (\<lambda>(i, x). (i, content x t)) found) (c, snd r)
      in (c', resolve_orphans ty organizationId (map fst found) s'))"

definition attention_sweep ::
  "attention_type \<Rightarrow> attention_type option \<Rightarrow> (uuid \<Rightarrow> db \<Rightarrow> (uuid \<times> 'c) list) \<Rightarrow>
     ('c \<Rightarrow> instant \<Rightarrow> attention_content option) \<Rightarrow> monitor \<Rightarrow> sweep_summary \<times> monitor" where
  "attention_sweep ty suppressing listed content s =
     fold (attention_org ty suppressing listed content) (map fst (organizations (mo_db s))) (no_counts, s)"

section \<open>The five detectors as sweeps\<close>

text \<open>\<^verbatim>\<open>Math.round\<close> of a quotient: half rounds up.\<close>

definition round_to :: "int \<Rightarrow> int \<Rightarrow> nat" where
  "round_to unit x = nat ((x + unit div 2) div unit)"

definition formatDurationMinutes :: "nat \<Rightarrow> string" where
  "formatDurationMinutes m =
     (if m div 60 > 0 then show_nat (m div 60) @ ''h '' @ show_nat (m mod 60) @ ''m'' else show_nat (m mod 60) @ ''m'')"

definition eta_loads :: "uuid \<Rightarrow> db \<Rightarrow> (uuid \<times> instant option \<times> lateness_stop list) list" where
  "eta_loads organizationId s =
     map (\<lambda>(i, l). (i, l_currentEta l, lateness_stops i s)) (operational_loads organizationId s)"

definition eta_content :: "instant option \<times> lateness_stop list \<Rightarrow> instant \<Rightarrow> attention_content option" where
  "eta_content x t = map_option (\<lambda>risk.
     \<lparr>ac_severity = er_severity risk, ac_title = stopTypeLabel (er_stopType risk) @ '' at Risk'',
      ac_reason = ''ETA is approximately '' @ formatDurationMinutes (nat (er_minutesAfter risk)) @ '' after the appointment.'',
      ac_metadata = JObj [(''minutesAfter'', JInt (er_minutesAfter risk)),
        (''appointmentDatetime'', JTime (er_appointmentDatetime risk)), (''currentEta'', JTime (er_currentEta risk)),
        (''stopType'', JStr (stop_type_name (er_stopType risk)))]\<rparr>) (evaluateEtaRisk (fst x) (snd x) t)"

definition etaRiskSweep :: "monitor \<Rightarrow> sweep_summary \<times> monitor" where
  "etaRiskSweep = attention_sweep ETA_AFTER_APPOINTMENT None eta_loads eta_content"

definition stale_loads :: "uuid \<Rightarrow> db \<Rightarrow> (uuid \<times> instant option) list" where
  "stale_loads organizationId s = map (\<lambda>(i, l). (i, l_currentLocationUpdatedAt l)) (operational_loads organizationId s)"

definition stale_content :: "instant option \<Rightarrow> instant \<Rightarrow> attention_content option" where
  "stale_content updatedAt t = map_option (\<lambda>(age, severity).
     \<lparr>ac_severity = severity, ac_title = ''Stale Location'',
      ac_reason = ''Location has not been updated in approximately '' @ formatDurationMinutes (round_to minute_ms age) @ ''.'',
      ac_metadata = JObj [(''ageMinutes'', JInt (int (round_to minute_ms age))),
        (''currentLocationUpdatedAt'', JTime (the updatedAt))]\<rparr>) (evaluateLocationStaleness updatedAt t)"

definition staleLocationSweep :: "monitor \<Rightarrow> sweep_summary \<times> monitor" where
  "staleLocationSweep = attention_sweep STALE_LOCATION None stale_loads stale_content"

definition imminent_loads :: "uuid \<Rightarrow> db \<Rightarrow> (uuid \<times> lateness_stop list \<times> instant option \<times> instant option) list" where
  "imminent_loads organizationId s =
     map (\<lambda>(i, l). (i, lateness_stops i s, l_currentLocationUpdatedAt l,
        map_option d_dispatchedAt (tbl_find i (dispatch_records s)))) (operational_loads organizationId s)"

fun activity_source_name :: "activity_source \<Rightarrow> string" where
  "activity_source_name SRC_CHECK_CALL = ''CHECK_CALL''"
| "activity_source_name SRC_DISPATCH = ''DISPATCH''"

definition imminent_content ::
  "lateness_stop list \<times> instant option \<times> instant option \<Rightarrow> instant \<Rightarrow> attention_content option" where
  "imminent_content x t = map_option (\<lambda>risk.
     \<lparr>ac_severity = ai_severity risk, ac_title = ''Appointment Imminent '' @ dash @ '' No Recent Check-In'',
      ac_reason = ''Appointment is in approximately '' @ formatDurationMinutes (round_to minute_ms (ai_untilAppointment risk)) @
        '', and the last known activity was approximately '' @
        formatDurationMinutes (round_to minute_ms (ai_sinceLastActivity risk)) @ '' ago.'',
      ac_metadata = JObj [(''minutesUntilAppointment'', JInt (int (round_to minute_ms (ai_untilAppointment risk)))),
        (''appointmentDatetime'', JTime (ai_appointmentDatetime risk)),
        (''stopType'', JStr (stop_type_name (ai_stopType risk))),
        (''minutesSinceLastActivity'', JInt (int (round_to minute_ms (ai_sinceLastActivity risk)))),
        (''lastActivitySource'', JStr (activity_source_name (ai_lastActivitySource risk)))]\<rparr>)
     (evaluateAppointmentImminent (fst x) (fst (snd x)) (snd (snd x)) t)"

definition appointmentImminentSweep :: "monitor \<Rightarrow> sweep_summary \<times> monitor" where
  "appointmentImminentSweep =
     attention_sweep APPOINTMENT_IMMINENT_NO_CHECK_CALL (Some STALE_LOCATION) imminent_loads imminent_content"

text \<open>The newest audit entry of the transition to DELIVERED, and whether any POD has been uploaded.\<close>

definition delivered_entry :: "uuid \<Rightarrow> uuid \<Rightarrow> db \<Rightarrow> instant option" where
  "delivered_entry organizationId loadId s =
     foldl (\<lambda>latest a. case latest of None \<Rightarrow> Some (a_createdAt a)
              | Some t \<Rightarrow> Some (if a_createdAt a > t then a_createdAt a else t))
       None (filter (\<lambda>a. a_organizationId a = organizationId \<and> a_entityType a = ''Load'' \<and> a_entityId a = loadId \<and>
         a_action a = ''Load Status Advanced '' @ dash @ '' Delivered'') (audit_logs s))"

definition has_any_pod :: "uuid \<Rightarrow> uuid \<Rightarrow> db \<Rightarrow> bool" where
  "has_any_pod organizationId loadId s =
     (\<exists>(_, d) \<in> set (documents s). doc_organizationId d = organizationId \<and> doc_entityType d = DE_STOP \<and>
        document_code s d = Some ''POD'' \<and>
        (\<exists>(i, p) \<in> set (stops s). i = doc_entityId d \<and> s_loadId p = loadId \<and> s_stopType p = ST_DELIVERY \<and>
           s_stopPurpose p = STANDARD))"

definition pod_candidates ::
  "uuid \<Rightarrow> db \<Rightarrow> (uuid \<times> load_status \<times> instant option \<times> instant option \<times> bool) list" where
  "pod_candidates organizationId s =
     map (\<lambda>(i, l). (i, l_status l, l_closedAt l,
          (if l_status l = DELIVERED then delivered_entry organizationId i s else None), has_any_pod organizationId i s))
       (tbl_where (\<lambda>_ l. l_organizationId l = organizationId \<and> l_status l \<in> {DELIVERED, CLOSED}) (loads s))"

definition formatAgeHours :: "nat \<Rightarrow> string" where
  "formatAgeHours h =
     (if h div 24 > 0 then show_nat (h div 24) @ ''d '' @ show_nat (h mod 24) @ ''h'' else show_nat (h mod 24) @ ''h'')"

fun pod_clock_name :: "pod_clock \<Rightarrow> string" where
  "pod_clock_name CLOSED_AT = ''closedAt''"
| "pod_clock_name DELIVERED_AUDIT_ENTRY = ''deliveredAuditEntry''"

definition pod_content ::
  "load_status \<times> instant option \<times> instant option \<times> bool \<Rightarrow> instant \<Rightarrow> attention_content option" where
  "pod_content x t =
     (case x of (status, closedAt, deliveredAuditEntryAt, hasAnyPodDocument) \<Rightarrow>
        map_option (\<lambda>(age, basis, severity).
          \<lparr>ac_severity = severity, ac_title = ''Proof of Delivery Missing'',
           ac_reason = ''No POD document has been uploaded '' @ formatAgeHours (round_to hour_ms age) @
             '' after this Load'' @ [CHR 0x27] @ ''s '' @ (if status = CLOSED then ''closure'' else ''delivery'') @ ''.'',
           ac_metadata = JObj [(''ageHours'', JInt (int (round_to hour_ms age))),
             (''clockBasis'', JStr (pod_clock_name basis)), (''loadStatus'', JStr (load_status_name status))]\<rparr>)
        (evaluateMissingPod status closedAt deliveredAuditEntryAt hasAnyPodDocument t))"

definition missingPodSweep :: "monitor \<Rightarrow> sweep_summary \<times> monitor" where
  "missingPodSweep = attention_sweep MISSING_POD None pod_candidates pod_content"

definition flagged_loads :: "uuid \<Rightarrow> db \<Rightarrow> (uuid \<times> risk_status \<times> string option) list" where
  "flagged_loads organizationId s =
     map (\<lambda>(i, l). (i, l_riskStatus l, l_riskReason l))
       (filter (\<lambda>(_, l). l_riskStatus l \<noteq> RISK_NORMAL) (operational_loads organizationId s))"

definition flag_content :: "risk_status \<times> string option \<Rightarrow> instant \<Rightarrow> attention_content option" where
  "flag_content x t = map_option (\<lambda>(status, reason, severity).
     \<lparr>ac_severity = severity,
      ac_title = (if status = RISK_AT_RISK then ''Dispatcher Flagged: At Risk'' else ''Dispatcher Flagged: Delayed''),
      ac_reason = reason, ac_metadata = JObj [(''riskStatus'', JStr (risk_status_name status))]\<rparr>)
     (evaluateManualRiskFlag (fst x) (snd x))"

definition manualRiskFlagSweep :: "monitor \<Rightarrow> sweep_summary \<times> monitor" where
  "manualRiskFlagSweep = attention_sweep MANUAL_RISK_FLAG None flagged_loads flag_content"

end
