(* ===== verification/AttentionLifecycle.thy ===== *)
theory AttentionLifecycle
  imports Attention
begin

text \<open>
  What the attention sweeps promise. The abstract table gives, for an organization, a load and a
  type, the one item there is; a pass of a detector maps every item of its type through the same
  lifecycle. The locale states what a sweep relies on, and is interpreted on the five sweeps.
\<close>

section \<open>The abstract table and the lifecycle of an item\<close>

definition item_view :: "monitor \<Rightarrow> uuid \<Rightarrow> uuid \<Rightarrow> attention_type \<Rightarrow> attention_row option" where
  "item_view s organizationId loadId ty =
     map_option snd (tbl_first (\<lambda>_. item_key organizationId loadId ty) (mo_items s))"

definition resolved_row :: "instant \<Rightarrow> attention_row \<Rightarrow> attention_row" where
  "resolved_row t r = r\<lparr>at_status := AT_RESOLVED, at_resolvedAt := Some t, at_updatedAt := t\<rparr>"

definition lifecycle ::
  "uuid \<Rightarrow> uuid \<Rightarrow> attention_type \<Rightarrow> instant \<Rightarrow> attention_content option \<Rightarrow> attention_row option \<Rightarrow> attention_row option" where
  "lifecycle organizationId loadId ty t risk item =
     (case risk of
        None \<Rightarrow> map_option (\<lambda>r. if at_status r = AT_ACTIVE then resolved_row t r else r) item
      | Some c \<Rightarrow> Some (case item of
            None \<Rightarrow> new_item organizationId loadId ty t c
          | Some r \<Rightarrow> (if at_status r = AT_ACTIVE then refreshed c r else reactivated t c r)\<lparr>at_updatedAt := t\<rparr>))"

definition is_active :: "attention_row option \<Rightarrow> bool" where
  "is_active item \<longleftrightarrow> (case item of None \<Rightarrow> False | Some r \<Rightarrow> at_status r = AT_ACTIVE)"

definition key_of :: "attention_row \<Rightarrow> uuid \<times> uuid \<times> attention_type" where
  "key_of r = (at_organizationId r, at_loadId r, at_type r)"

definition items_ok :: "monitor \<Rightarrow> bool" where
  "items_ok s \<longleftrightarrow> table_ok (next_id (mo_db s)) (mo_items s) \<and> distinct (map (key_of \<circ> snd) (mo_items s))"

text \<open>What a sweep does to the database: attention entries in the logs, and identifiers taken.\<close>

definition quiet :: "db \<Rightarrow> db \<Rightarrow> bool" where
  "quiet s s' \<longleftrightarrow> (\<exists>n as es. s' = s\<lparr>next_id := n, audit_logs := audit_logs s @ as, domain_events := domain_events s @ es\<rparr> \<and>
     next_id s \<le> n \<and>
     (\<forall>a \<in> set as. a_action a \<in> {''Attention Item Detected'', ''Attention Item Reactivated''}))"

lemma item_key_iff: "item_key org l ty r \<longleftrightarrow> key_of r = (org, l, ty)"
  by (auto simp: item_key_def key_of_def)

lemma quiet_refl: "quiet s s"
  unfolding quiet_def by (intro exI [of _ "next_id s"] exI [of _ "[]"]) simp

lemma quiet_trans:
  assumes "quiet s t" and "quiet t u" shows "quiet s u"
proof -
  obtain n as es where t: "t = s\<lparr>next_id := n, audit_logs := audit_logs s @ as, domain_events := domain_events s @ es\<rparr>"
    and n: "next_id s \<le> n" and as: "\<forall>a \<in> set as. a_action a \<in> {''Attention Item Detected'', ''Attention Item Reactivated''}"
    using assms(1) unfolding quiet_def by blast
  obtain m bs fs where u: "u = t\<lparr>next_id := m, audit_logs := audit_logs t @ bs, domain_events := domain_events t @ fs\<rparr>"
    and m: "next_id t \<le> m" and bs: "\<forall>a \<in> set bs. a_action a \<in> {''Attention Item Detected'', ''Attention Item Reactivated''}"
    using assms(2) unfolding quiet_def by blast
  have "u = s\<lparr>next_id := m, audit_logs := audit_logs s @ (as @ bs), domain_events := domain_events s @ (es @ fs)\<rparr>"
    unfolding u t by simp
  then show ?thesis
    unfolding quiet_def using as bs n m t
    by (intro exI [of _ m] exI [of _ "as @ bs"] exI [of _ "es @ fs"]) (simp add: ball_Un)
qed

lemma quiet_frame:
  assumes "quiet s s'"
  shows "organizations s' = organizations s" "loads s' = loads s" "stops s' = stops s" "documents s' = documents s"
    "document_types s' = document_types s" "dispatch_records s' = dispatch_records s" "clock s' = clock s"
  using assms by (auto simp: quiet_def)

lemma quiet_next_id: "next_id s \<le> n \<Longrightarrow> quiet s (s\<lparr>next_id := n\<rparr>)"
  unfolding quiet_def by (intro exI [of _ n] exI [of _ "[]"]) simp

lemma quiet_wf: "quiet s s' \<Longrightarrow> wf_db s \<Longrightarrow> wf_db s'"
  by (auto simp: quiet_def wf_db_def intro: table_ok_mono)

lemma quiet_recorded:
  assumes "ei_action e \<in> {''Attention Item Detected'', ''Attention Item Reactivated''}"
  shows "quiet s (recorded e s)"
  unfolding quiet_def
  by (rule exI [of _ "next_id s"], rule exI [of _ "[audit_entry (context_of s) (clock s) e]"],
      rule exI [of _ "[event_entry (context_of s) (clock s) e]"])
     (use assms in \<open>simp add: recorded_def audit_entry_def\<close>)

lemma lifecycle_idem:
  "lifecycle org l ty t risk (lifecycle org l ty t risk item) = lifecycle org l ty t risk item"
  by (cases risk; cases item)
     (simp_all add: lifecycle_def resolved_row_def refreshed_def reactivated_def new_item_def)

section \<open>The table behind the view\<close>

lemma key_unique:
  assumes "distinct (map (key_of \<circ> snd) t)" and "(i, r) \<in> set t" and "(j, q) \<in> set t" and "key_of r = key_of q"
  shows "i = j \<and> r = q"
  using assms by (auto simp: distinct_map dest: inj_onD [where x = "(i, r)" and y = "(j, q)"])

lemma item_view_iff:
  assumes "items_ok s"
  shows "item_view s org l ty = Some r \<longleftrightarrow> (\<exists>i. (i, r) \<in> set (mo_items s) \<and> key_of r = (org, l, ty))"
proof
  assume "item_view s org l ty = Some r"
  then show "\<exists>i. (i, r) \<in> set (mo_items s) \<and> key_of r = (org, l, ty)"
    by (auto simp: item_view_def item_key_iff dest: tbl_first_SomeD)
next
  assume "\<exists>i. (i, r) \<in> set (mo_items s) \<and> key_of r = (org, l, ty)"
  then obtain i where i: "(i, r) \<in> set (mo_items s)" and k: "key_of r = (org, l, ty)" by blast
  then have "tbl_first (\<lambda>_. item_key org l ty) (mo_items s) \<noteq> None"
    by (auto simp: tbl_first_None_iff item_key_iff)
  then obtain j q where q: "tbl_first (\<lambda>_. item_key org l ty) (mo_items s) = Some (j, q)" by auto
  then have "(j, q) \<in> set (mo_items s)" "key_of q = (org, l, ty)"
    by (auto simp: item_key_iff dest: tbl_first_SomeD)
  then have "q = r" using key_unique [of "mo_items s" j q i r] assms i k by (simp add: items_ok_def)
  then show "item_view s org l ty = Some r" using q by (simp add: item_view_def)
qed

lemma option_eqI: "(\<And>r. x = Some r \<longleftrightarrow> y = Some r) \<Longrightarrow> x = y"
  by (cases x; cases y) auto

lemma map_key_upd: "(\<And>r. key_of (f r) = key_of r) \<Longrightarrow> map (key_of \<circ> snd) (tbl_upd k f t) = map (key_of \<circ> snd) t"
  by (induction t) (auto split: if_splits)

lemma update_item_view:
  assumes ok: "items_ok s" and i: "(i, r) \<in> set (mo_items s)" and k: "\<And>r. key_of (f r) = key_of r"
  defines "g \<equiv> \<lambda>r. (f r)\<lparr>at_updatedAt := clock (mo_db s)\<rparr>"
  shows "\<exists>s'. update_item i f s = Inr (g r, s') \<and> items_ok s' \<and> mo_db s' = mo_db s \<and>
    (\<forall>org l ty. item_view s' org l ty = (if key_of r = (org, l, ty) then Some (g r) else item_view s org l ty))"
proof -
  let ?s' = "s\<lparr>mo_items := tbl_upd i g (mo_items s)\<rparr>"
  have t: "table_ok (next_id (mo_db s)) (mo_items s)" using ok by (simp add: items_ok_def)
  have gk: "key_of (g q) = key_of q" for q using k [of q] by (simp add: g_def key_of_def)
  have find: "tbl_find i (mo_items s) = Some r" using i tbl_find_iff_set [OF t] by simp
  have only: "(i, q) \<in> set (mo_items s) \<longleftrightarrow> q = r" for q
    using tbl_find_iff_set [OF t, of i q] find by auto
  have run: "update_item i f s = Inr (g r, ?s')" by (simp add: update_item_def find g_def)
  have ok': "items_ok ?s'" using ok by (simp add: items_ok_def map_key_upd [of g, OF gk])
  have "item_view ?s' org l ty = (if key_of r = (org, l, ty) then Some (g r) else item_view s org l ty)" for org l ty
  proof (rule option_eqI)
    fix q
    have "item_view ?s' org l ty = Some q \<longleftrightarrow> (\<exists>j. (j, q) \<in> set (tbl_upd i g (mo_items s)) \<and> key_of q = (org, l, ty))"
      using item_view_iff [OF ok'] by simp
    also have "\<dots> \<longleftrightarrow> (q = g r \<and> key_of r = (org, l, ty)) \<or>
        (\<exists>j. j \<noteq> i \<and> (j, q) \<in> set (mo_items s) \<and> key_of q = (org, l, ty))"
      unfolding mem_tbl_upd [OF t] only using gk by (auto split: if_splits)
    also have "\<dots> \<longleftrightarrow> (if key_of r = (org, l, ty) then Some (g r) else item_view s org l ty) = Some q"
    proof (cases "key_of r = (org, l, ty)")
      case True
      then have "\<not> (j \<noteq> i \<and> (j, q) \<in> set (mo_items s) \<and> key_of q = (org, l, ty))" for j
        using key_unique [of "mo_items s" j q i r] ok i by (auto simp: items_ok_def)
      then show ?thesis using True by auto
    next
      case False
      then have "(i, q) \<in> set (mo_items s) \<Longrightarrow> key_of q \<noteq> (org, l, ty)"
        using only by auto
      then have "(\<exists>j. j \<noteq> i \<and> (j, q) \<in> set (mo_items s) \<and> key_of q = (org, l, ty)) \<longleftrightarrow>
          (\<exists>j. (j, q) \<in> set (mo_items s) \<and> key_of q = (org, l, ty))"
        by metis
      then show ?thesis using False item_view_iff [OF ok, of org l ty q] by simp
    qed
    finally show "item_view ?s' org l ty = Some q \<longleftrightarrow>
        (if key_of r = (org, l, ty) then Some (g r) else item_view s org l ty) = Some q" .
  qed
  then show ?thesis using run ok' by auto
qed

lemma create_item_view:
  assumes ok: "items_ok s" and new: "item_view s (at_organizationId r) (at_loadId r) (at_type r) = None"
  shows "\<exists>k s'. create_item r s = Inr (k, s') \<and> items_ok s' \<and> quiet (mo_db s) (mo_db s') \<and>
    (\<forall>org l ty. item_view s' org l ty = (if key_of r = (org, l, ty) then Some r else item_view s org l ty))"
proof -
  let ?k = "next_id (mo_db s)"
  let ?s' = "s\<lparr>mo_db := (mo_db s)\<lparr>next_id := Suc ?k\<rparr>, mo_items := tbl_ins ?k r (mo_items s)\<rparr>"
  have "\<not> (\<exists>i q. (i, q) \<in> set (mo_items s) \<and> key_of q = key_of r)"
    using new item_view_iff [OF ok, of "at_organizationId r" "at_loadId r" "at_type r"] by (fastforce simp: key_of_def)
  then have "key_of r \<notin> set (map (key_of \<circ> snd) (mo_items s))" by force
  then have "distinct (map (key_of \<circ> snd) (mo_items s) @ [key_of r])" using ok by (simp add: items_ok_def)
  moreover have "table_ok (Suc ?k) (tbl_ins ?k r (mo_items s))"
    using ok by (intro table_ok_ins [of ?k]) (simp_all add: items_ok_def)
  ultimately have ok': "items_ok ?s'" by (simp add: items_ok_def tbl_ins_def)
  have "item_view ?s' org l ty = (if key_of r = (org, l, ty) then Some r else item_view s org l ty)" for org l ty
  proof (rule option_eqI)
    fix q
    have none: "key_of r = (org, l, ty) \<Longrightarrow> item_view s org l ty = None" using new by (auto simp: key_of_def)
    show "item_view ?s' org l ty = Some q \<longleftrightarrow> (if key_of r = (org, l, ty) then Some r else item_view s org l ty) = Some q"
      using item_view_iff [OF ok', of org l ty q] item_view_iff [OF ok, of org l ty q] none by auto
  qed
  moreover have "create_item r s = Inr (?k, ?s')" by (simp add: create_item_def Let_def)
  ultimately show ?thesis using ok' quiet_next_id by auto
qed

section \<open>One load\<close>

text \<open>What a pass leaves of a state, apart from the items it looked at.\<close>

definition passes :: "monitor \<Rightarrow> monitor \<Rightarrow> bool" where
  "passes s s' \<longleftrightarrow> items_ok s' \<and> quiet (mo_db s) (mo_db s')"

lemma passes_refl: "items_ok s \<Longrightarrow> passes s s"
  by (simp add: passes_def quiet_refl)

lemma passes_trans: "passes s t \<Longrightarrow> passes t u \<Longrightarrow> passes s u"
  by (auto simp: passes_def intro: quiet_trans)

lemma passes_wf_db: "passes s s' \<Longrightarrow> wf_db (mo_db s) \<Longrightarrow> wf_db (mo_db s')"
  by (auto simp: passes_def intro: quiet_wf)

lemma passes_clock: "passes s s' \<Longrightarrow> clock (mo_db s') = clock (mo_db s)"
  by (simp add: passes_def quiet_frame)

lemma find_item_cases:
  assumes "items_ok s"
  obtains "item_view s org l ty = None" "find_item org l ty s = Inr (None, s)"
  | i r where "item_view s org l ty = Some r" "(i, r) \<in> set (mo_items s)" "key_of r = (org, l, ty)"
      "find_item org l ty s = Inr (Some (i, r), s)"
proof (cases "tbl_first (\<lambda>_. item_key org l ty) (mo_items s)")
  case None
  then show thesis by (intro that(1)) (simp_all add: item_view_def find_item_def gets_def)
next
  case (Some p)
  obtain i r where p: "p = (i, r)" by (cases p)
  have "(i, r) \<in> set (mo_items s)" "key_of r = (org, l, ty)"
    using tbl_first_SomeD [OF Some [unfolded p]] by (simp_all add: item_key_iff)
  then show thesis using Some p by (intro that(2) [of r i]) (simp_all add: item_view_def find_item_def gets_def)
qed

lemma resolveItem_view:
  assumes "items_ok s" and "(i, r) \<in> set (mo_items s)"
  shows "\<exists>s'. resolveItem i s = Inr ((), s') \<and> passes s s' \<and>
    (\<forall>org l ty. item_view s' org l ty =
       (if key_of r = (org, l, ty) then Some (resolved_row (clock (mo_db s)) r) else item_view s org l ty)) \<and>
    (\<forall>j q. j \<noteq> i \<longrightarrow> (j, q) \<in> set (mo_items s) \<longrightarrow> (j, q) \<in> set (mo_items s'))"
proof -
  let ?f = "\<lambda>r. r\<lparr>at_status := AT_RESOLVED, at_resolvedAt := Some (clock (mo_db s))\<rparr>"
  have t: "table_ok (next_id (mo_db s)) (mo_items s)" using assms(1) by (simp add: items_ok_def)
  obtain s' where upd: "update_item i ?f s = Inr (resolved_row (clock (mo_db s)) r, s')" and "items_ok s'"
    and "mo_db s' = mo_db s"
    and "\<forall>org l ty. item_view s' org l ty =
       (if key_of r = (org, l, ty) then Some (resolved_row (clock (mo_db s)) r) else item_view s org l ty)"
    using update_item_view [OF assms, of ?f] by (auto simp: key_of_def resolved_row_def)
  moreover have "(j, q) \<in> set (mo_items s')" if "j \<noteq> i" and "(j, q) \<in> set (mo_items s)" for j q
    using upd that by (auto simp: update_item_def mem_tbl_upd [OF t] split: option.splits)
  ultimately show ?thesis
    by (intro exI [of _ s']) (simp add: resolveItem_def tx_run passes_def quiet_refl)
qed

lemma on_db_record:
  assumes "items_ok s" and "ei_action e \<in> {''Attention Item Detected'', ''Attention Item Reactivated''}"
  shows "\<exists>s'. on_db (audit_record e) s = Inr ((), s') \<and> passes s s' \<and> (\<forall>org l ty. item_view s' org l ty = item_view s org l ty)"
  using assms quiet_recorded [OF assms(2), of "mo_db s"]
  by (simp add: on_db_def audit_record_run passes_def items_ok_def item_view_def)

text \<open>The risk that counts: nothing while the suppressing item is active.\<close>

definition effective ::
  "attention_type option \<Rightarrow> monitor \<Rightarrow> uuid \<Rightarrow> uuid \<Rightarrow> attention_content option \<Rightarrow> attention_content option" where
  "effective suppressing s organizationId loadId risk =
     (case suppressing of None \<Rightarrow> risk
      | Some ty \<Rightarrow> if is_active (item_view s organizationId loadId ty) then None else risk)"

definition suppressed_now :: "attention_type option \<Rightarrow> monitor \<Rightarrow> uuid \<Rightarrow> uuid \<Rightarrow> bool" where
  "suppressed_now suppressing s organizationId loadId \<longleftrightarrow>
     (case suppressing of None \<Rightarrow> False | Some ty \<Rightarrow> is_active (item_view s organizationId loadId ty))"

lemma isSuppressed_run:
  assumes "items_ok s"
  shows "isSuppressed suppressing org l s = Inr (suppressed_now suppressing s org l, s)"
proof (cases suppressing)
  case None
  then show ?thesis by (simp add: isSuppressed_def suppressed_now_def tx_run)
next
  case (Some ty)
  show ?thesis
    by (rule find_item_cases [OF assms, of org l ty])
       (simp_all add: Some isSuppressed_def suppressed_now_def is_active_def tx_run)
qed

text \<open>A pass over one item moves it through its lifecycle and leaves every other item alone.\<close>

definition moves :: "monitor \<Rightarrow> monitor \<Rightarrow> uuid \<Rightarrow> uuid \<Rightarrow> attention_type \<Rightarrow> attention_content option \<Rightarrow> bool" where
  "moves s s' org l ty risk \<longleftrightarrow> passes s s' \<and>
    (\<forall>o' l' ty'. item_view s' o' l' ty' = (if (o', l', ty') = (org, l, ty)
       then lifecycle org l ty (clock (mo_db s)) risk (item_view s org l ty) else item_view s o' l' ty'))"

lemma clear_item_view:
  assumes ok: "items_ok s" and found: "find_item org l ty s = Inr (existing, s)"
  shows "\<exists>s'. clear_item existing s = Inr ((), s') \<and> moves s s' org l ty None"
proof (rule find_item_cases [OF ok, of org l ty])
  assume "item_view s org l ty = None" "find_item org l ty s = Inr (None, s)"
  then show ?thesis using found ok by (auto simp: clear_item_def tx_run passes_refl lifecycle_def moves_def)
next
  fix i r
  assume v: "item_view s org l ty = Some r" and i: "(i, r) \<in> set (mo_items s)" and k: "key_of r = (org, l, ty)"
    and f: "find_item org l ty s = Inr (Some (i, r), s)"
  then have e: "existing = Some (i, r)" using found by simp
  show ?thesis
  proof (cases "at_status r = AT_ACTIVE")
    case True
    then show ?thesis using resolveItem_view [OF ok i] v k
      by (fastforce simp: e clear_item_def run_when_run lifecycle_def moves_def)
  next
    case False
    then show ?thesis using v ok by (auto simp: e clear_item_def run_when_run lifecycle_def passes_refl moves_def)
  qed
qed

lemma raise_item_view:
  assumes ok: "items_ok s" and found: "find_item org l ty s = Inr (existing, s)"
  shows "\<exists>s'. raise_item org l ty c existing s = Inr ((), s') \<and> moves s s' org l ty (Some c)"
proof (rule find_item_cases [OF ok, of org l ty])
  let ?t = "clock (mo_db s)"
  assume v: "item_view s org l ty = None" and "find_item org l ty s = Inr (None, s)"
  then have e: "existing = None" using found by simp
  obtain k s1 where 1: "create_item (new_item org l ty ?t c) s = Inr (k, s1)" "passes s s1"
    "\<forall>o' l' ty'. item_view s1 o' l' ty' =
       (if (org, l, ty) = (o', l', ty') then Some (new_item org l ty ?t c) else item_view s o' l' ty')"
    using create_item_view [OF ok, of "new_item org l ty ?t c"] v by (auto simp: new_item_def key_of_def passes_def)
  have "ei_action (ev_attention ''Attention Item Detected'' org l ty c) \<in> {''Attention Item Detected'', ''Attention Item Reactivated''}"
    by (simp add: ev_attention_def system_event_def)
  then obtain s2 where "on_db (audit_record (ev_attention ''Attention Item Detected'' org l ty c)) s1 = Inr ((), s2)" "passes s1 s2"
    "\<forall>o' l' ty'. item_view s2 o' l' ty' = item_view s1 o' l' ty'"
    using on_db_record [of s1] 1(2) unfolding passes_def by blast
  then show ?thesis using 1 v
    by (intro exI [of _ s2]) (auto simp: e raise_item_def tx_run lifecycle_def moves_def intro: passes_trans)
next
  let ?t = "clock (mo_db s)"
  fix i r
  assume v: "item_view s org l ty = Some r" and i: "(i, r) \<in> set (mo_items s)" and k: "key_of r = (org, l, ty)"
    and f: "find_item org l ty s = Inr (Some (i, r), s)"
  then have e: "existing = Some (i, r)" using found by simp
  show ?thesis
  proof (cases "at_status r = AT_ACTIVE")
    case True
    obtain x s' where "update_item i (refreshed c) s = Inr (x, s')" "passes s s'"
      "\<forall>o' l' ty'. item_view s' o' l' ty' =
         (if (org, l, ty) = (o', l', ty') then Some ((refreshed c r)\<lparr>at_updatedAt := ?t\<rparr>) else item_view s o' l' ty')"
      using update_item_view [OF ok i, of "refreshed c"] k by (auto simp: refreshed_def key_of_def passes_def quiet_refl)
    then show ?thesis using True v
      by (intro exI [of _ s']) (auto simp: e raise_item_def tx_run lifecycle_def moves_def)
  next
    case False
    obtain x s1 where 1: "update_item i (reactivated ?t c) s = Inr (x, s1)" "passes s s1"
      "\<forall>o' l' ty'. item_view s1 o' l' ty' =
         (if (org, l, ty) = (o', l', ty') then Some ((reactivated ?t c r)\<lparr>at_updatedAt := ?t\<rparr>) else item_view s o' l' ty')"
      using update_item_view [OF ok i, of "reactivated ?t c"] k
      by (auto simp: reactivated_def refreshed_def key_of_def passes_def quiet_refl)
    have "ei_action (ev_attention ''Attention Item Reactivated'' org l ty c) \<in> {''Attention Item Detected'', ''Attention Item Reactivated''}"
    by (simp add: ev_attention_def system_event_def)
  then obtain s2 where "on_db (audit_record (ev_attention ''Attention Item Reactivated'' org l ty c)) s1 = Inr ((), s2)" "passes s1 s2"
      "\<forall>o' l' ty'. item_view s2 o' l' ty' = item_view s1 o' l' ty'"
      using on_db_record [of s1] 1(2) unfolding passes_def by blast
    then show ?thesis using 1 v False
      by (intro exI [of _ s2]) (auto simp: e raise_item_def tx_run lifecycle_def moves_def intro: passes_trans)
  qed
qed

lemma applyResult_view:
  assumes ok: "items_ok s"
  shows "\<exists>s'. applyResult ty suppressing org l risk s = Inr ((), s') \<and>
    moves s s' org l ty (effective suppressing s org l risk)"
proof -
  obtain existing where found: "find_item org l ty s = Inr (existing, s)"
    by (rule find_item_cases [OF ok, of org l ty]) simp_all
  have "applyResult ty suppressing org l risk s =
      (case effective suppressing s org l risk of None \<Rightarrow> clear_item existing s
       | Some c \<Rightarrow> raise_item org l ty c existing s)"
    by (auto simp: applyResult_def tx_run found isSuppressed_run [OF ok] effective_def suppressed_now_def split: option.split)
  then show ?thesis
    using clear_item_view [OF ok found] raise_item_view [OF ok found]
    by (cases "effective suppressing s org l risk") simp_all
qed

section \<open>The loads of one organization\<close>

definition risk_of ::
  "attention_type option \<Rightarrow> monitor \<Rightarrow> uuid \<Rightarrow> (uuid \<times> attention_content option) list \<Rightarrow> uuid \<Rightarrow> attention_content option" where
  "risk_of suppressing s organizationId xs loadId =
     (case map_of xs loadId of None \<Rightarrow> None | Some risk \<Rightarrow> effective suppressing s organizationId loadId risk)"

lemma effective_frame:
  "(\<And>ty. suppressing = Some ty \<Longrightarrow> item_view s' org l ty = item_view s org l ty) \<Longrightarrow>
     effective suppressing s' org l risk = effective suppressing s org l risk"
  by (cases suppressing) (simp_all add: effective_def)

lemma apply_records_view:
  assumes "items_ok s" and "suppressing \<noteq> Some ty" and "distinct (map fst xs)"
  shows "\<exists>s'. apply_records ty suppressing org xs (c, s) = (c\<lparr>sw_succeeded := sw_succeeded c + length xs\<rparr>, s') \<and> passes s s' \<and>
    (\<forall>o' l' ty'. item_view s' o' l' ty' = (if o' = org \<and> ty' = ty \<and> l' \<in> fst ` set xs
       then lifecycle org l' ty (clock (mo_db s)) (risk_of suppressing s org xs l') (item_view s org l' ty)
       else item_view s o' l' ty'))"
  using assms
proof (induction xs arbitrary: c s)
  case Nil
  then show ?case by (simp add: passes_refl)
next
  case (Cons x xs)
  obtain l risk where x: "x = (l, risk)" by (cases x)
  obtain s1 where run: "applyResult ty suppressing org l risk s = Inr ((), s1)"
    and m: "moves s s1 org l ty (effective suppressing s org l risk)"
    using applyResult_view [OF Cons.prems(1)] by blast
  have v1: "item_view s1 o' l' ty' = (if (o', l', ty') = (org, l, ty)
       then lifecycle org l ty (clock (mo_db s)) (effective suppressing s org l risk) (item_view s org l ty)
       else item_view s o' l' ty')" for o' l' ty'
    using m unfolding moves_def by blast
  have p1: "passes s s1" using m unfolding moves_def by blast
  then have ok1: "items_ok s1" and clk: "clock (mo_db s1) = clock (mo_db s)"
    by (simp_all add: passes_def passes_clock)
  obtain s' where s': "apply_records ty suppressing org xs (count_record True c, s1) =
        ((count_record True c)\<lparr>sw_succeeded := sw_succeeded (count_record True c) + length xs\<rparr>, s')" "passes s1 s'"
      and v2: "\<And>o' l' ty'. item_view s' o' l' ty' = (if o' = org \<and> ty' = ty \<and> l' \<in> fst ` set xs
       then lifecycle org l' ty (clock (mo_db s1)) (risk_of suppressing s1 org xs l') (item_view s1 org l' ty)
       else item_view s1 o' l' ty')"
    using Cons.IH [OF ok1 Cons.prems(2), of "count_record True c"] Cons.prems(3) by auto
  have l: "l \<notin> fst ` set xs" using Cons.prems(3) x by simp
  have eff: "effective suppressing s1 org l' r = effective suppressing s org l' r" for l' r
    by (rule effective_frame) (use Cons.prems(2) v1 in auto)
  have "item_view s' o' l' ty' = (if o' = org \<and> ty' = ty \<and> l' \<in> fst ` set (x # xs)
       then lifecycle org l' ty (clock (mo_db s)) (risk_of suppressing s org (x # xs) l') (item_view s org l' ty)
       else item_view s o' l' ty')" for o' l' ty'
    using l by (auto simp: v2 v1 clk x risk_of_def eff split: option.split)
  moreover have "passes s s'" using p1 s'(2) by (rule passes_trans)
  ultimately show ?case
    using s'(1) by (intro exI [of _ s']) (simp add: x run itemTransaction_def count_record_def)
qed

lemma resolve_all_view:
  assumes "items_ok s" and "distinct (map fst xs)" and "set xs \<subseteq> set (mo_items s)"
  shows "passes s (resolve_all (map fst xs) s) \<and>
    (\<forall>o' l' ty'. item_view (resolve_all (map fst xs) s) o' l' ty' =
      (if \<exists>(i, r) \<in> set xs. key_of r = (o', l', ty')
       then map_option (resolved_row (clock (mo_db s))) (item_view s o' l' ty') else item_view s o' l' ty'))"
  using assms
proof (induction xs arbitrary: s)
  case Nil
  then show ?case by (simp add: passes_refl)
next
  case (Cons x xs)
  obtain i r where x: "x = (i, r)" by (cases x)
  have i: "(i, r) \<in> set (mo_items s)" using Cons.prems(3) x by simp
  obtain s1 where run: "resolveItem i s = Inr ((), s1)" and p: "passes s s1"
    and v1: "\<And>o' l' ty'. item_view s1 o' l' ty' =
       (if key_of r = (o', l', ty') then Some (resolved_row (clock (mo_db s)) r) else item_view s o' l' ty')"
    and keep: "\<And>j q. j \<noteq> i \<Longrightarrow> (j, q) \<in> set (mo_items s) \<Longrightarrow> (j, q) \<in> set (mo_items s1)"
    using resolveItem_view [OF Cons.prems(1) i] by blast
  have ok1: "items_ok s1" and clk: "clock (mo_db s1) = clock (mo_db s)"
    using p by (simp_all add: passes_def passes_clock)
  have sub: "set xs \<subseteq> set (mo_items s1)" using Cons.prems(2,3) keep x by (force simp: subset_iff)
  have r: "key_of r = (o', l', ty') \<Longrightarrow> item_view s o' l' ty' = Some r" for o' l' ty'
    using i item_view_iff [OF Cons.prems(1)] by blast
  have other: "key_of q \<noteq> key_of r" if "(j, q) \<in> set xs" for j q
  proof
    assume "key_of q = key_of r"
    then have "j = i" using key_unique [of "mo_items s" j q i r] Cons.prems(1,3) i that by (auto simp: items_ok_def)
    then show False using that Cons.prems(2) x by force
  qed
  have IH: "passes s1 (resolve_all (map fst xs) s1)"
    "\<And>o' l' ty'. item_view (resolve_all (map fst xs) s1) o' l' ty' =
      (if \<exists>(i, r) \<in> set xs. key_of r = (o', l', ty')
       then map_option (resolved_row (clock (mo_db s1))) (item_view s1 o' l' ty') else item_view s1 o' l' ty')"
    using Cons.IH [OF ok1 _ sub] Cons.prems(2) by simp_all
  have "resolve_all (map fst (x # xs)) s = resolve_all (map fst xs) s1"
    by (simp add: x run itemTransaction_def)
  then show ?case
    using passes_trans [OF p IH(1)] r other by (auto simp: IH(2) v1 clk x)
qed

lemma resolve_orphans_view:
  assumes ok: "items_ok s"
  shows "passes s (resolve_orphans ty org ids s) \<and>
    (\<forall>o' l' ty'. item_view (resolve_orphans ty org ids s) o' l' ty' =
      (if o' = org \<and> ty' = ty \<and> l' \<notin> set ids
       then lifecycle org l' ty (clock (mo_db s)) None (item_view s org l' ty) else item_view s o' l' ty'))"
proof -
  define xs where "xs = filter (\<lambda>(_, r). at_loadId r \<notin> set ids) (active_items ty org s)"
  have xs: "(i, r) \<in> set xs \<longleftrightarrow> (i, r) \<in> set (mo_items s) \<and> at_organizationId r = org \<and> at_type r = ty \<and>
      at_status r = AT_ACTIVE \<and> at_loadId r \<notin> set ids" for i r
    by (auto simp: xs_def active_items_def tbl_where_iff)
  have "distinct (map fst xs)"
    using ok by (auto simp: xs_def active_items_def tbl_where_def items_ok_def table_ok_def distinct_map_filter)
  moreover have "set xs \<subseteq> set (mo_items s)" using xs by (auto simp: subset_iff)
  ultimately have r: "passes s (resolve_orphans ty org ids s)"
    "\<And>o' l' ty'. item_view (resolve_orphans ty org ids s) o' l' ty' =
      (if \<exists>(i, r) \<in> set xs. key_of r = (o', l', ty')
       then map_option (resolved_row (clock (mo_db s))) (item_view s o' l' ty') else item_view s o' l' ty')"
    using resolve_all_view [OF ok, of xs] by (simp_all add: resolve_orphans_def xs_def)
  have found: "(\<exists>(i, r) \<in> set xs. key_of r = (o', l', ty')) \<longleftrightarrow>
      o' = org \<and> ty' = ty \<and> l' \<notin> set ids \<and> is_active (item_view s org l' ty)" for o' l' ty'
  proof
    assume "\<exists>(i, r) \<in> set xs. key_of r = (o', l', ty')"
    then obtain i r where "(i, r) \<in> set xs" and k: "key_of r = (o', l', ty')" by blast
    then have "(i, r) \<in> set (mo_items s)" "o' = org" "ty' = ty" "l' \<notin> set ids" "at_status r = AT_ACTIVE"
      by (auto simp: xs key_of_def)
    moreover from this k have "item_view s org l' ty = Some r" using item_view_iff [OF ok] by blast
    ultimately show "o' = org \<and> ty' = ty \<and> l' \<notin> set ids \<and> is_active (item_view s org l' ty)"
      by (simp add: is_active_def)
  next
    assume a: "o' = org \<and> ty' = ty \<and> l' \<notin> set ids \<and> is_active (item_view s org l' ty)"
    then obtain r where v: "item_view s org l' ty = Some r" "at_status r = AT_ACTIVE"
      by (auto simp: is_active_def split: option.splits)
    then obtain i where "(i, r) \<in> set (mo_items s)" "key_of r = (org, l', ty)"
      using item_view_iff [OF ok] by blast
    then have "(i, r) \<in> set xs" using a v(2) by (simp add: xs key_of_def)
    then show "\<exists>(i, r) \<in> set xs. key_of r = (o', l', ty')"
      using a \<open>key_of r = (org, l', ty)\<close> by blast
  qed
  have "item_view (resolve_orphans ty org ids s) o' l' ty' =
      (if o' = org \<and> ty' = ty \<and> l' \<notin> set ids
       then lifecycle org l' ty (clock (mo_db s)) None (item_view s org l' ty) else item_view s o' l' ty')" for o' l' ty'
    unfolding r(2) found
    by (cases "item_view s org l' ty") (auto simp: lifecycle_def is_active_def)
  then show ?thesis using r(1) by blast
qed

text \<open>What the detector says of a load: nothing when it is not listed, or while it is suppressed.\<close>

definition detected ::
  "attention_type option \<Rightarrow> (uuid \<Rightarrow> db \<Rightarrow> (uuid \<times> 'c) list) \<Rightarrow> ('c \<Rightarrow> instant \<Rightarrow> attention_content option) \<Rightarrow>
     monitor \<Rightarrow> uuid \<Rightarrow> uuid \<Rightarrow> attention_content option" where
  "detected suppressing listed content s organizationId loadId =
     (case map_of (listed organizationId (mo_db s)) loadId of None \<Rightarrow> None
      | Some x \<Rightarrow> effective suppressing s organizationId loadId (content x (clock (mo_db s))))"

lemma map_of_map_snd: "map_of (map (\<lambda>(i, x). (i, f x)) xs) k = map_option f (map_of xs k)"
  by (induction xs) auto

lemma attention_org_view:
  assumes ok: "items_ok s" and sup: "suppressing \<noteq> Some ty" and dist: "distinct (map fst (listed org (mo_db s)))"
  shows "\<exists>n s'. attention_org ty suppressing listed content org (c, s) =
      (c\<lparr>sw_orgsScanned := sw_orgsScanned c + 1, sw_matched := sw_matched c + n, sw_succeeded := sw_succeeded c + n\<rparr>, s') \<and>
    passes s s' \<and>
    (\<forall>o' l' ty'. item_view s' o' l' ty' = (if o' = org \<and> ty' = ty
       then lifecycle org l' ty (clock (mo_db s)) (detected suppressing listed content s org l') (item_view s org l' ty)
       else item_view s o' l' ty'))"
proof -
  define xs where "xs = map (\<lambda>(i, x). (i, content x (clock (mo_db s)))) (listed org (mo_db s))"
  define c1 where "c1 = c\<lparr>sw_orgsScanned := sw_orgsScanned c + 1, sw_matched := sw_matched c + length (listed org (mo_db s))\<rparr>"
  have fst_xs: "map fst xs = map fst (listed org (mo_db s))" by (simp add: xs_def case_prod_beta comp_def)
  then have img: "fst ` set xs = set (map fst (listed org (mo_db s)))" by (metis set_map)
  have len: "length xs = length (listed org (mo_db s))" by (simp add: xs_def)
  obtain s1 where run: "apply_records ty suppressing org xs (c1, s) = (c1\<lparr>sw_succeeded := sw_succeeded c1 + length xs\<rparr>, s1)"
    and p: "passes s s1"
    and v1: "\<And>o' l' ty'. item_view s1 o' l' ty' = (if o' = org \<and> ty' = ty \<and> l' \<in> fst ` set xs
       then lifecycle org l' ty (clock (mo_db s)) (risk_of suppressing s org xs l') (item_view s org l' ty)
       else item_view s o' l' ty')"
    using apply_records_view [OF ok sup, of xs org c1] dist fst_xs by auto
  have ok1: "items_ok s1" and clk: "clock (mo_db s1) = clock (mo_db s)" using p by (simp_all add: passes_def passes_clock)
  let ?s' = "resolve_orphans ty org (map fst (listed org (mo_db s))) s1"
  have o: "passes s1 ?s'" "\<And>o' l' ty'. item_view ?s' o' l' ty' =
      (if o' = org \<and> ty' = ty \<and> l' \<notin> set (map fst (listed org (mo_db s)))
       then lifecycle org l' ty (clock (mo_db s1)) None (item_view s1 org l' ty) else item_view s1 o' l' ty')"
    using resolve_orphans_view [OF ok1, of ty org "map fst (listed org (mo_db s))"] by blast+
  have risk: "l' \<in> fst ` set xs \<Longrightarrow> risk_of suppressing s org xs l' = detected suppressing listed content s org l'"
    "l' \<notin> fst ` set xs \<Longrightarrow> detected suppressing listed content s org l' = None" for l'
    unfolding img by (auto simp: risk_of_def detected_def xs_def map_of_map_snd split: option.split dest: map_of_SomeD intro: rev_image_eqI)
  have "item_view ?s' o' l' ty' = (if o' = org \<and> ty' = ty
       then lifecycle org l' ty (clock (mo_db s)) (detected suppressing listed content s org l') (item_view s org l' ty)
       else item_view s o' l' ty')" for o' l' ty'
    unfolding o(2) v1 clk img [symmetric] using risk [of l'] by simp
  moreover have "attention_org ty suppressing listed content org (c, s) = (c1\<lparr>sw_succeeded := sw_succeeded c1 + length xs\<rparr>, ?s')"
    using run by (simp add: attention_org_def Let_def c1_def xs_def)
  ultimately show ?thesis
    using passes_trans [OF p o(1)] len by (intro exI [of _ "length xs"] exI [of _ ?s']) (simp add: c1_def)
qed

section \<open>A settled state\<close>

text \<open>When the lifecycle asks for no change, the code makes none: not even the logs grow.\<close>

lemma resolved_row_changes: "at_status r = AT_ACTIVE \<Longrightarrow> resolved_row t r \<noteq> r"
  by (auto dest: arg_cong [where f = at_status] simp: resolved_row_def)

lemma applyResult_settled:
  assumes ok: "items_ok s"
    and still: "lifecycle org l ty (clock (mo_db s)) (effective suppressing s org l risk) (item_view s org l ty) = item_view s org l ty"
  shows "applyResult ty suppressing org l risk s = Inr ((), s)"
proof -
  let ?t = "clock (mo_db s)"
  have eq: "applyResult ty suppressing org l risk s = (case effective suppressing s org l risk of
      None \<Rightarrow> clear_item existing s | Some c \<Rightarrow> raise_item org l ty c existing s)"
    if "find_item org l ty s = Inr (existing, s)" for existing
    by (auto simp: applyResult_def tx_run that isSuppressed_run [OF ok] effective_def suppressed_now_def split: option.split)
  show ?thesis
  proof (rule find_item_cases [OF ok, of org l ty])
    assume v: "item_view s org l ty = None" and f: "find_item org l ty s = Inr (None, s)"
    then have "effective suppressing s org l risk = None"
      using still by (cases "effective suppressing s org l risk") (simp_all add: lifecycle_def)
    then show ?thesis by (simp add: eq [OF f] clear_item_def tx_run)
  next
    fix i r
    assume v: "item_view s org l ty = Some r" and i: "(i, r) \<in> set (mo_items s)"
      and f: "find_item org l ty s = Inr (Some (i, r), s)"
    have find: "tbl_find i (mo_items s) = Some r"
      using ok i tbl_find_iff_set [of "next_id (mo_db s)" "mo_items s"] by (simp add: items_ok_def)
    show ?thesis
    proof (cases "effective suppressing s org l risk")
      case None
      have "at_status r \<noteq> AT_ACTIVE"
        using still v None resolved_row_changes [of r ?t] by (auto simp: lifecycle_def)
      then show ?thesis by (simp add: eq [OF f] None clear_item_def run_when_run)
    next
      case (Some c)
      have act: "at_status r = AT_ACTIVE"
      proof (rule ccontr)
        assume a: "at_status r \<noteq> AT_ACTIVE"
        then have "(reactivated ?t c r)\<lparr>at_updatedAt := ?t\<rparr> = r" using still v Some by (simp add: lifecycle_def)
        then have "at_status ((reactivated ?t c r)\<lparr>at_updatedAt := ?t\<rparr>) = at_status r" by (rule arg_cong)
        then show False using a by (simp add: reactivated_def)
      qed
      then have "(refreshed c r)\<lparr>at_updatedAt := ?t\<rparr> = r" using still v Some by (simp add: lifecycle_def)
      then show ?thesis using act find
        by (simp add: eq [OF f] Some raise_item_def tx_run update_item_def tbl_upd_same)
    qed
  qed
qed

lemma apply_records_settled:
  assumes "items_ok s"
    and "\<And>l risk. (l, risk) \<in> set xs \<Longrightarrow> lifecycle org l ty (clock (mo_db s)) (effective suppressing s org l risk)
       (item_view s org l ty) = item_view s org l ty"
  shows "snd (apply_records ty suppressing org xs (c, s)) = s"
  using assms(2)
proof (induction xs arbitrary: c)
  case Nil
  then show ?case by simp
next
  case (Cons x xs)
  obtain l risk where x: "x = (l, risk)" by (cases x)
  have "applyResult ty suppressing org l risk s = Inr ((), s)"
    by (rule applyResult_settled [OF assms(1)]) (use Cons.prems x in simp)
  then show ?case using Cons.IH Cons.prems by (simp add: x itemTransaction_def)
qed

lemma resolve_orphans_settled:
  assumes ok: "items_ok s" and "\<And>l. l \<notin> set ids \<Longrightarrow> \<not> is_active (item_view s org l ty)"
  shows "resolve_orphans ty org ids s = s"
proof -
  have "filter (\<lambda>(_, r). at_loadId r \<notin> set ids) (active_items ty org s) = []"
  proof (rule ccontr)
    assume "\<not> ?thesis"
    then obtain i r where "(i, r) \<in> set (mo_items s)" "at_organizationId r = org" "at_type r = ty" "at_status r = AT_ACTIVE"
      "at_loadId r \<notin> set ids"
      by (auto simp: filter_empty_conv active_items_def tbl_where_iff)
    moreover from this have "item_view s org (at_loadId r) ty = Some r"
      using item_view_iff [OF ok, of org "at_loadId r" ty r] by (auto simp: key_of_def)
    ultimately show False using assms(2) [of "at_loadId r"] by (simp add: is_active_def)
  qed
  then show ?thesis unfolding resolve_orphans_def by simp
qed

lemma attention_org_settled:
  assumes ok: "items_ok s" and dist: "distinct (map fst (listed org (mo_db s)))"
    and still: "\<And>l. lifecycle org l ty (clock (mo_db s)) (detected suppressing listed content s org l) (item_view s org l ty) =
       item_view s org l ty"
  shows "snd (attention_org ty suppressing listed content org (c, s)) = s"
proof -
  define xs where "xs = map (\<lambda>(i, x). (i, content x (clock (mo_db s)))) (listed org (mo_db s))"
  have "lifecycle org l ty (clock (mo_db s)) (effective suppressing s org l risk) (item_view s org l ty) = item_view s org l ty"
    if "(l, risk) \<in> set xs" for l risk
  proof -
    from that obtain p where p: "p \<in> set (listed org (mo_db s))" "(l, risk) = (case p of (i, x) \<Rightarrow> (i, content x (clock (mo_db s))))"
      unfolding xs_def set_map by blast
    obtain j x where "p = (j, x)" by (cases p)
    then have "(l, x) \<in> set (listed org (mo_db s))" "risk = content x (clock (mo_db s))"
      using p by simp_all
    then have "detected suppressing listed content s org l = effective suppressing s org l risk"
      using dist by (simp add: detected_def)
    then show ?thesis using still [of l] by simp
  qed
  then have records: "snd (apply_records ty suppressing org xs (c', s)) = s" for c'
    by (rule apply_records_settled [OF ok])
  have orphans: "resolve_orphans ty org (map fst (listed org (mo_db s))) s = s"
  proof (rule resolve_orphans_settled [OF ok])
    fix l assume "l \<notin> set (map fst (listed org (mo_db s)))"
    then have "map_of (listed org (mo_db s)) l = None" by (simp add: map_of_eq_None_iff)
    then have "detected suppressing listed content s org l = None" by (simp add: detected_def)
    then have "lifecycle org l ty (clock (mo_db s)) None (item_view s org l ty) = item_view s org l ty" using still [of l] by simp
    then show "\<not> is_active (item_view s org l ty)"
      by (cases "item_view s org l ty") (auto simp: lifecycle_def is_active_def resolved_row_changes split: if_splits)
  qed
  show ?thesis
    using records orphans unfolding attention_org_def Let_def xs_def [symmetric]
    by (auto simp: case_prod_beta xs_def)
qed

section \<open>The contract of a sweep\<close>

text \<open>
  A detector lists every load at most once, is not suppressed by its own items, and lists the same
  loads whatever attention entries the sweep has appended to the logs meanwhile.
\<close>

locale attention_detector =
  fixes ty :: attention_type
    and suppressing :: "attention_type option"
    and listed :: "uuid \<Rightarrow> db \<Rightarrow> (uuid \<times> 'c) list"
    and content :: "'c \<Rightarrow> instant \<Rightarrow> attention_content option"
  assumes other_type: "suppressing \<noteq> Some ty"
    and listed_once: "distinct (map fst (loads s)) \<Longrightarrow> distinct (map fst (listed org s))"
    and listed_quiet: "quiet s s' \<Longrightarrow> listed org s' = listed org s"
begin

lemma detected_passes:
  assumes "passes s s'" and "\<And>ty'. ty' \<noteq> ty \<Longrightarrow> item_view s' org l ty' = item_view s org l ty'"
  shows "detected suppressing listed content s' org l = detected suppressing listed content s org l"
proof -
  have "effective suppressing s' org l risk = effective suppressing s org l risk" for risk
    by (rule effective_frame) (use assms(2) other_type in blast)
  then show ?thesis
    using assms(1) listed_quiet [of "mo_db s" "mo_db s'" org] passes_clock [OF assms(1)]
    by (simp add: detected_def passes_def split: option.split)
qed

lemma fold_orgs:
  assumes "items_ok s" and "distinct (map fst (loads (mo_db s)))"
  shows "\<exists>n s'. fold (attention_org ty suppressing listed content) orgs (c, s) =
      (c\<lparr>sw_orgsScanned := sw_orgsScanned c + length orgs, sw_matched := sw_matched c + n, sw_succeeded := sw_succeeded c + n\<rparr>, s') \<and>
    passes s s' \<and>
    (\<forall>o' l' ty'. item_view s' o' l' ty' = (if o' \<in> set orgs \<and> ty' = ty
       then lifecycle o' l' ty (clock (mo_db s)) (detected suppressing listed content s o' l') (item_view s o' l' ty)
       else item_view s o' l' ty'))"
  using assms
proof (induction orgs arbitrary: c s)
  case Nil
  then show ?case by (intro exI [of _ 0] exI [of _ s]) (simp add: passes_refl)
next
  case (Cons org orgs)
  obtain n s1 where run: "attention_org ty suppressing listed content org (c, s) =
      (c\<lparr>sw_orgsScanned := sw_orgsScanned c + 1, sw_matched := sw_matched c + n, sw_succeeded := sw_succeeded c + n\<rparr>, s1)"
    and p: "passes s s1"
    and v1: "\<And>o' l' ty'. item_view s1 o' l' ty' = (if o' = org \<and> ty' = ty
       then lifecycle org l' ty (clock (mo_db s)) (detected suppressing listed content s org l') (item_view s org l' ty)
       else item_view s o' l' ty')"
    using attention_org_view [where listed = listed and org = org and c = c and content = content, OF Cons.prems(1) other_type
        listed_once [OF Cons.prems(2)]] by blast
  let ?c1 = "c\<lparr>sw_orgsScanned := sw_orgsScanned c + 1, sw_matched := sw_matched c + n, sw_succeeded := sw_succeeded c + n\<rparr>"
  have ok1: "items_ok s1" and clk: "clock (mo_db s1) = clock (mo_db s)" and loads1: "loads (mo_db s1) = loads (mo_db s)"
    using p by (simp_all add: passes_def passes_clock quiet_frame)
  obtain m s' where run': "fold (attention_org ty suppressing listed content) orgs (?c1, s1) =
      (?c1\<lparr>sw_orgsScanned := sw_orgsScanned ?c1 + length orgs, sw_matched := sw_matched ?c1 + m,
         sw_succeeded := sw_succeeded ?c1 + m\<rparr>, s')"
    and p': "passes s1 s'"
    and v2: "\<And>o' l' ty'. item_view s' o' l' ty' = (if o' \<in> set orgs \<and> ty' = ty
       then lifecycle o' l' ty (clock (mo_db s1)) (detected suppressing listed content s1 o' l') (item_view s1 o' l' ty)
       else item_view s1 o' l' ty')"
    using Cons.IH [OF ok1, of ?c1] Cons.prems(2) unfolding loads1 by blast
  have det: "detected suppressing listed content s1 o' l' = detected suppressing listed content s o' l'" for o' l'
    by (rule detected_passes [OF p]) (simp add: v1)
  have "item_view s' o' l' ty' = (if o' \<in> set (org # orgs) \<and> ty' = ty
       then lifecycle o' l' ty (clock (mo_db s)) (detected suppressing listed content s o' l') (item_view s o' l' ty)
       else item_view s o' l' ty')" for o' l' ty'
    by (auto simp: v2 v1 clk det lifecycle_idem)
  then show ?case
    using run run' passes_trans [OF p p'] by (intro exI [of _ "n + m"] exI [of _ s']) (simp add: add.assoc)
qed

text \<open>A run maps every item of the type through its lifecycle and touches nothing else.\<close>

lemma sweep_view:
  assumes "items_ok s" and "wf_db (mo_db s)"
  defines "r \<equiv> attention_sweep ty suppressing listed content s"
  shows "passes s (snd r)" and "sw_failed (fst r) = 0" and "sw_succeeded (fst r) = sw_matched (fst r)"
    and "item_view (snd r) org l ty' = (if org \<in> keys (organizations (mo_db s)) \<and> ty' = ty
       then lifecycle org l ty (clock (mo_db s)) (detected suppressing listed content s org l) (item_view s org l ty)
       else item_view s org l ty')"
proof -
  have d: "distinct (map fst (loads (mo_db s)))"
    using assms(2) unfolding wf_db_def table_ok_def by blast
  have "passes s (snd r) \<and> sw_failed (fst r) = 0 \<and> sw_succeeded (fst r) = sw_matched (fst r) \<and>
    (\<forall>org l ty'. item_view (snd r) org l ty' = (if org \<in> keys (organizations (mo_db s)) \<and> ty' = ty
       then lifecycle org l ty (clock (mo_db s)) (detected suppressing listed content s org l) (item_view s org l ty)
       else item_view s org l ty'))"
  proof -
    obtain n s' where "r = (no_counts\<lparr>sw_orgsScanned := sw_orgsScanned no_counts + length (organizations (mo_db s)),
          sw_matched := sw_matched no_counts + n, sw_succeeded := sw_succeeded no_counts + n\<rparr>, s')" and "passes s s'"
      and "\<And>o' l' ty'. item_view s' o' l' ty' = (if o' \<in> keys (organizations (mo_db s)) \<and> ty' = ty
       then lifecycle o' l' ty (clock (mo_db s)) (detected suppressing listed content s o' l') (item_view s o' l' ty)
       else item_view s o' l' ty')"
      using fold_orgs [where c = no_counts and orgs = "map fst (organizations (mo_db s))", OF assms(1) d]
      unfolding r_def attention_sweep_def keys_def set_map length_map by blast
    then show ?thesis by (simp add: no_counts_def)
  qed
  then show "passes s (snd r)" and "sw_failed (fst r) = 0" and "sw_succeeded (fst r) = sw_matched (fst r)"
    and "item_view (snd r) org l ty' = (if org \<in> keys (organizations (mo_db s)) \<and> ty' = ty
       then lifecycle org l ty (clock (mo_db s)) (detected suppressing listed content s org l) (item_view s org l ty)
       else item_view s org l ty')"
    by blast+
qed

lemma passes_wf: "passes s s' \<Longrightarrow> distinct (map fst (loads (mo_db s))) \<Longrightarrow> distinct (map fst (listed org (mo_db s')))"
  by (rule listed_once) (auto simp: passes_def quiet_frame)

text \<open>A second run at the same time changes nothing at all.\<close>

lemma rerun:
  assumes ok: "items_ok s" and wf: "wf_db (mo_db s)"
  defines "s' \<equiv> snd (attention_sweep ty suppressing listed content s)"
  shows "snd (attention_sweep ty suppressing listed content s') = s'"
proof -
  note v = sweep_view [OF ok wf, folded s'_def]
  have d: "distinct (map fst (loads (mo_db s)))"
    using wf unfolding wf_db_def table_ok_def by blast
  have ok': "items_ok s'" and orgs: "organizations (mo_db s') = organizations (mo_db s)"
    using v(1) by (simp_all add: passes_def quiet_frame)
  have det: "detected suppressing listed content s' org l = detected suppressing listed content s org l" for org l
    by (rule detected_passes [OF v(1)]) (simp add: v(4))
  have step: "snd (attention_org ty suppressing listed content org (c, s')) = s'"
    if "org \<in> keys (organizations (mo_db s))" for org c
    by (rule attention_org_settled [where listed = listed and org = org, OF ok' passes_wf [OF v(1) d]])
       (simp add: det v(4) that passes_clock [OF v(1)] lifecycle_idem)
  have "snd (fold (attention_org ty suppressing listed content) orgs (c, s')) = s'"
    if "set orgs \<subseteq> keys (organizations (mo_db s))" for orgs c
    using that
  proof (induction orgs arbitrary: c)
    case (Cons org orgs)
    then have "snd (attention_org ty suppressing listed content org (c, s')) = s'" by (intro step) simp
    then obtain c' where "attention_org ty suppressing listed content org (c, s') = (c', s')" by (metis prod.collapse)
    then show ?case using Cons by simp
  qed simp
  then show ?thesis by (simp add: attention_sweep_def orgs keys_def)
qed

lemma active_after:
  assumes "items_ok s" and "wf_db (mo_db s)" and "org \<in> keys (organizations (mo_db s))"
  shows "is_active (item_view (snd (attention_sweep ty suppressing listed content s)) org l ty) \<longleftrightarrow>
    detected suppressing listed content s org l \<noteq> None"
  by (cases "item_view s org l ty")
     (auto simp: sweep_view(4) [OF assms(1,2)] assms(3) lifecycle_def is_active_def new_item_def resolved_row_def
        refreshed_def reactivated_def split: option.split)

end

section \<open>The five sweeps keep the contract\<close>

lemma operational_loads_quiet: "quiet s s' \<Longrightarrow> operational_loads org s' = operational_loads org s"
  by (simp add: operational_loads_def quiet_frame)

lemma operational_loads_once: "distinct (map fst (loads s)) \<Longrightarrow> distinct (map fst (operational_loads org s))"
  by (simp add: operational_loads_def tbl_where_def distinct_map_filter)

lemma lateness_stops_quiet: "quiet s s' \<Longrightarrow> lateness_stops l s' = lateness_stops l s"
  by (simp add: lateness_stops_def quiet_frame)

lemma fst_pairs: "fst \<circ> (\<lambda>(i, x). (i, f i x)) = fst"
  by (simp add: fun_eq_iff)

lemma delivered_entry_quiet: "quiet s s' \<Longrightarrow> delivered_entry org l s' = delivered_entry org l s"
  unfolding quiet_def
proof (elim exE conjE)
  fix n as es
  assume "next_id s \<le> n" and s': "s' = s\<lparr>next_id := n, audit_logs := audit_logs s @ as, domain_events := domain_events s @ es\<rparr>"
    and as: "\<forall>a \<in> set as. a_action a \<in> {''Attention Item Detected'', ''Attention Item Reactivated''}"
  have "filter (\<lambda>a. a_organizationId a = org \<and> a_entityType a = ''Load'' \<and> a_entityId a = l \<and>
      a_action a = ''Load Status Advanced '' @ dash @ '' Delivered'') as = []"
    using as by (auto simp: filter_empty_conv)
  then show ?thesis unfolding delivered_entry_def s' by simp
qed

lemma has_any_pod_quiet: "quiet s s' \<Longrightarrow> has_any_pod org l s' = has_any_pod org l s"
  by (simp add: has_any_pod_def document_code_def quiet_frame)

lemma pod_candidates_quiet: "quiet s s' \<Longrightarrow> pod_candidates org s' = pod_candidates org s"
  by (auto simp: pod_candidates_def quiet_frame delivered_entry_quiet has_any_pod_quiet)

interpretation eta_risk: attention_detector ETA_AFTER_APPOINTMENT None eta_loads eta_content
  by unfold_locales
     (simp_all add: eta_loads_def fst_pairs operational_loads_once operational_loads_quiet lateness_stops_quiet)

interpretation stale_location: attention_detector STALE_LOCATION None stale_loads stale_content
  by unfold_locales (simp_all add: stale_loads_def fst_pairs operational_loads_once operational_loads_quiet)

interpretation appointment_imminent: attention_detector APPOINTMENT_IMMINENT_NO_CHECK_CALL "Some STALE_LOCATION"
  imminent_loads imminent_content
  by unfold_locales
     (simp_all add: imminent_loads_def fst_pairs operational_loads_once operational_loads_quiet lateness_stops_quiet
        quiet_frame)

interpretation missing_pod: attention_detector MISSING_POD None pod_candidates pod_content
  by unfold_locales
     (simp_all add: pod_candidates_quiet, simp add: pod_candidates_def tbl_where_def fst_pairs distinct_map_filter)

interpretation manual_flag: attention_detector MANUAL_RISK_FLAG None flagged_loads flag_content
  by unfold_locales
     (simp_all add: flagged_loads_def fst_pairs operational_loads_once operational_loads_quiet distinct_map_filter)

end
