(* ===== verification/AttentionProperties.thy ===== *)
theory AttentionProperties
  imports Scenario AttentionLifecycle
begin

text \<open>
  The properties of the attention sweeps: they implement the lifecycle of an item, what exactly
  each detector raises, that running one again changes nothing, and the precedence between the two
  detectors of inactivity.
\<close>

section \<open>The sweeps as a family\<close>

definition detectors ::
  "((monitor \<Rightarrow> sweep_summary \<times> monitor) \<times> attention_type \<times> (monitor \<Rightarrow> uuid \<Rightarrow> uuid \<Rightarrow> attention_content option)) list" where
  "detectors =
     [(etaRiskSweep, ETA_AFTER_APPOINTMENT, detected None eta_loads eta_content),
      (staleLocationSweep, STALE_LOCATION, detected None stale_loads stale_content),
      (appointmentImminentSweep, APPOINTMENT_IMMINENT_NO_CHECK_CALL, detected (Some STALE_LOCATION) imminent_loads imminent_content),
      (missingPodSweep, MISSING_POD, detected None pod_candidates pod_content),
      (manualRiskFlagSweep, MANUAL_RISK_FLAG, detected None flagged_loads flag_content)]"

definition demo_monitor :: monitor where
  "demo_monitor = \<lparr>mo_db = small_db\<lparr>loads := [(60, (demo_load IN_TRANSIT (Some 40) (Some 100000))
       \<lparr>l_riskStatus := RISK_DELAYED, l_riskReason := Some ''storm'', l_currentLocationUpdatedAt := Some 0\<rparr>)]\<rparr>, mo_items = []\<rparr>"

lemma demo_monitor_ok: "items_ok demo_monitor" "wf_db (mo_db demo_monitor)"
  by (simp_all add: demo_monitor_def items_ok_def small_db_def blank_db_def wf_db_def table_ok_def)

section \<open>What each detector lists\<close>

lemma map_of_where:
  "distinct (map fst t) \<Longrightarrow> map_of (tbl_where P t) k = (case tbl_find k t of None \<Rightarrow> None | Some r \<Rightarrow> if P k r then Some r else None)"
  by (induction t) (auto simp: tbl_where_def tbl_find_def map_of_eq_None_iff dest: map_of_SomeD split: option.splits)

lemma loads_distinct: "wf_db s \<Longrightarrow> distinct (map fst (loads s))"
  unfolding wf_db_def table_ok_def by blast

lemma map_of_operational:
  "wf_db s \<Longrightarrow> map_of (operational_loads org s) k = (case tbl_find k (loads s) of None \<Rightarrow> None
     | Some l \<Rightarrow> if l_organizationId l = org \<and> l_status l \<in> {DISPATCHED, PICKUP, IN_TRANSIT} then Some l else None)"
  unfolding operational_loads_def by (rule map_of_where [OF loads_distinct])

lemma map_of_pairs: "map_of (map (\<lambda>(i, x). (i, f i x)) xs) k = map_option (f k) (map_of xs k)"
  by (induction xs) auto

text \<open>A load of the organization that is on the road, with a property of its row.\<close>

definition on_the_road :: "monitor \<Rightarrow> uuid \<Rightarrow> uuid \<Rightarrow> (load_row \<Rightarrow> bool) \<Rightarrow> bool" where
  "on_the_road m org loadId P \<longleftrightarrow> (case tbl_find loadId (loads (mo_db m)) of None \<Rightarrow> False
     | Some l \<Rightarrow> l_organizationId l = org \<and> l_status l \<in> {DISPATCHED, PICKUP, IN_TRANSIT} \<and> P l)"

lemma case_operational:
  assumes "wf_db (mo_db m)"
  shows "(case map_of (operational_loads org (mo_db m)) l of None \<Rightarrow> False | Some r \<Rightarrow> P r) \<longleftrightarrow> on_the_road m org l P"
  unfolding map_of_operational [OF assms] on_the_road_def
  by (cases "tbl_find l (loads (mo_db m))") simp_all

lemma not_None_case:
  "(case x of None \<Rightarrow> None | Some v \<Rightarrow> f v) \<noteq> None \<longleftrightarrow> (case x of None \<Rightarrow> False | Some v \<Rightarrow> f v \<noteq> None)"
  by (cases x) simp_all

lemma detected_eta:
  assumes "wf_db (mo_db m)"
  shows "detected None eta_loads eta_content m org l \<noteq> None \<longleftrightarrow> on_the_road m org l (\<lambda>r. \<exists>eta stopType appointment.
    l_currentEta r = Some eta \<and>
    findApplicableAppointmentStop (lateness_stops l (mo_db m)) (clock (mo_db m)) = Some (stopType, appointment) \<and> appointment < eta)"
  unfolding case_operational [OF assms, symmetric] detected_def not_None_case eta_loads_def map_of_pairs
  by (cases "map_of (operational_loads org (mo_db m)) l")
     (auto simp: effective_def eta_content_def evaluateEtaRisk_def split: option.split)

lemma detected_stale:
  assumes "wf_db (mo_db m)"
  shows "detected None stale_loads stale_content m org l \<noteq> None \<longleftrightarrow> on_the_road m org l (\<lambda>r. \<exists>updated.
    l_currentLocationUpdatedAt r = Some updated \<and> 120 * minute_ms \<le> clock (mo_db m) - updated)"
  unfolding case_operational [OF assms, symmetric] detected_def not_None_case stale_loads_def map_of_pairs
  by (cases "map_of (operational_loads org (mo_db m)) l")
     (auto simp: effective_def stale_content_def evaluateLocationStaleness_def split: option.split)

lemma detected_imminent:
  assumes "wf_db (mo_db m)"
  shows "detected (Some STALE_LOCATION) imminent_loads imminent_content m org l \<noteq> None \<longleftrightarrow>
    \<not> is_active (item_view m org l STALE_LOCATION) \<and> on_the_road m org l (\<lambda>r. \<exists>stopType appointment activity.
    findApplicableAppointmentStop (lateness_stops l (mo_db m)) (clock (mo_db m)) = Some (stopType, appointment) \<and>
    clock (mo_db m) < appointment \<and> appointment \<le> clock (mo_db m) + 180 * minute_ms \<and>
    coalesce (l_currentLocationUpdatedAt r) (map_option d_dispatchedAt (tbl_find l (dispatch_records (mo_db m)))) = Some activity \<and>
    120 * minute_ms \<le> clock (mo_db m) - activity)"
  unfolding case_operational [OF assms, symmetric] detected_def not_None_case imminent_loads_def map_of_pairs
  by (cases "map_of (operational_loads org (mo_db m)) l")
     (auto simp: effective_def imminent_content_def evaluateAppointmentImminent_def split: option.split)

lemma detected_flag:
  assumes "wf_db (mo_db m)"
  shows "detected None flagged_loads flag_content m org l \<noteq> None \<longleftrightarrow> on_the_road m org l (\<lambda>r. l_riskStatus r \<noteq> RISK_NORMAL)"
proof -
  have "distinct (map fst (operational_loads org (mo_db m)))"
    by (rule operational_loads_once [OF loads_distinct [OF assms]])
  then have "map_of (filter (\<lambda>(_, l). l_riskStatus l \<noteq> RISK_NORMAL) (operational_loads org (mo_db m))) l =
      (case map_of (operational_loads org (mo_db m)) l of None \<Rightarrow> None | Some r \<Rightarrow> if l_riskStatus r \<noteq> RISK_NORMAL then Some r else None)"
    using map_of_where [of "operational_loads org (mo_db m)" "\<lambda>_ r. l_riskStatus r \<noteq> RISK_NORMAL" l]
    by (simp add: tbl_where_def tbl_find_def)
  then show ?thesis
    unfolding case_operational [OF assms, symmetric] detected_def not_None_case flagged_loads_def map_of_pairs
    by (auto simp: effective_def flag_content_def evaluateManualRiskFlag_def split: option.split risk_status.split)
qed

lemma detected_pod:
  assumes "wf_db (mo_db m)"
  shows "detected None pod_candidates pod_content m org l \<noteq> None \<longleftrightarrow>
    (case tbl_find l (loads (mo_db m)) of None \<Rightarrow> False
     | Some r \<Rightarrow> l_organizationId r = org \<and> \<not> has_any_pod org l (mo_db m) \<and>
         (\<exists>since. since \<le> clock (mo_db m) - 48 * hour_ms \<and>
            (l_status r = CLOSED \<and> l_closedAt r = Some since \<or>
             l_status r = DELIVERED \<and> delivered_entry org l (mo_db m) = Some since)))"
  unfolding detected_def not_None_case pod_candidates_def map_of_pairs map_of_where [OF loads_distinct [OF assms]]
  by (cases "tbl_find l (loads (mo_db m))")
     (auto simp: effective_def pod_content_def evaluateMissingPod_def split: option.split)

section \<open>Properties\<close>

text \<open>
  C39. Each of the five attention sweeps maps the item of every load and organization through the
  lifecycle its detector prescribes, leaves the items of every other type alone, appends to the
  database nothing but attention entries, and handles every candidate without a failure.
\<close>

theorem attention_refines:
  assumes "(run, ty, risk) \<in> set detectors" and "items_ok m" and "wf_db (mo_db m)"
  shows "item_view (snd (run m)) org l ty' = (if org \<in> keys (organizations (mo_db m)) \<and> ty' = ty
       then lifecycle org l ty (clock (mo_db m)) (risk m org l) (item_view m org l ty) else item_view m org l ty') \<and>
    passes m (snd (run m)) \<and> sw_failed (fst (run m)) = 0 \<and> sw_succeeded (fst (run m)) = sw_matched (fst (run m))"
  using assms(1) eta_risk.sweep_view [OF assms(2,3)] stale_location.sweep_view [OF assms(2,3)]
    appointment_imminent.sweep_view [OF assms(2,3)] missing_pod.sweep_view [OF assms(2,3)] manual_flag.sweep_view [OF assms(2,3)]
  by (auto simp: detectors_def etaRiskSweep_def staleLocationSweep_def appointmentImminentSweep_def missingPodSweep_def
     manualRiskFlagSweep_def)

theorem attention_refines_witness:
  "item_view (snd (staleLocationSweep demo_monitor)) 1 60 STALE_LOCATION \<noteq> None"
proof -
  have "(staleLocationSweep, STALE_LOCATION, detected None stale_loads stale_content) \<in> set detectors"
    by (simp add: detectors_def)
  from attention_refines [OF this demo_monitor_ok, of 1 60 STALE_LOCATION]
  have "item_view (snd (staleLocationSweep demo_monitor)) 1 60 STALE_LOCATION =
      lifecycle 1 60 STALE_LOCATION (clock (mo_db demo_monitor)) (detected None stale_loads stale_content demo_monitor 1 60)
        (item_view demo_monitor 1 60 STALE_LOCATION)"
    by (simp add: demo_monitor_def small_db_def keys_def)
  moreover have "detected None stale_loads stale_content demo_monitor 1 60 \<noteq> None"
    using detected_stale [OF demo_monitor_ok(2), of 1 60]
    by (simp add: on_the_road_def demo_monitor_def small_db_def blank_db_def demo_load_def tbl_find_def minute_ms_def)
  ultimately show ?thesis by (auto simp: lifecycle_def)
qed

text \<open>
  C40. What the detectors raise, exactly: after a sweep, the item of a load is active just when the
  load is on the road and its ETA is past the appointment that counts; when its location is two
  hours old; when an appointment is at most three hours away, nothing has been heard for two hours
  and no stale location stands for it; when a dispatcher has flagged it; or when it was delivered or closed 48 hours
  ago and no proof of delivery has been uploaded.
\<close>

theorem attention_exact:
  assumes "items_ok m" and "wf_db (mo_db m)" and "org \<in> keys (organizations (mo_db m))"
  shows "(is_active (item_view (snd (etaRiskSweep m)) org l ETA_AFTER_APPOINTMENT) \<longleftrightarrow>
      on_the_road m org l (\<lambda>r. \<exists>eta stopType appointment. l_currentEta r = Some eta \<and>
        findApplicableAppointmentStop (lateness_stops l (mo_db m)) (clock (mo_db m)) = Some (stopType, appointment) \<and>
        appointment < eta)) \<and>
    (is_active (item_view (snd (staleLocationSweep m)) org l STALE_LOCATION) \<longleftrightarrow>
      on_the_road m org l (\<lambda>r. \<exists>updated. l_currentLocationUpdatedAt r = Some updated \<and>
        120 * minute_ms \<le> clock (mo_db m) - updated)) \<and>
    (is_active (item_view (snd (appointmentImminentSweep m)) org l APPOINTMENT_IMMINENT_NO_CHECK_CALL) \<longleftrightarrow>
      \<not> is_active (item_view m org l STALE_LOCATION) \<and> on_the_road m org l (\<lambda>r. \<exists>stopType appointment activity.
        findApplicableAppointmentStop (lateness_stops l (mo_db m)) (clock (mo_db m)) = Some (stopType, appointment) \<and>
        clock (mo_db m) < appointment \<and> appointment \<le> clock (mo_db m) + 180 * minute_ms \<and>
        coalesce (l_currentLocationUpdatedAt r) (map_option d_dispatchedAt (tbl_find l (dispatch_records (mo_db m)))) = Some activity \<and>
        120 * minute_ms \<le> clock (mo_db m) - activity)) \<and>
    (is_active (item_view (snd (manualRiskFlagSweep m)) org l MANUAL_RISK_FLAG) \<longleftrightarrow>
      on_the_road m org l (\<lambda>r. l_riskStatus r \<noteq> RISK_NORMAL)) \<and>
    (is_active (item_view (snd (missingPodSweep m)) org l MISSING_POD) \<longleftrightarrow>
      (case tbl_find l (loads (mo_db m)) of None \<Rightarrow> False
       | Some r \<Rightarrow> l_organizationId r = org \<and> \<not> has_any_pod org l (mo_db m) \<and>
           (\<exists>since. since \<le> clock (mo_db m) - 48 * hour_ms \<and>
              (l_status r = CLOSED \<and> l_closedAt r = Some since \<or>
               l_status r = DELIVERED \<and> delivered_entry org l (mo_db m) = Some since))))"
  unfolding etaRiskSweep_def staleLocationSweep_def appointmentImminentSweep_def missingPodSweep_def manualRiskFlagSweep_def
    eta_risk.active_after [OF assms] stale_location.active_after [OF assms] appointment_imminent.active_after [OF assms]
    missing_pod.active_after [OF assms] manual_flag.active_after [OF assms]
    detected_eta [OF assms(2)] detected_stale [OF assms(2)] detected_imminent [OF assms(2)] detected_flag [OF assms(2)]
    detected_pod [OF assms(2)]
  by blast

theorem attention_exact_witness:
  "is_active (item_view (snd (manualRiskFlagSweep demo_monitor)) 1 60 MANUAL_RISK_FLAG) \<and>
   \<not> is_active (item_view (snd (etaRiskSweep demo_monitor)) 1 60 ETA_AFTER_APPOINTMENT)"
proof -
  have "(1 :: uuid) \<in> keys (organizations (mo_db demo_monitor))" by (simp add: demo_monitor_def small_db_def keys_def)
  from attention_exact [OF demo_monitor_ok this, of 60]
  show ?thesis
    by (simp add: on_the_road_def demo_monitor_def small_db_def blank_db_def demo_load_def tbl_find_def)
qed

text \<open>
  Running an attention sweep a second time at the same instant changes nothing: no item, no
  audit entry, no domain event.
\<close>

theorem attention_rerun:
  assumes "(run, ty, risk) \<in> set detectors" and "items_ok m" and "wf_db (mo_db m)"
  shows "snd (run (snd (run m))) = snd (run m)"
  using assms(1) eta_risk.rerun [OF assms(2,3)] stale_location.rerun [OF assms(2,3)]
    appointment_imminent.rerun [OF assms(2,3)] missing_pod.rerun [OF assms(2,3)] manual_flag.rerun [OF assms(2,3)]
  by (auto simp: detectors_def etaRiskSweep_def staleLocationSweep_def appointmentImminentSweep_def missingPodSweep_def
     manualRiskFlagSweep_def)

theorem attention_rerun_witness:
  "snd (manualRiskFlagSweep (snd (manualRiskFlagSweep demo_monitor))) = snd (manualRiskFlagSweep demo_monitor)"
  by (rule attention_rerun [of _ MANUAL_RISK_FLAG "detected None flagged_loads flag_content"])
     (simp_all add: detectors_def demo_monitor_ok)

text \<open>
  After a run of the stale location sweep followed by one of the appointment sweep, no load has
  an active item of both types, and the second run has left the items of the first alone.
\<close>

theorem inactivity_precedence:
  assumes "items_ok m" and "wf_db (mo_db m)" and "org \<in> keys (organizations (mo_db m))"
  defines "m1 \<equiv> snd (staleLocationSweep m)"
  defines "m2 \<equiv> snd (appointmentImminentSweep m1)"
  shows "\<not> (is_active (item_view m2 org l STALE_LOCATION) \<and> is_active (item_view m2 org l APPOINTMENT_IMMINENT_NO_CHECK_CALL)) \<and>
    item_view m2 org l STALE_LOCATION = item_view m1 org l STALE_LOCATION"
proof -
  have p: "passes m m1" unfolding m1_def staleLocationSweep_def by (rule stale_location.sweep_view(1) [OF assms(1,2)])
  have ok: "items_ok m1" and wf: "wf_db (mo_db m1)" and org: "org \<in> keys (organizations (mo_db m1))"
    using p passes_wf_db [OF p assms(2)] assms(3) by (auto simp: passes_def quiet_frame)
  have keep: "item_view m2 org l STALE_LOCATION = item_view m1 org l STALE_LOCATION"
    using appointment_imminent.sweep_view(4) [OF ok wf, of org l STALE_LOCATION]
    by (simp add: m2_def appointmentImminentSweep_def)
  have "is_active (item_view m2 org l APPOINTMENT_IMMINENT_NO_CHECK_CALL) \<Longrightarrow> \<not> is_active (item_view m1 org l STALE_LOCATION)"
    unfolding m2_def appointmentImminentSweep_def appointment_imminent.active_after [OF ok wf org] detected_imminent [OF wf]
    by blast
  then show ?thesis unfolding keep by blast
qed

theorem inactivity_precedence_witness:
  "\<not> is_active (item_view (snd (appointmentImminentSweep (snd (staleLocationSweep demo_monitor)))) 1 60
       APPOINTMENT_IMMINENT_NO_CHECK_CALL)"
proof -
  have "(1 :: uuid) \<in> keys (organizations (mo_db demo_monitor))" by (simp add: demo_monitor_def small_db_def keys_def)
  from inactivity_precedence [OF demo_monitor_ok this, of 60]
    stale_location.active_after [OF demo_monitor_ok this, of 60] detected_stale [OF demo_monitor_ok(2), of 1 60]
  show ?thesis
    by (simp add: staleLocationSweep_def on_the_road_def demo_monitor_def small_db_def blank_db_def demo_load_def
        tbl_find_def minute_ms_def)
qed

end
