(* ===== verification/SweepRuns.thy ===== *)
theory SweepRuns
  imports Scenario
begin

text \<open>
  The background sweeps as runs of the deployment. A sweep lists its records once per organization
  and then handles them one by one; the locale states what makes each of them still be what was
  listed when its turn comes. Every sweep keeps the contract, so what holds in every reachable
  world holds after, and during, every sweep.
\<close>

section \<open>The contract of a sweep's records\<close>

lemma find_by_key:
  "distinct (map f xs) \<Longrightarrow> x \<in> set xs \<Longrightarrow> P x \<Longrightarrow> List.find (\<lambda>y. P y \<and> f y = f x) xs = Some x"
  by (induction xs) (auto simp: image_iff)

lemma same_time: "begin_request (clock (w_db w)) (context_of (w_db w)) w = w"
  by (simp add: begin_request_def)

locale swept =
  fixes listed :: "uuid \<Rightarrow> db \<Rightarrow> 'a list"
    and gate :: "'a \<Rightarrow> bool"
    and act :: "uuid \<Rightarrow> 'a \<Rightarrow> unit tx"
    and key :: "'a \<Rightarrow> uuid"
    and request :: "uuid \<Rightarrow> sweep_request"
  assumes request_tx: "sweep_tx org (request k) = sweep_one (\<lambda>x. gate x \<and> key x = k) listed act org"
    and once: "wf_db s \<Longrightarrow> distinct (map key (listed org s))"
    and still_listed: "wf_db s \<Longrightarrow> x \<in> set (listed org s) \<Longrightarrow> y \<in> set (listed org s) \<Longrightarrow> key x \<noteq> key y \<Longrightarrow>
          act org x s = Inr ((), s') \<Longrightarrow> y \<in> set (listed org s')"
begin

lemma record_step:
  assumes "wf_db (w_db w)" and "x \<in> set (listed org (w_db w))" and "gate x"
  shows "step pd w (snd (withTenantTransaction (act org x) w))"
proof -
  have "List.find (\<lambda>y. gate y \<and> key y = key x) (listed org (w_db w)) = Some x"
    using find_by_key [of key "listed org (w_db w)" x gate] once [OF assms(1)] assms(2,3) by blast
  then have "sweep_tx org (request (key x)) (w_db w) = act org x (w_db w)"
    by (simp add: request_tx sweep_one_def tx_run)
  then have "handle pd org 0 (SweepRequest (request (key x))) w = snd (withTenantTransaction (act org x) w)"
    by (simp add: withTenantTransaction_def)
  moreover have "step pd w (handle pd org 0 (SweepRequest (request (key x)))
      (begin_request (clock (w_db w)) (context_of (w_db w)) w))"
    by (rule step.served) simp
  ultimately show ?thesis by (simp add: same_time)
qed

lemma records_run:
  assumes "wf_db (w_db w)" and "set xs \<subseteq> set (listed org (w_db w))" and "distinct (map key xs)" and "\<forall>x \<in> set xs. gate x"
  shows "rtranclp (step pd) w (snd (sweep_records (act org) xs (c, w)))"
  using assms
proof (induction xs arbitrary: c w)
  case (Cons x xs)
  let ?w = "snd (withTenantTransaction (act org x) w)"
  have s: "step pd w ?w" using Cons.prems by (intro record_step) auto
  have wf: "wf_db (w_db ?w)" using s Cons.prems(1) by (rule step_wf)
  have sub: "set xs \<subseteq> set (listed org (w_db ?w))"
  proof (cases "act org x (w_db w)")
    case (Inl e)
    then show ?thesis using Cons.prems(2) by (simp add: withTenantTransaction_def)
  next
    case (Inr r)
    then obtain s' where s': "act org x (w_db w) = Inr ((), s')" by (cases r) simp
    have "y \<in> set (listed org s')" if "y \<in> set xs" for y
      using still_listed [OF Cons.prems(1) _ _ _ s', of y] Cons.prems(2,3) that by force
    then show ?thesis using s' by (auto simp: withTenantTransaction_def)
  qed
  have "snd (sweep_records (act org) (x # xs) (c, w)) = snd (sweep_records (act org) xs
      (count_record (case fst (withTenantTransaction (act org x) w) of Inl _ \<Rightarrow> False | Inr _ \<Rightarrow> True) c, ?w))"
    by (simp split: sum.split prod.split)
  moreover have "rtranclp (step pd) ?w (snd (sweep_records (act org) xs (c', ?w)))" for c'
    using Cons.IH [OF wf sub, of c'] Cons.prems(3,4) by simp
  ultimately show ?case using s by (simp add: converse_rtranclp_into_rtranclp)
qed simp

lemma list_run:
  assumes "wf_db (w_db w)"
  shows "rtranclp (step pd) w (snd (sweep_records (act org) (filter gate (listed org (w_db w))) (c, w)))"
  using once [OF assms, of org] by (intro records_run [OF assms]) (auto simp: distinct_map_filter)

lemma org_run: "wf_db (w_db (snd r)) \<Longrightarrow> rtranclp (step pd) (snd r) (snd (sweep_org listed gate act org r))"
  unfolding sweep_org_def Let_def by (rule list_run)

lemma orgs_run:
  "wf_db (w_db (snd r)) \<Longrightarrow> rtranclp (step pd) (snd r) (snd (fold (sweep_org listed gate act) orgs r))"
proof (induction orgs arbitrary: r)
  case (Cons org orgs)
  have s: "rtranclp (step pd) (snd r) (snd (sweep_org listed gate act org r))" by (rule org_run [OF Cons.prems])
  then have "wf_db (w_db (snd (sweep_org listed gate act org r)))"
    using Cons.prems by (induction rule: rtranclp_induct) (auto intro: step_wf)
  then show ?case using rtranclp_trans [OF s Cons.IH] by simp
qed simp

lemma sweep_run: "wf_db (w_db w) \<Longrightarrow> rtranclp (step pd) w (snd (sweep listed gate act w))"
  using orgs_run [of "(no_counts, w)"] by (simp add: sweep_def)

end

section \<open>Every sweep keeps it\<close>

lemma where_distinct: "distinct (map fst t) \<Longrightarrow> distinct (map fst (tbl_where P t))"
  by (simp add: tbl_where_def distinct_map_filter)

lemma wf_distinct_tables:
  "wf_db s \<Longrightarrow> distinct (map fst (quotes s))" "wf_db s \<Longrightarrow> distinct (map fst (documents s))"
  "wf_db s \<Longrightarrow> distinct (map fst (carriers s))" "wf_db s \<Longrightarrow> distinct (map fst (carrier_insurance s))"
  "wf_db s \<Longrightarrow> distinct (map fst (loads s))" "wf_db s \<Longrightarrow> distinct (map fst (memberships s))"
  by (simp_all add: wf_db_def table_ok_def)

lemma wf_tables:
  "wf_db s \<Longrightarrow> table_ok (next_id s) (quotes s)" "wf_db s \<Longrightarrow> table_ok (next_id s) (documents s)"
  "wf_db s \<Longrightarrow> table_ok (next_id s) (carriers s)" "wf_db s \<Longrightarrow> table_ok (next_id s) (memberships s)"
  by (simp_all add: wf_db_def)

lemma expire_quote_quotes:
  assumes "expire_quote org x s = Inr ((), s')"
  shows "quotes s' = tbl_upd (fst x) (\<lambda>r. r\<lparr>q_status := QS_LOST, q_lossReason := Some ''Expired''\<rparr>) (quotes s)"
    and "clock s' = clock s"
  using assms by (auto simp: expire_quote_def tx_iff split: if_splits)

lemma expire_document_documents:
  assumes "expire_document org x s = Inr ((), s')"
  shows "documents s' = tbl_upd (fst x) (\<lambda>r. r\<lparr>doc_reviewStatus := Some RV_EXPIRED\<rparr>) (documents s)"
    and "clock s' = clock s" and "document_types s' = document_types s"
  using assms by (auto simp: expire_document_def tx_iff)

interpretation quote_expiry: swept stale_quotes "\<lambda>_. True" expire_quote fst ExpireQuote
proof
  show "wf_db s \<Longrightarrow> distinct (map fst (stale_quotes org s))" for s org
    by (simp add: stale_quotes_def where_distinct wf_distinct_tables)
  show "y \<in> set (stale_quotes org s')"
    if "wf_db s" "x \<in> set (stale_quotes org s)" "y \<in> set (stale_quotes org s)" "fst x \<noteq> fst y"
      "expire_quote org x s = Inr ((), s')" for s x org y s'
    using that expire_quote_quotes [OF that(5)]
    by (cases x; cases y) (auto simp: stale_quotes_def tbl_where_iff mem_tbl_upd [OF wf_tables(1) [OF that(1)]])
qed simp

lemma expire_invitation_memberships:
  assumes "expire_invitation org x s = Inr ((), s')"
  shows "memberships s' = tbl_upd (fst x) (\<lambda>r. r\<lparr>m_status := MS_EXPIRED\<rparr>) (memberships s)"
    and "clock s' = clock s"
  using assms by (auto simp: expire_invitation_def tx_iff split: if_splits option.splits)

interpretation invitation_expiry: swept stale_invitations "\<lambda>_. True" expire_invitation fst ExpireInvitation
proof
  show "wf_db s \<Longrightarrow> distinct (map fst (stale_invitations org s))" for s org
    by (simp add: stale_invitations_def where_distinct wf_distinct_tables)
  show "y \<in> set (stale_invitations org s')"
    if "wf_db s" "x \<in> set (stale_invitations org s)" "y \<in> set (stale_invitations org s)" "fst x \<noteq> fst y"
      "expire_invitation org x s = Inr ((), s')" for s x org y s'
    using that expire_invitation_memberships [OF that(5)]
    by (cases x; cases y)
       (auto simp: stale_invitations_def tbl_where_iff mem_tbl_upd [OF wf_tables(4) [OF that(1)]] split: option.splits)
qed simp

interpretation document_expiry: swept stale_docs "\<lambda>_. True" expire_document fst ExpireDocument
proof
  show "wf_db s \<Longrightarrow> distinct (map fst (stale_docs org s))" for s org
    by (simp add: stale_docs_def where_distinct wf_distinct_tables)
  show "y \<in> set (stale_docs org s')"
    if "wf_db s" "x \<in> set (stale_docs org s)" "y \<in> set (stale_docs org s)" "fst x \<noteq> fst y"
      "expire_document org x s = Inr ((), s')" for s x org y s'
    using that expire_document_documents [OF that(5)]
    by (cases x; cases y)
       (auto simp: stale_docs_def approved_expirable_def document_code_def tbl_where_iff mem_tbl_upd [OF wf_tables(2) [OF that(1)]]
        split: option.splits)
qed simp

interpretation recalculation: swept active_carriers "\<lambda>_. True" recalculate_quietly "\<lambda>c. c" RecalculateEligibility
proof
  show "wf_db s \<Longrightarrow> distinct (map (\<lambda>c. c) (active_carriers org s))" for s org
    by (simp add: active_carriers_def where_distinct wf_distinct_tables)
  show "y \<in> set (active_carriers org s')"
    if wf: "wf_db s" and "x \<in> set (active_carriers org s)" and y: "y \<in> set (active_carriers org s)" and ne: "x \<noteq> y"
      and run: "recalculate_quietly org x s = Inr ((), s')" for s x org y s'
  proof -
    obtain carrier where "s' = recalculated org x carrier s" using run by (auto simp: recalculate_quietly_def tx_iff)
    then have "carriers s' = tbl_upd x (store_eligibility (eligibility_reasons org x carrier s)) (carriers s)"
      by (simp add: recalculated_carriers)
    moreover obtain r where "(y, r) \<in> set (carriers s)" "c_organizationId r = org" "c_status r = CA_ACTIVE"
      using y by (auto simp: active_carriers_def tbl_where_iff)
    ultimately have "(y, r) \<in> set (tbl_where (\<lambda>_ c. c_organizationId c = org \<and> c_status c = CA_ACTIVE) (carriers s'))"
      using ne by (auto simp: tbl_where_iff mem_tbl_upd [OF wf_tables(3) [OF wf]])
    then show ?thesis unfolding active_carriers_def by force
  qed
qed simp

text \<open>The sweeps that only write notifications list the same records throughout.\<close>

definition notifies :: "db \<Rightarrow> db \<Rightarrow> bool" where
  "notifies s s' \<longleftrightarrow> (\<forall>n. n \<notin> {Notifications, AuditLogs, DomainEvents} \<longrightarrow> untouched n s s')"

lemma notifies_frame:
  assumes "notifies s s'"
  shows "loads s' = loads s" "stops s' = stops s" "check_calls s' = check_calls s" "dispatch_records s' = dispatch_records s"
    "drivers s' = drivers s" "documents s' = documents s" "document_types s' = document_types s"
    "carrier_insurance s' = carrier_insurance s" "carriers s' = carriers s" "clock s' = clock s"
    "organizations s' = organizations s"
  using assms unfolding notifies_def
  by (simp_all flip: untouched.simps)

lemma notifying:
  "notify_late wall_clock org x s = Inr (r, s') \<Longrightarrow> notifies s s'"
  "remind h org y s = Inr (r, s') \<Longrightarrow> notifies s s'"
  "notify_document th org d s = Inr (r, s') \<Longrightarrow> notifies s s'"
  "notify_insurance th org i s = Inr (r, s') \<Longrightarrow> notifies s s'"
proof -
  have n: "keeps (only {Notifications, AuditLogs, DomainEvents}) (notify_late wall_clock org x)"
    "keeps (only {Notifications, AuditLogs, DomainEvents}) (remind h org y)"
    "keeps (only {Notifications, AuditLogs, DomainEvents}) (notify_document th org d)"
    "keeps (only {Notifications, AuditLogs, DomainEvents}) (notify_insurance th org i)"
    unfolding notify_late_def remind_def fireOverdue_def fireDueSoon_def notify_document_def notify_insurance_def notify_expiring_def
    by ((rule footprint_compound footprint_steps | (simp; fail))+)
  show "notify_late wall_clock org x s = Inr (r, s') \<Longrightarrow> notifies s s'"
    "remind h org y s = Inr (r, s') \<Longrightarrow> notifies s s'"
    "notify_document th org d s = Inr (r, s') \<Longrightarrow> notifies s s'"
    "notify_insurance th org i s = Inr (r, s') \<Longrightarrow> notifies s s'"
    using n by (auto simp: keeps_def only_def notifies_def)
qed

lemma same_records:
  assumes "notifies s s'"
  shows "late_loads org s' = late_loads org s" "silent_loads org s' = silent_loads org s"
    "expiring_docs days org s' = expiring_docs days org s" "expiring_insurance days org s' = expiring_insurance days org s"
proof -
  note f = notifies_frame [OF assms]
  show "late_loads org s' = late_loads org s"
    unfolding late_loads_def operational_loads_def late_stop_def lateness_stops_def f ..
  show "silent_loads org s' = silent_loads org s"
    unfolding silent_loads_def operational_loads_def resolveDriverName_def last_activity_def last_check_call_def f ..
  show "expiring_docs days org s' = expiring_docs days org s"
    unfolding expiring_docs_def approved_expirable_def document_code_def f ..
  show "expiring_insurance days org s' = expiring_insurance days org s"
    unfolding expiring_insurance_def f ..
qed

interpretation lateness: swept late_loads late_gate "notify_late wall_clock" ll_loadId "NotifyLateLoad wall_clock" for wall_clock
proof
  show "wf_db s \<Longrightarrow> distinct (map ll_loadId (late_loads org s))" for s org
    using where_distinct [OF wf_distinct_tables(5)]
    by (simp add: late_loads_def operational_loads_def comp_def case_prod_beta)
qed (auto dest!: notifying(1) simp: same_records)

interpretation reminders: swept silent_loads "silent_gate h" "remind h" sl_loadId "RemindCheckCall h" for h
proof
  show "wf_db s \<Longrightarrow> distinct (map sl_loadId (silent_loads org s))" for s org
    using where_distinct [OF wf_distinct_tables(5)]
    by (simp add: silent_loads_def operational_loads_def comp_def case_prod_beta)
qed (auto dest!: notifying(2) simp: same_records)

interpretation document_notices: swept "expiring_docs (fst th)" "\<lambda>_. True" "notify_document th" fst "NotifyExpiringDocument th" for th
proof
  show "wf_db s \<Longrightarrow> distinct (map fst (expiring_docs (fst th) org s))" for s org
    by (simp add: expiring_docs_def where_distinct wf_distinct_tables)
qed (auto dest!: notifying(3) simp: same_records)

interpretation insurance_notices: swept "expiring_insurance (fst th)" "\<lambda>_. True" "notify_insurance th" fst "NotifyExpiringInsurance th" for th
proof
  show "wf_db s \<Longrightarrow> distinct (map fst (expiring_insurance (fst th) org s))" for s org
    by (simp add: expiring_insurance_def where_distinct wf_distinct_tables)
qed (auto dest!: notifying(4) simp: same_records)

section \<open>The two sweeps of two passes\<close>

lemma run_wf: "rtranclp (step pd) w w' \<Longrightarrow> wf_db (w_db w) \<Longrightarrow> wf_db (w_db w')"
  by (induction rule: rtranclp_induct) (auto intro: step_wf)

lemma fold_run:
  assumes "\<And>x r. wf_db (w_db (snd r)) \<Longrightarrow> rtranclp (step pd) (snd r) (snd (f x r))"
  shows "wf_db (w_db (snd r)) \<Longrightarrow> rtranclp (step pd) (snd r) (snd (fold f xs r))"
proof (induction xs arbitrary: r)
  case (Cons x xs)
  have "rtranclp (step pd) (snd r) (snd (f x r))" by (rule assms [OF Cons.prems])
  then show ?case using Cons.IH [of "f x r"] run_wf [OF _ Cons.prems] by (simp add: rtranclp_trans)
qed simp

lemma compliance_run:
  assumes "wf_db (w_db w)"
  shows "rtranclp (step pd) w (snd (carrierComplianceExpirationSweep w))"
proof -
  have "rtranclp (step pd) (snd r) (snd (compliance_org org r))" if "wf_db (w_db (snd r))" for org r
  proof -
    obtain docs w1 where 1: "sweep_org stale_docs (\<lambda>_. True) expire_document org (fst (fst r), snd r) = (docs, w1)" by fastforce
    obtain cars w2 where 2: "sweep_org active_carriers (\<lambda>_. True) recalculate_quietly org (snd (fst r), w1) = (cars, w2)" by fastforce
    have r1: "rtranclp (step pd) (snd r) w1"
      using document_expiry.org_run [of "(fst (fst r), snd r)" pd org] that 1 by simp
    moreover have "rtranclp (step pd) w1 w2"
      using recalculation.org_run [of "(snd (fst r), w1)" pd org] run_wf [OF r1 that] 2 by simp
    ultimately show ?thesis using 1 2 by (simp add: compliance_org_def)
  qed
  from fold_run [of pd compliance_org, OF this, of "((no_counts, no_counts), w)"] assms
  show ?thesis by (simp add: carrierComplianceExpirationSweep_def)
qed

lemma expiration_run:
  assumes "wf_db (w_db w)"
  shows "rtranclp (step pd) w (snd (complianceExpirationNotifications w))"
proof -
  have th: "rtranclp (step pd) (snd r) (snd (expiring_threshold org threshold r))" if "wf_db (w_db (snd r))" for org threshold r
  proof -
    define r1 where "r1 = list_records (notify_document threshold org) (expiring_docs (fst threshold) org (w_db (snd r))) r"
    have s1: "rtranclp (step pd) (snd r) (snd r1)"
      using document_notices.list_run [OF that, of pd threshold org] by (simp add: r1_def list_records_def)
    have "rtranclp (step pd) (snd r1) (snd (list_records (notify_insurance threshold org)
        (expiring_insurance (fst threshold) org (w_db (snd r1))) r1))"
      using insurance_notices.list_run [OF run_wf [OF s1 that], of pd threshold org] by (simp add: list_records_def)
    then show ?thesis using rtranclp_trans [OF s1] by (simp add: expiring_threshold_def r1_def Let_def)
  qed
  have "rtranclp (step pd) (snd r) (snd (expiring_org org r))" if "wf_db (w_db (snd r))" for org r
    using fold_run [of pd "expiring_threshold org", OF th, of "((fst r)\<lparr>sw_orgsScanned := sw_orgsScanned (fst r) + 1\<rparr>, snd r)"] that
    by (simp add: expiring_org_def)
  from fold_run [of pd expiring_org, OF this, of "(no_counts, w)"] assms
  show ?thesis by (simp add: complianceExpirationNotifications_def)
qed

end
