(* ===== verification/SweepProperties.thy ===== *)
theory SweepProperties
  imports SweepRuns BookingProperties
begin

text \<open>
  Properties of the sweeps that write to the shared tables: they are runs of the deployment, what
  exactly the expiry of quotes does and where it races with a conversion, that every late load is
  announced, and that the eligibility of carriers is up to date after the compliance sweep.
\<close>

section \<open>Sweeps and the deployment\<close>



section \<open>Expired quotes\<close>

definition expired_row :: "quote_row \<Rightarrow> quote_row" where
  "expired_row q = q\<lparr>q_status := QS_LOST, q_lossReason := Some ''Expired''\<rparr>"

lemma expire_quote_total:
  assumes "tbl_find (fst x) (quotes s) = Some q"
  shows "\<exists>s'. expire_quote org x s = Inr ((), s')"
proof (cases "tbl_first (\<lambda>_. related org QUOTE_EXPIRED ''Quote'' (fst x)) (notifications s)")
  case None
  then show ?thesis using assms by (simp add: expire_quote_def tx_run)
next
  case (Some p)
  then show ?thesis using assms by (simp add: expire_quote_def tx_run)
qed

lemma expire_records:
  assumes "wf_db (w_db w)" and "set xs \<subseteq> set (stale_quotes org (w_db w))" and "distinct (map fst xs)"
  shows "\<exists>w'. sweep_records (expire_quote org) xs (c, w) = (c\<lparr>sw_succeeded := sw_succeeded c + length xs\<rparr>, w') \<and>
    wf_db (w_db w') \<and> clock (w_db w') = clock (w_db w) \<and>
    (\<forall>i. tbl_find i (quotes (w_db w')) = (if i \<in> fst ` set xs then map_option expired_row (tbl_find i (quotes (w_db w)))
       else tbl_find i (quotes (w_db w))))"
  using assms
proof (induction xs arbitrary: c w)
  case Nil
  then show ?case by simp
next
  case (Cons x xs)
  obtain q where "tbl_find (fst x) (quotes (w_db w)) = Some q"
    using Cons.prems(1,2) by (cases x) (auto simp: stale_quotes_def tbl_where_iff tbl_find_def wf_distinct_tables)
  then obtain s' where run: "expire_quote org x (w_db w) = Inr ((), s')" using expire_quote_total by blast
  let ?w = "w\<lparr>w_db := s'\<rparr>"
  have w: "withTenantTransaction (expire_quote org x) w = (Inr (), ?w)" using run by (simp add: withTenantTransaction_def)
  note e = expire_quote_quotes [OF run]
  have "step (\<lambda>_. 0) w ?w"
    using quote_expiry.record_step [OF Cons.prems(1), of x org "\<lambda>_. 0"] Cons.prems(2) w by simp
  then have wf: "wf_db (w_db ?w)" using Cons.prems(1) by (rule step_wf)
  have sub: "set xs \<subseteq> set (stale_quotes org (w_db ?w))"
  proof
    fix y assume y: "y \<in> set xs"
    then have other: "fst x \<noteq> fst y" using Cons.prems(3) by force
    have "x \<in> set (stale_quotes org (w_db w))" "y \<in> set (stale_quotes org (w_db w))" using Cons.prems(2) y by auto
    from quote_expiry.still_listed [OF Cons.prems(1) this other run] show "y \<in> set (stale_quotes org (w_db ?w))" by simp
  qed
  from Cons.IH [OF wf sub, of "count_record True c"] Cons.prems(3)
  obtain w' where w': "sweep_records (expire_quote org) xs (count_record True c, ?w) =
      ((count_record True c)\<lparr>sw_succeeded := sw_succeeded (count_record True c) + length xs\<rparr>, w')"
    "wf_db (w_db w')" "clock (w_db w') = clock (w_db ?w)"
    and q': "\<And>i. tbl_find i (quotes (w_db w')) = (if i \<in> fst ` set xs then map_option expired_row (tbl_find i (quotes (w_db ?w)))
       else tbl_find i (quotes (w_db ?w)))" by auto
  have "tbl_find i (quotes (w_db w')) = (if i \<in> fst ` set (x # xs) then map_option expired_row (tbl_find i (quotes (w_db w)))
       else tbl_find i (quotes (w_db w)))" for i
    using Cons.prems(3) by (auto simp: q' e tbl_find_upd expired_row_def [abs_def])
  then show ?case using w' w e(2) by (intro exI [of _ w']) (simp add: count_record_def)
qed

lemma stale_iff:
  assumes "wf_db s"
  shows "i \<in> fst ` set (stale_quotes org s) \<longleftrightarrow> (\<exists>q. tbl_find i (quotes s) = Some q \<and> q_organizationId q = org \<and>
     q_status q = QS_OPEN \<and> q_expirationDate q < start_of_day (clock s))"
proof -
  have "i \<in> fst ` set (stale_quotes org s) \<longleftrightarrow> (\<exists>q. (i, q) \<in> set (stale_quotes org s))" by force
  then show ?thesis
    by (simp add: stale_quotes_def tbl_where_iff tbl_find_iff_set [OF wf_tables(1) [OF assms]])
qed

text \<open>What the sweep makes of a quote, on one day and for some organizations.\<close>

definition swept_quote :: "uuid set \<Rightarrow> instant \<Rightarrow> quote_row \<Rightarrow> quote_row" where
  "swept_quote orgs t q =
     (if q_organizationId q \<in> orgs \<and> q_status q = QS_OPEN \<and> q_expirationDate q < start_of_day t then expired_row q else q)"

lemma quote_sweep_orgs:
  assumes "wf_db (w_db w)"
  shows "\<exists>n w'. fold (sweep_org stale_quotes (\<lambda>_. True) expire_quote) orgs (c, w) =
      (c\<lparr>sw_orgsScanned := sw_orgsScanned c + length orgs, sw_matched := sw_matched c + n, sw_succeeded := sw_succeeded c + n\<rparr>, w') \<and>
    wf_db (w_db w') \<and>
    (\<forall>i. tbl_find i (quotes (w_db w')) = map_option (swept_quote (set orgs) (clock (w_db w))) (tbl_find i (quotes (w_db w))))"
  using assms
proof (induction orgs arbitrary: c w)
  case Nil
  have "swept_quote {} t = (\<lambda>q. q)" for t by (simp add: swept_quote_def fun_eq_iff)
  then show ?case using Nil by (intro exI [of _ 0] exI [of _ w]) (simp add: option.map_ident)
next
  case (Cons org orgs)
  let ?xs = "stale_quotes org (w_db w)"
  let ?c = "c\<lparr>sw_orgsScanned := sw_orgsScanned c + 1, sw_matched := sw_matched c + length ?xs\<rparr>"
  obtain w1 where 1: "sweep_records (expire_quote org) ?xs (?c, w) = (?c\<lparr>sw_succeeded := sw_succeeded ?c + length ?xs\<rparr>, w1)"
    and wf: "wf_db (w_db w1)" and clk: "clock (w_db w1) = clock (w_db w)"
    and q1: "\<And>i. tbl_find i (quotes (w_db w1)) = (if i \<in> fst ` set ?xs then map_option expired_row (tbl_find i (quotes (w_db w)))
       else tbl_find i (quotes (w_db w)))"
    using expire_records [OF Cons.prems order.refl quote_expiry.once [OF Cons.prems], of org ?c] by blast
  let ?c1 = "?c\<lparr>sw_succeeded := sw_succeeded ?c + length ?xs\<rparr>"
  have q1': "tbl_find i (quotes (w_db w1)) = map_option (swept_quote {org} (clock (w_db w))) (tbl_find i (quotes (w_db w)))" for i
    unfolding q1 stale_iff [OF Cons.prems]
    by (cases "tbl_find i (quotes (w_db w))") (auto simp: swept_quote_def)
  obtain n w' where 2: "fold (sweep_org stale_quotes (\<lambda>_. True) expire_quote) orgs (?c1, w1) =
      (?c1\<lparr>sw_orgsScanned := sw_orgsScanned ?c1 + length orgs, sw_matched := sw_matched ?c1 + n, sw_succeeded := sw_succeeded ?c1 + n\<rparr>, w')"
    and wf': "wf_db (w_db w')"
    and q2: "\<And>i. tbl_find i (quotes (w_db w')) = map_option (swept_quote (set orgs) (clock (w_db w1))) (tbl_find i (quotes (w_db w1)))"
    using Cons.IH [OF wf, of ?c1] by blast
  have "swept_quote (set orgs) t \<circ> swept_quote {org} t = swept_quote (set (org # orgs)) t" for t
    by (rule ext) (auto simp: swept_quote_def expired_row_def)
  then have "tbl_find i (quotes (w_db w')) = map_option (swept_quote (set (org # orgs)) (clock (w_db w))) (tbl_find i (quotes (w_db w)))" for i
    by (simp add: q2 q1' clk option.map_comp)
  moreover have "sweep_org stale_quotes (\<lambda>_. True) expire_quote org (c, w) = (?c1, w1)"
    using 1 by (simp add: sweep_org_def Let_def)
  ultimately show ?case using 2 wf' by (intro exI [of _ "length ?xs + n"] exI [of _ w']) (simp add: add.assoc)
qed

text \<open>
  C34. What the quote sweep does, exactly: every quote of an organization that is open and past its
  expiration date is lost for the reason Expired, every other quote is what it was, and every
  record the sweep matched succeeded.
\<close>

theorem quote_expiry_exact:
  assumes "wf_db (w_db w)"
  shows "tbl_find i (quotes (w_db (snd (quoteExpirationSweep w)))) = map_option (\<lambda>q.
      if q_organizationId q \<in> keys (organizations (w_db w)) \<and> q_status q = QS_OPEN \<and>
         q_expirationDate q < start_of_day (clock (w_db w))
      then q\<lparr>q_status := QS_LOST, q_lossReason := Some ''Expired''\<rparr> else q) (tbl_find i (quotes (w_db w))) \<and>
    sw_succeeded (fst (quoteExpirationSweep w)) = sw_matched (fst (quoteExpirationSweep w)) \<and>
    sw_failed (fst (quoteExpirationSweep w)) = 0"
proof -
  let ?orgs = "map fst (organizations (w_db w))"
  obtain n w' where "quoteExpirationSweep w = (no_counts\<lparr>sw_orgsScanned := sw_orgsScanned no_counts + length ?orgs,
      sw_matched := sw_matched no_counts + n, sw_succeeded := sw_succeeded no_counts + n\<rparr>, w')"
    and "tbl_find i (quotes (w_db w')) = map_option (swept_quote (set ?orgs) (clock (w_db w))) (tbl_find i (quotes (w_db w)))"
    using quote_sweep_orgs [OF assms, of ?orgs no_counts] unfolding quoteExpirationSweep_def sweep_def by blast
  moreover have "swept_quote S t = (\<lambda>q. if q_organizationId q \<in> S \<and> q_status q = QS_OPEN \<and> q_expirationDate q < start_of_day t
      then q\<lparr>q_status := QS_LOST, q_lossReason := Some ''Expired''\<rparr> else q)" for S t
    by (rule ext) (simp add: swept_quote_def expired_row_def)
  ultimately show ?thesis by (simp add: no_counts_def keys_def)
qed

theorem quote_expiry_exact_witness:
  "\<exists>q. tbl_find 80 (quotes (w_db (snd (quoteExpirationSweep (small_world\<lparr>w_db := quoted_db\<rparr>))))) = Some q \<and>
     q_status q = QS_LOST"
proof -
  have "wf_db quoted_db"
    by (simp add: quoted_db_def small_db_def blank_db_def wf_db_def table_ok_def)
  then show ?thesis
    using quote_expiry_exact [of "small_world\<lparr>w_db := quoted_db\<rparr>" 80]
    by (simp add: tbl_find_def quoted_db_def small_db_def blank_db_def keys_def new_quote_def demo_quote_dto_def
        defaultExpirationDate_def start_of_day_def day_ms_def)
qed

text \<open>
  C35. The expiry of a quote races with its conversion. The sweep lists stale quotes in one
  transaction and expires each in another, by its key alone: a quote that is converted in between
  ends up lost for the reason Expired although it names the load it was converted into.
\<close>

theorem expiry_race:
  assumes "(i, q) \<in> set (stale_quotes org s)" and "convert_tx org i rate ok u s = Inr ((j, load, sts), s1)"
  shows "\<exists>s2 lost. expire_quote org (i, q) s1 = Inr ((), s2) \<and> tbl_find i (quotes s2) = Some lost \<and>
     q_status lost = QS_LOST \<and> q_lossReason lost = Some ''Expired'' \<and> q_resultingLoadId lost = Some j"
proof -
  obtain quote where won: "tbl_find i (quotes s1) = Some (quote\<lparr>q_status := QS_WON, q_resultingLoadId := Some j\<rparr>)"
    by (rule convert_tx_writes [OF assms(2)])
  then obtain s2 where run: "expire_quote org (i, q) s1 = Inr ((), s2)"
    using expire_quote_total [of "(i, q)" s1] by auto
  then show ?thesis using expire_quote_quotes(1) [OF run] won by (simp add: tbl_find_upd)
qed

theorem expiry_race_witness:
  "\<exists>j load sts s1 (s2 :: db) lost. convert_tx 1 80 95000 False 7 quoted_db = Inr ((j, load, sts), s1) \<and>
     tbl_find 80 (quotes s2) = Some lost \<and> q_status lost = QS_LOST \<and> q_resultingLoadId lost = Some j"
proof -
  obtain j load sts s1 where run: "convert_tx 1 80 95000 False 7 quoted_db = Inr ((j, load, sts), s1)"
    using quoted_converts by auto
  have "(80, new_quote 1 ''QUOTE-000001'' demo_quote_dto (None, MANUAL) 7 0) \<in> set (stale_quotes 1 quoted_db)"
    by (simp add: stale_quotes_def tbl_where_iff)
       (simp add: quoted_db_def small_db_def blank_db_def new_quote_def demo_quote_dto_def defaultExpirationDate_def
        start_of_day_def day_ms_def)
  from expiry_race [OF this run] obtain s2 :: db and lost where "tbl_find 80 (quotes s2) = Some lost" "q_status lost = QS_LOST"
    "q_resultingLoadId lost = Some j" by blast
  with run show ?thesis by blast
qed

end
