(* ===== verification/Identity.thy ===== *)
theory Identity
  imports Sweeps
begin

text \<open>
  Users, memberships, organizations and sessions: backend/src/modules/identity/services
  (user, membership, organization, auth, password, password-reset and session-registry services) with
  what the auth controller does around them. Users and reset tokens belong to no organization and are
  kept, with the sessions in Redis, beside the database of the organizations; \<open>accounts\<close> holds them
  all. What the libraries return is a parameter, the record \<open>crypto\<close>: the random token of the request,
  the SHA-256 hash, and bcrypt's digest and comparison. Calendar arithmetic is in UTC.
\<close>

section \<open>State\<close>

datatype user_status = US_PENDING_VERIFICATION | US_ACTIVE | US_SUSPENDED

record user_row =
  u_email :: string
  u_passwordHash :: "string option"
  u_name :: string
  u_isPlatformSuperAdmin :: bool
  u_status :: user_status
  u_emailVerifiedAt :: "instant option"

record reset_token_row =
  rt_userId :: uuid
  rt_tokenHash :: string
  rt_expiresAt :: instant
  rt_usedAt :: "instant option"

record session_data =
  se_userId :: uuid
  se_organizationId :: "uuid option"
  se_membershipId :: "uuid option"
  se_roles :: "role list option"

record accounts =
  ac_world :: world
  ac_users :: "user_row table"
  ac_resetTokens :: "reset_token_row table"
  ac_sessions :: "string \<Rightarrow> session_data option"   \<comment> \<open>the session store, by session identifier\<close>
  ac_orgIndex :: "uuid \<times> uuid \<Rightarrow> string set"
  ac_userIndex :: "uuid \<Rightarrow> string set"

record crypto =
  cr_rawToken :: string
  cr_sha256 :: "string \<Rightarrow> string"
  cr_digest :: "string \<Rightarrow> string"
  cr_compare :: "string \<Rightarrow> string \<Rightarrow> bool"
  cr_appBaseUrl :: string

type_synonym 'a atx = "(accounts, app_error, 'a) txn"

definition ac_db :: "accounts \<Rightarrow> db" where
  "ac_db s = w_db (ac_world s)"

definition set_db :: "db \<Rightarrow> accounts \<Rightarrow> accounts" where
  "set_db d s = s\<lparr>ac_world := (ac_world s)\<lparr>w_db := d\<rparr>\<rparr>"

text \<open>A step on the organizations' database alone.\<close>

definition in_db :: "'a tx \<Rightarrow> 'a atx" where
  "in_db m = (\<lambda>s. case m (ac_db s) of Inl e \<Rightarrow> Inl e | Inr (x, d) \<Rightarrow> Inr (x, set_db d s))"

text \<open>A transaction, and the jobs it queues once it has committed.\<close>

definition commit :: "'a atx \<Rightarrow> accounts \<Rightarrow> (app_error + 'a) \<times> accounts" where
  "commit m s = (case m s of Inl e \<Rightarrow> (Inl e, s) | Inr (x, s') \<Rightarrow> (Inr x, s'))"

definition then_mail ::
  "(app_error + 'a) \<times> accounts \<Rightarrow> ('a \<Rightarrow> job list) \<Rightarrow> (app_error + 'a) \<times> accounts" where
  "then_mail r jobs_of =
     (case r of (Inl e, s) \<Rightarrow> (Inl e, s)
      | (Inr x, s) \<Rightarrow> (case add_jobs (jobs_of x) (ac_world s) of
            (Inl e, w) \<Rightarrow> (Inl e, s\<lparr>ac_world := w\<rparr>) | (Inr _, w) \<Rightarrow> (Inr x, s\<lparr>ac_world := w\<rparr>)))"

section \<open>Users\<close>

definition findByEmail :: "string \<Rightarrow> (uuid \<times> user_row) option atx" where
  "findByEmail email = gets (\<lambda>s. tbl_first (\<lambda>_ u. u_email u = email) (ac_users s))"

definition findUserById :: "uuid \<Rightarrow> user_row option atx" where
  "findUserById i = gets (\<lambda>s. tbl_find i (ac_users s))"

definition new_user :: "string \<Rightarrow> string \<Rightarrow> user_row" where
  "new_user email name = \<lparr>u_email = email, u_passwordHash = None, u_name = name, u_isPlatformSuperAdmin = False,
     u_status = US_PENDING_VERIFICATION, u_emailVerifiedAt = None\<rparr>"

text \<open>The column of the email address is unique.\<close>

definition user_create :: "string \<Rightarrow> string \<Rightarrow> uuid atx" where
  "user_create email name =
     bind (findByEmail email) (\<lambda>taken.
     andThen (throw_if (taken \<noteq> None) (PrismaError ''P2002''))
     (\<lambda>s. Inr (next_id (ac_db s),
        (set_db ((ac_db s)\<lparr>next_id := Suc (next_id (ac_db s))\<rparr>) s)
          \<lparr>ac_users := tbl_ins (next_id (ac_db s)) (new_user email name) (ac_users s)\<rparr>)))"

definition user_update :: "uuid \<Rightarrow> (user_row \<Rightarrow> user_row) \<Rightarrow> unit atx" where
  "user_update i f = (\<lambda>s. case tbl_find i (ac_users s) of None \<Rightarrow> Inl (PrismaError ''P2025'')
     | Some _ \<Rightarrow> Inr ((), s\<lparr>ac_users := tbl_upd i f (ac_users s)\<rparr>))"

definition setPasswordAndActivate :: "uuid \<Rightarrow> string \<Rightarrow> unit atx" where
  "setPasswordAndActivate userId passwordHash =
     bind (in_db now) (\<lambda>t. user_update userId
       (\<lambda>u. u\<lparr>u_passwordHash := Some passwordHash, u_status := US_ACTIVE, u_emailVerifiedAt := Some t\<rparr>))"

text \<open>An empty value leaves its column alone.\<close>

definition user_updateProfile :: "uuid \<Rightarrow> string option \<Rightarrow> string option \<Rightarrow> unit atx" where
  "user_updateProfile userId name passwordHash =
     user_update userId (\<lambda>u. u\<lparr>u_name := (if truthy name then the name else u_name u),
       u_passwordHash := (if truthy passwordHash then passwordHash else u_passwordHash u)\<rparr>)"

section \<open>Passwords\<close>

definition MIN_LENGTH :: nat where
  "MIN_LENGTH = 10"

definition is_letter :: "char \<Rightarrow> bool" where
  "is_letter c \<longleftrightarrow> (let n = of_char c :: nat in (65 \<le> n \<and> n \<le> 90) \<or> (97 \<le> n \<and> n \<le> 122))"

definition is_digit :: "char \<Rightarrow> bool" where
  "is_digit c \<longleftrightarrow> (let n = of_char c :: nat in 48 \<le> n \<and> n \<le> 57)"

text \<open>\<^verbatim>\<open>/^(?=.*[A-Za-z])(?=.*\d).+$/\<close>, in which a dot is any character that does not end a line.\<close>

definition REQUIRES_LETTER_AND_NUMBER :: "string \<Rightarrow> bool" where
  "REQUIRES_LETTER_AND_NUMBER p \<longleftrightarrow>
     (\<exists>c \<in> set p. is_letter c) \<and> (\<exists>c \<in> set p. is_digit c) \<and> (\<forall>c \<in> set p. c \<noteq> CHR 0x0A \<and> c \<noteq> CHR 0x0D)"

definition assertValid :: "string \<Rightarrow> unit atx" where
  "assertValid password =
     andThen (throw_if (length password < MIN_LENGTH)
       (ValidationError (''Password must be at least '' @ show_nat MIN_LENGTH @ '' characters.'')))
     (throw_if (\<not> REQUIRES_LETTER_AND_NUMBER password)
       (ValidationError ''Password must contain at least one letter and one number.''))"

definition password_hash :: "crypto \<Rightarrow> string \<Rightarrow> string atx" where
  "password_hash cr password = andThen (assertValid password) (ret (cr_digest cr password))"

section \<open>Roles\<close>

definition roles_of :: "uuid \<Rightarrow> uuid \<Rightarrow> db \<Rightarrow> role list" where
  "roles_of organizationId userId s =
     (case tbl_first (\<lambda>_ m. m_organizationId m = organizationId \<and> m_userId m = userId \<and> m_status m = MS_ACTIVE) (memberships s) of
        None \<Rightarrow> [] | Some (_, m) \<Rightarrow> m_roles m)"

definition getRoles :: "uuid \<Rightarrow> uuid \<Rightarrow> role list atx" where
  "getRoles organizationId userId = gets (\<lambda>s. roles_of organizationId userId (ac_db s))"

fun role_name :: "role \<Rightarrow> string" where
  "role_name ADMIN = ''ADMIN''"
| "role_name OPERATIONS_MANAGER = ''OPERATIONS_MANAGER''"
| "role_name DISPATCHER = ''DISPATCHER''"
| "role_name SALES_BOOKING = ''SALES_BOOKING''"
| "role_name ACCOUNTING = ''ACCOUNTING''"
| "role_name COMPLIANCE_REVIEWER = ''COMPLIANCE_REVIEWER''"

definition assertHasRole :: "uuid \<Rightarrow> uuid \<Rightarrow> role \<Rightarrow> unit atx" where
  "assertHasRole organizationId userId r =
     bind (getRoles organizationId userId) (\<lambda>roles.
       throw_if (r \<notin> set roles) (PermissionError (''This action requires the '' @ role_name r @ '' role.'')))"

text \<open>The two unique keys: one membership per user and organization, one row per membership and role.\<close>

definition create_membership :: "membership_row \<Rightarrow> uuid tx" where
  "create_membership m =
     bind (findFirst memberships (\<lambda>_ r. m_organizationId r = m_organizationId m \<and> m_userId r = m_userId m)) (\<lambda>taken.
     andThen (throw_if (taken \<noteq> None) (PrismaError ''P2002'')) (create memberships_update m))"

definition create_role :: "uuid \<Rightarrow> role \<Rightarrow> unit tx" where
  "create_role membershipId r =
     bind (findUniqueOrThrow memberships membershipId (\<lambda>_. True)) (\<lambda>m.
     andThen (throw_if (r \<in> set (m_roles m)) (PrismaError ''P2002''))
     (andThen (update memberships memberships_update membershipId (\<lambda>m. m\<lparr>m_roles := m_roles m @ [r]\<rparr>)) (ret ())))"

definition requireMembershipTx :: "uuid \<Rightarrow> uuid \<Rightarrow> membership_row tx" where
  "requireMembershipTx organizationId membershipId =
     bind (findUnique memberships membershipId (\<lambda>m. m_organizationId m = organizationId)) (\<lambda>found.
       require found (NotFoundError ''Membership not found.''))"

section \<open>Invitations\<close>

definition INVITATION_EXPIRY_DAYS :: int where
  "INVITATION_EXPIRY_DAYS = 7"

definition invitation_expiry :: "instant \<Rightarrow> instant" where
  "invitation_expiry t = t + INVITATION_EXPIRY_DAYS * day_ms"

definition membership_event :: "uuid \<Rightarrow> string \<Rightarrow> uuid \<Rightarrow> json option \<Rightarrow> json option \<Rightarrow> uuid \<Rightarrow> event_input" where
  "membership_event organizationId action membershipId prev new actingUserId =
     human_event organizationId action ''OrganizationMembership'' membershipId prev new None actingUserId"

definition roles_json :: "role list \<Rightarrow> json" where
  "roles_json roles = JArr (map (\<lambda>r. JStr (role_name r)) roles)"

text \<open>The transition to EXPIRED of a pending invitation that somebody touches.\<close>

definition expireIfNeeded :: "uuid \<Rightarrow> uuid \<Rightarrow> membership_row \<Rightarrow> membership_row tx" where
  "expireIfNeeded organizationId membershipId m =
     bind now (\<lambda>t.
     if m_status m = MS_INVITED \<and> (case m_invitationExpiresAt m of None \<Rightarrow> False | Some e \<Rightarrow> e < t)
     then bind (update memberships memberships_update membershipId (\<lambda>r. r\<lparr>m_status := MS_EXPIRED\<rparr>)) (\<lambda>updated.
          andThen (audit_record (ev_invitation_expired organizationId membershipId)) (ret updated))
     else ret m)"

definition invited_row :: "uuid \<Rightarrow> uuid \<Rightarrow> uuid \<Rightarrow> instant \<Rightarrow> string \<Rightarrow> membership_row" where
  "invited_row organizationId userId actingUserId t tokenHash =
     \<lparr>m_organizationId = organizationId, m_userId = userId, m_status = MS_INVITED, m_roles = [],
      m_invitedByUserId = Some actingUserId, m_invitedAt = Some t, m_invitationTokenHash = Some tokenHash,
      m_invitationExpiresAt = Some (invitation_expiry t), m_activatedAt = None, m_deactivatedAt = None,
      m_deactivatedByUserId = None\<rparr>"

definition check_not_member :: "uuid \<Rightarrow> uuid \<Rightarrow> unit tx" where
  "check_not_member organizationId userId =
     bind (findFirst memberships (\<lambda>_ m. m_organizationId m = organizationId \<and> m_userId m = userId)) (\<lambda>existing.
     case existing of None \<Rightarrow> ret ()
     | Some (_, m) \<Rightarrow>
         andThen (throw_if (m_status m = MS_ACTIVE)
           (ConflictError ''This email already belongs to an active user in this organization.'' []))
         (throw_if (m_status m \<in> {MS_INVITED, MS_PENDING_VERIFICATION})
           (ConflictError ''This email already has a pending invitation to this organization. Resend it instead of creating a new one.'' [])))"

definition invite_tx :: "crypto \<Rightarrow> uuid \<Rightarrow> string \<Rightarrow> role list \<Rightarrow> uuid \<Rightarrow> uuid atx" where
  "invite_tx cr organizationId email roles actingUserId =
     andThen (assertHasRole organizationId actingUserId ADMIN)
     (bind (findByEmail email) (\<lambda>user.
      bind (in_db now) (\<lambda>t.
      andThen (case user of None \<Rightarrow> ret () | Some (userId, _) \<Rightarrow> in_db (check_not_member organizationId userId))
      (bind (case user of Some (userId, _) \<Rightarrow> ret userId | None \<Rightarrow> user_create email email) (\<lambda>userId.
       bind (in_db (create_membership (invited_row organizationId userId actingUserId t (cr_sha256 cr (cr_rawToken cr)))))
         (\<lambda>membershipId.
        andThen (forM roles (\<lambda>r. in_db (create_role membershipId r)))
        (andThen (in_db (audit_record (membership_event organizationId ''User Invited'' membershipId None
            (Some (JObj [(''email'', JStr email), (''roles'', roles_json roles)])) actingUserId)))
         (ret membershipId))))))))"

definition expiry_note :: string where
  "expiry_note = [CHR 0x0A] @ ''This link expires in 7 days.''"

definition invitation_email :: "crypto \<Rightarrow> string \<Rightarrow> uuid \<Rightarrow> uuid \<Rightarrow> string \<Rightarrow> job" where
  "invitation_email cr greeting organizationId membershipId sendTo =
     email_job organizationId membershipId ''OrganizationMembership'' sendTo
       (''You'' @ [CHR 0x27] @ ''ve been invited to join Truck Master TMS'')
       (greeting @ ''Accept: '' @ cr_appBaseUrl cr @ ''/accept-invitation?token='' @ cr_rawToken cr @ expiry_note)"

definition invite :: "crypto \<Rightarrow> uuid \<Rightarrow> string \<Rightarrow> role list \<Rightarrow> uuid \<Rightarrow> accounts \<Rightarrow> (app_error + uuid) \<times> accounts" where
  "invite cr organizationId email roles actingUserId s =
     then_mail (commit (invite_tx cr organizationId email roles actingUserId) s)
       (\<lambda>membershipId. [invitation_email cr
          (''You'' @ [CHR 0x27] @ ''ve been invited to join an organization on Truck Master TMS. '')
          organizationId membershipId email])"

definition resend_tx :: "crypto \<Rightarrow> uuid \<Rightarrow> uuid \<Rightarrow> uuid \<Rightarrow> string option atx" where
  "resend_tx cr organizationId membershipId actingUserId =
     andThen (assertHasRole organizationId actingUserId ADMIN)
     (bind (in_db now) (\<lambda>t.
      bind (in_db (requireMembershipTx organizationId membershipId)) (\<lambda>found.
      bind (in_db (expireIfNeeded organizationId membershipId found)) (\<lambda>membership.
      andThen (throw_if (m_status membership \<notin> {MS_INVITED, MS_EXPIRED})
        (BusinessRuleError ''Only a pending or expired invitation can be resent.''))
      (andThen (in_db (update memberships memberships_update membershipId (\<lambda>m. m\<lparr>m_status := MS_INVITED,
          m_invitationTokenHash := Some (cr_sha256 cr (cr_rawToken cr)),
          m_invitationExpiresAt := Some (invitation_expiry t)\<rparr>)))
      (andThen (in_db (audit_record (membership_event organizationId ''Invitation Resent'' membershipId None None actingUserId)))
      (bind (findUserById (m_userId membership)) (\<lambda>user.
        ret (map_option u_email user)))))))))"

definition resend :: "crypto \<Rightarrow> uuid \<Rightarrow> uuid \<Rightarrow> uuid \<Rightarrow> accounts \<Rightarrow> (app_error + string option) \<times> accounts" where
  "resend cr organizationId membershipId actingUserId s =
     then_mail (commit (resend_tx cr organizationId membershipId actingUserId) s)
       (\<lambda>recipient. if truthy recipient then [invitation_email cr [] organizationId membershipId (the recipient)] else [])"

definition cancel_tx :: "uuid \<Rightarrow> uuid \<Rightarrow> uuid \<Rightarrow> unit atx" where
  "cancel_tx organizationId membershipId actingUserId =
     andThen (assertHasRole organizationId actingUserId ADMIN)
     (bind (in_db (requireMembershipTx organizationId membershipId)) (\<lambda>found.
      bind (in_db (expireIfNeeded organizationId membershipId found)) (\<lambda>membership.
      andThen (throw_if (m_status membership \<notin> {MS_INVITED, MS_EXPIRED})
        (BusinessRuleError ''Only a pending or expired invitation can be cancelled.''))
      (andThen (in_db (update memberships memberships_update membershipId
          (\<lambda>m. m\<lparr>m_status := MS_CANCELLED, m_invitationTokenHash := None\<rparr>)))
      (in_db (audit_record (membership_event organizationId ''Invitation Cancelled'' membershipId None None actingUserId)))))))"

definition activated_row :: "instant \<Rightarrow> membership_row \<Rightarrow> membership_row" where
  "activated_row t m = m\<lparr>m_status := MS_ACTIVE, m_activatedAt := Some t, m_invitationTokenHash := None\<rparr>"

text \<open>Accepting an invitation and verifying an account are the same operation.\<close>

definition activate_tx :: "crypto \<Rightarrow> string \<Rightarrow> string option \<Rightarrow> uuid atx" where
  "activate_tx cr rawToken password =
     bind (in_db (findFirst memberships (\<lambda>_ m. m_invitationTokenHash m = Some (cr_sha256 cr rawToken)))) (\<lambda>lookup.
     bind (require lookup (NotFoundError ''Invalid or already-used invitation link.'')) (\<lambda>(membershipId, found).
     bind (in_db (expireIfNeeded (m_organizationId found) membershipId found)) (\<lambda>membership.
     andThen (throw_if (m_status membership = MS_EXPIRED)
       (BusinessRuleError ''This invitation has expired. Ask an Admin to resend it.''))
     (andThen (throw_if (m_status membership = MS_CANCELLED) (BusinessRuleError ''This invitation is no longer valid.''))
     (andThen (throw_if (m_status membership = MS_ACTIVE) (BusinessRuleError ''This invitation has already been used.''))
     (andThen (throw_if (m_status membership \<notin> {MS_INVITED, MS_PENDING_VERIFICATION})
       (BusinessRuleError ''This invitation cannot be activated.''))
     (bind (findUserById (m_userId membership)) (\<lambda>who.
      bind (require who (NotFoundError ''User not found for this invitation.'')) (\<lambda>user.
      let needsPassword = u_status user = US_PENDING_VERIFICATION \<and> \<not> truthy (u_passwordHash user) in
      andThen (throw_if (needsPassword \<and> \<not> truthy password)
        (BusinessRuleError ''A password is required to activate this account.''))
      (andThen (run_when needsPassword
        (bind (password_hash cr (the password)) (\<lambda>digest. setPasswordAndActivate (m_userId membership) digest)))
      (bind (in_db now) (\<lambda>t.
      andThen (in_db (update memberships memberships_update membershipId (activated_row t)))
      (andThen (in_db (audit_record (membership_event (m_organizationId membership)
         (if needsPassword then ''Admin Account Verified'' else ''User Activated'') membershipId None None (m_userId membership))))
       (ret membershipId))))))))))))))"

section \<open>Members\<close>

text \<open>The other active admins of an organization, counted inside the transaction.\<close>

definition otherActiveAdminCount :: "uuid \<Rightarrow> uuid \<Rightarrow> db \<Rightarrow> nat" where
  "otherActiveAdminCount organizationId membershipId s =
     length (tbl_where (\<lambda>i m. m_organizationId m = organizationId \<and> i \<noteq> membershipId \<and> m_status m = MS_ACTIVE \<and>
       ADMIN \<in> set (m_roles m)) (memberships s))"

definition blocked_event :: "uuid \<Rightarrow> string \<Rightarrow> uuid \<Rightarrow> uuid \<Rightarrow> event_input" where
  "blocked_event organizationId action membershipId actingUserId =
     (system_event organizationId action ''OrganizationMembership'' membershipId None None)
       \<lparr>ei_actorUserId := Some (Some actingUserId)\<rparr>"

definition guard_last_admin :: "uuid \<Rightarrow> uuid \<Rightarrow> string \<Rightarrow> string \<Rightarrow> uuid \<Rightarrow> unit tx" where
  "guard_last_admin organizationId membershipId action msg actingUserId =
     bind (gets (otherActiveAdminCount organizationId membershipId)) (\<lambda>count.
       if count = 0
       then andThen (audit_record (blocked_event organizationId action membershipId actingUserId)) (throw (BusinessRuleError msg))
       else ret ())"

definition last_admin_message :: "bool \<Rightarrow> string \<Rightarrow> string \<Rightarrow> string" where
  "last_admin_message isSelf mine theirs =
     (if isSelf then ''You cannot '' @ mine @ '' because you are the only active Admin in your organization.''
      else ''You cannot '' @ theirs @ '' because they are the only active Admin in your organization.'') @
     '' Assign Admin to another user first.''"

definition deactivate_tx :: "uuid \<Rightarrow> uuid \<Rightarrow> uuid \<Rightarrow> uuid atx" where
  "deactivate_tx organizationId membershipId actingUserId =
     andThen (assertHasRole organizationId actingUserId ADMIN)
     (bind (in_db (requireMembershipTx organizationId membershipId)) (\<lambda>target.
      andThen (throw_if (m_status target \<noteq> MS_ACTIVE) (BusinessRuleError ''Only an active member can be deactivated.''))
      (andThen (run_when (ADMIN \<in> set (m_roles target)) (in_db (guard_last_admin organizationId membershipId
          (''User Deactivation Blocked '' @ dash @ '' Last Active Admin'')
          (last_admin_message (m_userId target = actingUserId) ''deactivate your own account'' ''deactivate this user'') actingUserId)))
      (bind (in_db now) (\<lambda>t.
       andThen (in_db (update memberships memberships_update membershipId (\<lambda>m. m\<lparr>m_status := MS_INACTIVE,
          m_deactivatedAt := Some t, m_deactivatedByUserId := Some actingUserId\<rparr>)))
       (andThen (in_db (audit_record (membership_event organizationId ''User Deactivated'' membershipId None None actingUserId)))
       (ret (m_userId target))))))))"

definition updateRoles_tx :: "uuid \<Rightarrow> uuid \<Rightarrow> role list \<Rightarrow> uuid \<Rightarrow> unit atx" where
  "updateRoles_tx organizationId membershipId roles actingUserId =
     andThen (assertHasRole organizationId actingUserId ADMIN)
     (bind (in_db (requireMembershipTx organizationId membershipId)) (\<lambda>target.
      andThen (throw_if (m_status target \<noteq> MS_ACTIVE)
        (BusinessRuleError (''Only an active member'' @ [CHR 0x27] @ ''s roles can be changed.'')))
      (andThen (run_when (ADMIN \<in> set (m_roles target) \<and> ADMIN \<notin> set roles) (in_db (guard_last_admin organizationId membershipId
          (''Role Change Blocked '' @ dash @ '' Last Active Admin'')
          (last_admin_message (m_userId target = actingUserId) ''remove your own Admin role''
            (''remove this user'' @ [CHR 0x27] @ ''s Admin role'')) actingUserId)))
      (andThen (in_db (update memberships memberships_update membershipId (\<lambda>m. m\<lparr>m_roles := []\<rparr>)))
      (andThen (forM roles (\<lambda>r. in_db (create_role membershipId r)))
      (in_db (audit_record (membership_event organizationId ''Member Roles Changed'' membershipId
         (Some (JObj [(''roles'', roles_json (m_roles target))])) (Some (JObj [(''roles'', roles_json roles)])) actingUserId))))))))"

section \<open>Sessions\<close>

definition revokeAllForOrganization :: "uuid \<Rightarrow> uuid \<Rightarrow> accounts \<Rightarrow> accounts" where
  "revokeAllForOrganization userId organizationId s =
     s\<lparr>ac_sessions := (\<lambda>sid. if sid \<in> ac_orgIndex s (userId, organizationId) then None else ac_sessions s sid),
       ac_orgIndex := (ac_orgIndex s)((userId, organizationId) := {})\<rparr>"

definition revokeAllForUser :: "uuid \<Rightarrow> accounts \<Rightarrow> accounts" where
  "revokeAllForUser userId s =
     s\<lparr>ac_sessions := (\<lambda>sid. if sid \<in> ac_userIndex s userId then None else ac_sessions s sid),
       ac_userIndex := (ac_userIndex s)(userId := {})\<rparr>"

definition recordSession :: "string \<Rightarrow> uuid \<Rightarrow> accounts \<Rightarrow> accounts" where
  "recordSession sid userId s =
     s\<lparr>ac_userIndex := (ac_userIndex s)(userId := insert sid (ac_userIndex s userId))\<rparr>"

definition recordActiveOrganization :: "string \<Rightarrow> uuid \<Rightarrow> uuid \<Rightarrow> uuid option \<Rightarrow> accounts \<Rightarrow> accounts" where
  "recordActiveOrganization sid userId organizationId previousOrganizationId s =
     (let idx = (case previousOrganizationId of None \<Rightarrow> ac_orgIndex s
                 | Some p \<Rightarrow> if p \<noteq> organizationId then (ac_orgIndex s)((userId, p) := ac_orgIndex s (userId, p) - {sid})
                             else ac_orgIndex s)
      in s\<lparr>ac_orgIndex := idx((userId, organizationId) := insert sid (idx (userId, organizationId)))\<rparr>)"

definition forget :: "string \<Rightarrow> uuid \<Rightarrow> uuid \<Rightarrow> accounts \<Rightarrow> accounts" where
  "forget sid userId organizationId s =
     s\<lparr>ac_orgIndex := (ac_orgIndex s)((userId, organizationId) := ac_orgIndex s (userId, organizationId) - {sid}),
       ac_userIndex := (ac_userIndex s)(userId := ac_userIndex s userId - {sid})\<rparr>"

definition deactivate :: "uuid \<Rightarrow> uuid \<Rightarrow> uuid \<Rightarrow> accounts \<Rightarrow> (app_error + uuid) \<times> accounts" where
  "deactivate organizationId membershipId actingUserId s =
     (case commit (deactivate_tx organizationId membershipId actingUserId) s of
        (Inl e, s') \<Rightarrow> (Inl e, s')
      | (Inr userId, s') \<Rightarrow> (Inr membershipId, revokeAllForOrganization userId organizationId s'))"

definition active_memberships :: "uuid \<Rightarrow> db \<Rightarrow> (uuid \<times> membership_row) list" where
  "active_memberships userId s = tbl_where (\<lambda>_ m. m_userId m = userId \<and> m_status m = MS_ACTIVE) (memberships s)"

definition organization_session :: "uuid \<Rightarrow> uuid \<Rightarrow> uuid \<Rightarrow> db \<Rightarrow> session_data" where
  "organization_session userId organizationId membershipId s =
     \<lparr>se_userId = userId, se_organizationId = Some organizationId, se_membershipId = Some membershipId,
      se_roles = Some (roles_of organizationId userId s)\<rparr>"

definition user_session :: "uuid \<Rightarrow> session_data" where
  "user_session userId = \<lparr>se_userId = userId, se_organizationId = None, se_membershipId = None, se_roles = None\<rparr>"

text \<open>The session, whether an organization has yet to be chosen, and which ones there are.\<close>

definition auth_login :: "crypto \<Rightarrow> string \<Rightarrow> string \<Rightarrow> (session_data \<times> bool \<times> (uuid \<times> string) list) atx" where
  "auth_login cr email password =
     bind (findByEmail email) (\<lambda>found.
     bind (require found (AuthenticationError ''Invalid email or password.'')) (\<lambda>(userId, user).
     andThen (throw_if (\<not> truthy (u_passwordHash user)) (AuthenticationError ''Invalid email or password.''))
     (andThen (throw_if (u_status user \<noteq> US_ACTIVE) (AuthenticationError ''Invalid email or password.''))
     (andThen (throw_if (\<not> cr_compare cr password (the (u_passwordHash user))) (AuthenticationError ''Invalid email or password.''))
     (gets (\<lambda>s. case active_memberships userId (ac_db s) of
          [(membershipId, m)] \<Rightarrow> (organization_session userId (m_organizationId m) membershipId (ac_db s), False, [])
        | [] \<Rightarrow> (user_session userId, False, [])
        | ms \<Rightarrow> (user_session userId, True, map (\<lambda>(_, m). (m_organizationId m,
              case tbl_find (m_organizationId m) (organizations (ac_db s)) of None \<Rightarrow> [] | Some r \<Rightarrow> o_legalName r)) ms)))))))"

definition set_session :: "string \<Rightarrow> session_data option \<Rightarrow> accounts \<Rightarrow> accounts" where
  "set_session sid v s = s\<lparr>ac_sessions := (ac_sessions s)(sid := v)\<rparr>"

text \<open>What the auth controller does with a session.\<close>

definition login :: "crypto \<Rightarrow> string \<Rightarrow> string \<Rightarrow> string \<Rightarrow> accounts \<Rightarrow> (app_error + bool \<times> (uuid \<times> string) list) \<times> accounts" where
  "login cr sid email password s =
     (case commit (auth_login cr email password) s of
        (Inl e, s') \<Rightarrow> (Inl e, s')
      | (Inr (auth, pending, orgs), s') \<Rightarrow>
          (Inr (pending, orgs),
           (case se_organizationId auth of None \<Rightarrow> (\<lambda>x. x)
            | Some organizationId \<Rightarrow> recordActiveOrganization sid (se_userId auth) organizationId None)
             (recordSession sid (se_userId auth) (set_session sid (Some auth) s'))))"

definition resolveOrganizationSession :: "uuid \<Rightarrow> uuid \<Rightarrow> session_data atx" where
  "resolveOrganizationSession userId organizationId =
     bind (in_db (findFirst memberships (\<lambda>_ m. m_userId m = userId \<and> m_organizationId m = organizationId \<and> m_status m = MS_ACTIVE)))
       (\<lambda>found.
     bind (require found (AuthenticationError ''No active membership found for that organization.'')) (\<lambda>(membershipId, _).
       gets (\<lambda>s. organization_session userId organizationId membershipId (ac_db s))))"

text \<open>Selecting an organization and switching to another one do the same.\<close>

definition selectOrganization :: "string \<Rightarrow> uuid \<Rightarrow> accounts \<Rightarrow> (app_error + role list option) \<times> accounts" where
  "selectOrganization sid organizationId s =
     (case ac_sessions s sid of
        None \<Rightarrow> (Inl (AuthenticationError ''Authentication required.''), s)
      | Some auth \<Rightarrow>
          (case commit (resolveOrganizationSession (se_userId auth) organizationId) s of
             (Inl e, s') \<Rightarrow> (Inl e, s')
           | (Inr v, s') \<Rightarrow> (Inr (se_roles v),
               recordActiveOrganization sid (se_userId v) organizationId (se_organizationId auth) (set_session sid (Some v) s'))))"

definition logout :: "string \<Rightarrow> accounts \<Rightarrow> accounts" where
  "logout sid s =
     (case ac_sessions s sid of None \<Rightarrow> s
      | Some auth \<Rightarrow>
          (case se_organizationId auth of None \<Rightarrow> set_session sid None s
           | Some organizationId \<Rightarrow> forget sid (se_userId auth) organizationId (set_session sid None s)))"

definition updateProfile :: "crypto \<Rightarrow> uuid \<Rightarrow> string option \<Rightarrow> string option \<Rightarrow> unit atx" where
  "updateProfile cr userId name password =
     andThen (throw_if (\<not> truthy name \<and> \<not> truthy password) (ValidationError ''Provide a name and/or password to update.''))
     (bind (if truthy password then bind (password_hash cr (the password)) (\<lambda>d. ret (Some d)) else ret None) (\<lambda>digest.
       user_updateProfile userId name digest))"

section \<open>Forgotten passwords\<close>

definition RESET_TOKEN_TTL_MS :: int where
  "RESET_TOKEN_TTL_MS = 60 * 60 * 1000"

definition create_reset_token :: "reset_token_row \<Rightarrow> unit atx" where
  "create_reset_token r = (\<lambda>s. Inr ((),
     (set_db ((ac_db s)\<lparr>next_id := Suc (next_id (ac_db s))\<rparr>) s)
       \<lparr>ac_resetTokens := tbl_ins (next_id (ac_db s)) r (ac_resetTokens s)\<rparr>))"

definition update_reset_tokens :: "(reset_token_row \<Rightarrow> bool) \<Rightarrow> (reset_token_row \<Rightarrow> reset_token_row) \<Rightarrow> nat atx" where
  "update_reset_tokens P f = (\<lambda>s. Inr (length (tbl_where (\<lambda>_. P) (ac_resetTokens s)),
     s\<lparr>ac_resetTokens := tbl_updMany (\<lambda>_. P) f (ac_resetTokens s)\<rparr>))"

definition requestReset_tx :: "crypto \<Rightarrow> string \<Rightarrow> string option atx" where
  "requestReset_tx cr email =
     bind (findByEmail email) (\<lambda>found.
     case found of None \<Rightarrow> ret None
     | Some (userId, user) \<Rightarrow>
         if \<not> truthy (u_passwordHash user) \<or> u_status user \<noteq> US_ACTIVE then ret None
         else bind (in_db now) (\<lambda>t.
           andThen (update_reset_tokens (\<lambda>r. rt_userId r = userId \<and> rt_usedAt r = None) (\<lambda>r. r\<lparr>rt_usedAt := Some t\<rparr>))
           (andThen (create_reset_token \<lparr>rt_userId = userId, rt_tokenHash = cr_sha256 cr (cr_rawToken cr),
              rt_expiresAt = t + RESET_TOKEN_TTL_MS, rt_usedAt = None\<rparr>)
           (ret (Some (u_email user))))))"

definition reset_email :: "crypto \<Rightarrow> string \<Rightarrow> job" where
  "reset_email cr sendTo =
     \<lparr>j_queue = ''email-send'', j_name = ''send'',
      j_data = JObj [(''to'', JStr sendTo), (''subject'', JStr ''Reset your Truck Master TMS password''),
        (''body'', JStr (''A password reset was requested for your account. Reset it: '' @ cr_appBaseUrl cr @
           ''/reset-password?token='' @ cr_rawToken cr @ [CHR 0x0A] @ ''This link expires in 1 hour. If you didn'' @ [CHR 0x27] @
           ''t request this, you can safely ignore this email.''))], j_jobId = None\<rparr>"

definition requestReset :: "crypto \<Rightarrow> string \<Rightarrow> accounts \<Rightarrow> (app_error + string option) \<times> accounts" where
  "requestReset cr email s =
     then_mail (commit (requestReset_tx cr email) s)
       (\<lambda>recipient. case recipient of None \<Rightarrow> [] | Some v \<Rightarrow> [reset_email cr v])"

definition resetPassword_tx :: "crypto \<Rightarrow> string \<Rightarrow> string \<Rightarrow> uuid atx" where
  "resetPassword_tx cr rawToken newPassword =
     bind (in_db now) (\<lambda>t.
     bind (update_reset_tokens
         (\<lambda>r. rt_tokenHash r = cr_sha256 cr rawToken \<and> rt_usedAt r = None \<and> rt_expiresAt r > t) (\<lambda>r. r\<lparr>rt_usedAt := Some t\<rparr>)) (\<lambda>consumed.
     andThen (throw_if (consumed = 0) (AuthenticationError ''This password reset link is invalid or has expired.''))
     (bind (gets (\<lambda>s. tbl_first (\<lambda>_ r. rt_tokenHash r = cr_sha256 cr rawToken) (ac_resetTokens s))) (\<lambda>lookup.
     bind (require lookup (PrismaError ''P2025'')) (\<lambda>(_, tokenRow).
     bind (password_hash cr newPassword) (\<lambda>digest.
     andThen (user_update (rt_userId tokenRow) (\<lambda>u. u\<lparr>u_passwordHash := Some digest\<rparr>))
     (ret (rt_userId tokenRow))))))))"

definition resetPassword :: "crypto \<Rightarrow> string \<Rightarrow> string \<Rightarrow> accounts \<Rightarrow> (app_error + unit) \<times> accounts" where
  "resetPassword cr rawToken newPassword s =
     (case commit (resetPassword_tx cr rawToken newPassword) s of
        (Inl e, s') \<Rightarrow> (Inl e, s') | (Inr userId, s') \<Rightarrow> (Inr (), revokeAllForUser userId s'))"

end
