(* ===== verification/Provisioning.thy ===== *)
theory Provisioning
  imports Identity
begin

text \<open>
  The platform console and the settings of an organization: backend/src/modules/identity/services/
  organization.service.ts. A new organization, its first admin and the invitation are one transaction;
  the guard of the console (platform-super-admin.guard.ts) only lets a super admin in.
\<close>

definition DEMO_TRIAL_DURATION_MS :: int where
  "DEMO_TRIAL_DURATION_MS = 7 * 24 * 60 * 60 * 1000"

definition DEMO_MAX_CARRIERS :: nat where
  "DEMO_MAX_CARRIERS = 1"

definition DEMO_MAX_DRIVERS :: nat where
  "DEMO_MAX_DRIVERS = 5"

record create_organization_dto =
  co_legalName :: string
  co_addressLine1 :: string
  co_city :: string
  co_state :: string
  co_zip :: string
  co_country :: "string option"
  co_primaryContactName :: string
  co_primaryContactEmail :: string
  co_primaryContactPhone :: string
  co_demo :: bool   \<comment> \<open>provisioning mode DEMO\<close>

definition new_organization :: "create_organization_dto \<Rightarrow> uuid \<Rightarrow> instant \<Rightarrow> organization_row" where
  "new_organization dto actingUserId t =
     \<lparr>o_legalName = co_legalName dto, o_addressLine1 = co_addressLine1 dto, o_city = co_city dto, o_state = co_state dto,
      o_zip = co_zip dto, o_country = (case co_country dto of None \<Rightarrow> ''US'' | Some c \<Rightarrow> c),
      o_primaryContactName = co_primaryContactName dto, o_primaryContactEmail = co_primaryContactEmail dto,
      o_primaryContactPhone = co_primaryContactPhone dto, o_defaultPaymentTerms = Some NET_30,
      o_subscriptionStatus = (if co_demo dto then SUB_TRIAL else SUB_ACTIVE),
      o_trialStartedAt = (if co_demo dto then Some t else None),
      o_trialEndsAt = (if co_demo dto then Some (t + DEMO_TRIAL_DURATION_MS) else None),
      o_maxCarriers = (if co_demo dto then Some DEMO_MAX_CARRIERS else None),
      o_maxDrivers = (if co_demo dto then Some DEMO_MAX_DRIVERS else None),
      o_subscriptionConvertedAt = None, o_subscriptionConvertedByUserId = None, o_createdByUserId = actingUserId\<rparr>"

definition ev_organization_created :: "uuid \<Rightarrow> create_organization_dto \<Rightarrow> uuid \<Rightarrow> event_input" where
  "ev_organization_created organizationId dto actingUserId =
     human_event organizationId ''Organization Created'' ''Organization'' organizationId None
       (Some (JObj [(''legalName'', JStr (co_legalName dto)), (''primaryContactEmail'', JStr (co_primaryContactEmail dto))]))
       None actingUserId"

definition ev_initial_admin :: "uuid \<Rightarrow> bool \<Rightarrow> uuid \<Rightarrow> string \<Rightarrow> event_input" where
  "ev_initial_admin organizationId reused userId email =
     system_event organizationId
       (if reused then ''Initial Admin Assigned (Existing Identity)'' else ''Initial Admin Account Created'') ''User'' userId None
       (Some (JObj [(''email'', JStr email), (''role'', JStr ''ADMIN'')]))"

text \<open>The membership of the first admin, who was invited by nobody.\<close>

definition initial_admin_row :: "uuid \<Rightarrow> uuid \<Rightarrow> bool \<Rightarrow> instant \<Rightarrow> string \<Rightarrow> membership_row" where
  "initial_admin_row organizationId userId reused t tokenHash =
     \<lparr>m_organizationId = organizationId, m_userId = userId,
      m_status = (if reused then MS_INVITED else MS_PENDING_VERIFICATION), m_roles = [],
      m_invitedByUserId = None, m_invitedAt = Some t, m_invitationTokenHash = Some tokenHash,
      m_invitationExpiresAt = Some (invitation_expiry t), m_activatedAt = None, m_deactivatedAt = None,
      m_deactivatedByUserId = None\<rparr>"

text \<open>Returns the new organization and whether an existing user is its admin.\<close>

definition createOrganization_tx :: "crypto \<Rightarrow> create_organization_dto \<Rightarrow> uuid \<Rightarrow> (uuid \<times> bool) atx" where
  "createOrganization_tx cr dto actingUserId =
     bind (findUserById actingUserId) (\<lambda>actingUser.
     andThen (throw_if (case actingUser of None \<Rightarrow> True | Some u \<Rightarrow> \<not> u_isPlatformSuperAdmin u)
       (PermissionError ''Only the Platform Super Admin may provision an organization.''))
     (bind (findByEmail (co_primaryContactEmail dto)) (\<lambda>existingUser.
      bind (in_db now) (\<lambda>t.
      bind (in_db (create organizations_update (new_organization dto actingUserId t))) (\<lambda>organizationId.
      andThen (in_db (audit_record (ev_organization_created organizationId dto actingUserId)))
      (bind (case existingUser of Some (userId, _) \<Rightarrow> ret userId
             | None \<Rightarrow> user_create (co_primaryContactEmail dto) (co_primaryContactName dto)) (\<lambda>userId.
       bind (in_db (create_membership (initial_admin_row organizationId userId (existingUser \<noteq> None) t
               (cr_sha256 cr (cr_rawToken cr))))) (\<lambda>membershipId.
       andThen (in_db (create_role membershipId ADMIN))
       (andThen (in_db (audit_record (ev_initial_admin organizationId (existingUser \<noteq> None) userId (co_primaryContactEmail dto))))
        (ret (organizationId, existingUser \<noteq> None)))))))))))"

definition provisioning_email :: "crypto \<Rightarrow> create_organization_dto \<Rightarrow> uuid \<times> bool \<Rightarrow> job" where
  "provisioning_email cr dto result =
     (case result of (organizationId, reused) \<Rightarrow>
        email_job organizationId organizationId ''Organization'' (co_primaryContactEmail dto)
          (if reused then ''You'' @ [CHR 0x27] @ ''ve been made the Admin of a new organization '' @ dash @ '' Truck Master TMS''
           else ''Verify your account '' @ dash @ '' Truck Master TMS'')
          ((if reused then ''You'' @ [CHR 0x27] @ ''ve been made the initial Admin of a new organization on Truck Master TMS. Accept: '' @
              cr_appBaseUrl cr @ ''/accept-invitation?token=''
            else ''Welcome to Truck Master TMS. Verify your account: '' @ cr_appBaseUrl cr @ ''/verify?token='') @
           cr_rawToken cr @ expiry_note))"

definition createOrganization ::
  "crypto \<Rightarrow> create_organization_dto \<Rightarrow> uuid \<Rightarrow> accounts \<Rightarrow> (app_error + uuid \<times> bool) \<times> accounts" where
  "createOrganization cr dto actingUserId s =
     then_mail (commit (createOrganization_tx cr dto actingUserId) s) (\<lambda>r. [provisioning_email cr dto r])"

definition subscription_name :: "subscription_status \<Rightarrow> string" where
  "subscription_name st = (case st of SUB_TRIAL \<Rightarrow> ''TRIAL'' | SUB_ACTIVE \<Rightarrow> ''ACTIVE'' | SUB_EXPIRED \<Rightarrow> ''EXPIRED''
     | SUB_CANCELLED \<Rightarrow> ''CANCELLED'')"

definition subscription_json :: "organization_row \<Rightarrow> json" where
  "subscription_json r = JObj [(''subscriptionStatus'', JStr (subscription_name (o_subscriptionStatus r))),
     (''maxCarriers'', JOpt (\<lambda>n. JInt (int n)) (o_maxCarriers r)), (''maxDrivers'', JOpt (\<lambda>n. JInt (int n)) (o_maxDrivers r)),
     (''subscriptionConvertedAt'', JOpt JTime (o_subscriptionConvertedAt r)),
     (''subscriptionConvertedByUserId'', JOpt JId (o_subscriptionConvertedByUserId r))]"

definition convertSubscription :: "uuid \<Rightarrow> nat option \<Rightarrow> nat option \<Rightarrow> uuid \<Rightarrow> organization_row tx" where
  "convertSubscription organizationId maxCarriers maxDrivers actingUserId =
     bind (findUnique organizations organizationId (\<lambda>_. True)) (\<lambda>found.
     bind (require found (NotFoundError ''Organization not found.'')) (\<lambda>existing.
     andThen (throw_if (o_subscriptionStatus existing \<notin> {SUB_TRIAL, SUB_EXPIRED})
       (BusinessRuleError ''Only a Trial or Expired organization can be converted to an active subscription.''))
     (bind now (\<lambda>t.
      bind (update organizations organizations_update organizationId (\<lambda>r. r\<lparr>o_subscriptionStatus := SUB_ACTIVE,
          o_maxCarriers := maxCarriers, o_maxDrivers := maxDrivers, o_subscriptionConvertedAt := Some t,
          o_subscriptionConvertedByUserId := Some actingUserId\<rparr>)) (\<lambda>updated.
      andThen (audit_record (human_event organizationId ''Organization Subscription Converted'' ''Organization'' organizationId
          (Some (subscription_json existing)) (Some (subscription_json updated)) None actingUserId))
      (ret updated))))))"

text \<open>\<^verbatim>\<open>None\<close> stands for a field left out of the body.\<close>

record update_organization_dto =
  uo_legalName :: "string option"
  uo_addressLine1 :: "string option"
  uo_city :: "string option"
  uo_state :: "string option"
  uo_zip :: "string option"
  uo_country :: "string option"
  uo_primaryContactName :: "string option"
  uo_primaryContactEmail :: "string option"
  uo_primaryContactPhone :: "string option"
  uo_defaultPaymentTerms :: "payment_terms option"

fun terms_name :: "payment_terms \<Rightarrow> string" where
  "terms_name DUE_ON_RECEIPT = ''DUE_ON_RECEIPT''"
| "terms_name NET_15 = ''NET_15''"
| "terms_name NET_30 = ''NET_30''"
| "terms_name NET_45 = ''NET_45''"
| "terms_name NET_60 = ''NET_60''"

definition organization_field_changes :: "organization_row \<Rightarrow> update_organization_dto \<Rightarrow> json list" where
  "organization_field_changes e dto =
     field_change ''legalName'' JStr (o_legalName e) (uo_legalName dto) @
     field_change ''addressLine1'' JStr (o_addressLine1 e) (uo_addressLine1 dto) @
     field_change ''city'' JStr (o_city e) (uo_city dto) @
     field_change ''state'' JStr (o_state e) (uo_state dto) @
     field_change ''zip'' JStr (o_zip e) (uo_zip dto) @
     field_change ''country'' JStr (o_country e) (uo_country dto) @
     field_change ''primaryContactName'' JStr (o_primaryContactName e) (uo_primaryContactName dto) @
     field_change ''primaryContactEmail'' JStr (o_primaryContactEmail e) (uo_primaryContactEmail dto) @
     field_change ''primaryContactPhone'' JStr (o_primaryContactPhone e) (uo_primaryContactPhone dto) @
     field_change ''defaultPaymentTerms'' (JOpt (\<lambda>p. JStr (terms_name p))) (o_defaultPaymentTerms e)
       (some_opt (uo_defaultPaymentTerms dto))"

definition apply_organization :: "update_organization_dto \<Rightarrow> organization_row \<Rightarrow> organization_row" where
  "apply_organization dto r =
     r\<lparr>o_legalName := set_field (uo_legalName dto) (o_legalName r),
       o_addressLine1 := set_field (uo_addressLine1 dto) (o_addressLine1 r),
       o_city := set_field (uo_city dto) (o_city r), o_state := set_field (uo_state dto) (o_state r),
       o_zip := set_field (uo_zip dto) (o_zip r), o_country := set_field (uo_country dto) (o_country r),
       o_primaryContactName := set_field (uo_primaryContactName dto) (o_primaryContactName r),
       o_primaryContactEmail := set_field (uo_primaryContactEmail dto) (o_primaryContactEmail r),
       o_primaryContactPhone := set_field (uo_primaryContactPhone dto) (o_primaryContactPhone r),
       o_defaultPaymentTerms := set_field (some_opt (uo_defaultPaymentTerms dto)) (o_defaultPaymentTerms r)\<rparr>"

definition organization_update :: "uuid \<Rightarrow> update_organization_dto \<Rightarrow> uuid \<Rightarrow> organization_row tx" where
  "organization_update organizationId dto actingUserId =
     bind (findUniqueOrThrow organizations organizationId (\<lambda>_. True)) (\<lambda>existing.
     bind (update organizations organizations_update organizationId (apply_organization dto)) (\<lambda>updated.
     andThen (run_when (organization_field_changes existing dto \<noteq> [])
       (audit_record (human_event organizationId ''Organization Settings Updated'' ''Organization'' organizationId
          (Some (JObj [(''field_changes'', JArr (organization_field_changes existing dto))])) None None actingUserId)))
     (ret updated)))"

section \<open>The list of the platform console\<close>

record organization_summary =
  os_id :: uuid
  os_legalName :: string
  os_subscriptionStatus :: subscription_status
  os_trialStartedAt :: "instant option"
  os_trialEndsAt :: "instant option"
  os_maxCarriers :: "nat option"
  os_maxDrivers :: "nat option"

definition summarize :: "instant \<Rightarrow> uuid \<times> organization_row \<Rightarrow> organization_summary" where
  "summarize t r = \<lparr>os_id = fst r, os_legalName = o_legalName (snd r),
     os_subscriptionStatus = resolveEffectiveStatus (o_subscriptionStatus (snd r)) (o_trialEndsAt (snd r)) t,
     os_trialStartedAt = o_trialStartedAt (snd r), os_trialEndsAt = o_trialEndsAt (snd r),
     os_maxCarriers = o_maxCarriers (snd r), os_maxDrivers = o_maxDrivers (snd r)\<rparr>"

text \<open>The database's order of the names is a parameter.\<close>

definition findAllForPlatformAdmin :: "(string \<Rightarrow> 'k::linorder) \<Rightarrow> db \<Rightarrow> organization_summary list" where
  "findAllForPlatformAdmin collate s =
     map (summarize (clock s)) (sort_key (\<lambda>(_, r). collate (o_legalName r)) (organizations s))"

end
