(* ===== verification/AccountMoves.thy ===== *)
theory AccountMoves
  imports Provisioning
begin

text \<open>
  What each operation of Identity and Provisioning does to the memberships and users, as functions from
  keys to rows: the inductive relation \<open>move\<close> has one rule for each kind of change, and every operation
  that returns is such a move. The invariants of AccountStates are proved by cases on it.
\<close>

definition mem :: "accounts \<Rightarrow> uuid \<Rightarrow> membership_row option" where
  "mem s i = tbl_find i (memberships (ac_db s))"

definition usr :: "accounts \<Rightarrow> uuid \<Rightarrow> user_row option" where
  "usr s i = tbl_find i (ac_users s)"

definition accounts_wf :: "accounts \<Rightarrow> bool" where
  "accounts_wf s \<longleftrightarrow> wf_db (ac_db s) \<and> table_ok (next_id (ac_db s)) (ac_users s) \<and>
     table_ok (next_id (ac_db s)) (ac_resetTokens s)"

text \<open>Nothing but rows of the organizations' database has changed.\<close>

definition same_rest :: "accounts \<Rightarrow> accounts \<Rightarrow> bool" where
  "same_rest s s' \<longleftrightarrow> ac_resetTokens s' = ac_resetTokens s \<and> ac_sessions s' = ac_sessions s \<and>
     ac_orgIndex s' = ac_orgIndex s \<and> ac_userIndex s' = ac_userIndex s"

lemma same_rest_refl [simp]: "same_rest s s"
  by (simp add: same_rest_def)

lemma same_rest_trans: "same_rest s t \<Longrightarrow> same_rest t u \<Longrightarrow> same_rest s u"
  by (simp add: same_rest_def)

section \<open>The lifted steps\<close>

lemma set_db_simps [simp]:
  "ac_db (set_db d s) = d" "ac_users (set_db d s) = ac_users s" "ac_resetTokens (set_db d s) = ac_resetTokens s"
  "ac_sessions (set_db d s) = ac_sessions s" "ac_orgIndex (set_db d s) = ac_orgIndex s"
  "ac_userIndex (set_db d s) = ac_userIndex s" "set_db d (set_db d' s) = set_db d s" "set_db (ac_db s) s = s"
  by (simp_all add: set_db_def ac_db_def)

lemma ac_db_updates [simp]:
  "ac_db (s\<lparr>ac_users := us\<rparr>) = ac_db s" "ac_db (s\<lparr>ac_resetTokens := ts\<rparr>) = ac_db s"
  "ac_db (s\<lparr>ac_sessions := ss\<rparr>) = ac_db s" "ac_db (s\<lparr>ac_orgIndex := oi\<rparr>) = ac_db s"
  "ac_db (s\<lparr>ac_userIndex := ui\<rparr>) = ac_db s"
  by (simp_all add: ac_db_def)

lemma in_db_iff [tx_iff]: "in_db m s = Inr z \<longleftrightarrow> (\<exists>x d. m (ac_db s) = Inr (x, d) \<and> z = (x, set_db d s))"
  by (auto simp: in_db_def split: sum.splits)

lemma in_db_run [tx_run]: "in_db m s = (case m (ac_db s) of Inl e \<Rightarrow> Inl e | Inr r \<Rightarrow> Inr (fst r, set_db (snd r) s))"
  by (simp add: in_db_def split: sum.split prod.split)

lemma findByEmail_iff [tx_iff]: "findByEmail e s = Inr z \<longleftrightarrow> z = (tbl_first (\<lambda>_ u. u_email u = e) (ac_users s), s)"
  by (simp add: findByEmail_def tx_iff)

lemma findUserById_iff [tx_iff]: "findUserById i s = Inr z \<longleftrightarrow> z = (usr s i, s)"
  by (simp add: findUserById_def usr_def tx_iff)

lemma getRoles_iff [tx_iff]: "getRoles org u s = Inr z \<longleftrightarrow> z = (roles_of org u (ac_db s), s)"
  by (simp add: getRoles_def tx_iff)

lemma assertHasRole_iff [tx_iff]:
  "assertHasRole org u r s = Inr z \<longleftrightarrow> r \<in> set (roles_of org u (ac_db s)) \<and> z = ((), s)"
  by (auto simp: assertHasRole_def tx_iff)

lemma requireMembershipTx_iff [tx_iff]:
  "requireMembershipTx org k d = Inr z \<longleftrightarrow> (\<exists>m. tbl_find k (memberships d) = Some m \<and> m_organizationId m = org \<and> z = (m, d))"
  by (auto simp: requireMembershipTx_def tx_iff split: option.splits if_splits)

lemma user_update_iff [tx_iff]:
  "user_update i f s = Inr z \<longleftrightarrow> (\<exists>u. usr s i = Some u) \<and> z = ((), s\<lparr>ac_users := tbl_upd i f (ac_users s)\<rparr>)"
  by (auto simp: user_update_def usr_def split: option.splits)

lemma user_create_iff [tx_iff]:
  "user_create e n s = Inr z \<longleftrightarrow> tbl_first (\<lambda>_ u. u_email u = e) (ac_users s) = None \<and>
     z = (next_id (ac_db s), (set_db ((ac_db s)\<lparr>next_id := Suc (next_id (ac_db s))\<rparr>) s)
        \<lparr>ac_users := tbl_ins (next_id (ac_db s)) (new_user e n) (ac_users s)\<rparr>)"
  by (cases "tbl_first (\<lambda>_ u. u_email u = e) (ac_users s)") (auto simp: user_create_def tx_iff)

lemma create_membership_iff [tx_iff]:
  "create_membership m d = Inr z \<longleftrightarrow>
     tbl_first (\<lambda>_ r. m_organizationId r = m_organizationId m \<and> m_userId r = m_userId m) (memberships d) = None \<and>
     z = (next_id d, d\<lparr>next_id := Suc (next_id d), memberships := tbl_ins (next_id d) m (memberships d)\<rparr>)"
  by (cases "tbl_first (\<lambda>_ r. m_organizationId r = m_organizationId m \<and> m_userId r = m_userId m) (memberships d)")
     (auto simp: create_membership_def tx_iff)

lemma create_role_iff [tx_iff]:
  "create_role k r d = Inr z \<longleftrightarrow> (\<exists>m. tbl_find k (memberships d) = Some m \<and> r \<notin> set (m_roles m)) \<and>
     z = ((), d\<lparr>memberships := tbl_upd k (\<lambda>m. m\<lparr>m_roles := m_roles m @ [r]\<rparr>) (memberships d)\<rparr>)"
  by (auto simp: create_role_def tx_iff)

text \<open>The loop over the roles of a body.\<close>

lemma create_roles_iff:
  "forM roles (\<lambda>r. in_db (create_role k r)) s = Inr z \<Longrightarrow> tbl_find k (memberships (ac_db s)) = Some m \<Longrightarrow>
     distinct roles \<and> set roles \<inter> set (m_roles m) = {} \<and>
     (\<exists>ms. snd z = set_db ((ac_db s)\<lparr>memberships := ms\<rparr>) s \<and> map fst ms = map fst (memberships (ac_db s)) \<and>
        (\<forall>i. tbl_find i ms = (if i = k then Some (m\<lparr>m_roles := m_roles m @ roles\<rparr>) else tbl_find i (memberships (ac_db s)))))"
proof (induction roles arbitrary: s z m)
  case Nil
  then show ?case by (auto simp: tx_iff intro!: exI [of _ "memberships (ac_db s)"])
next
  case (Cons r roles)
  let ?m = "m\<lparr>m_roles := m_roles m @ [r]\<rparr>"
  let ?ms = "tbl_upd k (\<lambda>m. m\<lparr>m_roles := m_roles m @ [r]\<rparr>) (memberships (ac_db s))"
  let ?s = "set_db ((ac_db s)\<lparr>memberships := ?ms\<rparr>) s"
  obtain y where r: "r \<notin> set (m_roles m)" and run: "forM roles (\<lambda>r. in_db (create_role k r)) ?s = Inr (y, snd z)"
    using Cons.prems by (auto simp: tx_iff)
  have "tbl_find k (memberships (ac_db ?s)) = Some ?m" using Cons.prems(2) by (simp add: tbl_find_upd)
  from Cons.IH [OF run this] r Cons.prems(2) show ?case by (auto simp: tbl_find_upd map_fst_tbl_upd)
qed

lemma create_roles_run:
  "tbl_find k (memberships (ac_db s)) = Some m \<Longrightarrow> distinct roles \<Longrightarrow> set roles \<inter> set (m_roles m) = {} \<Longrightarrow>
     \<exists>ys s'. forM roles (\<lambda>r. in_db (create_role k r)) s = Inr (ys, s')"
proof (induction roles arbitrary: s m)
  case Nil
  then show ?case by (simp add: tx_run)
next
  case (Cons r roles)
  let ?s = "set_db ((ac_db s)\<lparr>memberships := tbl_upd k (\<lambda>m. m\<lparr>m_roles := m_roles m @ [r]\<rparr>) (memberships (ac_db s))\<rparr>) s"
  have "in_db (create_role k r) s = Inr ((), ?s)" using Cons.prems by (simp add: tx_iff)
  moreover have "tbl_find k (memberships (ac_db ?s)) = Some (m\<lparr>m_roles := m_roles m @ [r]\<rparr>)"
    using Cons.prems(1) by (simp add: tbl_find_upd)
  then obtain ys s' where "forM roles (\<lambda>r. in_db (create_role k r)) ?s = Inr (ys, s')"
    using Cons.IH [of ?s] Cons.prems(2,3) by force
  ultimately show ?case by (simp add: bind_run ret_run)
qed

section \<open>Moves\<close>

definition other_admin :: "uuid \<Rightarrow> uuid \<Rightarrow> accounts \<Rightarrow> bool" where
  "other_admin org k s \<longleftrightarrow> (\<exists>i m. i \<noteq> k \<and> mem s i = Some m \<and> m_organizationId m = org \<and> m_status m = MS_ACTIVE \<and> ADMIN \<in> set (m_roles m))"

text \<open>The changes of an invitation that is not accepted; \<open>h\<close> is the hash of the request's token.\<close>

definition edge :: "string \<Rightarrow> membership_row \<Rightarrow> membership_row \<Rightarrow> bool" where
  "edge h m m' \<longleftrightarrow>
     m_organizationId m' = m_organizationId m \<and> m_userId m' = m_userId m \<and> m_roles m' = m_roles m \<and>
     (m_status m \<in> {MS_INVITED, MS_EXPIRED} \<and> m_status m' = MS_INVITED \<and> m_invitationTokenHash m' = Some h \<or>
      m_status m \<in> {MS_INVITED, MS_EXPIRED} \<and> m_status m' = MS_CANCELLED \<and> m_invitationTokenHash m' = None \<or>
      m_status m = MS_INVITED \<and> m_status m' = MS_EXPIRED \<and> m_invitationTokenHash m' = m_invitationTokenHash m)"

definition deactivated_row :: "instant \<Rightarrow> uuid \<Rightarrow> membership_row \<Rightarrow> membership_row" where
  "deactivated_row t u m = m\<lparr>m_status := MS_INACTIVE, m_deactivatedAt := Some t, m_deactivatedByUserId := Some u\<rparr>"

text \<open>A session with an organization belongs to an active member.\<close>

definition backed :: "accounts \<Rightarrow> session_data \<Rightarrow> bool" where
  "backed s a \<longleftrightarrow> (\<forall>org. se_organizationId a = Some org \<longrightarrow>
     (\<exists>k m. se_membershipId a = Some k \<and> mem s k = Some m \<and> m_organizationId m = org \<and> m_userId m = se_userId a \<and>
        m_status m = MS_ACTIVE))"

definition indexed :: "accounts \<Rightarrow> string \<Rightarrow> session_data \<Rightarrow> bool" where
  "indexed s sid a \<longleftrightarrow> sid \<in> ac_userIndex s (se_userId a) \<and>
     (\<forall>org. se_organizationId a = Some org \<longrightarrow> sid \<in> ac_orgIndex s (se_userId a, org))"

text \<open>Only the session \<open>sid\<close>, and the index entries of it, may have changed.\<close>

definition other_sessions :: "string \<Rightarrow> accounts \<Rightarrow> accounts \<Rightarrow> bool" where
  "other_sessions sid s s' \<longleftrightarrow> (\<forall>x. x \<noteq> sid \<longrightarrow> ac_sessions s' x = ac_sessions s x \<and>
     (\<forall>u. x \<in> ac_userIndex s' u \<longleftrightarrow> x \<in> ac_userIndex s u) \<and> (\<forall>k. x \<in> ac_orgIndex s' k \<longleftrightarrow> x \<in> ac_orgIndex s k))"

inductive move :: "string \<Rightarrow> accounts \<Rightarrow> accounts \<Rightarrow> bool" for h s where
  idle: "mem s' = mem s \<Longrightarrow> usr s' = usr s \<Longrightarrow> same_rest s s' \<Longrightarrow> move h s s'"
| invited: "mem s k = None \<Longrightarrow> mem s' = (mem s)(k \<mapsto> m) \<Longrightarrow> m_status m \<in> {MS_INVITED, MS_PENDING_VERIFICATION} \<Longrightarrow>
     m_invitationTokenHash m = Some h \<Longrightarrow>
     (\<And>i r. mem s i = Some r \<Longrightarrow> \<not> (m_organizationId r = m_organizationId m \<and> m_userId r = m_userId m)) \<Longrightarrow>
     usr s' = usr s \<and> usr s (m_userId m) \<noteq> None \<or>
     (\<exists>e n. usr s (m_userId m) = None \<and> usr s' = (usr s)(m_userId m \<mapsto> new_user e n) \<and> (\<forall>i u. usr s i = Some u \<longrightarrow> u_email u \<noteq> e)) \<Longrightarrow>
     same_rest s s' \<Longrightarrow> move h s s'"
| edge: "mem s k = Some m \<Longrightarrow> mem s' = (mem s)(k \<mapsto> m') \<Longrightarrow> edge h m m' \<Longrightarrow> usr s' = usr s \<Longrightarrow> same_rest s s' \<Longrightarrow> move h s s'"
| activated: "mem s k = Some m \<Longrightarrow> m_status m \<in> {MS_INVITED, MS_PENDING_VERIFICATION} \<Longrightarrow>
     mem s' = (mem s)(k \<mapsto> activated_row t m) \<Longrightarrow> usr s (m_userId m) = Some u \<Longrightarrow>
     (if u_status u = US_PENDING_VERIFICATION \<and> \<not> truthy (u_passwordHash u)
      then d \<noteq> [] \<and> usr s' = (usr s)(m_userId m \<mapsto> u\<lparr>u_passwordHash := Some d, u_status := US_ACTIVE, u_emailVerifiedAt := Some t\<rparr>)
      else usr s' = usr s) \<Longrightarrow> same_rest s s' \<Longrightarrow> move h s s'"
| deactivated: "mem s k = Some m \<Longrightarrow> m_status m = MS_ACTIVE \<Longrightarrow> (ADMIN \<in> set (m_roles m) \<Longrightarrow> other_admin (m_organizationId m) k s) \<Longrightarrow>
     mem s1 = (mem s)(k \<mapsto> deactivated_row t u m) \<Longrightarrow> usr s1 = usr s \<Longrightarrow> same_rest s s1 \<Longrightarrow>
     s' = revokeAllForOrganization (m_userId m) (m_organizationId m) s1 \<Longrightarrow> move h s s'"
| reroled: "mem s k = Some m \<Longrightarrow> m_status m = MS_ACTIVE \<Longrightarrow>
     (ADMIN \<in> set (m_roles m) \<Longrightarrow> ADMIN \<notin> set roles \<Longrightarrow> other_admin (m_organizationId m) k s) \<Longrightarrow>
     mem s' = (mem s)(k \<mapsto> m\<lparr>m_roles := roles\<rparr>) \<Longrightarrow> usr s' = usr s \<Longrightarrow> same_rest s s' \<Longrightarrow> move h s s'"
| profile: "ac_sessions s sid = Some a \<Longrightarrow> se_userId a = i \<Longrightarrow> usr s i = Some u \<Longrightarrow> usr s' = (usr s)(i \<mapsto> u') \<Longrightarrow> u_email u' = u_email u \<Longrightarrow> u_status u' = u_status u \<Longrightarrow>
     u_passwordHash u' = u_passwordHash u \<or> truthy (u_passwordHash u') \<Longrightarrow> mem s' = mem s \<Longrightarrow> same_rest s s' \<Longrightarrow> move h s s'"
| opened: "mem s' = mem s \<Longrightarrow> usr s' = usr s \<Longrightarrow> ac_resetTokens s' = ac_resetTokens s \<Longrightarrow> other_sessions sid s s' \<Longrightarrow>
     ac_sessions s' sid = Some a \<Longrightarrow> backed s a \<Longrightarrow>
     indexed s' sid a \<and> (\<exists>u. usr s (se_userId a) = Some u \<and> u_status u = US_ACTIVE) \<or>
     (\<exists>b. ac_sessions s sid = Some b \<and> se_userId b = se_userId a \<and> (indexed s sid b \<longrightarrow> indexed s' sid a)) \<Longrightarrow>
     move h s s'"
| closed: "mem s' = mem s \<Longrightarrow> usr s' = usr s \<Longrightarrow> ac_resetTokens s' = ac_resetTokens s \<Longrightarrow> other_sessions sid s s' \<Longrightarrow>
     ac_sessions s' sid = None \<Longrightarrow> move h s s'"
| forgotten: "mem s' = mem s \<Longrightarrow> usr s' = usr s \<Longrightarrow> ac_sessions s' = ac_sessions s \<Longrightarrow> ac_orgIndex s' = ac_orgIndex s \<Longrightarrow>
     ac_userIndex s' = ac_userIndex s \<Longrightarrow> usr s i = Some u \<Longrightarrow> u_status u = US_ACTIVE \<Longrightarrow>
     tbl_find k (ac_resetTokens s) = None \<Longrightarrow>
     ac_resetTokens s' = tbl_ins k \<lparr>rt_userId = i, rt_tokenHash = h, rt_expiresAt = e, rt_usedAt = None\<rparr>
       (tbl_updMany (\<lambda>_ r. rt_userId r = i \<and> rt_usedAt r = None) (\<lambda>r. r\<lparr>rt_usedAt := Some t\<rparr>) (ac_resetTokens s)) \<Longrightarrow>
     move h s s'"
| reset: "mem s1 = mem s \<Longrightarrow> usr s i = Some u \<Longrightarrow> usr s1 = (usr s)(i \<mapsto> u\<lparr>u_passwordHash := Some d\<rparr>) \<Longrightarrow> d \<noteq> [] \<Longrightarrow>
     ac_sessions s1 = ac_sessions s \<Longrightarrow> ac_orgIndex s1 = ac_orgIndex s \<Longrightarrow> ac_userIndex s1 = ac_userIndex s \<Longrightarrow>
     ac_resetTokens s1 = tbl_updMany (\<lambda>_. P) (\<lambda>r. r\<lparr>rt_usedAt := Some t\<rparr>) (ac_resetTokens s) \<Longrightarrow>
     (\<exists>p \<in> set (ac_resetTokens s). rt_userId (snd p) = i) \<Longrightarrow>
     s' = revokeAllForUser i s1 \<Longrightarrow> move h s s'"

inductive_cases moveE: "move h s s'"

section \<open>Every operation is a move\<close>

lemma mem_iff_set: "accounts_wf s \<Longrightarrow> mem s i = Some m \<longleftrightarrow> (i, m) \<in> set (memberships (ac_db s))"
  unfolding mem_def accounts_wf_def wf_db_def by (rule tbl_find_iff_set) blast

lemma usr_iff_set: "accounts_wf s \<Longrightarrow> usr s i = Some u \<longleftrightarrow> (i, u) \<in> set (ac_users s)"
  unfolding usr_def accounts_wf_def by (rule tbl_find_iff_set) blast

lemma mem_fresh: "accounts_wf s \<Longrightarrow> next_id (ac_db s) \<le> k \<Longrightarrow> mem s k = None"
  unfolding mem_def accounts_wf_def wf_db_def by (meson tbl_find_fresh)

lemma usr_fresh: "accounts_wf s \<Longrightarrow> next_id (ac_db s) \<le> k \<Longrightarrow> usr s k = None"
  unfolding usr_def accounts_wf_def by (meson tbl_find_fresh)

lemma other_admin_iff:
  "accounts_wf s \<Longrightarrow> otherActiveAdminCount org k (ac_db s) = 0 \<longleftrightarrow> \<not> other_admin org k s"
  by (auto simp: otherActiveAdminCount_def other_admin_def mem_iff_set tbl_where_def filter_empty_conv)

lemma email_taken: "accounts_wf s \<Longrightarrow> tbl_first (\<lambda>_ u. u_email u = e) (ac_users s) = None \<Longrightarrow> usr s i = Some u \<Longrightarrow> u_email u \<noteq> e"
  by (auto simp: usr_iff_set tbl_first_None_iff)

lemma email_found: "accounts_wf s \<Longrightarrow> tbl_first (\<lambda>_ u. u_email u = e) (ac_users s) = Some (i, u) \<Longrightarrow> usr s i = Some u \<and> u_email u = e"
  by (auto simp: usr_iff_set dest: tbl_first_SomeD)

lemma expireIfNeeded_cases:
  assumes "expireIfNeeded org k m d = Inr (m', d')" and "tbl_find k (memberships d) = Some m"
  shows "m' = m \<and> d' = d \<or>
    m_status m = MS_INVITED \<and> m' = m\<lparr>m_status := MS_EXPIRED\<rparr> \<and>
    memberships d' = tbl_upd k (\<lambda>r. r\<lparr>m_status := MS_EXPIRED\<rparr>) (memberships d)"
  using assms by (auto simp: expireIfNeeded_def tx_iff split: if_splits)

lemma mem_upd: "tbl_find k (memberships (ac_db s)) = Some m \<Longrightarrow> memberships (ac_db s') = tbl_upd k f (memberships (ac_db s)) \<Longrightarrow>
    mem s' = (mem s)(k \<mapsto> f m)"
  by (auto simp: mem_def tbl_find_upd fun_eq_iff)

text \<open>A new membership with its roles, after the user it is for.\<close>

lemma member_created:
  assumes "accounts_wf s" and "memberships (ac_db s1) = memberships (ac_db s)" and "next_id (ac_db s) \<le> next_id (ac_db s1)"
    and "create_membership m (ac_db s1) = Inr (k, d)" and "m_roles m = []"
    and "forM roles (\<lambda>r. in_db (create_role k r)) (set_db d s1) = Inr (ys, s2)"
  shows "mem s k = None" and "mem s2 = (mem s)(k \<mapsto> m\<lparr>m_roles := roles\<rparr>)" and "distinct roles"
    and "\<And>i r. mem s i = Some r \<Longrightarrow> \<not> (m_organizationId r = m_organizationId m \<and> m_userId r = m_userId m)"
    and "usr s2 = usr s1" and "same_rest s1 s2"
proof -
  have k: "k = next_id (ac_db s1)" and d: "memberships d = tbl_ins k m (memberships (ac_db s))"
    and none: "tbl_first (\<lambda>_ r. m_organizationId r = m_organizationId m \<and> m_userId r = m_userId m) (memberships (ac_db s)) = None"
    using assms(2,4) by (simp_all add: create_membership_iff)
  show fresh: "mem s k = None" using mem_fresh [OF assms(1)] assms(3) k by simp
  have found: "tbl_find k (memberships (ac_db (set_db d s1))) = Some m"
    using fresh by (simp add: d mem_def tbl_find_ins)
  note loop = create_roles_iff [OF assms(6) found]
  then show "distinct roles" by blast
  from loop obtain ms where s2: "s2 = set_db (d\<lparr>memberships := ms\<rparr>) s1"
    and ms: "\<And>i. tbl_find i ms = (if i = k then Some (m\<lparr>m_roles := roles\<rparr>) else tbl_find i (memberships d))"
    using assms(5) by auto
  have "mem s2 i = ((mem s)(k \<mapsto> m\<lparr>m_roles := roles\<rparr>)) i" for i
    using fresh by (simp add: mem_def s2 ms d tbl_find_ins)
  then show "mem s2 = (mem s)(k \<mapsto> m\<lparr>m_roles := roles\<rparr>)" by (rule ext)
  show "usr s2 = usr s1" "same_rest s1 s2" by (simp_all add: s2 usr_def fun_eq_iff same_rest_def)
  show "\<not> (m_organizationId r = m_organizationId m \<and> m_userId r = m_userId m)" if "mem s i = Some r" for i r
    using that none by (auto simp: mem_iff_set [OF assms(1)] tbl_first_None_iff)
qed

text \<open>The user of a new membership is an existing one or a new one.\<close>

lemma user_for_email:
  assumes "accounts_wf s"
    and "(case tbl_first (\<lambda>_ u. u_email u = e) (ac_users s) of Some (i, _) \<Rightarrow> ret i | None \<Rightarrow> user_create e n) s1 = Inr (j, s2)"
    and "ac_users s1 = ac_users s" and "next_id (ac_db s) \<le> next_id (ac_db s1)"
  shows "usr s2 = usr s \<and> usr s j \<noteq> None \<or>
      (\<exists>e n. usr s j = None \<and> usr s2 = (usr s)(j \<mapsto> new_user e n) \<and> (\<forall>i u. usr s i = Some u \<longrightarrow> u_email u \<noteq> e))"
    and "memberships (ac_db s2) = memberships (ac_db s1)" and "next_id (ac_db s1) \<le> next_id (ac_db s2)" and "same_rest s1 s2"
proof -
  show "usr s2 = usr s \<and> usr s j \<noteq> None \<or>
      (\<exists>e n. usr s j = None \<and> usr s2 = (usr s)(j \<mapsto> new_user e n) \<and> (\<forall>i u. usr s i = Some u \<longrightarrow> u_email u \<noteq> e))"
  proof (cases "tbl_first (\<lambda>_ u. u_email u = e) (ac_users s)")
    case None
    then have s2: "j = next_id (ac_db s1)" "ac_users s2 = tbl_ins j (new_user e n) (ac_users s)"
      using assms(2,3) by (auto simp: tx_iff)
    have fresh: "usr s j = None" using usr_fresh [OF assms(1)] assms(4) s2(1) by simp
    have "usr s2 = (usr s)(j \<mapsto> new_user e n)"
      using fresh by (auto simp: usr_def s2(2) tbl_find_ins fun_eq_iff)
    then show ?thesis using fresh email_taken [OF assms(1) None] by blast
  next
    case (Some p)
    obtain i u where p: "p = (i, u)" by fastforce
    have "j = i" "s2 = s1" using assms(2) Some p by (simp_all add: tx_iff)
    moreover have "usr s i = Some u" using email_found [OF assms(1)] Some p by blast
    ultimately show ?thesis using assms(3) by (simp add: usr_def fun_eq_iff)
  qed
  have "memberships (ac_db s2) = memberships (ac_db s1) \<and> next_id (ac_db s1) \<le> next_id (ac_db s2) \<and> same_rest s1 s2"
  proof (cases "tbl_first (\<lambda>_ u. u_email u = e) (ac_users s)")
    case None
    then show ?thesis using assms(2) by (auto simp: tx_iff same_rest_def)
  next
    case (Some p)
    then show ?thesis using assms(2) by (cases p) (auto simp: tx_iff same_rest_def)
  qed
  then show "memberships (ac_db s2) = memberships (ac_db s1)" "next_id (ac_db s1) \<le> next_id (ac_db s2)" "same_rest s1 s2"
    by blast+
qed

text \<open>Views that an operation leaves alone.\<close>

lemma mem_cong: "memberships (ac_db s') = memberships (ac_db s) \<Longrightarrow> mem s' = mem s"
  by (simp add: mem_def fun_eq_iff)

lemma usr_cong: "ac_users s' = ac_users s \<Longrightarrow> usr s' = usr s"
  by (simp add: usr_def fun_eq_iff)

lemma check_not_member_state:
  "(case x of None \<Rightarrow> ret () | Some (i, _) \<Rightarrow> in_db (check_not_member org i)) s = Inr z \<Longrightarrow> z = ((), s)"
  by (cases x) (auto simp: check_not_member_def tx_iff split: option.splits)

text \<open>What an invitation needs of its row.\<close>

lemma invited_move:
  assumes "accounts_wf s" and "create_membership m (ac_db s1) = Inr (k, d)" and "m_roles m = []"
    and "forM roles (\<lambda>r. in_db (create_role k r)) (set_db d s1) = Inr (ys, s2)"
    and "(case tbl_first (\<lambda>_ u. u_email u = e) (ac_users s0) of Some (i, _) \<Rightarrow> ret i | None \<Rightarrow> user_create e n) s0 = Inr (m_userId m, s1)"
    and "ac_users s0 = ac_users s" and "next_id (ac_db s) \<le> next_id (ac_db s0)" and "memberships (ac_db s0) = memberships (ac_db s)"
    and "same_rest s s0"
    and "m_status m \<in> {MS_INVITED, MS_PENDING_VERIFICATION}" and "m_invitationTokenHash m = Some h"
    and "memberships (ac_db s') = memberships (ac_db s2)" and "ac_users s' = ac_users s2" and "same_rest s2 s'"
  shows "move h s s'" and "distinct roles"
proof -
  have users: "(case tbl_first (\<lambda>_ u. u_email u = e) (ac_users s) of Some (i, _) \<Rightarrow> ret i | None \<Rightarrow> user_create e n) s0 = Inr (m_userId m, s1)"
    using assms(5,6) by simp
  note who = user_for_email [OF assms(1) users assms(6,7)]
  have ms: "memberships (ac_db s1) = memberships (ac_db s)" using who(2) assms(8) by simp
  have n: "next_id (ac_db s) \<le> next_id (ac_db s1)" using who(3) assms(7) by simp
  note new = member_created [OF assms(1) ms n assms(2-4)]
  show "distinct roles" by (rule new(3))
  show "move h s s'"
  proof (rule move.invited [where k = k and m = "m\<lparr>m_roles := roles\<rparr>"])
    show "mem s k = None" by (rule new(1))
    show "mem s' = (mem s)(k \<mapsto> m\<lparr>m_roles := roles\<rparr>)" using new(2) mem_cong [OF assms(12)] by simp
    show "\<not> (m_organizationId r = m_organizationId (m\<lparr>m_roles := roles\<rparr>) \<and> m_userId r = m_userId (m\<lparr>m_roles := roles\<rparr>))"
      if "mem s i = Some r" for i r using new(4) [OF that] by simp
    have "usr s' = usr s1" using usr_cong [OF assms(13)] new(5) by simp
    then show "usr s' = usr s \<and> usr s (m_userId (m\<lparr>m_roles := roles\<rparr>)) \<noteq> None \<or>
        (\<exists>e n. usr s (m_userId (m\<lparr>m_roles := roles\<rparr>)) = None \<and>
          usr s' = (usr s)(m_userId (m\<lparr>m_roles := roles\<rparr>) \<mapsto> new_user e n) \<and> (\<forall>i u. usr s i = Some u \<longrightarrow> u_email u \<noteq> e))"
      using who(1) by simp
    show "same_rest s s'" using assms(9) who(4) new(6) assms(14) by (blast intro: same_rest_trans)
  qed (use assms(10,11) in simp_all)
qed

abbreviation token_hash :: "crypto \<Rightarrow> string" where
  "token_hash cr \<equiv> cr_sha256 cr (cr_rawToken cr)"

lemma invite_move:
  assumes "accounts_wf s" and "invite_tx cr org email roles u s = Inr (k, s')"
  shows "move (token_hash cr) s s'"
proof -
  obtain j s1 d ys s2 where
    user: "(case tbl_first (\<lambda>_ u. u_email u = email) (ac_users s) of Some (i, _) \<Rightarrow> ret i | None \<Rightarrow> user_create email email) s = Inr (j, s1)"
    and made: "create_membership (invited_row org j u (clock (ac_db s)) (token_hash cr)) (ac_db s1) = Inr (k, d)"
    and loop: "forM roles (\<lambda>r. in_db (create_role k r)) (set_db d s1) = Inr (ys, s2)"
    and s': "memberships (ac_db s') = memberships (ac_db s2)" "ac_users s' = ac_users s2" "same_rest s2 s'"
    using assms(2) by (auto simp: invite_tx_def tx_iff same_rest_def simp del: create_membership_iff dest!: check_not_member_state)
  show ?thesis
    by (rule invited_move(1) [where ?s0.0 = s and e = email and n = email, OF assms(1) made _ loop _ _ _ _ _ _ _ s'])
       (use user in \<open>simp_all add: invited_row_def same_rest_def\<close>)
qed

lemma edge_move:
  assumes "tbl_find k (memberships (ac_db s)) = Some m" and "mem s' = (mem s)(k \<mapsto> m')" and "edge h m m'"
    and "ac_users s' = ac_users s" and "same_rest s s'"
  shows "move h s s'"
  by (rule move.edge [OF _ assms(2,3) _ assms(5)]) (use assms(1) usr_cong [OF assms(4)] in \<open>simp_all add: mem_def [of s]\<close>)

text \<open>The invitation a handler works on, after a possible expiry.\<close>

lemma expired_first:
  assumes "expireIfNeeded org k m (ac_db s) = Inr (m', d)" and "tbl_find k (memberships (ac_db s)) = Some m"
    and "memberships (ac_db s') = tbl_upd k f (memberships d)"
  shows "mem s' = (mem s)(k \<mapsto> f m')" and "m' = m \<or> m_status m = MS_INVITED \<and> m' = m\<lparr>m_status := MS_EXPIRED\<rparr>"
proof -
  note c = expireIfNeeded_cases [OF assms(1,2)]
  then show "m' = m \<or> m_status m = MS_INVITED \<and> m' = m\<lparr>m_status := MS_EXPIRED\<rparr>" by blast
  have "mem s' i = ((mem s)(k \<mapsto> f m')) i" for i
    using c assms(2,3) by (auto simp: mem_def tbl_find_upd)
  then show "mem s' = (mem s)(k \<mapsto> f m')" by (rule ext)
qed

lemma resend_move:
  assumes "resend_tx cr org k u s = Inr (x, s')"
  shows "move (token_hash cr) s s'"
proof -
  obtain m m' d where m: "tbl_find k (memberships (ac_db s)) = Some m" and e: "expireIfNeeded org k m (ac_db s) = Inr (m', d)"
    and st: "m_status m' \<in> {MS_INVITED, MS_EXPIRED}"
    and ms: "memberships (ac_db s') = tbl_upd k (\<lambda>m. m\<lparr>m_status := MS_INVITED, m_invitationTokenHash := Some (token_hash cr),
        m_invitationExpiresAt := Some (invitation_expiry (clock (ac_db s)))\<rparr>) (memberships d)"
    and rest: "ac_users s' = ac_users s" "same_rest s s'"
    using assms by (auto simp: resend_tx_def tx_iff same_rest_def)
  note w = expired_first [OF e m ms]
  show ?thesis by (rule edge_move [OF m w(1) _ rest]) (use w(2) st in \<open>auto simp: edge_def\<close>)
qed

lemma cancel_move:
  assumes "cancel_tx org k u s = Inr (x, s')"
  shows "move h s s'"
proof -
  obtain m m' d where m: "tbl_find k (memberships (ac_db s)) = Some m" and e: "expireIfNeeded org k m (ac_db s) = Inr (m', d)"
    and st: "m_status m' \<in> {MS_INVITED, MS_EXPIRED}"
    and ms: "memberships (ac_db s') = tbl_upd k (\<lambda>m. m\<lparr>m_status := MS_CANCELLED, m_invitationTokenHash := None\<rparr>) (memberships d)"
    and rest: "ac_users s' = ac_users s" "same_rest s s'"
    using assms by (auto simp: cancel_tx_def tx_iff same_rest_def)
  note w = expired_first [OF e m ms]
  show ?thesis by (rule edge_move [OF m w(1) _ rest]) (use w(2) st in \<open>auto simp: edge_def\<close>)
qed

lemma guard_last_admin_iff [tx_iff]:
  "guard_last_admin org k action msg u d = Inr z \<longleftrightarrow> otherActiveAdminCount org k d \<noteq> 0 \<and> z = ((), d)"
  by (auto simp: guard_last_admin_def tx_iff)

lemma deactivate_move:
  assumes "accounts_wf s" and "deactivate org k u s = (Inr x, s')"
  shows "move h s s'"
proof -
  obtain userId s1 where tx: "deactivate_tx org k u s = Inr (userId, s1)" and s': "s' = revokeAllForOrganization userId org s1"
    using assms(2) by (auto simp: deactivate_def commit_def split: sum.splits prod.splits)
  obtain m where m: "tbl_find k (memberships (ac_db s)) = Some m" "m_organizationId m = org" "m_userId m = userId"
    and st: "m_status m = MS_ACTIVE" and adm: "ADMIN \<in> set (m_roles m) \<Longrightarrow> otherActiveAdminCount org k (ac_db s) \<noteq> 0"
    and ms: "memberships (ac_db s1) = tbl_upd k (deactivated_row (clock (ac_db s)) u) (memberships (ac_db s))"
    and rest: "ac_users s1 = ac_users s" "same_rest s s1"
    using tx by (auto simp: deactivate_tx_def tx_iff same_rest_def deactivated_row_def [abs_def] split: if_splits)
  show ?thesis
    by (rule move.deactivated [where k = k and m = m and ?s1.0 = s1])
       (use m st adm other_admin_iff [OF assms(1)] mem_upd [OF m(1) ms] usr_cong [OF rest(1)] rest(2) s' in
         \<open>auto simp: mem_def\<close>)
qed

lemma guarded_iff:
  "run_when b (in_db (guard_last_admin org k action msg u)) s = Inr z \<longleftrightarrow>
     (b \<longrightarrow> otherActiveAdminCount org k (ac_db s) \<noteq> 0) \<and> z = ((), s)"
  by (auto simp: tx_iff split: if_splits)

lemma updateRoles_move:
  assumes "accounts_wf s" and "updateRoles_tx org k roles u s = Inr (x, s')"
  shows "move h s s'"
proof -
  let ?s1 = "set_db (memberships_update (tbl_upd k (\<lambda>m. m\<lparr>m_roles := []\<rparr>)) (ac_db s)) s"
  obtain m ys s2 where m: "tbl_find k (memberships (ac_db s)) = Some m" "m_organizationId m = org"
    and st: "m_status m = MS_ACTIVE"
    and loop: "forM roles (\<lambda>r. in_db (create_role k r)) ?s1 = Inr (ys, s2)"
    and s': "memberships (ac_db s') = memberships (ac_db s2)" "ac_users s' = ac_users s2" "same_rest s2 s'"
    using assms(2) by (clarsimp simp: updateRoles_tx_def tx_iff guarded_iff same_rest_def simp del: run_when_iff)
  have adm: "ADMIN \<in> set (m_roles m) \<and> ADMIN \<notin> set roles \<longrightarrow> otherActiveAdminCount org k (ac_db s) \<noteq> 0"
    using assms(2) m(1) by (simp add: updateRoles_tx_def tx_iff guarded_iff del: run_when_iff)
  have "tbl_find k (memberships (ac_db ?s1)) = Some (m\<lparr>m_roles := []\<rparr>)" using m by (simp add: tbl_find_upd)
  from create_roles_iff [OF loop this] obtain ms where s2: "s2 = set_db ((ac_db ?s1)\<lparr>memberships := ms\<rparr>) ?s1"
    and ms: "\<And>i. tbl_find i ms = (if i = k then Some (m\<lparr>m_roles := roles\<rparr>) else tbl_find i (memberships (ac_db ?s1)))"
    by auto
  have "mem s' i = ((mem s)(k \<mapsto> m\<lparr>m_roles := roles\<rparr>)) i" for i
    using s'(1) by (simp add: mem_def s2 ms tbl_find_upd)
  then have new: "mem s' = (mem s)(k \<mapsto> m\<lparr>m_roles := roles\<rparr>)" by (rule ext)
  show ?thesis
  proof (rule move.reroled [OF _ st _ new])
    show "mem s k = Some m" using m(1) by (simp add: mem_def)
    show "other_admin (m_organizationId m) k s" if "ADMIN \<in> set (m_roles m)" "ADMIN \<notin> set roles"
      using adm that other_admin_iff [OF assms(1)] m(2) by simp
    show "usr s' = usr s" by (rule usr_cong) (simp add: s'(2) s2)
    show "same_rest s s'" using s'(3) by (simp add: same_rest_def s2)
  qed
qed

text \<open>Passwords.\<close>

definition valid_password :: "string \<Rightarrow> bool" where
  "valid_password p \<longleftrightarrow> MIN_LENGTH \<le> length p \<and> REQUIRES_LETTER_AND_NUMBER p"

lemma password_hash_iff [tx_iff]: "password_hash cr p s = Inr z \<longleftrightarrow> valid_password p \<and> z = (cr_digest cr p, s)"
  by (auto simp: password_hash_def assertValid_def valid_password_def tx_iff)

lemma setPasswordAndActivate_iff [tx_iff]:
  "setPasswordAndActivate i d s = Inr z \<longleftrightarrow> (\<exists>u. usr s i = Some u) \<and>
     z = ((), s\<lparr>ac_users := tbl_upd i (\<lambda>u. u\<lparr>u_passwordHash := Some d, u_status := US_ACTIVE,
       u_emailVerifiedAt := Some (clock (ac_db s))\<rparr>) (ac_users s)\<rparr>)"
  by (auto simp: setPasswordAndActivate_def tx_iff)

lemma usr_upd: "usr s i = Some u \<Longrightarrow> ac_users s' = tbl_upd i f (ac_users s) \<Longrightarrow> usr s' = (usr s)(i \<mapsto> f u)"
  by (auto simp: usr_def tbl_find_upd fun_eq_iff)

definition needs_password :: "user_row \<Rightarrow> bool" where
  "needs_password u \<longleftrightarrow> u_status u = US_PENDING_VERIFICATION \<and> \<not> truthy (u_passwordHash u)"

text \<open>Accepting an invitation, seen from the rows.\<close>

lemma activate_rows:
  assumes "accounts_wf s" and "activate_tx cr tok pw s = Inr (k, s')"
  obtains m u where "mem s k = Some m" and "m_invitationTokenHash m = Some (cr_sha256 cr tok)"
    and "m_status m = MS_PENDING_VERIFICATION \<or>
      m_status m = MS_INVITED \<and> (\<forall>e. m_invitationExpiresAt m = Some e \<longrightarrow> clock (ac_db s) \<le> e)"
    and "mem s' = (mem s)(k \<mapsto> activated_row (clock (ac_db s)) m)" and "usr s (m_userId m) = Some u" and "same_rest s s'"
    and "needs_password u \<Longrightarrow> truthy pw \<and> valid_password (the pw) \<and>
      usr s' = (usr s)(m_userId m \<mapsto> u\<lparr>u_passwordHash := Some (cr_digest cr (the pw)), u_status := US_ACTIVE,
        u_emailVerifiedAt := Some (clock (ac_db s))\<rparr>)"
    and "\<not> needs_password u \<Longrightarrow> usr s' = usr s"
proof -
  obtain m m' d where lookup: "tbl_first (\<lambda>_ m. m_invitationTokenHash m = Some (cr_sha256 cr tok)) (memberships (ac_db s)) = Some (k, m)"
    and e: "expireIfNeeded (m_organizationId m) k m (ac_db s) = Inr (m', d)" and st: "m_status m' \<noteq> MS_EXPIRED"
    and st': "m_status m' \<in> {MS_INVITED, MS_PENDING_VERIFICATION}"
    using assms(2) by (auto simp: activate_tx_def tx_iff Let_def)
  have m: "(k, m) \<in> set (memberships (ac_db s))" "m_invitationTokenHash m = Some (cr_sha256 cr tok)"
    using lookup by (auto dest: tbl_first_SomeD)
  have found: "tbl_find k (memberships (ac_db s)) = Some m" using m(1) mem_iff_set [OF assms(1)] by (simp add: mem_def)
  have kept: "m' = m" "d = ac_db s" and live: "m_status m = MS_PENDING_VERIFICATION \<or>
      m_status m = MS_INVITED \<and> (\<forall>e. m_invitationExpiresAt m = Some e \<longrightarrow> clock (ac_db s) \<le> e)"
    using e st st' by (auto simp: expireIfNeeded_def tx_iff split: if_splits option.splits)
  note run = assms(2) [unfolded activate_tx_def]
  obtain u where u: "usr s (m_userId m) = Some u"
    using run lookup e kept by (auto simp: tx_iff Let_def)
  have s': "memberships (ac_db s') = tbl_upd k (activated_row (clock (ac_db s))) (memberships (ac_db s)) \<and> same_rest s s' \<and>
      (if needs_password u then truthy pw \<and> valid_password (the pw) \<and>
         ac_users s' = tbl_upd (m_userId m) (\<lambda>u. u\<lparr>u_passwordHash := Some (cr_digest cr (the pw)), u_status := US_ACTIVE,
           u_emailVerifiedAt := Some (clock (ac_db s))\<rparr>) (ac_users s)
       else ac_users s' = ac_users s)"
    using run lookup e kept u by (auto simp: tx_iff Let_def needs_password_def same_rest_def split: if_splits)
  show thesis
  proof (rule that [OF _ m(2) live _ u])
    show "mem s k = Some m" using found by (simp add: mem_def)
    show "mem s' = (mem s)(k \<mapsto> activated_row (clock (ac_db s)) m)" using mem_upd [OF found] s' by blast
    show "same_rest s s'" using s' by blast
    show "truthy pw \<and> valid_password (the pw) \<and>
      usr s' = (usr s)(m_userId m \<mapsto> u\<lparr>u_passwordHash := Some (cr_digest cr (the pw)), u_status := US_ACTIVE,
        u_emailVerifiedAt := Some (clock (ac_db s))\<rparr>)" if "needs_password u"
      using s' that usr_upd [OF u, of s'] by simp
    show "usr s' = usr s" if "\<not> needs_password u" using s' that usr_cong [of s' s] by simp
  qed
qed

lemma activate_move:
  assumes "accounts_wf s" and "activate_tx cr tok pw s = Inr (k, s')" and "\<And>p. cr_digest cr p \<noteq> []"
  shows "move h s s'"
  using assms(1,2)
proof (rule activate_rows)
  fix m u
  assume a: "mem s k = Some m" "m_status m = MS_PENDING_VERIFICATION \<or>
      m_status m = MS_INVITED \<and> (\<forall>e. m_invitationExpiresAt m = Some e \<longrightarrow> clock (ac_db s) \<le> e)"
    "mem s' = (mem s)(k \<mapsto> activated_row (clock (ac_db s)) m)" "usr s (m_userId m) = Some u" "same_rest s s'"
    "needs_password u \<Longrightarrow> truthy pw \<and> valid_password (the pw) \<and>
      usr s' = (usr s)(m_userId m \<mapsto> u\<lparr>u_passwordHash := Some (cr_digest cr (the pw)), u_status := US_ACTIVE,
        u_emailVerifiedAt := Some (clock (ac_db s))\<rparr>)"
    "\<not> needs_password u \<Longrightarrow> usr s' = usr s"
  show ?thesis
  proof (rule move.activated [OF a(1) _ a(3,4) _ a(5), where d = "cr_digest cr (the pw)"])
    show "m_status m \<in> {MS_INVITED, MS_PENDING_VERIFICATION}" using a(2) by blast
    show "if u_status u = US_PENDING_VERIFICATION \<and> \<not> truthy (u_passwordHash u)
      then cr_digest cr (the pw) \<noteq> [] \<and> usr s' = (usr s)(m_userId m \<mapsto> u\<lparr>u_passwordHash := Some (cr_digest cr (the pw)),
        u_status := US_ACTIVE, u_emailVerifiedAt := Some (clock (ac_db s))\<rparr>)
      else usr s' = usr s"
      unfolding needs_password_def [symmetric] using a(6,7) assms(3) by simp
  qed
qed

lemma createOrganization_move:
  assumes "accounts_wf s" and "createOrganization_tx cr dto u s = Inr (z, s')"
  shows "move (token_hash cr) s s'"
proof -
  let ?email = "co_primaryContactEmail dto"
  let ?s0 = "set_db (recorded (ev_organization_created (next_id (ac_db s)) dto u)
      (organizations_update (tbl_ins (next_id (ac_db s)) (new_organization dto u (clock (ac_db s))))
        ((ac_db s)\<lparr>next_id := Suc (next_id (ac_db s))\<rparr>))) s"
  let ?reused = "tbl_first (\<lambda>_ u. u_email u = ?email) (ac_users s) \<noteq> None"
  obtain j s1 k d s2 where
    user: "(case tbl_first (\<lambda>_ u. u_email u = ?email) (ac_users s) of Some (i, _) \<Rightarrow> ret i
        | None \<Rightarrow> user_create ?email (co_primaryContactName dto)) ?s0 = Inr (j, s1)"
    and made: "create_membership (initial_admin_row (next_id (ac_db s)) j ?reused (clock (ac_db s)) (token_hash cr)) (ac_db s1) = Inr (k, d)"
    and role: "in_db (create_role k ADMIN) (set_db d s1) = Inr ((), s2)"
    and s': "memberships (ac_db s') = memberships (ac_db s2)" "ac_users s' = ac_users s2" "same_rest s2 s'"
    using assms(2)
    by (clarsimp simp: createOrganization_tx_def tx_iff same_rest_def simp del: create_membership_iff create_role_iff)
  have loop: "forM [ADMIN] (\<lambda>r. in_db (create_role k r)) (set_db d s1) = Inr ([()], s2)"
    using role by (simp add: bind_run ret_run)
  show ?thesis
    by (rule invited_move(1) [where ?s0.0 = ?s0 and e = ?email and n = "co_primaryContactName dto", OF assms(1) made _ loop _ _ _ _ _ _ _ s'])
       (use user in \<open>simp_all add: initial_admin_row_def same_rest_def\<close>)
qed

lemma database_move:
  assumes "memberships d = memberships (ac_db s)"
  shows "move h s (set_db d s)"
  using assms by (intro move.idle mem_cong usr_cong) (simp_all add: same_rest_def)

lemma convertSubscription_memberships:
  "convertSubscription org a b u d = Inr (x, d') \<Longrightarrow> memberships d' = memberships d"
  by (auto simp: convertSubscription_def tx_iff)

lemma organization_update_memberships:
  "organization_update org dto u d = Inr (x, d') \<Longrightarrow> memberships d' = memberships d"
  by (auto simp: organization_update_def tx_iff split: if_splits)

text \<open>Jobs that are queued afterwards change none of the rows.\<close>

lemma mail_rows:
  "ac_db (snd (then_mail r f)) = ac_db (snd r)" "ac_users (snd (then_mail r f)) = ac_users (snd r)"
  "ac_resetTokens (snd (then_mail r f)) = ac_resetTokens (snd r)" "ac_sessions (snd (then_mail r f)) = ac_sessions (snd r)"
  "ac_orgIndex (snd (then_mail r f)) = ac_orgIndex (snd r)" "ac_userIndex (snd (then_mail r f)) = ac_userIndex (snd r)"
  by (auto simp: then_mail_def ac_db_def add_jobs_def split: sum.split prod.split)

section \<open>Sessions\<close>

lemma updateProfile_move:
  assumes "updateProfile cr i name pw s = Inr (x, s')" and "\<And>p. cr_digest cr p \<noteq> []"
    and "ac_sessions s sid = Some a" and "se_userId a = i"
  shows "move h s s'"
proof -
  let ?d = "if truthy pw then Some (cr_digest cr (the pw)) else None"
  let ?f = "\<lambda>u. u\<lparr>u_name := (if truthy name then the name else u_name u),
    u_passwordHash := (if truthy ?d then ?d else u_passwordHash u)\<rparr>"
  have "(\<exists>u. usr s i = Some u) \<and> s' = s\<lparr>ac_users := tbl_upd i ?f (ac_users s)\<rparr>"
    using assms(1,2) by (auto simp: updateProfile_def user_updateProfile_def tx_iff split: if_splits)
  then obtain u where u: "usr s i = Some u" and s': "s' = s\<lparr>ac_users := tbl_upd i ?f (ac_users s)\<rparr>" by blast
  have us: "ac_users s' = tbl_upd i ?f (ac_users s)" by (simp add: s')
  show ?thesis
  proof (rule move.profile [OF assms(3,4) u usr_upd [OF u us]])
    show "mem s' = mem s" by (rule mem_cong) (simp add: s')
    show "same_rest s s'" by (simp add: s' same_rest_def)
  qed simp_all
qed

lemma active_membership:
  "accounts_wf s \<Longrightarrow> (k, m) \<in> set (active_memberships i (ac_db s)) \<Longrightarrow> mem s k = Some m \<and> m_userId m = i \<and> m_status m = MS_ACTIVE"
  by (auto simp: active_memberships_def tbl_where_def mem_iff_set)

lemma backed_organization_session:
  "mem s k = Some m \<Longrightarrow> m_organizationId m = org \<Longrightarrow> m_userId m = i \<Longrightarrow> m_status m = MS_ACTIVE \<Longrightarrow>
     backed s (organization_session i org k d)"
  by (simp add: backed_def organization_session_def)

lemma auth_login_session:
  assumes "accounts_wf s" and "auth_login cr email pw s = Inr ((a, pending, orgs), s')"
  shows "s' = s" and "backed s a" and "\<exists>u. usr s (se_userId a) = Some u \<and> u_status u = US_ACTIVE"
proof -
  obtain i u where found: "tbl_first (\<lambda>_ u. u_email u = email) (ac_users s) = Some (i, u)" and s': "s' = s"
    and live: "u_status u = US_ACTIVE"
    and a: "(a, pending, orgs) = (case active_memberships i (ac_db s) of
          [(k, m)] \<Rightarrow> (organization_session i (m_organizationId m) k (ac_db s), False, [])
        | [] \<Rightarrow> (user_session i, False, [])
        | ms \<Rightarrow> (user_session i, True, map (\<lambda>(_, m). (m_organizationId m,
              case tbl_find (m_organizationId m) (organizations (ac_db s)) of None \<Rightarrow> [] | Some r \<Rightarrow> o_legalName r)) ms))"
    using assms(2) by (auto simp: auth_login_def tx_iff)
  show "s' = s" by (rule s')
  have none: "backed s (user_session i)" by (simp add: backed_def user_session_def)
  show "backed s a"
  proof (cases "\<exists>k m. active_memberships i (ac_db s) = [(k, m)]")
    case True
    then obtain k m where one: "active_memberships i (ac_db s) = [(k, m)]" by blast
    then show ?thesis using a active_membership [OF assms(1), of k m i] backed_organization_session by simp
  next
    case False
    then have "a = user_session i" using a by (auto split: list.splits)
    then show ?thesis using none by simp
  qed
  have "se_userId a = i" using a by (auto simp: organization_session_def user_session_def split: list.splits)
  then show "\<exists>u. usr s (se_userId a) = Some u \<and> u_status u = US_ACTIVE" using email_found [OF assms(1) found] live by simp
qed

text \<open>What a new session of the store and its index entries do to the rest.\<close>

lemma opened_move:
  assumes "backed s a" and "s' = (case se_organizationId a of None \<Rightarrow> (\<lambda>x. x) | Some org \<Rightarrow> recordActiveOrganization sid (se_userId a) org prev) s1"
    and "s1 = recordSession sid (se_userId a) (set_session sid (Some a) s) \<and>
        (\<exists>u. usr s (se_userId a) = Some u \<and> u_status u = US_ACTIVE) \<or>
      s1 = set_session sid (Some a) s \<and> ac_sessions s sid = Some b \<and> se_userId b = se_userId a"
  shows "move h s s'"
proof (rule move.opened)
  note defs = assms(2) recordActiveOrganization_def recordSession_def set_session_def
  show "mem s' = mem s" "usr s' = usr s" "ac_resetTokens s' = ac_resetTokens s"
    using assms(3) by (auto simp: defs mem_def usr_def fun_eq_iff ac_db_def Let_def split: option.split)
  show "ac_sessions s' sid = Some a"
    using assms(3) by (auto simp: defs Let_def split: option.split)
  show "other_sessions sid s s'"
    using assms(3) by (auto simp: defs other_sessions_def Let_def split: option.split if_splits)
  show "indexed s' sid a \<and> (\<exists>u. usr s (se_userId a) = Some u \<and> u_status u = US_ACTIVE) \<or>
      (\<exists>b. ac_sessions s sid = Some b \<and> se_userId b = se_userId a \<and> (indexed s sid b \<longrightarrow> indexed s' sid a))"
    using assms(3) by (auto simp: defs indexed_def Let_def split: option.split)
qed (rule assms(1))

lemma login_move:
  assumes "accounts_wf s" and "login cr sid email pw s = (Inr x, s')"
  shows "move h s s'"
proof -
  obtain a pending orgs s1 where run: "auth_login cr email pw s = Inr ((a, pending, orgs), s1)"
    and s': "s' = (case se_organizationId a of None \<Rightarrow> (\<lambda>x. x) | Some org \<Rightarrow> recordActiveOrganization sid (se_userId a) org None)
        (recordSession sid (se_userId a) (set_session sid (Some a) s1))"
    using assms(2) by (auto simp: login_def commit_def split: sum.splits prod.splits)
  note w = auth_login_session [OF assms(1) run]
  show ?thesis by (rule opened_move [OF w(2) s']) (use w(1,3) in simp)
qed

lemma selectOrganization_move:
  assumes "accounts_wf s" and "selectOrganization sid org s = (Inr x, s')"
  shows "move h s s'"
proof -
  obtain b k m where b: "ac_sessions s sid = Some b"
    and found: "tbl_first (\<lambda>_ m. m_userId m = se_userId b \<and> m_organizationId m = org \<and> m_status m = MS_ACTIVE) (memberships (ac_db s)) = Some (k, m)"
    and s': "s' = recordActiveOrganization sid (se_userId b) org (se_organizationId b)
        (set_session sid (Some (organization_session (se_userId b) org k (ac_db s))) s)"
    using assms(2) by (auto simp: selectOrganization_def commit_def resolveOrganizationSession_def organization_session_def tx_iff
      split: sum.splits prod.splits option.splits)
  let ?a = "organization_session (se_userId b) org k (ac_db s)"
  have m: "mem s k = Some m" "m_userId m = se_userId b" "m_organizationId m = org" "m_status m = MS_ACTIVE"
    using found mem_iff_set [OF assms(1)] by (auto dest: tbl_first_SomeD)
  show ?thesis
    by (rule opened_move [where a = ?a and b = b and ?s1.0 = "set_session sid (Some ?a) s" and prev = "se_organizationId b"])
       (use m b s' backed_organization_session in \<open>auto simp: organization_session_def\<close>)
qed

lemma logout_move: "move h s (logout sid s)"
proof (cases "ac_sessions s sid")
  case None
  then show ?thesis by (intro move.idle) (simp_all add: logout_def)
next
  case (Some a)
  then show ?thesis
    by (intro move.closed [where sid = sid])
       (auto simp: logout_def set_session_def forget_def mem_def usr_def ac_db_def other_sessions_def fun_eq_iff split: option.split)
qed

section \<open>Forgotten passwords\<close>

lemma update_reset_tokens_iff [tx_iff]:
  "update_reset_tokens P f s = Inr z \<longleftrightarrow> z = (length (tbl_where (\<lambda>_. P) (ac_resetTokens s)),
     s\<lparr>ac_resetTokens := tbl_updMany (\<lambda>_. P) f (ac_resetTokens s)\<rparr>)"
  by (auto simp: update_reset_tokens_def)

lemma create_reset_token_iff [tx_iff]:
  "create_reset_token r s = Inr z \<longleftrightarrow> z = ((), (set_db ((ac_db s)\<lparr>next_id := Suc (next_id (ac_db s))\<rparr>) s)
     \<lparr>ac_resetTokens := tbl_ins (next_id (ac_db s)) r (ac_resetTokens s)\<rparr>)"
  by (auto simp: create_reset_token_def)

lemma token_fresh: "accounts_wf s \<Longrightarrow> tbl_find (next_id (ac_db s)) (ac_resetTokens s) = None"
  unfolding accounts_wf_def by (meson order_refl tbl_find_fresh)

lemma requestReset_move:
  assumes "accounts_wf s" and "requestReset_tx cr email s = Inr (x, s')"
  shows "move (token_hash cr) s s'"
proof (cases x)
  case None
  then have "s' = s"
    using assms(2) by (auto simp: requestReset_tx_def tx_iff split: option.splits if_splits)
  then show ?thesis by (simp add: move.idle)
next
  case (Some v)
  then obtain i u where found: "tbl_first (\<lambda>_ u. u_email u = email) (ac_users s) = Some (i, u)"
    and live: "u_status u = US_ACTIVE" and s': "s' = (set_db ((ac_db s)\<lparr>next_id := Suc (next_id (ac_db s))\<rparr>) s)\<lparr>ac_resetTokens :=
        tbl_ins (next_id (ac_db s)) \<lparr>rt_userId = i, rt_tokenHash = token_hash cr,
          rt_expiresAt = clock (ac_db s) + RESET_TOKEN_TTL_MS, rt_usedAt = None\<rparr>
        (tbl_updMany (\<lambda>_ r. rt_userId r = i \<and> rt_usedAt r = None) (\<lambda>r. r\<lparr>rt_usedAt := Some (clock (ac_db s))\<rparr>) (ac_resetTokens s))\<rparr>"
    using assms(2) by (auto simp: requestReset_tx_def tx_iff set_db_def ac_db_def split: option.splits if_splits)
  show ?thesis
    by (rule move.forgotten [OF _ _ _ _ _ _ live token_fresh [OF assms(1)]])
       (use email_found [OF assms(1) found] in \<open>simp_all add: s' mem_def usr_def fun_eq_iff\<close>)
qed

lemma resetPassword_move:
  assumes "resetPassword cr tok pw s = (Inr x, s')" and "\<And>p. cr_digest cr p \<noteq> []"
  shows "move h s s'"
proof -
  let ?P = "\<lambda>r. rt_tokenHash r = cr_sha256 cr tok \<and> rt_usedAt r = None \<and> rt_expiresAt r > clock (ac_db s)"
  let ?d = "cr_digest cr pw"
  obtain i s1 where tx: "resetPassword_tx cr tok pw s = Inr (i, s1)" and s': "s' = revokeAllForUser i s1"
    using assms(1) by (auto simp: resetPassword_def commit_def split: sum.splits prod.splits)
  obtain j r u where u: "usr s i = Some u" and r: "(j, r) \<in> set (tbl_updMany (\<lambda>_. ?P) (\<lambda>r. r\<lparr>rt_usedAt := Some (clock (ac_db s))\<rparr>) (ac_resetTokens s))"
    and i: "rt_userId r = i" and s1: "s1 = s\<lparr>ac_resetTokens := tbl_updMany (\<lambda>_. ?P) (\<lambda>r. r\<lparr>rt_usedAt := Some (clock (ac_db s))\<rparr>) (ac_resetTokens s),
        ac_users := tbl_upd i (\<lambda>u. u\<lparr>u_passwordHash := Some ?d\<rparr>) (ac_users s)\<rparr>"
    using tx by (auto simp: resetPassword_tx_def tx_iff usr_def dest: tbl_first_SomeD)
  have us: "ac_users s1 = tbl_upd i (\<lambda>u. u\<lparr>u_passwordHash := Some ?d\<rparr>) (ac_users s)" by (simp add: s1)
  show ?thesis
  proof (rule move.reset [OF _ u usr_upd [OF u us] assms(2) _ _ _ _ _ s'])
    show "\<exists>p \<in> set (ac_resetTokens s). rt_userId (snd p) = i" using r i by (force simp: tbl_updMany_def split: if_splits)
    show "mem s1 = mem s" by (rule mem_cong) (simp add: s1 ac_db_def)
  qed (simp_all add: s1)
qed

end
