(* ===== verification/AccountSystem.thy ===== *)
theory AccountSystem
  imports AccountMoves Footprint
begin

text \<open>
  The identity endpoints as requests: auth.controller.ts, memberships.controller.ts,
  organization-settings.controller.ts and organizations.controller.ts with their guards
  (session-auth.guard.ts, roles.guard.ts, platform-super-admin.guard.ts), and the runs of a
  deployment in which identity requests and all the other requests alternate.
\<close>

section \<open>Requests and their guards\<close>

datatype account_request =
    Login string string
  | SelectOrganization uuid
  | Logout
  | ActivateMembership string "string option"
  | ForgotPassword string
  | ResetPassword string string
  | UpdateMe "string option" "string option"
  | InviteMember string "role list"
  | ResendInvitation uuid
  | CancelInvitation uuid
  | DeactivateMember uuid
  | UpdateMemberRoles uuid "role list"
  | UpdateOrganization update_organization_dto
  | CreateOrganization create_organization_dto
  | ConvertSubscription uuid "nat option" "nat option"

type_synonym response = "(app_error + unit) \<times> accounts"

definition answered :: "(app_error + 'a) \<times> accounts \<Rightarrow> response" where
  "answered r = (case r of (Inl e, s) \<Rightarrow> (Inl e, s) | (Inr _, s) \<Rightarrow> (Inr (), s))"

text \<open>The session guard of every route that is not public.\<close>

definition with_session :: "string \<Rightarrow> (session_data \<Rightarrow> accounts \<Rightarrow> response) \<Rightarrow> accounts \<Rightarrow> response" where
  "with_session sid f s =
     (case ac_sessions s sid of None \<Rightarrow> (Inl (AuthenticationError ''Authentication required.''), s) | Some a \<Rightarrow> f a s)"

text \<open>The roles guard reads the roles of the session; then the handler asks for the session's organization.\<close>

definition session_roles :: "session_data \<Rightarrow> role list" where
  "session_roles a = (case se_roles a of None \<Rightarrow> [] | Some rs \<Rightarrow> rs)"

definition as_admin :: "string \<Rightarrow> (uuid \<Rightarrow> uuid \<Rightarrow> accounts \<Rightarrow> response) \<Rightarrow> accounts \<Rightarrow> response" where
  "as_admin sid f = with_session sid (\<lambda>a s.
     if ADMIN \<notin> set (session_roles a) then (Inl (PermissionError ''This action requires one of: ADMIN.''), s)
     else case se_organizationId a of
         None \<Rightarrow> (Inl (ContextError ''No organization selected for the current session.''), s)
       | Some org \<Rightarrow> f org (se_userId a) s)"

definition as_super_admin :: "string \<Rightarrow> (uuid \<Rightarrow> accounts \<Rightarrow> response) \<Rightarrow> accounts \<Rightarrow> response" where
  "as_super_admin sid f = with_session sid (\<lambda>a s.
     case tbl_find (se_userId a) (ac_users s) of
         None \<Rightarrow> (Inl (PermissionError ''This action requires Platform Super Admin access.''), s)
       | Some u \<Rightarrow> if u_isPlatformSuperAdmin u then f (se_userId a) s
                   else (Inl (PermissionError ''This action requires Platform Super Admin access.''), s))"

text \<open>A body has passed its checks of form when it gets here.\<close>

fun serve_account :: "crypto \<Rightarrow> string \<Rightarrow> account_request \<Rightarrow> accounts \<Rightarrow> response" where
  "serve_account cr sid (Login email password) s = answered (login cr sid email password s)"
| "serve_account cr sid (SelectOrganization org) s = answered (selectOrganization sid org s)"
| "serve_account cr sid Logout s = with_session sid (\<lambda>_ s. (Inr (), logout sid s)) s"
| "serve_account cr sid (ActivateMembership token password) s = answered (commit (activate_tx cr token password) s)"
| "serve_account cr sid (ForgotPassword email) s = answered (requestReset cr email s)"
| "serve_account cr sid (ResetPassword token password) s = answered (resetPassword cr token password s)"
| "serve_account cr sid (UpdateMe name password) s =
     with_session sid (\<lambda>a s. answered (commit (updateProfile cr (se_userId a) name password) s)) s"
| "serve_account cr sid (InviteMember email roles) s = as_admin sid (\<lambda>org u s. answered (invite cr org email roles u s)) s"
| "serve_account cr sid (ResendInvitation k) s = as_admin sid (\<lambda>org u s. answered (resend cr org k u s)) s"
| "serve_account cr sid (CancelInvitation k) s = as_admin sid (\<lambda>org u s. answered (commit (cancel_tx org k u) s)) s"
| "serve_account cr sid (DeactivateMember k) s = as_admin sid (\<lambda>org u s. answered (deactivate org k u s)) s"
| "serve_account cr sid (UpdateMemberRoles k roles) s =
     as_admin sid (\<lambda>org u s. answered (commit (updateRoles_tx org k roles u) s)) s"
| "serve_account cr sid (UpdateOrganization dto) s =
     as_admin sid (\<lambda>org u s. answered (commit (in_db (organization_update org dto u)) s)) s"
| "serve_account cr sid (CreateOrganization dto) s = as_super_admin sid (\<lambda>u s. answered (createOrganization cr dto u s)) s"
| "serve_account cr sid (ConvertSubscription org maxCarriers maxDrivers) s =
     as_super_admin sid (\<lambda>u s. answered (commit (in_db (convertSubscription org maxCarriers maxDrivers u)) s)) s"

section \<open>What a request does to the rows\<close>

text \<open>The same rows, whatever became of the queues, the time and the other tables.\<close>

definition same_accounts :: "accounts \<Rightarrow> accounts \<Rightarrow> bool" where
  "same_accounts s s' \<longleftrightarrow> mem s' = mem s \<and> usr s' = usr s \<and> same_rest s s'"

lemma same_accounts_refl [simp]: "same_accounts s s"
  by (simp add: same_accounts_def)

definition done_move :: "string \<Rightarrow> accounts \<Rightarrow> accounts \<Rightarrow> bool" where
  "done_move h s s' \<longleftrightarrow> s' = s \<or> (\<exists>t. move h s t \<and> same_accounts t s')"

lemma done_moveI: "move h s s' \<Longrightarrow> done_move h s s'"
  by (auto simp: done_move_def intro!: exI [of _ s'])

lemma answered_state [simp]: "snd (answered r) = snd r"
  by (auto simp: answered_def split: sum.split prod.split)

lemma commit_moves: "(\<And>x s'. m s = Inr (x, s') \<Longrightarrow> move h s s') \<Longrightarrow> done_move h s (snd (commit m s))"
  by (auto simp: commit_def done_move_def split: sum.split prod.split intro: done_moveI)

lemma mail_same: "same_accounts (snd r) (snd (then_mail r f))"
  by (simp add: same_accounts_def mem_def usr_def same_rest_def mail_rows fun_eq_iff)

lemma mailed_moves:
  assumes "\<And>x s'. m s = Inr (x, s') \<Longrightarrow> move h s s'"
  shows "done_move h s (snd (then_mail (commit m s) f))"
proof (cases "m s")
  case (Inl e)
  then show ?thesis by (simp add: done_move_def then_mail_def commit_def)
next
  case (Inr z)
  then have "move h s (snd (commit m s))" using assms by (cases z) (auto simp: commit_def)
  then show ?thesis using mail_same unfolding done_move_def by blast
qed

lemma done_idle [simp]: "done_move h s s"
  by (simp add: done_move_def)

lemma guarded_moves:
  assumes "\<And>a. ac_sessions s sid = Some a \<Longrightarrow> done_move h s (snd (f a s))"
  shows "done_move h s (snd (with_session sid f s))"
  using assms by (simp add: with_session_def split: option.split)

lemma admin_moves:
  assumes "\<And>org u. done_move h s (snd (f org u s))"
  shows "done_move h s (snd (as_admin sid f s))"
  unfolding as_admin_def by (rule guarded_moves) (use assms in \<open>auto split: option.split\<close>)

lemma super_admin_moves:
  assumes "\<And>u. done_move h s (snd (f u s))"
  shows "done_move h s (snd (as_super_admin sid f s))"
  unfolding as_super_admin_def by (rule guarded_moves) (use assms in \<open>auto split: option.split\<close>)

text \<open>The outcome of a handler that is not a plain transaction.\<close>

lemma outcome_moves:
  assumes "\<And>x s'. r = (Inr x, s') \<Longrightarrow> move h s s'" and "\<And>e s'. r = (Inl e, s') \<Longrightarrow> s' = s"
  shows "done_move h s (snd r)"
proof (cases r)
  case (Pair x s')
  then show ?thesis using assms by (cases x) (auto intro: done_moveI)
qed

lemma failed_states:
  "login cr sid email pw s = (Inl e, s') \<Longrightarrow> s' = s"
  "selectOrganization sid org s = (Inl e, s') \<Longrightarrow> s' = s"
  "resetPassword cr tok pw s = (Inl e, s') \<Longrightarrow> s' = s"
  "deactivate org k u s = (Inl e, s') \<Longrightarrow> s' = s"
  by (auto simp: login_def selectOrganization_def resetPassword_def deactivate_def commit_def
      split: sum.splits prod.splits option.splits)

lemma database_moves:
  assumes "\<And>d x d'. m d = Inr (x, d') \<Longrightarrow> memberships d' = memberships d"
  shows "done_move h s (snd (commit (in_db m) s))"
proof (rule commit_moves)
  fix x s'
  assume "in_db m s = Inr (x, s')"
  then obtain d where "m (ac_db s) = Inr (x, d)" and s': "s' = set_db d s" by (auto simp: in_db_iff)
  then show "move h s s'" unfolding s' by (intro database_move) (rule assms)
qed

theorem serve_moves:
  assumes "accounts_wf s" and "\<And>p. cr_digest cr p \<noteq> []"
  shows "done_move (token_hash cr) s (snd (serve_account cr sid req s))"
proof (cases req)
  case (Login email pw)
  have "done_move (token_hash cr) s (snd (login cr sid email pw s))"
    by (rule outcome_moves) (erule login_move [OF assms(1)], erule failed_states(1))
  then show ?thesis by (simp add: Login)
next
  case (SelectOrganization org)
  have "done_move (token_hash cr) s (snd (selectOrganization sid org s))"
    by (rule outcome_moves) (erule selectOrganization_move [OF assms(1)], erule failed_states(2))
  then show ?thesis by (simp add: SelectOrganization)
next
  case Logout
  then show ?thesis by (simp add: guarded_moves done_moveI logout_move)
next
  case (ActivateMembership tok pw)
  then show ?thesis using activate_move [OF assms(1) _ assms(2)] by (auto intro!: commit_moves)
next
  case (ForgotPassword email)
  then show ?thesis using requestReset_move [OF assms(1)] by (auto simp: requestReset_def intro!: mailed_moves)
next
  case (ResetPassword tok pw)
  have "done_move (token_hash cr) s (snd (resetPassword cr tok pw s))"
    by (rule outcome_moves) (erule resetPassword_move [OF _ assms(2)], erule failed_states(3))
  then show ?thesis by (simp add: ResetPassword)
next
  case (UpdateMe name pw)
  then show ?thesis using updateProfile_move [OF _ assms(2)] by (auto intro!: guarded_moves commit_moves)
next
  case (InviteMember email roles)
  then show ?thesis using invite_move [OF assms(1)] by (auto simp: invite_def intro!: admin_moves mailed_moves)
next
  case (ResendInvitation k)
  then show ?thesis using resend_move by (auto simp: resend_def intro!: admin_moves mailed_moves)
next
  case (CancelInvitation k)
  then show ?thesis using cancel_move by (auto intro!: admin_moves commit_moves)
next
  case (DeactivateMember k)
  have "done_move (token_hash cr) s (snd (deactivate org k u s))" for org u
    by (rule outcome_moves) (erule deactivate_move [OF assms(1)], erule failed_states(4))
  then show ?thesis by (auto simp: DeactivateMember intro!: admin_moves)
next
  case (UpdateMemberRoles k roles)
  then show ?thesis using updateRoles_move [OF assms(1)] by (auto intro!: admin_moves commit_moves)
next
  case (UpdateOrganization dto)
  then show ?thesis by (simp add: admin_moves database_moves [OF organization_update_memberships])
next
  case (CreateOrganization dto)
  then show ?thesis using createOrganization_move [OF assms(1)]
    by (auto simp: createOrganization_def intro!: super_admin_moves mailed_moves)
next
  case (ConvertSubscription org a b)
  then show ?thesis by (simp add: super_admin_moves database_moves [OF convertSubscription_memberships])
qed

section \<open>Well-formed accounts\<close>

definition keeps_accounts :: "accounts \<Rightarrow> accounts \<Rightarrow> bool" where
  "keeps_accounts s s' \<longleftrightarrow> (accounts_wf s \<longrightarrow> accounts_wf s') \<and> next_id (ac_db s) \<le> next_id (ac_db s')"

interpretation acc: state_relation keeps_accounts
  by unfold_locales (auto simp: keeps_accounts_def)

lemma acc_in_db:
  assumes "keeps keeps_wf m"
  shows "keeps keeps_accounts (in_db m)"
  unfolding keeps_def
proof (intro allI impI)
  fix s x s'
  assume "in_db m s = Inr (x, s')"
  then obtain d where m: "m (ac_db s) = Inr (x, d)" and s': "s' = set_db d s" by (auto simp: in_db_iff)
  have "keeps_wf (ac_db s) d" using assms m by (rule keepsD)
  then show "keeps_accounts s s'"
    by (auto simp: keeps_accounts_def keeps_wf_def accounts_wf_def s' intro: table_ok_mono)
qed

lemma wf_next: "wf_db d \<Longrightarrow> wf_db (d\<lparr>next_id := Suc (next_id d)\<rparr>)"
  by (simp add: wf_db_def table_ok_Suc)

lemma acc_user_create: "keeps keeps_accounts (user_create e n)"
  by (auto simp: keeps_def user_create_iff keeps_accounts_def accounts_wf_def wf_next table_ok_Suc table_ok_ins_Suc)

lemma acc_user_update: "keeps keeps_accounts (user_update i f)"
  by (auto simp: keeps_def user_update_iff keeps_accounts_def accounts_wf_def)

lemma acc_tokens: "keeps keeps_accounts (create_reset_token r)" "keeps keeps_accounts (update_reset_tokens P f)"
  by (auto simp: keeps_def tx_iff keeps_accounts_def accounts_wf_def wf_next table_ok_Suc table_ok_ins_Suc)

lemma wf_members:
  "keeps keeps_wf (check_not_member org i)" "keeps keeps_wf (create_membership m)" "keeps keeps_wf (create_role k r)"
  "keeps keeps_wf (requireMembershipTx org k)" "keeps keeps_wf (expireIfNeeded org k m)"
  "keeps keeps_wf (guard_last_admin org k a msg u)" "keeps keeps_wf (convertSubscription org x y u)"
  "keeps keeps_wf (organization_update org dto u)"
  unfolding check_not_member_def create_membership_def create_role_def requireMembershipTx_def expireIfNeeded_def
    guard_last_admin_def convertSubscription_def organization_update_def
  by ((rule wf_intros)+)

lemma acc_hash: "keeps keeps_accounts (password_hash cr p)"
  unfolding password_hash_def assertValid_def by (rule acc.keeps_intros)+

lemmas acc_rules = acc.keeps_intros acc_user_create acc_user_update acc_tokens acc_hash acc_in_db wf_members wf_intros

lemma acc_transactions:
  "keeps keeps_accounts (invite_tx cr org email roles u)" "keeps keeps_accounts (resend_tx cr org k u)"
  "keeps keeps_accounts (cancel_tx org k u)" "keeps keeps_accounts (activate_tx cr tok pw)"
  "keeps keeps_accounts (deactivate_tx org k u)" "keeps keeps_accounts (updateRoles_tx org k roles u)"
  "keeps keeps_accounts (createOrganization_tx cr dto u)" "keeps keeps_accounts (updateProfile cr u name pw)"
  "keeps keeps_accounts (requestReset_tx cr email)" "keeps keeps_accounts (resetPassword_tx cr tok pw')"
  "keeps keeps_accounts (auth_login cr email pw')" "keeps keeps_accounts (resolveOrganizationSession u org)"
  unfolding invite_tx_def resend_tx_def cancel_tx_def activate_tx_def deactivate_tx_def updateRoles_tx_def
    createOrganization_tx_def updateProfile_def requestReset_tx_def resetPassword_tx_def auth_login_def
    resolveOrganizationSession_def assertHasRole_def getRoles_def findByEmail_def findUserById_def
    setPasswordAndActivate_def user_updateProfile_def
  by (rule acc_rules)+

lemma wf_commit: "keeps keeps_accounts m \<Longrightarrow> accounts_wf s \<Longrightarrow> accounts_wf (snd (commit m s))"
  by (auto simp: commit_def keeps_accounts_def split: sum.split prod.split dest: keepsD)

lemma wf_mail: "accounts_wf (snd (then_mail r f)) \<longleftrightarrow> accounts_wf (snd r)"
  by (simp add: accounts_wf_def mail_rows)

text \<open>The session store and its indexes are not part of it.\<close>

lemma wf_sessions [simp]:
  "accounts_wf (set_session sid v s) \<longleftrightarrow> accounts_wf s" "accounts_wf (recordSession sid u s) \<longleftrightarrow> accounts_wf s"
  "accounts_wf (recordActiveOrganization sid u org p s) \<longleftrightarrow> accounts_wf s"
  "accounts_wf (forget sid u org s) \<longleftrightarrow> accounts_wf s" "accounts_wf (revokeAllForUser u s) \<longleftrightarrow> accounts_wf s"
  "accounts_wf (revokeAllForOrganization u org s) \<longleftrightarrow> accounts_wf s"
  by (simp_all add: accounts_wf_def set_session_def recordSession_def recordActiveOrganization_def forget_def
      revokeAllForUser_def revokeAllForOrganization_def Let_def split: option.split)

lemma wf_handlers:
  assumes "accounts_wf s"
  shows "accounts_wf (snd (login cr sid email pw s))" and "accounts_wf (snd (selectOrganization sid org s))"
    and "accounts_wf (logout sid s)" and "accounts_wf (snd (resetPassword cr tok pw s))"
    and "accounts_wf (snd (deactivate org k u s))"
  using wf_commit [OF acc_transactions(11) assms, of cr email pw] wf_commit [OF acc_transactions(12) assms]
    wf_commit [OF acc_transactions(10) assms, of cr tok pw] wf_commit [OF acc_transactions(5) assms, of org k u] assms
  by (auto simp: login_def selectOrganization_def logout_def resetPassword_def deactivate_def
      split: sum.split prod.split option.split) (metis snd_conv)+

lemma wf_guarded:
  "accounts_wf s \<Longrightarrow> (\<And>a. accounts_wf (snd (f a s))) \<Longrightarrow> accounts_wf (snd (with_session sid f s))"
  "accounts_wf s \<Longrightarrow> (\<And>org u. accounts_wf (snd (g org u s))) \<Longrightarrow> accounts_wf (snd (as_admin sid g s))"
  "accounts_wf s \<Longrightarrow> (\<And>u. accounts_wf (snd (k u s))) \<Longrightarrow> accounts_wf (snd (as_super_admin sid k s))"
  by (simp_all add: as_admin_def as_super_admin_def with_session_def split: option.split)

theorem serve_wf: "accounts_wf s \<Longrightarrow> accounts_wf (snd (serve_account cr sid req s))"
  by (cases req) (auto simp: wf_handlers requestReset_def invite_def resend_def createOrganization_def wf_mail
      intro!: wf_guarded wf_commit acc_transactions acc_in_db wf_members)

section \<open>Runs\<close>

definition account_clock :: "instant \<Rightarrow> request_context option \<Rightarrow> accounts \<Rightarrow> accounts" where
  "account_clock t ctx s = s\<lparr>ac_world := begin_request t ctx (ac_world s)\<rparr>"

text \<open>What the random tokens and the hashes of a request are relied on for: a token nobody has seen, and a digest.\<close>

definition used_hash :: "accounts \<Rightarrow> string \<Rightarrow> bool" where
  "used_hash s h \<longleftrightarrow> (\<exists>k m. mem s k = Some m \<and> m_invitationTokenHash m = Some h) \<or>
     (\<exists>p \<in> set (ac_resetTokens s). rt_tokenHash (snd p) = h)"

definition lawful_crypto :: "crypto \<Rightarrow> accounts \<Rightarrow> bool" where
  "lawful_crypto cr s \<longleftrightarrow> (\<forall>p. cr_digest cr p \<noteq> []) \<and> \<not> used_hash s (token_hash cr)"

text \<open>An identity request, or any step of the rest of the deployment.\<close>

inductive account_step :: "(string \<Rightarrow> instant) \<Rightarrow> accounts \<Rightarrow> accounts \<Rightarrow> bool" for pd where
  identity: "clock (ac_db s) \<le> t \<Longrightarrow> lawful_crypto cr s \<Longrightarrow>
     account_step pd s (snd (serve_account cr sid req (account_clock t ctx s)))"
| business: "step pd (ac_world s) w \<Longrightarrow> account_step pd s (s\<lparr>ac_world := w\<rparr>)"

inductive_cases account_stepE: "account_step pd s s'"

lemma clock_rows: "same_accounts s (account_clock t ctx s)"
  by (simp add: account_clock_def same_accounts_def mem_def usr_def same_rest_def ac_db_def begin_request_def fun_eq_iff)

lemma clock_wf [simp]: "accounts_wf (account_clock t ctx s) \<longleftrightarrow> accounts_wf s"
  by (simp add: account_clock_def accounts_wf_def ac_db_def begin_request_db wf_db_def)

lemma same_accounts_move: "same_accounts s s' \<Longrightarrow> move h s s'"
  by (simp add: same_accounts_def move.idle)

lemma used_hash_same: "same_accounts s s' \<Longrightarrow> used_hash s' h = used_hash s h"
  by (simp add: used_hash_def same_accounts_def same_rest_def)

end
