(* ===== verification/AccountStates.thy ===== *)
theory AccountStates
  imports AccountSystem
begin

text \<open>
  The invariants of users, memberships and sessions. Every step of a run is a move of AccountMoves or
  changes none of their rows, so an invariant only needs the moves; the locale is that contract, and
  its interpretations are the invariants the properties of AccountProperties state.
\<close>

section \<open>The steps of the rest of the deployment\<close>

lemma expiry_rows:
  assumes "sweep_tx org (ExpireInvitation k) d = Inr (x, d')" and "wf_db d"
  shows "memberships d' = memberships d \<or> (\<exists>i m. tbl_find i (memberships d) = Some m \<and> m_status m = MS_INVITED \<and>
    memberships d' = tbl_upd i (\<lambda>r. r\<lparr>m_status := MS_EXPIRED\<rparr>) (memberships d))"
proof (cases "List.find (\<lambda>x. fst x = k) (stale_invitations org d)")
  case None
  then show ?thesis using assms(1) by (auto simp: sweep_one_def tx_iff)
next
  case (Some m)
  have "m \<in> set (stale_invitations org d)" using Some by (auto simp: find_Some_iff)
  then have row: "(fst m, snd m) \<in> set (memberships d)" "m_status (snd m) = MS_INVITED"
    by (auto simp: stale_invitations_def tbl_where_def)
  have "table_ok (next_id d) (memberships d)" using assms(2) by (simp add: wf_db_def)
  then have found: "tbl_find (fst m) (memberships d) = Some (snd m)" using row(1) by (meson tbl_find_iff_set)
  have run: "expire_invitation org m d = Inr (x, d')" using assms(1) Some by (simp add: sweep_one_def tx_iff)
  let ?d = "recorded (ev_invitation_expired org (fst m)) (memberships_update (tbl_upd (fst m) (\<lambda>r. r\<lparr>m_status := MS_EXPIRED\<rparr>)) d)"
  define rest where "rest = (case m_invitedByUserId (snd m) of None \<Rightarrow> ret ()
      | Some u \<Rightarrow> bind (findFirst notifications (\<lambda>_. related org INVITATION_EXPIRED ''OrganizationMembership'' (fst m)))
            (\<lambda>existing. run_when (existing = None) (createForUserAndRoles org u ADMIN_VISIBILITY_ROLES
               (sweep_notice INVITATION_EXPIRED ''OrganizationMembership'' (fst m) ''An invitation you sent has expired.''))))"
  have "keeps (only {Notifications}) rest" unfolding rest_def by ((rule footprint_steps | (simp; fail))+)
  moreover have "rest ?d = Inr (x, d')"
    using run unfolding expire_invitation_def rest_def [symmetric]
    by (auto simp: andThen_def bind_iff update_iff audit_record_iff)
  ultimately have "only {Notifications} ?d d'" by (rule keepsD)
  then have "memberships d' = memberships ?d" unfolding only_def by (auto dest: spec [of _ Memberships])
  then show ?thesis using found row(2) by auto
qed

lemma footprint_members: "Memberships \<in> footprint_of req \<Longrightarrow> \<exists>k. req = SweepRequest (ExpireInvitation k)"
proof (cases req)
  case (CarrierRequest r)
  moreover assume "Memberships \<in> footprint_of req"
  ultimately show ?thesis by (cases r) (auto simp: logged_def)
next
  case (CustomerRequest r)
  moreover assume "Memberships \<in> footprint_of req"
  ultimately show ?thesis by (cases r) (auto simp: logged_def)
next
  case (BookingRequest r)
  moreover assume "Memberships \<in> footprint_of req"
  ultimately show ?thesis by (cases r) (auto simp: logged_def)
next
  case (DispatchRequest r)
  moreover assume "Memberships \<in> footprint_of req"
  ultimately show ?thesis by (cases r) (auto simp: logged_def)
next
  case (MoneyRequest r)
  moreover assume "Memberships \<in> footprint_of req"
  ultimately show ?thesis by (cases r) (auto simp: logged_def)
next
  case (DocumentRequest r)
  moreover assume "Memberships \<in> footprint_of req"
  ultimately show ?thesis by (cases r) (auto simp: logged_def)
next
  case (DraftRequest r)
  moreover assume "Memberships \<in> footprint_of req"
  ultimately show ?thesis by (cases r) (auto simp: logged_def)
next
  case (SweepRequest r)
  moreover assume "Memberships \<in> footprint_of req"
  ultimately show ?thesis by (cases r) (auto simp: logged_def)
qed

lemma world_move:
  assumes "memberships (w_db w) = memberships (ac_db s)"
  shows "move h s (s\<lparr>ac_world := w\<rparr>)"
  by (rule move.idle) (use assms in \<open>simp_all add: mem_def usr_def ac_db_def same_rest_def fun_eq_iff\<close>)

lemma business_move:
  assumes "step pd (ac_world s) w" and "accounts_wf s"
  shows "move h s (s\<lparr>ac_world := w\<rparr>)"
  using assms(1)
proof (rule stepE)
  fix b assume "w = ac_world s\<lparr>w_queue_up := b\<rparr>"
  then show ?thesis by (simp add: world_move ac_db_def)
next
  fix t org u req ctx
  let ?w = "begin_request t ctx (ac_world s)"
  assume w: "w = handle pd org u req ?w"
  have ms: "memberships (w_db ?w) = memberships (ac_db s)" by (simp add: begin_request_db ac_db_def)
  show ?thesis
  proof (cases "Memberships \<in> footprint_of req")
    case False
    then have "untouched Memberships (w_db ?w) (w_db w)" using handle_only [of req ?w pd org u] unfolding only_def w by blast
    then show ?thesis using ms by (simp add: world_move)
  next
    case True
    then obtain k where "req = SweepRequest (ExpireInvitation k)" using footprint_members by blast
    then have w': "w = snd (withTenantTransaction (sweep_tx org (ExpireInvitation k)) ?w)" by (simp add: w)
    show ?thesis
    proof (cases "sweep_tx org (ExpireInvitation k) (w_db ?w)")
      case (Inl e)
      then show ?thesis using w' ms by (simp add: withTenantTransaction_def world_move)
    next
      case (Inr z)
      then obtain d where run: "sweep_tx org (ExpireInvitation k) (w_db ?w) = Inr ((), d)" by (cases z) simp
      then have d: "w_db w = d" by (simp add: w' withTenantTransaction_def)
      have wf: "wf_db (w_db ?w)" using assms(2) by (simp add: accounts_wf_def ac_db_def)
      show ?thesis
        using expiry_rows [OF run wf]
      proof (elim disjE exE conjE)
        assume "memberships d = memberships (w_db ?w)"
        then show ?thesis using ms d by (simp add: world_move)
      next
        fix i m
        assume found: "tbl_find i (memberships (w_db ?w)) = Some m" and st: "m_status m = MS_INVITED"
          and d': "memberships d = tbl_upd i (\<lambda>r. r\<lparr>m_status := MS_EXPIRED\<rparr>) (memberships (w_db ?w))"
        have found': "tbl_find i (memberships (ac_db s)) = Some m" using found ms by simp
        show ?thesis
        proof (rule edge_move [OF found'])
          show "mem (s\<lparr>ac_world := w\<rparr>) = (mem s)(i \<mapsto> m\<lparr>m_status := MS_EXPIRED\<rparr>)"
            using mem_upd [OF found', of "s\<lparr>ac_world := w\<rparr>" "\<lambda>r. r\<lparr>m_status := MS_EXPIRED\<rparr>"] d d' ms
            by (simp add: ac_db_def)
          show "edge h m (m\<lparr>m_status := MS_EXPIRED\<rparr>)" using st by (simp add: edge_def)
          show "ac_users (s\<lparr>ac_world := w\<rparr>) = ac_users s" by simp
          show "same_rest s (s\<lparr>ac_world := w\<rparr>)" by (simp add: same_rest_def)
        qed
      qed
    qed
  qed
qed

lemma business_wf:
  assumes "step pd (ac_world s) w" and "accounts_wf s"
  shows "accounts_wf (s\<lparr>ac_world := w\<rparr>)"
proof -
  have wf: "wf_db (w_db (ac_world s))" using assms(2) by (simp add: accounts_wf_def ac_db_def)
  have "next_id (w_db (ac_world s)) \<le> next_id (w_db w)"
    using assms(1)
  proof (rule stepE)
    fix t org u req ctx
    assume w: "w = handle pd org u req (begin_request t ctx (ac_world s))"
    show ?thesis
      using handle_lawful [of "begin_request t ctx (ac_world s)" org pd u req] wf
      by (simp add: w lawful_def keeps_wf_def begin_request_db wf_db_def)
  qed simp
  moreover have "wf_db (w_db w)" by (rule step_wf [OF assms(1) wf])
  ultimately show ?thesis using assms(2) by (auto simp: accounts_wf_def ac_db_def intro: table_ok_mono)
qed

section \<open>The contract of an invariant\<close>

lemma account_step_wf:
  assumes "account_step pd s s'" and "accounts_wf s"
  shows "accounts_wf s'"
  using assms(1) by (rule account_stepE) (use assms(2) business_wf serve_wf in \<open>auto\<close>)

lemma fresh_exists: "\<exists>h. \<not> used_hash s h"
proof -
  let ?H = "(\<lambda>p. case m_invitationTokenHash (snd p) of None \<Rightarrow> [] | Some h \<Rightarrow> h) ` set (memberships (ac_db s)) \<union>
    (\<lambda>p. rt_tokenHash (snd p)) ` set (ac_resetTokens s)"
  have "\<exists>h. h \<notin> ?H" by (rule ex_new_if_finite) (simp_all add: infinite_UNIV_listI)
  then obtain h where h: "h \<notin> ?H" by blast
  have "h \<in> ?H" if "mem s k = Some m" "m_invitationTokenHash m = Some h" for k m
  proof -
    have "(k, m) \<in> set (memberships (ac_db s))" using that(1) by (simp add: mem_def tbl_find_def map_of_SomeD)
    then show ?thesis using that(2) by (force simp: image_iff)
  qed
  then have "\<not> used_hash s h" using h by (auto simp: used_hash_def image_iff)
  then show ?thesis by blast
qed

locale account_invariant =
  fixes I :: "accounts \<Rightarrow> bool"
  assumes moved: "I s \<Longrightarrow> \<not> used_hash s h \<Longrightarrow> move h s s' \<Longrightarrow> I s'"
begin

lemma unmoved: "I s \<Longrightarrow> same_accounts s s' \<Longrightarrow> I s'"
  using moved same_accounts_move fresh_exists by blast

lemma across_step:
  assumes "account_step pd s s'" and "accounts_wf s" and "I s"
  shows "I s'"
  using assms(1)
proof (rule account_stepE)
  fix w assume "s' = s\<lparr>ac_world := w\<rparr>" "step pd (ac_world s) w"
  then show ?thesis using assms(2,3) moved business_move fresh_exists by blast
next
  fix t cr sid req ctx
  let ?s = "account_clock t ctx s"
  assume s': "s' = snd (serve_account cr sid req ?s)" and cr: "lawful_crypto cr s"
  have I: "I ?s" by (rule unmoved [OF assms(3) clock_rows])
  have wf: "accounts_wf ?s" using assms(2) by simp
  have fresh: "\<not> used_hash ?s (token_hash cr)" using cr used_hash_same [OF clock_rows] by (simp add: lawful_crypto_def)
  have "done_move (token_hash cr) ?s s'" unfolding s' by (rule serve_moves [OF wf]) (use cr in \<open>simp add: lawful_crypto_def\<close>)
  then show ?thesis unfolding done_move_def using I moved [OF I fresh] unmoved by blast
qed

theorem kept:
  assumes "rtranclp (account_step pd) s s'" and "accounts_wf s" and "I s"
  shows "I s'"
proof -
  have "I s' \<and> accounts_wf s'" using assms
    by (induction rule: rtranclp_induct) (auto intro: across_step account_step_wf)
  then show ?thesis by simp
qed

end

section \<open>An organization keeps an active admin\<close>

definition has_admin :: "uuid \<Rightarrow> accounts \<Rightarrow> bool" where
  "has_admin org s \<longleftrightarrow> (\<exists>k m. mem s k = Some m \<and> m_organizationId m = org \<and> m_status m = MS_ACTIVE \<and> ADMIN \<in> set (m_roles m))"

lemma has_admin_same: "mem s' = mem s \<Longrightarrow> has_admin org s' \<longleftrightarrow> has_admin org s"
  by (simp add: has_admin_def)

text \<open>A row is replaced: the admins were others, or the row still is one.\<close>

lemma has_admin_row:
  assumes "has_admin org s" and "mem s k = Some m" and "mem s' = (mem s)(k \<mapsto> m')" and "m_organizationId m' = m_organizationId m"
    and "m_status m = MS_ACTIVE \<Longrightarrow> ADMIN \<in> set (m_roles m) \<Longrightarrow>
      m_status m' = MS_ACTIVE \<and> ADMIN \<in> set (m_roles m') \<or> other_admin (m_organizationId m) k s"
  shows "has_admin org s'"
proof -
  obtain i r where i: "mem s i = Some r" "m_organizationId r = org" "m_status r = MS_ACTIVE" "ADMIN \<in> set (m_roles r)"
    using assms(1) by (auto simp: has_admin_def)
  show ?thesis
  proof (cases "i = k")
    case False
    then have "mem s' i = Some r" using assms(3) i(1) by simp
    then show ?thesis using i unfolding has_admin_def by blast
  next
    case True
    then have r: "r = m" using i(1) assms(2) by simp
    from assms(5) i(3,4) r consider "m_status m' = MS_ACTIVE" "ADMIN \<in> set (m_roles m')" | "other_admin org k s"
      using i(2) by blast
    then show ?thesis
    proof cases
      case 1
      moreover have "mem s' k = Some m'" using assms(3) by simp
      ultimately show ?thesis using assms(4) i(2) r unfolding has_admin_def by blast
    next
      case 2
      then obtain j n where "j \<noteq> k" "mem s j = Some n" "m_organizationId n = org" "m_status n = MS_ACTIVE" "ADMIN \<in> set (m_roles n)"
        by (auto simp: other_admin_def)
      moreover then have "mem s' j = Some n" using assms(3) by simp
      ultimately show ?thesis unfolding has_admin_def by blast
    qed
  qed
qed

lemma revoked_views [simp]:
  "mem (revokeAllForOrganization u org s) = mem s" "usr (revokeAllForOrganization u org s) = usr s"
  "mem (revokeAllForUser u s) = mem s" "usr (revokeAllForUser u s) = usr s"
  "ac_resetTokens (revokeAllForOrganization u org s) = ac_resetTokens s" "ac_resetTokens (revokeAllForUser u s) = ac_resetTokens s"
  by (simp_all add: revokeAllForOrganization_def revokeAllForUser_def mem_def usr_def ac_db_def fun_eq_iff)

interpretation admins: account_invariant "has_admin org" for org
proof
  show "has_admin org s'" if I: "has_admin org s" and "\<not> used_hash s h" and m: "move h s s'" for s h s'
    using m
  proof cases
    case (invited k m)
    obtain i r where r: "mem s i = Some r" "m_organizationId r = org" "m_status r = MS_ACTIVE" "ADMIN \<in> set (m_roles r)"
      using I by (auto simp: has_admin_def)
    then have "mem s' i = Some r" using invited(1,2) by auto
    then show ?thesis using r unfolding has_admin_def by blast
  next
    case (edge k m m')
    then show ?thesis by (auto intro!: has_admin_row [OF I edge(1,2)] simp: edge_def)
  next
    case (activated k m t u d)
    then show ?thesis by (auto intro!: has_admin_row [OF I activated(1,3)] simp: activated_row_def)
  next
    case (deactivated k m s1 t u)
    then show ?thesis by (auto intro!: has_admin_row [OF I deactivated(1)] simp: deactivated_row_def)
  next
    case (reroled k m roles)
    then show ?thesis by (intro has_admin_row [OF I reroled(1,4)]) (cases "ADMIN \<in> set roles"; simp)+
  qed (use I in \<open>simp_all add: has_admin_def\<close>)
qed

section \<open>Users, members, sessions and reset tokens agree\<close>

text \<open>A user is active and has a password, or neither.\<close>

definition settled :: "user_row \<Rightarrow> bool" where
  "settled u \<longleftrightarrow> (if u_status u = US_ACTIVE then truthy (u_passwordHash u)
     else u_status u = US_PENDING_VERIFICATION \<and> \<not> truthy (u_passwordHash u))"

definition active_user :: "accounts \<Rightarrow> uuid \<Rightarrow> bool" where
  "active_user s i \<longleftrightarrow> (\<exists>u. usr s i = Some u \<and> u_status u = US_ACTIVE)"

definition session_ok :: "accounts \<Rightarrow> string \<Rightarrow> session_data \<Rightarrow> bool" where
  "session_ok s sid a \<longleftrightarrow> backed s a \<and> indexed s sid a \<and> active_user s (se_userId a)"

definition accounts_ok :: "accounts \<Rightarrow> bool" where
  "accounts_ok s \<longleftrightarrow> (\<forall>i u. usr s i = Some u \<longrightarrow> settled u) \<and>
     (\<forall>k m. mem s k = Some m \<longrightarrow> usr s (m_userId m) \<noteq> None \<and> (m_status m = MS_ACTIVE \<longrightarrow> active_user s (m_userId m))) \<and>
     (\<forall>sid a. ac_sessions s sid = Some a \<longrightarrow> session_ok s sid a) \<and>
     (\<forall>p \<in> set (ac_resetTokens s). active_user s (rt_userId (snd p)))"

lemma accounts_okD:
  assumes "accounts_ok s"
  shows "usr s i = Some u \<Longrightarrow> settled u" and "mem s k = Some m \<Longrightarrow> usr s (m_userId m) \<noteq> None"
    and "mem s k = Some m \<Longrightarrow> m_status m = MS_ACTIVE \<Longrightarrow> active_user s (m_userId m)"
    and "ac_sessions s sid = Some a \<Longrightarrow> session_ok s sid a"
    and "p \<in> set (ac_resetTokens s) \<Longrightarrow> active_user s (rt_userId (snd p))"
  using assms by (auto simp: accounts_ok_def)

text \<open>A change that leaves active users active.\<close>

definition users_grow :: "accounts \<Rightarrow> accounts \<Rightarrow> bool" where
  "users_grow s s' \<longleftrightarrow> (\<forall>i. usr s i \<noteq> None \<longrightarrow> usr s' i \<noteq> None) \<and> (\<forall>i. active_user s i \<longrightarrow> active_user s' i)"

lemma users_grow_refl: "usr s' = usr s \<Longrightarrow> users_grow s s'"
  by (simp add: users_grow_def active_user_def)

lemma users_grow_upd:
  "usr s' = (usr s)(i \<mapsto> u') \<Longrightarrow> (\<And>u. usr s i = Some u \<Longrightarrow> u_status u = US_ACTIVE \<Longrightarrow> u_status u' = US_ACTIVE) \<Longrightarrow> users_grow s s'"
  by (auto simp: users_grow_def active_user_def)

text \<open>A session stays in order when its membership and its index entries do.\<close>

lemma session_kept:
  assumes "session_ok s sid a" and "users_grow s s'"
    and "\<And>k m. se_membershipId a = Some k \<Longrightarrow> mem s k = Some m \<Longrightarrow> m_status m = MS_ACTIVE \<Longrightarrow>
      \<exists>m'. mem s' k = Some m' \<and> m_organizationId m' = m_organizationId m \<and> m_userId m' = m_userId m \<and> m_status m' = MS_ACTIVE"
    and "indexed s sid a \<Longrightarrow> indexed s' sid a"
  shows "session_ok s' sid a"
proof -
  have "backed s' a" using assms(1,3) by (fastforce simp: session_ok_def backed_def)
  then show ?thesis using assms(1,2,4) by (simp add: session_ok_def users_grow_def)
qed

lemma indexed_same: "same_rest s s' \<Longrightarrow> indexed s' sid a \<longleftrightarrow> indexed s sid a"
  by (simp add: same_rest_def indexed_def)

text \<open>The changes of rows alone.\<close>

lemma rows_ok:
  assumes "accounts_ok s" and "same_rest s s'" and "users_grow s s'"
    and "\<And>i u. usr s' i = Some u \<Longrightarrow> usr s i \<noteq> Some u \<Longrightarrow> settled u"
    and "\<And>k m. mem s' k = Some m \<Longrightarrow> mem s k \<noteq> Some m \<Longrightarrow>
      usr s' (m_userId m) \<noteq> None \<and> (m_status m = MS_ACTIVE \<longrightarrow> active_user s' (m_userId m))"
    and "\<And>k m. mem s k = Some m \<Longrightarrow> m_status m = MS_ACTIVE \<Longrightarrow>
      \<exists>m'. mem s' k = Some m' \<and> m_organizationId m' = m_organizationId m \<and> m_userId m' = m_userId m \<and> m_status m' = MS_ACTIVE"
  shows "accounts_ok s'"
  unfolding accounts_ok_def
proof (intro conjI allI impI ballI)
  show "settled u" if "usr s' i = Some u" for i u using assms(4) that accounts_okD(1) [OF assms(1)] by blast
  show "usr s' (m_userId m) \<noteq> None" "m_status m = MS_ACTIVE \<Longrightarrow> active_user s' (m_userId m)" if "mem s' k = Some m" for k m
    using assms(3,5) that accounts_okD(2,3) [OF assms(1)] unfolding users_grow_def by (metis, metis)
  show "session_ok s' sid a" if "ac_sessions s' sid = Some a" for sid a
  proof (rule session_kept [OF _ assms(3,6)])
    show "session_ok s sid a" using that assms(2) accounts_okD(4) [OF assms(1)] by (simp add: same_rest_def)
    show "indexed s' sid a" if "indexed s sid a" using that assms(2) indexed_same by blast
  qed
  show "active_user s' (rt_userId (snd p))" if "p \<in> set (ac_resetTokens s')" for p
    using that assms(2,3) accounts_okD(5) [OF assms(1)] by (simp add: same_rest_def users_grow_def)
qed

lemma settled_new: "settled (new_user e n)"
  by (simp add: settled_def new_user_def)

lemma settled_kept:
  "settled u \<Longrightarrow> u_status u' = u_status u \<Longrightarrow> u_status u = US_ACTIVE \<Longrightarrow>
     u_passwordHash u' = u_passwordHash u \<or> truthy (u_passwordHash u') \<Longrightarrow> settled u'"
  by (auto simp: settled_def split: if_splits)

lemma activated_ok:
  assumes ok: "accounts_ok s" and m: "mem s k = Some m" "m_status m \<in> {MS_INVITED, MS_PENDING_VERIFICATION}"
    and s': "mem s' = (mem s)(k \<mapsto> activated_row t m)" and u: "usr s (m_userId m) = Some u"
    and us: "if u_status u = US_PENDING_VERIFICATION \<and> \<not> truthy (u_passwordHash u)
      then d \<noteq> [] \<and> usr s' = (usr s)(m_userId m \<mapsto> u\<lparr>u_passwordHash := Some d, u_status := US_ACTIVE, u_emailVerifiedAt := Some t\<rparr>)
      else usr s' = usr s"
    and rest: "same_rest s s'"
  shows "accounts_ok s'"
proof -
  have set_u: "settled u" using accounts_okD(1) [OF ok u] .
  have grow: "users_grow s s'"
    using us by (cases "u_status u = US_PENDING_VERIFICATION \<and> \<not> truthy (u_passwordHash u)")
      (simp_all add: users_grow_refl users_grow_upd)
  have act: "active_user s' (m_userId m)"
    using us u set_u by (auto simp: active_user_def settled_def split: if_splits)
  show ?thesis
  proof (rule rows_ok [OF ok rest grow])
    show "settled v" if "usr s' i = Some v" "usr s i \<noteq> Some v" for i v
      using us that by (auto simp: settled_def split: if_splits)
    show "usr s' (m_userId r) \<noteq> None \<and> (m_status r = MS_ACTIVE \<longrightarrow> active_user s' (m_userId r))"
      if "mem s' i = Some r" "mem s i \<noteq> Some r" for i r
      using that s' act by (auto simp: activated_row_def active_user_def split: if_splits)
    show "\<exists>m'. mem s' i = Some m' \<and> m_organizationId m' = m_organizationId r \<and> m_userId m' = m_userId r \<and> m_status m' = MS_ACTIVE"
      if "mem s i = Some r" "m_status r = MS_ACTIVE" for i r
      using that s' m by (cases "i = k") auto
  qed
qed

lemma opened_ok:
  assumes ok: "accounts_ok s" and same: "mem s' = mem s" "usr s' = usr s" "ac_resetTokens s' = ac_resetTokens s"
    and others: "other_sessions sid s s'" and new: "ac_sessions s' sid = Some a" "backed s a"
    and idx: "indexed s' sid a \<and> (\<exists>u. usr s (se_userId a) = Some u \<and> u_status u = US_ACTIVE) \<or>
      (\<exists>b. ac_sessions s sid = Some b \<and> se_userId b = se_userId a \<and> (indexed s sid b \<longrightarrow> indexed s' sid a))"
  shows "accounts_ok s'"
  unfolding accounts_ok_def
proof (intro conjI)
  have stays: "active_user s' i = active_user s i" for i using same by (simp add: active_user_def)
  have backs: "backed s' b = backed s b" for b using same by (simp add: backed_def)
  show "\<forall>i u. usr s' i = Some u \<longrightarrow> settled u" using accounts_okD(1) [OF ok] same by simp
  show "\<forall>k m. mem s' k = Some m \<longrightarrow> usr s' (m_userId m) \<noteq> None \<and> (m_status m = MS_ACTIVE \<longrightarrow> active_user s' (m_userId m))"
    using accounts_okD(2,3) [OF ok] same stays by simp
  show "\<forall>p \<in> set (ac_resetTokens s'). active_user s' (rt_userId (snd p))" using accounts_okD(5) [OF ok] same stays by simp
  have "session_ok s' x b" if b: "ac_sessions s' x = Some b" for x b
  proof (cases "x = sid")
    case True
    from idx have "indexed s' sid a \<and> active_user s (se_userId a)"
    proof
      assume "\<exists>b. ac_sessions s sid = Some b \<and> se_userId b = se_userId a \<and> (indexed s sid b \<longrightarrow> indexed s' sid a)"
      then obtain b where b: "ac_sessions s sid = Some b" "se_userId b = se_userId a" "indexed s sid b \<longrightarrow> indexed s' sid a"
        by blast
      from accounts_okD(4) [OF ok b(1)] b(2,3) show ?thesis by (simp add: session_ok_def)
    qed (simp add: active_user_def)
    then show ?thesis using b True new by (simp add: session_ok_def stays backs)
  next
    case False
    then have "ac_sessions s x = Some b" and "indexed s' x b = indexed s x b"
      using b others by (auto simp: other_sessions_def indexed_def)
    then show ?thesis using accounts_okD(4) [OF ok] by (simp add: session_ok_def stays backs)
  qed
  then show "\<forall>x b. ac_sessions s' x = Some b \<longrightarrow> session_ok s' x b" by blast
qed

lemma closed_ok:
  assumes ok: "accounts_ok s" and same: "mem s' = mem s" "usr s' = usr s"
    and tokens: "\<And>p. p \<in> set (ac_resetTokens s') \<Longrightarrow> active_user s (rt_userId (snd p))"
    and sessions: "\<And>x b. ac_sessions s' x = Some b \<Longrightarrow> ac_sessions s x = Some b \<and> (indexed s x b \<longrightarrow> indexed s' x b)"
  shows "accounts_ok s'"
proof -
  have stays: "active_user s' i = active_user s i" for i using same by (simp add: active_user_def)
  have backs: "backed s' b = backed s b" for b using same by (simp add: backed_def)
  have "session_ok s' x b" if "ac_sessions s' x = Some b" for x b
    using sessions [OF that] accounts_okD(4) [OF ok, of x b] by (simp add: session_ok_def stays backs)
  moreover have "active_user s' (rt_userId (snd p))" if "p \<in> set (ac_resetTokens s')" for p
    using tokens [OF that] stays by simp
  ultimately show ?thesis
    unfolding accounts_ok_def using accounts_okD(1-3) [OF ok] same stays by simp
qed

lemma revoked_indexed:
  "ac_sessions (revokeAllForUser i s) x = Some b \<Longrightarrow>
     ac_sessions s x = Some b \<and> (indexed s x b \<longrightarrow> indexed (revokeAllForUser i s) x b)"
  "ac_sessions (revokeAllForOrganization i org s) x = Some b \<Longrightarrow>
     ac_sessions s x = Some b \<and> (indexed s x b \<longrightarrow> indexed (revokeAllForOrganization i org s) x b \<and>
       \<not> (se_userId b = i \<and> se_organizationId b = Some org))"
  by (auto simp: revokeAllForUser_def revokeAllForOrganization_def indexed_def split: if_splits)

lemma deactivated_ok:
  assumes ok: "accounts_ok s" and m: "mem s k = Some m" and s1: "mem s1 = (mem s)(k \<mapsto> deactivated_row t u m)"
    and us: "usr s1 = usr s" and rest: "same_rest s s1"
  shows "accounts_ok (revokeAllForOrganization (m_userId m) (m_organizationId m) s1)" (is "accounts_ok ?s")
proof -
  have stays: "active_user ?s i = active_user s i" for i by (simp add: active_user_def us)
  have "session_ok ?s x b" if b: "ac_sessions ?s x = Some b" for x b
  proof -
    have old: "ac_sessions s1 x = Some b" and idx: "indexed s1 x b \<longrightarrow> indexed ?s x b \<and>
        \<not> (se_userId b = m_userId m \<and> se_organizationId b = Some (m_organizationId m))"
      using revoked_indexed(2) [OF b] by blast+
    have ok_b: "session_ok s x b" using old rest accounts_okD(4) [OF ok] by (simp add: same_rest_def)
    then have "indexed s1 x b" using indexed_same [OF rest] by (simp add: session_ok_def)
    then have idx': "indexed ?s x b" "\<not> (se_userId b = m_userId m \<and> se_organizationId b = Some (m_organizationId m))"
      using idx by blast+
    have "backed ?s b"
      unfolding backed_def
    proof (intro allI impI)
      fix org assume org: "se_organizationId b = Some org"
      then obtain j r where j: "se_membershipId b = Some j" "mem s j = Some r" "m_organizationId r = org"
          "m_userId r = se_userId b" "m_status r = MS_ACTIVE"
        using ok_b by (auto simp: session_ok_def backed_def)
      have "j \<noteq> k" using j m idx'(2) org by auto
      then have "mem ?s j = Some r" using j(2) s1 by simp
      then show "\<exists>j r. se_membershipId b = Some j \<and> mem ?s j = Some r \<and> m_organizationId r = org \<and>
          m_userId r = se_userId b \<and> m_status r = MS_ACTIVE" using j by blast
    qed
    then show ?thesis using ok_b idx'(1) stays by (simp add: session_ok_def)
  qed
  moreover have "active_user ?s (rt_userId (snd p))" if "p \<in> set (ac_resetTokens ?s)" for p
    using that rest accounts_okD(5) [OF ok] stays by (simp add: same_rest_def)
  moreover have "usr ?s (m_userId r) \<noteq> None \<and> (m_status r = MS_ACTIVE \<longrightarrow> active_user ?s (m_userId r))"
    if r: "mem ?s i = Some r" for i r
  proof (cases "i = k")
    case True
    then have "r = deactivated_row t u m" using r s1 by simp
    then show ?thesis using accounts_okD(2) [OF ok m] us by (simp add: deactivated_row_def)
  next
    case False
    then have "mem s i = Some r" using r s1 by simp
    then show ?thesis using accounts_okD(2,3) [OF ok] us stays by simp
  qed
  ultimately show ?thesis
    unfolding accounts_ok_def using accounts_okD(1) [OF ok] us by simp
qed

interpretation consistent: account_invariant accounts_ok
proof
  show "accounts_ok s'" if I: "accounts_ok s" and "\<not> used_hash s h" and m: "move h s s'" for s h s'
    using m
  proof cases
    case idle
    then show ?thesis using accounts_okD(1) [OF I] by (intro rows_ok [OF I]) (simp_all add: users_grow_refl)
  next
    case (invited k m)
    have grow: "users_grow s s'" using invited(6) by (auto simp: users_grow_refl elim: users_grow_upd)
    have who: "usr s' (m_userId m) \<noteq> None" using invited(6) by auto
    show ?thesis
    proof (rule rows_ok [OF I invited(7) grow])
      show "settled u" if "usr s' i = Some u" "usr s i \<noteq> Some u" for i u
        using invited(6) that by (auto simp: settled_new split: if_splits)
      show "usr s' (m_userId r) \<noteq> None \<and> (m_status r = MS_ACTIVE \<longrightarrow> active_user s' (m_userId r))"
        if "mem s' i = Some r" "mem s i \<noteq> Some r" for i r
        using that invited(2,3) who by (auto split: if_splits)
      show "\<exists>m'. mem s' i = Some m' \<and> m_organizationId m' = m_organizationId r \<and> m_userId m' = m_userId r \<and> m_status m' = MS_ACTIVE"
        if "mem s i = Some r" "m_status r = MS_ACTIVE" for i r
        using that invited(1,2) by (cases "i = k") auto
    qed
  next
    case (edge k m m')
    have e: "m_userId m' = m_userId m" "m_status m' \<noteq> MS_ACTIVE" "m_status m \<noteq> MS_ACTIVE"
      using edge(3) by (auto simp: edge_def)
    show ?thesis
    proof (rule rows_ok [OF I edge(5) users_grow_refl [OF edge(4)]])
      show "settled u" if "usr s' i = Some u" "usr s i \<noteq> Some u" for i u using edge(4) that by simp
      show "usr s' (m_userId r) \<noteq> None \<and> (m_status r = MS_ACTIVE \<longrightarrow> active_user s' (m_userId r))"
        if "mem s' i = Some r" "mem s i \<noteq> Some r" for i r
        using that edge(2,4) e accounts_okD(2) [OF I edge(1)] by (auto split: if_splits)
      show "\<exists>m'. mem s' i = Some m' \<and> m_organizationId m' = m_organizationId r \<and> m_userId m' = m_userId r \<and> m_status m' = MS_ACTIVE"
        if "mem s i = Some r" "m_status r = MS_ACTIVE" for i r
        using that edge(1,2) e by (cases "i = k") auto
    qed
  next
    case (activated k m t u d)
    show ?thesis by (rule activated_ok [OF I activated])
  next
    case (deactivated k m s1 t u)
    show ?thesis unfolding deactivated(7) by (rule deactivated_ok [OF I deactivated(1,4-6)])
  next
    case (reroled k m roles)
    show ?thesis
    proof (rule rows_ok [OF I reroled(6) users_grow_refl [OF reroled(5)]])
      show "settled u" if "usr s' i = Some u" "usr s i \<noteq> Some u" for i u using reroled(5) that by simp
      show "usr s' (m_userId r) \<noteq> None \<and> (m_status r = MS_ACTIVE \<longrightarrow> active_user s' (m_userId r))"
        if "mem s' i = Some r" "mem s i \<noteq> Some r" for i r
        using that reroled(4,5) accounts_okD(2,3) [OF I reroled(1)] by (auto simp: active_user_def split: if_splits)
      show "\<exists>m'. mem s' i = Some m' \<and> m_organizationId m' = m_organizationId r \<and> m_userId m' = m_userId r \<and> m_status m' = MS_ACTIVE"
        if "mem s i = Some r" "m_status r = MS_ACTIVE" for i r
        using that reroled(1,4) by (cases "i = k") auto
    qed
  next
    case (profile sid a i u u')
    have live: "u_status u = US_ACTIVE" and "settled u"
      using accounts_okD(4) [OF I profile(1)] profile(2,3) accounts_okD(1) [OF I profile(3)]
      by (auto simp: session_ok_def active_user_def)
    then have u': "settled u'" using settled_kept profile(6,7) by blast
    show ?thesis
    proof (rule rows_ok [OF I profile(9)])
      show "users_grow s s'" by (rule users_grow_upd [OF profile(4)]) (use live profile(6) in simp)
      show "settled v" if "usr s' j = Some v" "usr s j \<noteq> Some v" for j v
        using profile(4) that u' by (auto split: if_splits)
    qed (use profile(8) in simp_all)
  next
    case (opened sid a)
    show ?thesis by (rule opened_ok [OF I opened])
  next
    case (closed sid)
    show ?thesis
    proof (rule closed_ok [OF I closed(1,2)])
      show "active_user s (rt_userId (snd p))" if "p \<in> set (ac_resetTokens s')" for p
        using that closed(3) accounts_okD(5) [OF I] by simp
      show "ac_sessions s x = Some b \<and> (indexed s x b \<longrightarrow> indexed s' x b)" if "ac_sessions s' x = Some b" for x b
        using that closed(4,5) by (cases "x = sid") (auto simp: other_sessions_def indexed_def)
    qed
  next
    case (forgotten i u k e t)
    show ?thesis
    proof (rule closed_ok [OF I forgotten(1,2)])
      show "active_user s (rt_userId (snd p))" if "p \<in> set (ac_resetTokens s')" for p
        using that forgotten(6,7,9) accounts_okD(5) [OF I]
        by (fastforce simp: tbl_ins_def tbl_updMany_def active_user_def split: if_splits)
      show "ac_sessions s x = Some b \<and> (indexed s x b \<longrightarrow> indexed s' x b)" if "ac_sessions s' x = Some b" for x b
        using that forgotten(3-5) by (simp add: indexed_def)
    qed
  next
    case (reset s1 i u d P t)
    obtain p where "p \<in> set (ac_resetTokens s)" "rt_userId (snd p) = i" using reset(9) by blast
    then have live: "u_status u = US_ACTIVE" using accounts_okD(5) [OF I, of p] reset(2) by (simp add: active_user_def)
    have grow: "users_grow s s1" by (rule users_grow_upd [OF reset(3)]) (use live in simp)
    have stays: "active_user s1 j" if "active_user s j" for j using grow that by (simp add: users_grow_def)
    have idx: "indexed s1 x b = indexed s x b" for x b using reset(5-7) by (simp add: indexed_def)
    have s1: "accounts_ok s1"
      unfolding accounts_ok_def
    proof (intro conjI)
      show "\<forall>j v. usr s1 j = Some v \<longrightarrow> settled v"
        using reset(3,4) live accounts_okD(1) [OF I] by (auto simp: settled_def)
      show "\<forall>k m. mem s1 k = Some m \<longrightarrow> usr s1 (m_userId m) \<noteq> None \<and> (m_status m = MS_ACTIVE \<longrightarrow> active_user s1 (m_userId m))"
        using reset(1) grow accounts_okD(2,3) [OF I] by (simp add: users_grow_def)
      show "\<forall>x b. ac_sessions s1 x = Some b \<longrightarrow> session_ok s1 x b"
        using reset(1,5) idx stays accounts_okD(4) [OF I] by (simp add: session_ok_def backed_def)
      show "\<forall>p \<in> set (ac_resetTokens s1). active_user s1 (rt_userId (snd p))"
        using accounts_okD(5) [OF I] stays by (fastforce simp: reset(8) tbl_updMany_def split: if_splits)
    qed
    show ?thesis unfolding reset(10)
    proof (rule closed_ok [OF s1])
      show "active_user s1 (rt_userId (snd p))" if "p \<in> set (ac_resetTokens (revokeAllForUser i s1))" for p
        using that accounts_okD(5) [OF s1] by simp
      show "ac_sessions s1 x = Some b \<and> (indexed s1 x b \<longrightarrow> indexed (revokeAllForUser i s1) x b)"
        if "ac_sessions (revokeAllForUser i s1) x = Some b" for x b by (rule revoked_indexed(1) [OF that])
    qed simp_all
  qed
qed

section \<open>Unique keys, links and reset tokens\<close>

definition unique_on :: "('a \<Rightarrow> 'b) \<Rightarrow> (uuid \<Rightarrow> 'a option) \<Rightarrow> bool" where
  "unique_on f M \<longleftrightarrow> (\<forall>k l m n. M k = Some m \<and> M l = Some n \<and> f m = f n \<longrightarrow> k = l)"

lemma unique_onD: "unique_on f M \<Longrightarrow> M k = Some m \<Longrightarrow> M l = Some n \<Longrightarrow> f m = f n \<Longrightarrow> k = l"
  unfolding unique_on_def by blast

lemma unique_on_upd: "unique_on f M \<Longrightarrow> M k = Some m \<Longrightarrow> f m' = f m \<Longrightarrow> unique_on f (M(k \<mapsto> m'))"
  unfolding unique_on_def by (metis fun_upd_apply option.inject)

lemma unique_on_new: "unique_on f M \<Longrightarrow> (\<And>i r. M i = Some r \<Longrightarrow> f r \<noteq> f m) \<Longrightarrow> unique_on f (M(k \<mapsto> m))"
  unfolding unique_on_def by (metis fun_upd_apply option.inject)

text \<open>One membership per user and organization, and one user per address.\<close>

abbreviation member_key :: "membership_row \<Rightarrow> uuid \<times> uuid" where
  "member_key m \<equiv> (m_organizationId m, m_userId m)"

definition keys_ok :: "accounts \<Rightarrow> bool" where
  "keys_ok s \<longleftrightarrow> unique_on member_key (mem s) \<and> unique_on u_email (usr s)"

interpretation unique_keys: account_invariant keys_ok
proof
  show "keys_ok s'" if I: "keys_ok s" and "\<not> used_hash s h" and m: "move h s s'" for s h s'
  proof -
    have M: "unique_on member_key (mem s)" and U: "unique_on u_email (usr s)" using I by (simp_all add: keys_ok_def)
    show ?thesis using m
    proof cases
      case (invited k m)
      have "unique_on u_email (usr s')"
        using invited(6)
      proof (elim disjE exE conjE)
        fix e n assume "usr s' = (usr s)(m_userId m \<mapsto> new_user e n)" "\<forall>i u. usr s i = Some u \<longrightarrow> u_email u \<noteq> e"
        then show ?thesis by (auto intro!: unique_on_new [OF U] simp: new_user_def)
      qed (use U in simp)
      moreover have "unique_on member_key (mem s')"
        unfolding invited(2) by (rule unique_on_new [OF M]) (use invited(5) in auto)
      ultimately show ?thesis by (simp add: keys_ok_def)
    next
      case (edge k m m')
      have "unique_on member_key (mem s')"
        unfolding edge(2) by (rule unique_on_upd [OF M edge(1)]) (use edge(3) in \<open>simp add: edge_def\<close>)
      then show ?thesis using U edge(4) by (simp add: keys_ok_def)
    next
      case (activated k m t u d)
      have "unique_on u_email (usr s')"
        using activated(5) U unique_on_upd [OF U activated(4)]
        by (cases "u_status u = US_PENDING_VERIFICATION \<and> \<not> truthy (u_passwordHash u)") simp_all
      moreover have "unique_on member_key (mem s')"
        unfolding activated(3) by (rule unique_on_upd [OF M activated(1)]) (simp add: activated_row_def)
      ultimately show ?thesis by (simp add: keys_ok_def)
    next
      case (deactivated k m s1 t u)
      have "unique_on member_key (mem s1)"
        unfolding deactivated(4) by (rule unique_on_upd [OF M deactivated(1)]) (simp add: deactivated_row_def)
      then show ?thesis using U deactivated(5,7) by (simp add: keys_ok_def)
    next
      case (reroled k m roles)
      have "unique_on member_key (mem s')"
        unfolding reroled(4) by (rule unique_on_upd [OF M reroled(1)]) simp
      then show ?thesis using U reroled(5) by (simp add: keys_ok_def)
    next
      case (profile sid a i u u')
      have "unique_on u_email (usr s')" unfolding profile(4) by (rule unique_on_upd [OF U profile(3,5)])
      then show ?thesis using M profile(8) by (simp add: keys_ok_def)
    next
      case (reset s1 i u d P t)
      have "unique_on u_email (usr s1)" unfolding reset(3) by (rule unique_on_upd [OF U reset(2)]) simp
      then show ?thesis using M reset(1,10) by (simp add: keys_ok_def)
    qed (use I in \<open>simp_all add: keys_ok_def\<close>)
  qed
qed

text \<open>Only an invitation that waits has a link, and no two have the same.\<close>

definition links_ok :: "accounts \<Rightarrow> bool" where
  "links_ok s \<longleftrightarrow> (\<forall>k m. mem s k = Some m \<and> m_invitationTokenHash m \<noteq> None \<longrightarrow>
       m_status m \<in> {MS_INVITED, MS_EXPIRED, MS_PENDING_VERIFICATION}) \<and>
     (\<forall>h k l m n. mem s k = Some m \<and> mem s l = Some n \<and> m_invitationTokenHash m = Some h \<and>
       m_invitationTokenHash n = Some h \<longrightarrow> k = l)"

lemma links_row:
  assumes I: "links_ok s" and fresh: "\<not> used_hash s h" and s': "mem s' = (mem s)(k \<mapsto> m')"
    and m': "m_invitationTokenHash m' = None \<or> m_status m' \<in> {MS_INVITED, MS_EXPIRED, MS_PENDING_VERIFICATION} \<and>
      (m_invitationTokenHash m' = Some h \<or> (\<exists>m. mem s k = Some m \<and> m_invitationTokenHash m' = m_invitationTokenHash m))"
  shows "links_ok s'"
proof -
  have new: "m_invitationTokenHash r \<noteq> Some h" if "mem s i = Some r" for i r
    using fresh that unfolding used_hash_def by blast
  have uniq: "i = j" if "mem s i = Some x" "mem s j = Some y" "m_invitationTokenHash x = Some g"
      "m_invitationTokenHash y = Some g" for i j x y g
    using I that unfolding links_ok_def by blast
  have other: "j = k" if n: "mem s j = Some n" and g: "m_invitationTokenHash m' = Some g" "m_invitationTokenHash n = Some g" for j n g
  proof -
    have "m_invitationTokenHash m' \<noteq> Some h" using new [OF n] g by auto
    then obtain m where "mem s k = Some m" "m_invitationTokenHash m = Some g" using m' g(1) by auto
    then show ?thesis using uniq [OF n _ g(2)] by blast
  qed
  show ?thesis
    unfolding links_ok_def
  proof (intro conjI allI impI)
    show "m_status r \<in> {MS_INVITED, MS_EXPIRED, MS_PENDING_VERIFICATION}"
      if "mem s' i = Some r \<and> m_invitationTokenHash r \<noteq> None" for i r
      using that I m' unfolding links_ok_def s' by (cases "i = k") auto
    show "i = j" if p: "mem s' i = Some x \<and> mem s' j = Some y \<and> m_invitationTokenHash x = Some g \<and>
        m_invitationTokenHash y = Some g" for g i j x y
    proof -
      consider "i = k" "j = k" | "i = k" "j \<noteq> k" "x = m'" "mem s j = Some y" | "i \<noteq> k" "j = k" "y = m'" "mem s i = Some x"
        | "mem s i = Some x" "mem s j = Some y"
        using p unfolding s' by (cases "i = k"; cases "j = k") auto
      then show ?thesis
        by cases (use p other [of j y g] other [of i x g] uniq [of i x j y g] in blast)+
    qed
  qed
qed

lemma links_same: "links_ok s \<Longrightarrow> mem s' = mem s \<Longrightarrow> links_ok s'"
  by (simp only: links_ok_def)

interpretation links: account_invariant links_ok
proof
  show "links_ok s'" if I: "links_ok s" and fresh: "\<not> used_hash s h" and m: "move h s s'" for s h s'
    using m
  proof cases
    case (invited k m)
    show ?thesis by (rule links_row [OF I fresh invited(2)]) (use invited(3,4) in auto)
  next
    case (edge k m m')
    show ?thesis by (rule links_row [OF I fresh edge(2)]) (use edge(1,3) in \<open>auto simp: edge_def\<close>)
  next
    case (activated k m t u d)
    show ?thesis by (rule links_row [OF I fresh activated(3)]) (simp add: activated_row_def)
  next
    case (deactivated k m s1 t u)
    have none: "m_invitationTokenHash m = None" using I deactivated(1,2) unfolding links_ok_def by force
    have "links_ok s1" by (rule links_row [OF I fresh deactivated(4)]) (simp add: deactivated_row_def none)
    then show ?thesis using deactivated(7) by (simp add: links_same)
  next
    case (reroled k m roles)
    have none: "m_invitationTokenHash m = None" using I reroled(1,2) unfolding links_ok_def by force
    show ?thesis by (rule links_row [OF I fresh reroled(4)]) (simp add: none)
  next
    case (reset s1 i u d P t)
    then show ?thesis using I by (simp add: links_same)
  qed (use I links_same in blast)+
qed

text \<open>A user has at most one reset token that still works, and no two tokens have the same hash.\<close>

definition tokens_ok :: "accounts \<Rightarrow> bool" where
  "tokens_ok s \<longleftrightarrow> (\<forall>p \<in> set (ac_resetTokens s). \<forall>q \<in> set (ac_resetTokens s).
     rt_tokenHash (snd p) = rt_tokenHash (snd q) \<or>
     rt_userId (snd p) = rt_userId (snd q) \<and> rt_usedAt (snd p) = None \<and> rt_usedAt (snd q) = None \<longrightarrow> fst p = fst q)"

lemma tokens_same: "tokens_ok s \<Longrightarrow> ac_resetTokens s' = ac_resetTokens s \<Longrightarrow> tokens_ok s'"
  by (simp only: tokens_ok_def)

lemma updMany_mem: "x \<in> set (tbl_updMany P f t) \<Longrightarrow> \<exists>r. (fst x, r) \<in> set t \<and> snd x = (if P (fst x) r then f r else r)"
  unfolding tbl_updMany_def by (induction t) auto

lemma tokens_marked:
  assumes "tokens_ok s" and "ts = tbl_updMany (\<lambda>_. P) (\<lambda>r. r\<lparr>rt_usedAt := Some t\<rparr>) (ac_resetTokens s)"
    and "p \<in> set ts" and "q \<in> set ts" and "rt_tokenHash (snd p) = rt_tokenHash (snd q) \<or>
      rt_userId (snd p) = rt_userId (snd q) \<and> rt_usedAt (snd p) = None \<and> rt_usedAt (snd q) = None"
  shows "fst p = fst q"
proof -
  have old: "\<exists>r. (fst x, r) \<in> set (ac_resetTokens s) \<and> rt_tokenHash r = rt_tokenHash (snd x) \<and>
      rt_userId r = rt_userId (snd x) \<and> (rt_usedAt (snd x) = None \<longrightarrow> rt_usedAt r = None)" if mem_x: "x \<in> set ts" for x
  proof -
    obtain r where "(fst x, r) \<in> set (ac_resetTokens s)" "snd x = (if P r then r\<lparr>rt_usedAt := Some t\<rparr> else r)"
      using updMany_mem [OF mem_x [unfolded assms(2)]] by blast
    then show ?thesis by (intro exI [of _ r]) simp
  qed
  obtain r where r: "(fst p, r) \<in> set (ac_resetTokens s)" "rt_tokenHash r = rt_tokenHash (snd p)" "rt_userId r = rt_userId (snd p)"
    "rt_usedAt (snd p) = None \<longrightarrow> rt_usedAt r = None" using old [OF assms(3)] by (elim exE conjE) (rule that)
  obtain r' where r': "(fst q, r') \<in> set (ac_resetTokens s)" "rt_tokenHash r' = rt_tokenHash (snd q)" "rt_userId r' = rt_userId (snd q)"
    "rt_usedAt (snd q) = None \<longrightarrow> rt_usedAt r' = None" using old [OF assms(4)] by (elim exE conjE) (rule that)
  have "fst (fst p, r) = fst (fst q, r')"
    using assms(1) [unfolded tokens_ok_def, rule_format, OF r(1) r'(1)] assms(5) r r' by auto
  then show ?thesis by simp
qed

interpretation tokens: account_invariant tokens_ok
proof
  show "tokens_ok s'" if I: "tokens_ok s" and fresh: "\<not> used_hash s h" and m: "move h s s'" for s h s'
    using m
  proof cases
    case (forgotten i u k e t)
    let ?ts = "tbl_updMany (\<lambda>_ r. rt_userId r = i \<and> rt_usedAt r = None) (\<lambda>r. r\<lparr>rt_usedAt := Some t\<rparr>) (ac_resetTokens s)"
    have other: "rt_tokenHash (snd p) \<noteq> h \<and> \<not> (rt_userId (snd p) = i \<and> rt_usedAt (snd p) = None)" if mem_p: "p \<in> set ?ts" for p
    proof -
      obtain r where r: "(fst p, r) \<in> set (ac_resetTokens s)"
          and p: "snd p = (if rt_userId r = i \<and> rt_usedAt r = None then r\<lparr>rt_usedAt := Some t\<rparr> else r)"
        using updMany_mem [OF mem_p] by blast
      have "rt_tokenHash r \<noteq> h" using fresh r unfolding used_hash_def by force
      then show ?thesis using p by (auto split: if_splits)
    qed
    let ?new = "(k, \<lparr>rt_userId = i, rt_tokenHash = h, rt_expiresAt = e, rt_usedAt = None\<rparr>)"
    have tokens: "set (ac_resetTokens s') = insert ?new (set ?ts)" by (simp add: forgotten(9) tbl_ins_def)
    show ?thesis
      unfolding tokens_ok_def tokens
    proof (intro ballI impI)
      fix p q
      assume pq: "p \<in> insert ?new (set ?ts)" "q \<in> insert ?new (set ?ts)"
        and same: "rt_tokenHash (snd p) = rt_tokenHash (snd q) \<or>
          rt_userId (snd p) = rt_userId (snd q) \<and> rt_usedAt (snd p) = None \<and> rt_usedAt (snd q) = None"
      consider "p = ?new" "q = ?new" | "p = ?new" "q \<in> set ?ts" | "p \<in> set ?ts" "q = ?new" | "p \<in> set ?ts" "q \<in> set ?ts"
        using pq by blast
      then show "fst p = fst q"
      proof cases
        case 2
        then show ?thesis using other [of q] same by auto
      next
        case 3
        then show ?thesis using other [of p] same by auto
      next
        case 4
        show ?thesis by (rule tokens_marked [OF I refl 4 same])
      qed simp
    qed
  next
    case (reset s1 i u d P t)
    have same: "ac_resetTokens s' = ac_resetTokens s1" by (simp add: reset(10))
    show ?thesis
      unfolding tokens_ok_def same by (intro ballI impI) (rule tokens_marked [OF I reset(8)])
  next
    case (deactivated k m s1 t u)
    then show ?thesis by (simp add: tokens_same [OF I] same_rest_def)
  qed (simp_all add: tokens_same [OF I] same_rest_def)
qed

end
