(* ===== verification/AccountScenario.thy ===== *)
theory AccountScenario
  imports AccountStates Example
begin

text \<open>
  Deployments from their first day, and one of them run step by step: the platform's super admin logs
  in and creates an organization, its first admin verifies the account and logs in, invites a
  dispatcher, cancels the invitation, and forgets the password. The witnesses of AccountProperties are
  taken from it.
\<close>

section \<open>Deployments\<close>

text \<open>A deployment starts with its platform's own users and nothing else of theirs.\<close>

definition accounts_start :: "accounts \<Rightarrow> bool" where
  "accounts_start s \<longleftrightarrow> accounts_wf s \<and> memberships (ac_db s) = [] \<and> ac_resetTokens s = [] \<and>
     ac_sessions s = (\<lambda>_. None) \<and> (\<forall>(i, u) \<in> set (ac_users s). settled u) \<and> distinct (map (\<lambda>(i, u). u_email u) (ac_users s))"

inductive account_reachable :: "(string \<Rightarrow> instant) \<Rightarrow> accounts \<Rightarrow> bool" for pd where
  start: "accounts_start s \<Longrightarrow> account_reachable pd s"
| step: "account_reachable pd s \<Longrightarrow> account_step pd s s' \<Longrightarrow> account_reachable pd s'"

lemma start_ok:
  assumes "accounts_start s"
  shows "accounts_wf s \<and> accounts_ok s \<and> keys_ok s \<and> links_ok s \<and> tokens_ok s"
proof -
  have wf: "accounts_wf s" using assms by (simp add: accounts_start_def)
  have none: "mem s = (\<lambda>_. None)" using assms by (simp add: accounts_start_def mem_def tbl_find_def fun_eq_iff)
  have users: "settled u" if "usr s i = Some u" for i u
    using assms that usr_iff_set [OF wf] by (auto simp: accounts_start_def)
  have "i = j" if "usr s i = Some u" "usr s j = Some v" "u_email u = u_email v" for i j u v
  proof -
    have "(i, u) \<in> set (ac_users s)" "(j, v) \<in> set (ac_users s)" using that usr_iff_set [OF wf] by auto
    moreover have "inj_on (\<lambda>(i, u). u_email u) (set (ac_users s))"
      using assms by (simp add: accounts_start_def distinct_map)
    ultimately show ?thesis using that(3) unfolding inj_on_def by fastforce
  qed
  then have "unique_on u_email (usr s)" unfolding unique_on_def by blast
  then show ?thesis
    using assms wf none users
    by (auto simp: accounts_start_def accounts_ok_def keys_ok_def links_ok_def tokens_ok_def unique_on_def)
qed

lemma reachable_accounts:
  "account_reachable pd s \<Longrightarrow> accounts_wf s \<and> accounts_ok s \<and> keys_ok s \<and> links_ok s \<and> tokens_ok s"
proof (induction rule: account_reachable.induct)
  case (start s)
  then show ?case by (rule start_ok)
next
  case (step s s')
  then show ?case
    using account_step_wf consistent.across_step unique_keys.across_step links.across_step tokens.across_step by blast
qed

lemma reachable_run: "rtranclp (account_step pd) s s' \<Longrightarrow> account_reachable pd s \<Longrightarrow> account_reachable pd s'"
  by (induction rule: rtranclp_induct) (auto intro: account_reachable.step)

section \<open>A run\<close>

definition demo_crypto :: "string \<Rightarrow> crypto" where
  "demo_crypto raw = \<lparr>cr_rawToken = raw, cr_sha256 = (\<lambda>t. CHR ''#'' # t), cr_digest = (\<lambda>p. CHR ''$'' # p),
     cr_compare = (\<lambda>p d. d = CHR ''$'' # p), cr_appBaseUrl = ''https://tms.test''\<rparr>"

definition root_user :: user_row where
  "root_user = \<lparr>u_email = ''root@tms.test'', u_passwordHash = Some ''$secret'', u_name = ''Root'', u_isPlatformSuperAdmin = True,
     u_status = US_ACTIVE, u_emailVerifiedAt = Some 0\<rparr>"

definition scene0 :: accounts where
  "scene0 = \<lparr>ac_world = demo_world\<lparr>w_db := demo_db\<lparr>organizations := [], memberships := []\<rparr>\<rparr>, ac_users = [(5, root_user)],
     ac_resetTokens = [], ac_sessions = (\<lambda>_. None), ac_orgIndex = (\<lambda>_. {}), ac_userIndex = (\<lambda>_. {})\<rparr>"

definition acme :: create_organization_dto where
  "acme = \<lparr>co_legalName = ''Acme'', co_addressLine1 = ''1 Main St'', co_city = ''Omaha'', co_state = ''NE'', co_zip = ''68101'',
     co_country = None, co_primaryContactName = ''Ann'', co_primaryContactEmail = ''ann@acme.test'',
     co_primaryContactPhone = ''1'', co_demo = False\<rparr>"

definition turn :: "string \<Rightarrow> string \<Rightarrow> account_request \<Rightarrow> accounts \<Rightarrow> accounts" where
  "turn raw sid req s = snd (serve_account (demo_crypto raw) sid req (account_clock (clock (ac_db s)) None s))"

definition scene1 :: accounts where
  "scene1 = turn ''t0'' ''S0'' (Login ''root@tms.test'' ''secret'') scene0"

definition scene2 :: accounts where
  "scene2 = turn ''t1'' ''S0'' (CreateOrganization acme) scene1"

definition scene3 :: accounts where
  "scene3 = turn ''t2'' ''S1'' (ActivateMembership ''t1'' (Some ''password10'')) scene2"

definition scene4 :: accounts where
  "scene4 = turn ''t3'' ''S1'' (Login ''ann@acme.test'' ''password10'') scene3"

definition scene5 :: accounts where
  "scene5 = turn ''t4'' ''S1'' (InviteMember ''bob@acme.test'' [DISPATCHER]) scene4"

definition scene6 :: accounts where
  "scene6 = turn ''t5'' ''S1'' (CancelInvitation 104) scene5"

definition scene7 :: accounts where
  "scene7 = turn ''t6'' ''S2'' (ForgotPassword ''ann@acme.test'') scene4"

text \<open>The rows after each request.\<close>

definition day0 :: instant where
  "day0 = 1700000000000"

definition ann :: user_row where
  "ann = (new_user ''ann@acme.test'' ''Ann'')\<lparr>u_passwordHash := Some ''$password10'', u_status := US_ACTIVE,
     u_emailVerifiedAt := Some day0\<rparr>"

definition ann_pending :: membership_row where
  "ann_pending = (initial_admin_row 100 101 False day0 ''#t1'')\<lparr>m_roles := [ADMIN]\<rparr>"

definition bob_invited :: membership_row where
  "bob_invited = (invited_row 100 103 101 day0 ''#t4'')\<lparr>m_roles := [DISPATCHER]\<rparr>"

definition bob_cancelled :: membership_row where
  "bob_cancelled = bob_invited\<lparr>m_status := MS_CANCELLED, m_invitationTokenHash := None\<rparr>"

definition rows_are :: "(uuid \<times> user_row) list \<Rightarrow> (uuid \<times> membership_row) list \<Rightarrow> (uuid \<times> reset_token_row) list \<Rightarrow> accounts \<Rightarrow> bool" where
  "rows_are us ms ts s \<longleftrightarrow> ac_users s = us \<and> memberships (ac_db s) = ms \<and> ac_resetTokens s = ts"

lemma scene0_rows: "rows_are [(5, root_user)] [] [] scene0"
  by code_simp

lemma scene1_rows: "rows_are [(5, root_user)] [] [] scene1"
  by code_simp

lemma scene2_rows: "rows_are [(5, root_user), (101, new_user ''ann@acme.test'' ''Ann'')] [(102, ann_pending)] [] scene2"
  by code_simp

lemma scene3_rows: "rows_are [(5, root_user), (101, ann)] [(102, activated_row day0 ann_pending)] [] scene3"
  by code_simp

lemma scene4_rows: "rows_are [(5, root_user), (101, ann)] [(102, activated_row day0 ann_pending)] [] scene4"
  by code_simp

lemma scene5_rows:
  "rows_are [(5, root_user), (101, ann), (103, new_user ''bob@acme.test'' ''bob@acme.test'')]
     [(102, activated_row day0 ann_pending), (104, bob_invited)] [] scene5"
  by code_simp

lemma scene6_rows:
  "rows_are [(5, root_user), (101, ann), (103, new_user ''bob@acme.test'' ''bob@acme.test'')]
     [(102, activated_row day0 ann_pending), (104, bob_cancelled)] [] scene6"
  by code_simp

lemma scene7_rows:
  "rows_are [(5, root_user), (101, ann)] [(102, activated_row day0 ann_pending)]
     [(103, \<lparr>rt_userId = 101, rt_tokenHash = ''#t6'', rt_expiresAt = day0 + RESET_TOKEN_TTL_MS, rt_usedAt = None\<rparr>)] scene7"
  by code_simp

lemma scene4_session: "ac_sessions scene4 ''S1'' = Some \<lparr>se_userId = 101, se_organizationId = Some 100,
    se_membershipId = Some 102, se_roles = Some [ADMIN]\<rparr>"
  by code_simp

text \<open>Every scene is reachable.\<close>

lemma free_hash:
  assumes "rows_are us ms ts s" and "\<forall>(k, m) \<in> set ms. m_invitationTokenHash m \<noteq> Some h"
    and "\<forall>(k, r) \<in> set ts. rt_tokenHash r \<noteq> h"
  shows "\<not> used_hash s h"
  using assms unfolding used_hash_def rows_are_def mem_def tbl_find_def by (auto dest!: map_of_SomeD)

lemma turn_step:
  assumes "rows_are us ms ts s" and "\<forall>(k, m) \<in> set ms. m_invitationTokenHash m \<noteq> Some (CHR ''#'' # raw)"
    and "\<forall>(k, r) \<in> set ts. rt_tokenHash r \<noteq> CHR ''#'' # raw"
  shows "account_step pd s (turn raw sid req s)"
proof -
  have "lawful_crypto (demo_crypto raw) s"
    using free_hash [OF assms] by (simp add: lawful_crypto_def demo_crypto_def)
  then show ?thesis unfolding turn_def by (intro account_step.identity) simp
qed

lemma scene0_start: "accounts_start scene0"
proof -
  have "wf_db (ac_db scene0)" using demo_wf by (simp add: scene0_def ac_db_def demo_world_def wf_db_def)
  then show ?thesis
    by (simp add: accounts_start_def accounts_wf_def scene0_def ac_db_def demo_world_def demo_db_def blank_db_def
        table_ok_def settled_def root_user_def)
qed

lemmas free_token = ann_pending_def initial_admin_row_def activated_row_def bob_invited_def invited_row_def

lemma step1: "account_step pd scene0 scene1"
  unfolding scene1_def by (rule turn_step [OF scene0_rows]) simp_all

lemma step2: "account_step pd scene1 scene2"
  unfolding scene2_def by (rule turn_step [OF scene1_rows]) simp_all

lemma step3: "account_step pd scene2 scene3"
  unfolding scene3_def by (rule turn_step [OF scene2_rows]) (simp_all add: free_token)

lemma step4: "account_step pd scene3 scene4"
  unfolding scene4_def by (rule turn_step [OF scene3_rows]) (simp_all add: free_token)

lemma step5: "account_step pd scene4 scene5"
  unfolding scene5_def by (rule turn_step [OF scene4_rows]) (simp_all add: free_token)

lemma step6: "account_step pd scene5 scene6"
  unfolding scene6_def by (rule turn_step [OF scene5_rows]) (simp_all add: free_token)

lemma step7: "account_step pd scene4 scene7"
  unfolding scene7_def by (rule turn_step [OF scene4_rows]) (simp_all add: free_token)

lemma scene2_reachable: "account_reachable pd scene2"
  by (rule account_reachable.step [OF account_reachable.step [OF account_reachable.start [OF scene0_start] step1] step2])

lemma scene4_reachable: "account_reachable pd scene4"
  by (rule account_reachable.step [OF account_reachable.step [OF scene2_reachable step3] step4])

lemma scene6_reachable: "account_reachable pd scene6"
  by (rule account_reachable.step [OF account_reachable.step [OF scene4_reachable step5] step6])

lemma scene7_reachable: "account_reachable pd scene7"
  by (rule account_reachable.step [OF scene4_reachable step7])

lemma scene_views:
  "mem scene2 102 = Some ann_pending" "mem scene4 102 = Some (activated_row day0 ann_pending)" "usr scene4 101 = Some ann"
  "mem scene6 104 = Some bob_cancelled" "usr scene6 103 = Some (new_user ''bob@acme.test'' ''bob@acme.test'')"
  using scene2_rows scene4_rows scene6_rows by (simp_all add: rows_are_def mem_def usr_def tbl_find_def)

end
