(* ===== verification/AccountProperties.thy ===== *)
theory AccountProperties
  imports AccountScenario
begin

text \<open>
  Properties of users, memberships and sessions: an organization keeps an admin, sessions belong to
  active members, invitations and resets work once, and where the membership code is at odds with
  docs/workflows/01-organization-user-onboarding.md.
\<close>

section \<open>Lookups\<close>

lemma first_unique:
  assumes "table_ok n t" and "tbl_find i t = Some r" and "P i r"
    and "\<And>j q. tbl_find j t = Some q \<Longrightarrow> P j q \<Longrightarrow> j = i"
  shows "tbl_first P t = Some (i, r)"
proof (cases "tbl_first P t")
  case None
  have "(i, r) \<in> set t" using tbl_find_iff_set [OF assms(1)] assms(2) by blast
  then show ?thesis using None assms(3) by (auto simp: tbl_first_None_iff)
next
  case (Some x)
  obtain j q where x: "x = (j, q)" by (cases x)
  have q: "(j, q) \<in> set t" "P j q" using tbl_first_SomeD [OF Some [unfolded x]] by simp_all
  then have find: "tbl_find j t = Some q" using tbl_find_iff_set [OF assms(1)] by blast
  then have "j = i" by (rule assms(4)) (rule q(2))
  then show ?thesis using Some x find assms(2) by simp
qed

lemma user_of_email:
  assumes "accounts_wf s" and "keys_ok s" and "usr s i = Some u"
  shows "tbl_first (\<lambda>_ v. u_email v = u_email u) (ac_users s) = Some (i, u)"
proof (rule first_unique [of "next_id (ac_db s)"])
  show "j = i" if "tbl_find j (ac_users s) = Some v" "u_email v = u_email u" for j v
    using assms(2,3) that unique_onD [of u_email "usr s" j v i u] by (simp add: keys_ok_def usr_def)
qed (use assms in \<open>auto simp: accounts_wf_def usr_def\<close>)

lemma member_of_user:
  assumes "accounts_wf s" and "keys_ok s" and "mem s k = Some m" and "m_status m = MS_ACTIVE"
  shows "tbl_first (\<lambda>_ r. m_organizationId r = m_organizationId m \<and> m_userId r = m_userId m \<and> m_status r = MS_ACTIVE)
      (memberships (ac_db s)) = Some (k, m)"
    and "tbl_first (\<lambda>_ r. m_userId r = m_userId m \<and> m_organizationId r = m_organizationId m \<and> m_status r = MS_ACTIVE)
      (memberships (ac_db s)) = Some (k, m)"
proof -
  have u: "j = k" if "tbl_find j (memberships (ac_db s)) = Some r" "m_organizationId r = m_organizationId m" "m_userId r = m_userId m"
    for j r using assms(2,3) that unique_onD [of member_key "mem s" j r k m] by (simp add: keys_ok_def mem_def)
  have t: "table_ok (next_id (ac_db s)) (memberships (ac_db s))" using assms(1) by (simp add: accounts_wf_def wf_db_def)
  have row: "tbl_find k (memberships (ac_db s)) = Some m" using assms(3) by (simp add: mem_def)
  show "tbl_first (\<lambda>_ r. m_organizationId r = m_organizationId m \<and> m_userId r = m_userId m \<and> m_status r = MS_ACTIVE)
      (memberships (ac_db s)) = Some (k, m)"
    by (rule first_unique [OF t row]) (simp add: assms(4), elim conjE, rule u)
  show "tbl_first (\<lambda>_ r. m_userId r = m_userId m \<and> m_organizationId r = m_organizationId m \<and> m_status r = MS_ACTIVE)
      (memberships (ac_db s)) = Some (k, m)"
    by (rule first_unique [OF t row]) (simp add: assms(4), elim conjE, rule u)
qed

lemma member_of_key:
  assumes "accounts_wf s" and "keys_ok s" and "mem s k = Some m"
  shows "tbl_first (\<lambda>_ r. m_organizationId r = m_organizationId m \<and> m_userId r = m_userId m) (memberships (ac_db s)) = Some (k, m)"
proof (rule first_unique [of "next_id (ac_db s)"])
  show "j = k" if "tbl_find j (memberships (ac_db s)) = Some r" "m_organizationId r = m_organizationId m \<and> m_userId r = m_userId m"
    for j r using assms(2,3) that unique_onD [of member_key "mem s" j r k m] by (simp add: keys_ok_def mem_def)
qed (use assms in \<open>auto simp: accounts_wf_def wf_db_def mem_def\<close>)

lemma roles_of_member:
  "accounts_wf s \<Longrightarrow> keys_ok s \<Longrightarrow> mem s k = Some m \<Longrightarrow> m_status m = MS_ACTIVE \<Longrightarrow>
     roles_of (m_organizationId m) (m_userId m) (ac_db s) = m_roles m"
  by (simp add: roles_of_def member_of_user)

lemma member_of_link:
  assumes "accounts_wf s" and "links_ok s" and "mem s k = Some m" and "m_invitationTokenHash m = Some h"
  shows "tbl_first (\<lambda>_ r. m_invitationTokenHash r = Some h) (memberships (ac_db s)) = Some (k, m)"
proof (rule first_unique [of "next_id (ac_db s)"])
  show "j = k" if "tbl_find j (memberships (ac_db s)) = Some r" "m_invitationTokenHash r = Some h" for j r
    using assms(2-4) that unfolding links_ok_def mem_def by blast
qed (use assms in \<open>auto simp: accounts_wf_def wf_db_def mem_def\<close>)

section \<open>Admins\<close>

text \<open>
  C9. An organization that has an active admin always has one, whatever requests are served: nobody
  can deactivate the last one or take the role from him.
\<close>

theorem last_admin_stays:
  assumes "rtranclp (account_step pd) s s'" and "accounts_wf s" and "has_admin org s"
  shows "has_admin org s'"
  by (rule admins.kept [OF assms])

lemma scene4_admin: "has_admin 100 scene4"
  unfolding has_admin_def by (rule exI [of _ 102], rule exI [of _ "activated_row day0 ann_pending"])
    (simp add: scene_views activated_row_def ann_pending_def initial_admin_row_def)

theorem last_admin_stays_witness: "has_admin 100 scene6"
proof (rule last_admin_stays [of "\<lambda>_. 0" scene4])
  show "rtranclp (account_step (\<lambda>_. 0)) scene4 scene6"
    by (rule rtranclp.rtrancl_into_rtrancl [OF r_into_rtranclp [of "account_step (\<lambda>_. 0)", OF step5] step6])
  show "accounts_wf scene4" using reachable_accounts [OF scene4_reachable] by blast
qed (rule scene4_admin)

text \<open>The transaction of a deactivation: what it reads, then what it writes.\<close>

definition deactivate_check :: "uuid \<Rightarrow> uuid \<Rightarrow> uuid \<Rightarrow> uuid atx" where
  "deactivate_check organizationId membershipId actingUserId =
     andThen (assertHasRole organizationId actingUserId ADMIN)
     (bind (in_db (requireMembershipTx organizationId membershipId)) (\<lambda>target.
      andThen (throw_if (m_status target \<noteq> MS_ACTIVE) (BusinessRuleError ''Only an active member can be deactivated.''))
      (andThen (run_when (ADMIN \<in> set (m_roles target)) (in_db (guard_last_admin organizationId membershipId
          (''User Deactivation Blocked '' @ dash @ '' Last Active Admin'')
          (last_admin_message (m_userId target = actingUserId) ''deactivate your own account'' ''deactivate this user'') actingUserId)))
      (ret (m_userId target)))))"

definition deactivate_write :: "uuid \<Rightarrow> uuid \<Rightarrow> uuid \<Rightarrow> uuid \<Rightarrow> uuid atx" where
  "deactivate_write organizationId membershipId actingUserId userId =
     bind (in_db now) (\<lambda>t.
     andThen (in_db (update memberships memberships_update membershipId (\<lambda>m. m\<lparr>m_status := MS_INACTIVE,
        m_deactivatedAt := Some t, m_deactivatedByUserId := Some actingUserId\<rparr>)))
     (andThen (in_db (audit_record (membership_event organizationId ''User Deactivated'' membershipId None None actingUserId)))
     (ret userId)))"

lemma deactivate_split: "deactivate_tx org k u = bind (deactivate_check org k u) (deactivate_write org k u)"
  unfolding deactivate_tx_def deactivate_check_def deactivate_write_def
  by (simp add: tx_assoc bind_def andThen_def ret_def fun_eq_iff split: sum.split prod.split)

text \<open>
  C36. The count of the other admins does not close the race its comment says it closes. No row is
  locked, so two deactivations can both count before either writes: then each of the last two admins
  deactivates the other, both succeed, and the organization has no admin.
\<close>

theorem admin_race:
  assumes "accounts_wf s" and "mem s k = Some m" and "mem s l = Some n" and "k \<noteq> l"
    and "m_organizationId m = org" and "m_status m = MS_ACTIVE" and "ADMIN \<in> set (m_roles m)"
    and "m_organizationId n = org" and "m_status n = MS_ACTIVE" and "ADMIN \<in> set (m_roles n)"
    and "\<And>i r. mem s i = Some r \<Longrightarrow> m_organizationId r = org \<Longrightarrow> m_status r = MS_ACTIVE \<Longrightarrow> ADMIN \<in> set (m_roles r) \<Longrightarrow> i \<in> {k, l}"
    and "ADMIN \<in> set (roles_of org (m_userId m) (ac_db s))" and "ADMIN \<in> set (roles_of org (m_userId n) (ac_db s))"
  shows "deactivate_check org l (m_userId m) s = Inr (m_userId n, s) \<and> deactivate_check org k (m_userId n) s = Inr (m_userId m, s) \<and>
    (\<exists>s1 s2. deactivate_write org l (m_userId m) (m_userId n) s = Inr (m_userId n, s1) \<and>
      deactivate_write org k (m_userId n) (m_userId m) s1 = Inr (m_userId m, s2) \<and> \<not> has_admin org s2)"
proof -
  have others: "otherActiveAdminCount org l (ac_db s) \<noteq> 0" "otherActiveAdminCount org k (ac_db s) \<noteq> 0"
    unfolding other_admin_iff [OF assms(1)] not_not other_admin_def
    by (rule exI [of _ k], rule exI [of _ m], simp add: assms(2,4,5-7))
       (rule exI [of _ l], rule exI [of _ n], use assms(3,4,8-10) in simp)
  have checks: "deactivate_check org l (m_userId m) s = Inr (m_userId n, s)" "deactivate_check org k (m_userId n) s = Inr (m_userId m, s)"
    using assms(2,3) [unfolded mem_def] assms(5,6,8,9,12,13) others
    by (simp_all add: deactivate_check_def tx_iff guarded_iff del: run_when_iff)
  let ?f = "\<lambda>u m. m\<lparr>m_status := MS_INACTIVE, m_deactivatedAt := Some (clock (ac_db s)), m_deactivatedByUserId := Some u\<rparr>"
  obtain s1 where s1: "deactivate_write org l (m_userId m) (m_userId n) s = Inr (m_userId n, s1)"
    and ms1: "memberships (ac_db s1) = tbl_upd l (?f (m_userId m)) (memberships (ac_db s))" "clock (ac_db s1) = clock (ac_db s)"
    using assms(3) by (auto simp: deactivate_write_def tx_iff mem_def)
  have k1: "tbl_find k (memberships (ac_db s1)) = Some m" using assms(2,4) ms1 by (simp add: tbl_find_upd mem_def)
  obtain s2 where s2: "deactivate_write org k (m_userId n) (m_userId m) s1 = Inr (m_userId m, s2)"
    and ms2: "memberships (ac_db s2) = tbl_upd k (?f (m_userId n)) (memberships (ac_db s1))"
    using k1 ms1(2) by (auto simp: deactivate_write_def tx_iff)
  have "\<not> has_admin org s2"
    using assms(11) by (auto simp: has_admin_def mem_def ms1 ms2 tbl_find_upd split: if_splits option.splits)
  then show ?thesis using checks s1 s2 by blast
qed

definition two_admins :: accounts where
  "two_admins = scene0\<lparr>ac_world := demo_world\<lparr>w_db := demo_db\<lparr>memberships := [(10, demo_member 7 [ADMIN]), (11, demo_member 8 [ADMIN])]\<rparr>\<rparr>\<rparr>"

lemma two_admins_wf: "accounts_wf two_admins"
proof -
  have "wf_db (ac_db two_admins)" using demo_wf by (simp add: two_admins_def ac_db_def demo_world_def wf_db_def demo_db_def table_ok_def blank_db_def)
  then show ?thesis
    by (simp add: accounts_wf_def two_admins_def scene0_def ac_db_def demo_world_def demo_db_def blank_db_def table_ok_def)
qed

theorem admin_race_witness:
  "\<exists>s1 s2. deactivate_check 1 11 7 two_admins = Inr (8, two_admins) \<and> deactivate_check 1 10 8 two_admins = Inr (7, two_admins) \<and>
    deactivate_write 1 11 7 8 two_admins = Inr (8, s1) \<and> deactivate_write 1 10 8 7 s1 = Inr (7, s2) \<and> \<not> has_admin 1 s2"
proof -
  have rows: "mem two_admins i = (if i = 10 then Some (demo_member 7 [ADMIN]) else if i = 11 then Some (demo_member 8 [ADMIN]) else None)" for i
    by (simp add: two_admins_def mem_def ac_db_def demo_world_def tbl_find_def)
  have roles: "roles_of 1 7 (ac_db two_admins) = [ADMIN]" "roles_of 1 8 (ac_db two_admins) = [ADMIN]"
    by (simp_all add: two_admins_def roles_of_def ac_db_def demo_world_def tbl_first_def demo_member_def)
  have only: "i \<in> {10, 11}" if "mem two_admins i = Some r" for i r using that rows by (auto split: if_splits)
  have row: "m_organizationId (demo_member i [ADMIN]) = 1" "m_userId (demo_member i [ADMIN]) = i"
    "m_status (demo_member i [ADMIN]) = MS_ACTIVE" "ADMIN \<in> set (m_roles (demo_member i [ADMIN]))" for i
    by (simp_all add: demo_member_def)
  show ?thesis
    using admin_race [OF two_admins_wf, of 10 "demo_member 7 [ADMIN]" 11 "demo_member 8 [ADMIN]" 1, OF _ _ _ row(1,3,4) row(1,3,4) only]
      rows roles unfolding row(2) by simp
qed

section \<open>Sessions\<close>



lemma login_succeeds:
  assumes "accounts_wf s" and "accounts_ok s" and "keys_ok s" and "usr s i = Some u" and "u_status u = US_ACTIVE"
    and "cr_compare cr pw (the (u_passwordHash u))"
  shows "\<exists>x s' a. login cr sid (u_email u) pw s = (Inr x, s') \<and> ac_sessions s' sid = Some a \<and> se_userId a = i \<and> ac_db s' = ac_db s"
proof -
  have "truthy (u_passwordHash u)" using accounts_okD(1) [OF assms(2,4)] assms(5) by (simp add: settled_def)
  then have "\<exists>a rest. auth_login cr (u_email u) pw s = Inr ((a, rest), s) \<and> se_userId a = i"
    using user_of_email [OF assms(1,3,4)] assms(5,6)
    by (cases "active_memberships i (ac_db s)" rule: remdups_adj.cases)
       (auto simp: auth_login_def tx_run findByEmail_def organization_session_def user_session_def)
  then obtain a pending orgs where "auth_login cr (u_email u) pw s = Inr ((a, pending, orgs), s)" and "se_userId a = i"
    by auto
  then show ?thesis
    by (auto simp: login_def commit_def recordActiveOrganization_def recordSession_def set_session_def ac_db_def Let_def
        split: option.split)
qed

text \<open>
  C15. An active member can always get to work: with the right password he logs in, whatever session
  he came with, and can then select the organization, which gives his session the roles he has now.
\<close>

theorem active_member_logs_in:
  assumes "account_reachable pd s" and "mem s k = Some m" and "m_status m = MS_ACTIVE" and "usr s (m_userId m) = Some u"
    and "cr_compare cr pw (the (u_passwordHash u))"
  shows "\<exists>x s1 s2. login cr sid (u_email u) pw s = (Inr x, s1) \<and>
    selectOrganization sid (m_organizationId m) s1 = (Inr (Some (m_roles m)), s2) \<and>
    ac_sessions s2 sid = Some \<lparr>se_userId = m_userId m, se_organizationId = Some (m_organizationId m),
      se_membershipId = Some k, se_roles = Some (m_roles m)\<rparr>"
proof -
  note ok = reachable_accounts [OF assms(1)]
  have live: "u_status u = US_ACTIVE" using accounts_okD(3) ok assms(2-4) by (fastforce simp: active_user_def)
  obtain x s1 a where login: "login cr sid (u_email u) pw s = (Inr x, s1)"
    and a: "ac_sessions s1 sid = Some a" "se_userId a = m_userId m" "ac_db s1 = ac_db s"
    using login_succeeds [of s "m_userId m" u cr pw sid] ok assms(4,5) live by blast
  have roles: "roles_of (m_organizationId m) (m_userId m) (ac_db s1) = m_roles m"
    using roles_of_member ok assms(2,3) a(3) by simp
  have look: "tbl_first (\<lambda>_ r. m_userId r = m_userId m \<and> m_organizationId r = m_organizationId m \<and> m_status r = MS_ACTIVE)
      (memberships (ac_db s1)) = Some (k, m)"
    using member_of_user(2) [of s k m] ok assms(2,3) a(3) by simp
  have "resolveOrganizationSession (m_userId m) (m_organizationId m) s1 =
      Inr (organization_session (m_userId m) (m_organizationId m) k (ac_db s1), s1)"
    by (simp add: resolveOrganizationSession_def tx_run look)
  then have "selectOrganization sid (m_organizationId m) s1 = (Inr (Some (m_roles m)),
      recordActiveOrganization sid (m_userId m) (m_organizationId m) (se_organizationId a)
        (set_session sid (Some \<lparr>se_userId = m_userId m, se_organizationId = Some (m_organizationId m),
          se_membershipId = Some k, se_roles = Some (m_roles m)\<rparr>) s1))"
    using a roles by (simp add: selectOrganization_def commit_def organization_session_def)
  then show ?thesis using login by (auto simp: recordActiveOrganization_def set_session_def Let_def split: option.split)
qed

theorem active_member_logs_in_witness:
  "\<exists>x s1 s2. login (demo_crypto ''t8'') ''S8'' ''ann@acme.test'' ''password10'' scene4 = (Inr x, s1) \<and>
    selectOrganization ''S8'' 100 s1 = (Inr (Some [ADMIN]), s2)"
proof -
  have row: "m_status (activated_row day0 ann_pending) = MS_ACTIVE" "m_userId (activated_row day0 ann_pending) = 101"
    "m_organizationId (activated_row day0 ann_pending) = 100" "m_roles (activated_row day0 ann_pending) = [ADMIN]"
    by (simp_all add: activated_row_def ann_pending_def initial_admin_row_def)
  have "cr_compare (demo_crypto ''t8'') ''password10'' (the (u_passwordHash ann))" and "u_email ann = ''ann@acme.test''"
    by (simp_all add: demo_crypto_def ann_def new_user_def)
  then show ?thesis
    using active_member_logs_in [OF scene4_reachable scene_views(2) row(1), of ann "demo_crypto ''t8''" "''password10''" "''S8''"]
      scene_views(3) row by auto
qed

section \<open>Invitations\<close>

text \<open>
  C14. The link of an invitation works, and works once. Following it in time makes the invitee an active
  member with the roles he was invited with, and an active user; after that the same link is unknown,
  whatever password comes with it.
\<close>

theorem invitation_accepted:
  assumes "account_reachable pd s" and "mem s k = Some m" and "m_invitationTokenHash m = Some (cr_sha256 cr tok)"
    and "m_status m = MS_PENDING_VERIFICATION \<or>
      m_status m = MS_INVITED \<and> (\<forall>e. m_invitationExpiresAt m = Some e \<longrightarrow> clock (ac_db s) \<le> e)"
    and "valid_password pw"
  shows "\<exists>s' m' u'. activate_tx cr tok (Some pw) s = Inr (k, s') \<and> mem s' k = Some m' \<and> m_status m' = MS_ACTIVE \<and>
    m_roles m' = m_roles m \<and> usr s' (m_userId m) = Some u' \<and> u_status u' = US_ACTIVE \<and>
    (\<forall>p. activate_tx cr tok p s' = Inl (NotFoundError ''Invalid or already-used invitation link.''))"
proof -
  note ok = reachable_accounts [OF assms(1)]
  obtain u where u: "usr s (m_userId m) = Some u" and set_u: "settled u"
    using accounts_okD(1,2) ok assms(2) by (metis option.exhaust)
  have lookup: "tbl_first (\<lambda>_ r. m_invitationTokenHash r = Some (cr_sha256 cr tok)) (memberships (ac_db s)) = Some (k, m)"
    using member_of_link ok assms(2,3) by blast
  have live: "expireIfNeeded (m_organizationId m) k m (ac_db s) = Inr (m, ac_db s)"
    using assms(4) by (auto simp: expireIfNeeded_def tx_run split: option.split)
  have found: "tbl_find k (memberships (ac_db s)) = Some m" using assms(2) by (simp add: mem_def)
  have pw: "pw \<noteq> []" using assms(5) by (auto simp: valid_password_def MIN_LENGTH_def)
  have "\<exists>s'. activate_tx cr tok (Some pw) s = Inr (k, s')"
    using lookup live found u pw assms(4,5) by (auto simp: activate_tx_def tx_iff Let_def)
  then obtain s' where run: "activate_tx cr tok (Some pw) s = Inr (k, s')" by blast
  from ok run show ?thesis
  proof (elim conjE, rule_tac activate_rows)
    fix m1 u1
    assume a: "mem s k = Some m1" "mem s' = (mem s)(k \<mapsto> activated_row (clock (ac_db s)) m1)" "usr s (m_userId m1) = Some u1"
      "needs_password u1 \<Longrightarrow> truthy (Some pw) \<and> valid_password (the (Some pw)) \<and>
        usr s' = (usr s)(m_userId m1 \<mapsto> u1\<lparr>u_passwordHash := Some (cr_digest cr (the (Some pw))), u_status := US_ACTIVE,
          u_emailVerifiedAt := Some (clock (ac_db s))\<rparr>)"
      "\<not> needs_password u1 \<Longrightarrow> usr s' = usr s"
    have m1: "m1 = m" "u1 = u" using a(1,3) assms(2) u by auto
    have user: "\<exists>u'. usr s' (m_userId m) = Some u' \<and> u_status u' = US_ACTIVE"
      using a(4,5) m1 u set_u by (cases "needs_password u") (auto simp: needs_password_def settled_def split: if_splits)
    have gone: "tbl_first (\<lambda>_ r. m_invitationTokenHash r = Some (cr_sha256 cr tok)) (memberships (ac_db s')) = None"
    proof (rule ccontr)
      assume "tbl_first (\<lambda>_ r. m_invitationTokenHash r = Some (cr_sha256 cr tok)) (memberships (ac_db s')) \<noteq> None"
      then obtain j r where "tbl_first (\<lambda>_ r. m_invitationTokenHash r = Some (cr_sha256 cr tok)) (memberships (ac_db s')) = Some (j, r)"
        by auto
      note r = tbl_first_SomeD [OF this]
      have "accounts_wf s'" using ok run acc_transactions(4) [of cr tok "Some pw"] by (auto simp: keeps_def keeps_accounts_def)
      then have "mem s' j = Some r" using r mem_iff_set by blast
      then have "j \<noteq> k" "mem s j = Some r" using r a(2) by (auto simp: activated_row_def split: if_splits)
      then show False using r assms(2,3) ok unfolding links_ok_def by blast
    qed
    show ?thesis
      using run a(2) m1 user gone
      by (auto simp: activate_tx_def tx_run in_db_run activated_row_def)
  qed
qed

lemma strong_password: "valid_password ''password10''"
  by code_simp

lemma ann_link: "m_invitationTokenHash ann_pending = Some (cr_sha256 (demo_crypto ''t9'') ''t1'')"
  "m_status ann_pending = MS_PENDING_VERIFICATION" "m_roles ann_pending = [ADMIN]"
  "m_invitationExpiresAt ann_pending = Some (invitation_expiry day0)"
  by (simp_all add: ann_pending_def initial_admin_row_def demo_crypto_def)

theorem invitation_accepted_witness:
  "\<exists>s' m'. activate_tx (demo_crypto ''t9'') ''t1'' (Some ''password10'') scene2 = Inr (102, s') \<and> mem s' 102 = Some m' \<and>
    m_roles m' = [ADMIN]"
  using invitation_accepted [OF scene2_reachable scene_views(1) ann_link(1) _ strong_password] ann_link by auto

text \<open>
  C38. The link of a new organization's first admin never dies. Workflow 1.3 and the mail itself promise
  seven days and a way to have the link sent again; but only an invitation is checked for expiry, so
  the link activates the account at any later time, and nobody can have it sent again.
\<close>

theorem pending_admin_link:
  assumes "account_reachable pd s" and "mem s k = Some m" and "m_status m = MS_PENDING_VERIFICATION"
    and "m_invitationTokenHash m = Some (cr_sha256 cr tok)" and "m_invitationExpiresAt m = Some e" and "e < clock (ac_db s)"
    and "valid_password pw"
  shows "(\<exists>s'. activate_tx cr tok (Some pw) s = Inr (k, s')) \<and>
    (\<forall>a z. resend_tx cr (m_organizationId m) k a s \<noteq> Inr z)"
proof -
  note ok = reachable_accounts [OF assms(1)]
  have lookup: "tbl_first (\<lambda>_ r. m_invitationTokenHash r = Some (cr_sha256 cr tok)) (memberships (ac_db s)) = Some (k, m)"
    using member_of_link ok assms(2,4) by blast
  have live: "expireIfNeeded (m_organizationId m) k m (ac_db s) = Inr (m, ac_db s)"
    using assms(3) by (simp add: expireIfNeeded_def tx_run)
  have found: "tbl_find k (memberships (ac_db s)) = Some m" using assms(2) by (simp add: mem_def)
  have pw: "pw \<noteq> []" using assms(7) by (auto simp: valid_password_def MIN_LENGTH_def)
  obtain u where "usr s (m_userId m) = Some u" using accounts_okD(2) ok assms(2) by blast
  then have "\<exists>s'. activate_tx cr tok (Some pw) s = Inr (k, s')"
    using lookup live found pw assms(3,7) by (auto simp: activate_tx_def tx_iff Let_def)
  moreover have "resend_tx cr (m_organizationId m) k a s \<noteq> Inr z" for a z
    using live found assms(3) by (auto simp: resend_tx_def tx_iff)
  ultimately show ?thesis by blast
qed

definition later :: instant where
  "later = day0 + 8 * day_ms"

definition scene8 :: accounts where
  "scene8 = snd (serve_account (demo_crypto ''t9'') ''S9'' Logout (account_clock later None scene2))"

lemma scene2_clock: "clock (ac_db scene2) = day0"
  by code_simp

lemma scene8_state: "scene8 = account_clock later None scene2" "clock (ac_db scene8) = later"
proof -
  have "ac_sessions scene2 ''S9'' = None" by code_simp
  then show eq: "scene8 = account_clock later None scene2" by (simp add: scene8_def with_session_def account_clock_def)
  show "clock (ac_db scene8) = later" unfolding eq by (simp add: account_clock_def ac_db_def begin_request_def)
qed

lemma scene8_reachable: "account_reachable pd scene8"
proof (rule account_reachable.step [OF scene2_reachable])
  have "\<not> used_hash scene2 (CHR ''#'' # ''t9'')"
    by (rule free_hash [OF scene2_rows]) (simp_all add: ann_pending_def initial_admin_row_def)
  then have "lawful_crypto (demo_crypto ''t9'') scene2" by (simp add: lawful_crypto_def demo_crypto_def)
  then show "account_step pd scene2 scene8"
    unfolding scene8_def by (intro account_step.identity) (simp_all add: scene2_clock later_def day_ms_def)
qed

theorem pending_admin_link_witness:
  "\<exists>s'. activate_tx (demo_crypto ''t9'') ''t1'' (Some ''password10'') scene8 = Inr (102, s')"
proof -
  have row: "mem scene8 102 = Some ann_pending"
    using scene_views(1) by (simp add: scene8_state(1) account_clock_def mem_def ac_db_def begin_request_def)
  have "invitation_expiry day0 < clock (ac_db scene8)"
    unfolding scene8_state(2) by (simp add: invitation_expiry_def INVITATION_EXPIRY_DAYS_def later_def day_ms_def)
  then show ?thesis
    using pending_admin_link [OF scene8_reachable row ann_link(2,1,4) _ strong_password] by blast
qed

section \<open>The life of a membership\<close>

text \<open>Workflow 1.3 to 1.7, with no way back from the two ends.\<close>

fun may_become :: "membership_status \<Rightarrow> membership_status set" where
  "may_become MS_INVITED = {MS_INVITED, MS_EXPIRED, MS_CANCELLED, MS_ACTIVE}"
| "may_become MS_EXPIRED = {MS_EXPIRED, MS_INVITED, MS_CANCELLED}"
| "may_become MS_PENDING_VERIFICATION = {MS_PENDING_VERIFICATION, MS_ACTIVE}"
| "may_become MS_ACTIVE = {MS_ACTIVE, MS_INACTIVE}"
| "may_become MS_INACTIVE = {MS_INACTIVE}"
| "may_become MS_CANCELLED = {MS_CANCELLED}"

inductive membership_step :: "(uuid \<Rightarrow> membership_status option) \<Rightarrow> (uuid \<Rightarrow> membership_status option) \<Rightarrow> bool" where
  joins: "f k = None \<Longrightarrow> st \<in> {MS_INVITED, MS_PENDING_VERIFICATION} \<Longrightarrow> membership_step f (f(k \<mapsto> st))"
| turns: "f k = Some st \<Longrightarrow> st' \<in> may_become st \<Longrightarrow> membership_step f (f(k \<mapsto> st'))"

definition statuses :: "accounts \<Rightarrow> uuid \<Rightarrow> membership_status option" where
  "statuses s k = map_option m_status (mem s k)"

lemma statuses_upd: "mem s' = (mem s)(k \<mapsto> m) \<Longrightarrow> statuses s' = (statuses s)(k \<mapsto> m_status m)"
  by (simp add: statuses_def fun_eq_iff)

lemma statuses_same: "mem s' = mem s \<Longrightarrow> statuses s' = statuses s"
  by (simp add: statuses_def fun_eq_iff)

lemma turns_row:
  "mem s k = Some m \<Longrightarrow> mem s' = (mem s)(k \<mapsto> m') \<Longrightarrow> m_status m' \<in> may_become (m_status m) \<Longrightarrow>
     membership_step (statuses s) (statuses s')"
  using membership_step.turns [of "statuses s" k "m_status m" "m_status m'"] by (simp add: statuses_upd statuses_def [of s k])

lemma move_lifecycle:
  assumes "move h s s'"
  shows "membership_step\<^sup>=\<^sup>= (statuses s) (statuses s')"
  using assms
proof cases
  case (invited k m)
  then show ?thesis
    using membership_step.joins [of "statuses s" k "m_status m"] by (simp add: statuses_upd statuses_def [of s k])
next
  case (edge k m m')
  have "m_status m' \<in> may_become (m_status m)" using edge(3) by (auto simp: edge_def)
  then show ?thesis using turns_row [OF edge(1,2)] by blast
next
  case (activated k m t u d)
  have "m_status (activated_row t m) \<in> may_become (m_status m)" using activated(2) by (auto simp: activated_row_def)
  then show ?thesis using turns_row [OF activated(1,3)] by blast
next
  case (deactivated k m s1 t u)
  have "m_status (deactivated_row t u m) \<in> may_become (m_status m)" using deactivated(2) by (simp add: deactivated_row_def)
  then have "membership_step (statuses s) (statuses s1)" using turns_row [OF deactivated(1,4)] by blast
  moreover have "statuses s' = statuses s1" by (rule statuses_same) (simp add: deactivated(7))
  ultimately show ?thesis by simp
next
  case (reroled k m roles)
  have "m_status (m\<lparr>m_roles := roles\<rparr>) \<in> may_become (m_status m)" using reroled(2) by simp
  then show ?thesis using turns_row [OF reroled(1,4)] by blast
qed (simp_all add: statuses_def [abs_def])

text \<open>A step, seen from the rows: nothing, a move, nothing.\<close>

lemma step_moves:
  assumes "account_step pd s s'" and "accounts_wf s"
  obtains h t u where "same_accounts s t" and "t = u \<or> move h t u" and "same_accounts u s'"
  using assms(1)
proof (rule account_stepE)
  fix w assume "s' = s\<lparr>ac_world := w\<rparr>" "step pd (ac_world s) w"
  then show thesis using that [of s s' "[]"] business_move assms(2) by simp
next
  fix t cr sid req ctx
  let ?s = "account_clock t ctx s"
  assume s': "s' = snd (serve_account cr sid req ?s)" and cr: "lawful_crypto cr s"
  have "done_move (token_hash cr) ?s s'"
    unfolding s' by (rule serve_moves) (use cr assms(2) in \<open>simp_all add: lawful_crypto_def\<close>)
  then show thesis
    unfolding done_move_def
  proof (elim disjE exE conjE)
    assume "s' = ?s"
    then show thesis using that [OF clock_rows [of s t ctx], of ?s] by simp
  next
    fix v assume "move (token_hash cr) ?s v" "same_accounts v s'"
    then show thesis using that [OF clock_rows [of s t ctx], of v "token_hash cr"] by simp
  qed
qed



text \<open>A membership that has ended.\<close>

definition ended :: "uuid \<Rightarrow> uuid \<Rightarrow> uuid \<Rightarrow> accounts \<Rightarrow> bool" where
  "ended k org i s \<longleftrightarrow> (\<exists>m. mem s k = Some m \<and> m_organizationId m = org \<and> m_userId m = i \<and> m_status m \<in> {MS_INACTIVE, MS_CANCELLED})"

lemma ended_kept: "ended k org i s \<Longrightarrow> mem s' k = mem s k \<Longrightarrow> ended k org i s'"
  by (simp add: ended_def)

interpretation ends: account_invariant "ended k org i" for k org i
proof
  show "ended k org i s'" if I: "ended k org i s" and "\<not> used_hash s h" and m: "move h s s'" for s h s'
    using m
  proof cases
    case (invited j m)
    then show ?thesis using I by (intro ended_kept [OF I]) (auto simp: ended_def)
  next
    case (edge j m m')
    have "j \<noteq> k" using I edge(1,3) by (auto simp: ended_def edge_def)
    then show ?thesis using edge(2) by (intro ended_kept [OF I]) simp
  next
    case (activated j m t u d)
    have "j \<noteq> k" using I activated(1,2) by (auto simp: ended_def)
    then show ?thesis using activated(3) by (intro ended_kept [OF I]) simp
  next
    case (deactivated j m s1 t u)
    have "j \<noteq> k" using I deactivated(1,2) by (auto simp: ended_def)
    then show ?thesis using deactivated(4,7) by (intro ended_kept [OF I]) simp
  next
    case (reroled j m roles)
    have "j \<noteq> k" using I reroled(1,2) by (auto simp: ended_def)
    then show ?thesis using reroled(4) by (intro ended_kept [OF I]) simp
  qed (simp_all add: ended_kept [OF I])
qed

text \<open>
  C37. Nobody comes back. Workflow 1.4 allows an address to be invited again after its invitation was
  cancelled, and the invitation code only refuses members that are active or pending; but the row of
  the old membership still holds the unique key of user and organization, so the new one is refused by
  the database, at any later time, and the old one cannot be sent again.
\<close>

theorem nobody_comes_back:
  assumes "account_reachable pd s" and "ended k org i s" and "rtranclp (account_step pd) s s'"
    and "usr s' i = Some u" and "ADMIN \<in> set (roles_of org a (ac_db s'))"
  shows "invite_tx cr org (u_email u) roles a s' = Inl (PrismaError ''P2002'') \<and>
    resend_tx cr org k a s' = Inl (BusinessRuleError ''Only a pending or expired invitation can be resent.'')"
proof -
  have ok: "accounts_wf s' \<and> accounts_ok s' \<and> keys_ok s' \<and> links_ok s' \<and> tokens_ok s'"
    by (rule reachable_accounts [OF reachable_run [OF assms(3,1)]])
  have "ended k org i s'" using ends.kept [OF assms(3) _ assms(2)] reachable_accounts [OF assms(1)] by blast
  then obtain m where m: "mem s' k = Some m" "m_organizationId m = org" "m_userId m = i" "m_status m \<in> {MS_INACTIVE, MS_CANCELLED}"
    by (auto simp: ended_def)
  have user: "tbl_first (\<lambda>_ v. u_email v = u_email u) (ac_users s') = Some (i, u)" using user_of_email ok assms(4) by blast
  have key: "tbl_first (\<lambda>_ r. m_organizationId r = org \<and> m_userId r = i) (memberships (ac_db s')) = Some (k, m)"
    using member_of_key [of s' k m] ok m(1-3) by simp
  have "invite_tx cr org (u_email u) roles a s' = Inl (PrismaError ''P2002'')"
    using user key m(4) assms(5)
    by (auto simp: invite_tx_def assertHasRole_def getRoles_def findByEmail_def check_not_member_def create_membership_def
        invited_row_def tx_run in_db_run)
  moreover have "resend_tx cr org k a s' = Inl (BusinessRuleError ''Only a pending or expired invitation can be resent.'')"
    using m assms(5)
    by (auto simp: resend_tx_def assertHasRole_def getRoles_def requireMembershipTx_def expireIfNeeded_def mem_def tx_run in_db_run)
  ultimately show ?thesis by blast
qed

theorem nobody_comes_back_witness:
  "invite_tx (demo_crypto ''t9'') 100 ''bob@acme.test'' [DISPATCHER] 101 scene6 = Inl (PrismaError ''P2002'')"
proof -
  have over: "ended 104 100 103 scene6"
    unfolding ended_def using scene_views(4) by (auto simp: bob_cancelled_def bob_invited_def invited_row_def)
  have admin: "ADMIN \<in> set (roles_of 100 101 (ac_db scene6))"
    using scene6_rows by (simp add: rows_are_def roles_of_def tbl_first_def activated_row_def ann_pending_def initial_admin_row_def)
  show ?thesis
    using nobody_comes_back [OF scene6_reachable over rtranclp.rtrancl_refl scene_views(5) admin, of "demo_crypto ''t9''" "[DISPATCHER]"]
    by (simp add: new_user_def)
qed

section \<open>Forgotten passwords\<close>



end
