(* ===== verification/Spec2Isabelle.thy ===== *)
theory Spec2Isabelle
  imports MoneyProperties BookingProperties PartnerProperties AttentionProperties SweepProperties AccountProperties
begin

text \<open>
  Truckmaster is a transport management system for freight brokers: a NestJS backend (backend/src)
  over PostgreSQL through Prisma, a React front end, and queues for documents, mail and scans. This
  development models the services that carry the broker's business: loads from quote to invoice,
  carriers and their compliance, documents and their review, money in and money out, and everything
  they rely on (tenancy, audit trail, numbering, plan limits, notifications), and the organizations,
  members and sessions they serve.

  \<^bold>\<open>How the program is modelled.\<close> A service method runs its body in
  withTenantTransaction (common/prisma/prisma.service.ts). A body is a function in the
  state-and-exception monad of Prelude (\<open>('s, 'e, 'a) txn\<close>) over the record
  \<open>db\<close> of Schema: one field per table, a supply of fresh identifiers, the clock and the
  request context. A thrown error is a value of \<open>app_error\<close>, one constructor per class
  of common/errors/app-error.ts; a transaction that throws leaves no state, as the rollback does
  (Queues). A method that talks to a queue after its commit acts on a \<open>world\<close>: the
  database, the jobs queued so far, and whether the queue accepts jobs. System lists every request
  the modelled controllers accept, \<open>handle\<close> runs one, and \<open>step\<close> and
  \<open>reachable\<close> are the requests of any organizations and users in any order, with time
  moving forward in between. Users, password reset tokens and the sessions in Redis belong to no
  organization: \<open>accounts\<close> keeps them beside the world, \<open>account_request\<close>
  lists the identity requests, \<open>serve_account\<close> runs one behind its guards, and
  \<open>account_step\<close> is one of them or a step of the world.

  \<^bold>\<open>Theories.\<close> Foundations: Prelude (types, monad, the locale
  \<open>state_relation\<close>), Table (a table as a list of keyed rows, locale
  \<open>keyed_store\<close>), Schema (enumerations, rows, errors), Store (the Prisma calls the
  services make, audit.service.ts), Relations and Tenancy (what every step keeps: well-formed
  tables, an append-only trail, other organizations' rows), Sequence
  (organization-sequence.service.ts), Money (IEEE doubles as rationals rounded to 53 bits, half to
  even: JavaScript sums and toFixed(2) of Decimal(12,2) columns). Services: Entitlement,
  Notification, Eligibility, Carrier and Fleet (carrier.service.ts), Customer, Rating, Load and
  LoadLifecycle (load.service.ts, load-status-derivation, load-pod-status), Quote, Sourcing
  (carrier-sourcing.service.ts), Dispatch (dispatch-tracking.service.ts), Invoice
  (invoice.service.ts, charge-type.service.ts), CarrierPay, Document, Detectors (the pure risk
  utilities and the redaction of prices), Drafts (load-draft.service.ts), Sweeps (the background
  sweeps that expire quotes, invitations and compliance documents, recalculate eligibility and write
  reminders) and Attention (the five sweeps that keep the attention items of loads). Accounts:
  Identity (membership, user, auth, password, password-reset and session-registry services),
  Provisioning (organization.service.ts) and AccountSystem (their endpoints and guards). Each theory
  names the methods it models and keeps their names.

  \<^bold>\<open>Groups of lemmas.\<close> Each service theory ends with the proof that its
  operations are lawful: they keep the tables well formed, only append to the trail and touch no
  other organization's rows (\<open>confined\<close>). Safety lifts this to requests and steps.
  Footprint gives every request the set of tables it may write. Invariants turns that into a method
  for invariants of a deployment: the locale \<open>deployment_invariant\<close> asks for an
  invariant that holds initially and that every request keeps, and gives it for every reachable
  state; requests whose footprint avoids the tables an invariant reads need no proof. It is
  interpreted in Controls (carrier payments, documents, eligibility flags), LoadStates (loads,
  stops, quotes), PlanLimits, Numbering and Billing. Scenario evaluates a few runs of a small
  deployment for the witnesses. SweepRuns shows that every sweep is a run of the deployment, one
  step per record (locale \<open>swept\<close>), so its invariants hold there too.
  AttentionLifecycle refines the transactions of the attention sweeps to an abstract lifecycle of an
  item and proves the detectors' laws once (locale \<open>attention_detector\<close>).
  MoneyProperties, BookingProperties, PartnerProperties, SweepProperties and AttentionProperties
  hold the properties of single operations: balances and invoices, the gates from booking to
  dispatch, the services around a load, and the sweeps. AccountMoves shows that every identity
  operation makes one of few changes to the rows of users, memberships and sessions
  (\<open>move\<close>), so that an invariant of a deployment with accounts is a property every move
  keeps: the locale \<open>account_invariant\<close>, interpreted in AccountStates on active admins,
  consistent sessions, unique keys, links and reset tokens. AccountScenario evaluates the life of a
  small deployment for the witnesses, and AccountProperties holds the properties of users,
  memberships and sessions. This theory holds the properties of every request and of every reachable
  state.

  \<^bold>\<open>Bounds.\<close> The money theorems hold for at most 1500 amounts whose absolute
  values add up to at most 10^12 hundredths, which is a hundred times the largest value of a column;
  beyond that a sum of doubles may no longer be exact to the cent. All other statements are
  unbounded. No definition uses fuel: every loop of the modelled code is over a list.

  \<^bold>\<open>Assumptions and parameters.\<close> Requests are served one at a time: row locks
  (SELECT ... FOR UPDATE) are reads. Text is ASCII. Fresh identifiers come from a counter. The
  parser of dates and the signer of download links are parameters. So are, in the record
  \<open>crypto\<close>, the random token of a request, its SHA-256 hash and bcrypt: a step assumes
  that the hash of a new token is not in use and that no digest is empty
  (\<open>lawful_crypto\<close>). An identity request is atomic too, the two transactions of an
  activation and the change to Redis after a commit included, except in the race AccountProperties
  shows; Redis keys do not expire; the bodies of requests have passed their checks of form. Files,
  PDFs and mails are what the jobs describe; the workers that produce them are not modelled.

  \<^bold>\<open>Not modelled.\<close> The registration of the background jobs with their queue;
  bulk import; the driver dispatch mail; extraction of rate confirmations from PDFs, geocoding,
  reporting and search (read-only queries and external services); the other controllers, wiring and
  health checks; scripts and the front end.
\<close>

section \<open>Every request\<close>

text \<open>
  C1. A request only ever changes rows of the organization it is made for: whatever the request
  and its outcome, every table, the number sequences and both logs are unchanged for every other
  organization.
\<close>

theorem request_isolated:
  assumes "wf_db (w_db w)"
  shows "isolated org (w_db w) (w_db (handle pd org u req w))"
  using handle_lawful [OF assms] by (simp add: lawful_def)

theorem request_isolated_witness:
  "isolated 1 demo_db (w_db (handle (\<lambda>_. 0) 1 7 (CarrierRequest (CreateCarrier demo_carrier_dto)) demo_world))"
  using request_isolated [of demo_world 1 "\<lambda>_. 0" 7 "CarrierRequest (CreateCarrier demo_carrier_dto)"]
  by (simp add: demo_wf demo_world_def)

text \<open>
  C2. The audit trail is append-only and complete: in every step of a deployment the audit log
  grows by a suffix whose entries bear the time of the step, and the domain events grow by exactly
  the events of those entries.
\<close>

theorem trail_append_only:
  assumes "reachable pd w" and "step pd w w'"
  shows "\<exists>es. audit_logs (w_db w') = audit_logs (w_db w) @ es \<and>
     domain_events (w_db w') = domain_events (w_db w) @ map event_of es \<and>
     (\<forall>a \<in> set es. a_createdAt a = clock (w_db w'))"
  using step_trail [OF assms(2) reachable_wf [OF assms(1)]] by blast

theorem trail_append_only_witness:
  "\<exists>es. audit_logs (w_db demo_step) = audit_logs (w_db demo_world) @ es \<and>
     domain_events (w_db demo_step) = domain_events (w_db demo_world) @ map event_of es \<and>
     (\<forall>a \<in> set es. a_createdAt a = clock (w_db demo_step))"
  by (rule trail_append_only [OF demo_step_reachable(2,1)])

text \<open>
  A request changes no table outside its footprint: the tables its method and the services it
  calls write to, the two logs among them. What a request leaves out of its footprint is as before
  whatever the outcome.
\<close>

theorem request_footprint: "only (footprint_of req) (w_db w) (w_db (handle pd org u req w))"
  by (rule handle_only)

section \<open>Every state of a deployment\<close>

text \<open>
  C3. No load is billed twice. In every state of a deployment, a load has at most one entry on an
  invoice that is not void, and its invoiced flag says exactly whether it has one.
\<close>

theorem load_billed_once:
  assumes "reachable pd w" and "tbl_find i (loads (w_db w)) = Some l"
  defines "entry k il \<equiv> (k, il) \<in> set (invoice_loads (w_db w)) \<and> il_loadId il = i \<and> live (invoices (w_db w)) il"
  shows "(l_invoiced l \<longleftrightarrow> (\<exists>k il. entry k il)) \<and> Uniq (\<lambda>k. \<exists>il. entry k il)"
proof -
  have "billing (invoices (w_db w)) (invoice_loads (w_db w)) (loads (w_db w))"
    using billed.holds [OF assms(1)] by (simp add: billed_once_def)
  then show ?thesis using assms(2) unfolding billing_def entry_def Uniq_def by blast
qed

theorem load_billed_once_witness:
  "\<exists>k il. (k, il) \<in> set (invoice_loads (w_db billed_world)) \<and> il_loadId il = 100 \<and>
     live (invoices (w_db billed_world)) il"
proof -
  obtain l where l: "loads (w_db billed_world) = [(100, l)]" "l_invoiced l" using billed_world_load by blast
  then have "tbl_find 100 (loads (w_db billed_world)) = Some l" by (simp add: tbl_find_def)
  from load_billed_once [OF scenario_reachable(1) this] l show ?thesis by simp
qed

text \<open>
  C4. The milestones of a load are on record. In every state of a deployment a load past sourcing
  names its carrier and the carrier's rate, one not yet sourced names none; a cancelled load says
  when and by whom, a closed one too; a load is only on an invoice once delivered or closed; and a
  risk other than normal has a reason.
\<close>

theorem load_milestones:
  assumes "reachable pd w" and "tbl_find i (loads (w_db w)) = Some l"
  shows "(l_status l \<in> {CARRIER_ASSIGNED, RATE_CONFIRMATION, DISPATCHED, PICKUP, IN_TRANSIT, DELIVERED} \<longrightarrow>
       l_assignedCarrierId l \<noteq> None \<and> l_carrierRate l \<noteq> None) \<and>
     (l_status l \<in> {BOOKED, CARRIER_SOURCING} \<longrightarrow> l_assignedCarrierId l = None \<and> l_carrierRate l = None) \<and>
     (l_status l = CANCELLED \<longrightarrow> l_cancelledAt l \<noteq> None \<and> l_cancelledByUserId l \<noteq> None) \<and>
     (l_status l = CLOSED \<longleftrightarrow> l_closedAt l \<noteq> None \<and> l_closedByUserId l \<noteq> None) \<and>
     (l_invoiced l \<longrightarrow> l_status l \<in> {DELIVERED, CLOSED}) \<and>
     (l_riskStatus l = RISK_NORMAL \<longleftrightarrow> \<not> truthy (l_riskReason l))"
proof -
  have "load_sound l" using states.holds [OF assms(1)] assms(2) by (rule rows_in_find)
  then have carrier: "carrier_recorded l" and ended: "end_recorded l" and risk: "risk_reasoned l"
    by (simp_all add: load_sound_def)
  have "l_riskStatus l = RISK_NORMAL \<longleftrightarrow> \<not> truthy (l_riskReason l)"
    using risk unfolding risk_reasoned_def by (cases "l_riskStatus l = RISK_NORMAL") simp_all
  moreover have "l_status l = CLOSED \<longleftrightarrow> l_closedAt l \<noteq> None \<and> l_closedByUserId l \<noteq> None"
    using ended unfolding end_recorded_def by blast
  ultimately show ?thesis using carrier ended
    unfolding carrier_recorded_def end_recorded_def with_carrier_def by argo
qed

theorem load_milestones_witness:
  "\<exists>l. tbl_find 100 (loads (w_db billed_world)) = Some l \<and> l_status l = CLOSED \<and> l_invoiced l \<and>
     l_closedAt l \<noteq> None \<and> l_closedByUserId l \<noteq> None"
proof -
  obtain l where l: "loads (w_db billed_world) = [(100, l)]" "l_status l = CLOSED" "l_invoiced l"
    using billed_world_load by blast
  then have "tbl_find 100 (loads (w_db billed_world)) = Some l" by (simp add: tbl_find_def)
  then show ?thesis using load_milestones [OF scenario_reachable(1), of 100 l] l(2,3) by simp
qed

text \<open>
  C5. Carrier payments are four-eyes controlled. Along any run of a deployment whose payments are
  in order to begin with (at the start there are none), an approved or paid carrier payment was
  approved by someone other than who prepared it, had a method and a reference number from the
  moment it was submitted, and is paid exactly when it has a payment date.
\<close>

theorem carrier_payment_four_eyes:
  assumes "rtranclp (step pd) w w'" and "wf_db (w_db w)"
    and "\<And>i p. (i, p) \<in> set (carrier_payments (w_db w)) \<Longrightarrow> payment_controlled p"
    and "tbl_find i (carrier_payments (w_db w')) = Some p"
  shows "(cp_status p \<in> {CP_APPROVED, CP_PAID} \<longrightarrow>
       (\<exists>a. cp_approvedByUserId p = Some a \<and> a \<noteq> cp_preparedByUserId p)) \<and>
     (cp_status p \<noteq> CP_DRAFT \<longrightarrow> truthy (cp_method p) \<and> truthy (cp_referenceNumber p)) \<and>
     (cp_status p = CP_PAID \<longleftrightarrow> cp_paidAt p \<noteq> None)"
proof -
  have "rows_in carrier_payments payment_controlled (w_db w')"
    by (rule payments.kept [OF assms(1,2)]) (rule rows_inI, rule assms(3))
  then have "payment_controlled p" using assms(4) by (rule rows_in_find)
  then show ?thesis by (simp add: payment_controlled_def)
qed

definition payment_world :: world where
  "payment_world = small_world\<lparr>w_db := small_db\<lparr>carrier_payments := [(80, pending_payment)]\<rparr>\<rparr>"

lemma payment_approved:
  "\<exists>p. tbl_find 80 (carrier_payments (w_db (serve [(8, MoneyRequest (ApproveCarrierPayment 80))] payment_world))) = Some p \<and>
     cp_status p = CP_APPROVED"
  by (simp add: evaluation payment_world_def pending_payment_def approveCarrierPayment_def require_carrier_payment_def
      mark_approved_def new_carrier_payment_def)

theorem carrier_payment_four_eyes_witness:
  "\<exists>p a. tbl_find 80 (carrier_payments (w_db (serve [(8, MoneyRequest (ApproveCarrierPayment 80))] payment_world))) = Some p \<and>
     cp_approvedByUserId p = Some a \<and> a \<noteq> cp_preparedByUserId p \<and> truthy (cp_method p)"
proof -
  obtain p where p: "tbl_find 80 (carrier_payments (w_db (serve [(8, MoneyRequest (ApproveCarrierPayment 80))] payment_world))) = Some p"
      "cp_status p = CP_APPROVED" using payment_approved by blast
  have wf: "wf_db (w_db payment_world)"
    using small_fresh by (simp add: payment_world_def small_db_def blank_db_def wf_db_def table_ok_def)
  have ok: "payment_controlled q" if "(i, q) \<in> set (carrier_payments (w_db payment_world))" for i q
    using that by (simp add: payment_world_def pending_payment_def payment_controlled_def new_carrier_payment_def)
  from carrier_payment_four_eyes [OF serve_steps wf ok p(1)] p show ?thesis by auto
qed

text \<open>
  C6. Documents are four-eyes controlled. In every state of a deployment a document has a reviewer
  exactly when it is approved or rejected, or approved and since expired, and the reviewer is not
  who uploaded it.
\<close>

theorem document_four_eyes:
  assumes "reachable pd w" and "tbl_find i (documents (w_db w)) = Some d"
  shows "(doc_reviewStatus d \<in> {Some RV_APPROVED, Some RV_REJECTED, Some RV_EXPIRED} \<longleftrightarrow> doc_reviewedByUserId d \<noteq> None) \<and>
     doc_reviewedByUserId d \<noteq> Some (doc_uploadedByUserId d) \<and> 1 \<le> doc_versionNumber d"
proof -
  have "document_controlled d" using reviews.holds [OF assms(1)] assms(2) by (rule rows_in_find)
  then show ?thesis by (auto simp: document_controlled_def)
qed

theorem document_four_eyes_witness:
  "\<exists>d. tbl_find 101 (documents (w_db reviewed_world)) = Some d \<and> doc_reviewStatus d = Some RV_APPROVED \<and>
     doc_reviewedByUserId d \<noteq> None \<and> doc_reviewedByUserId d \<noteq> Some (doc_uploadedByUserId d)"
proof -
  obtain d where d: "documents (w_db reviewed_world) = [(101, d)]" "doc_reviewStatus d = Some RV_APPROVED"
    using reviewed_world_document by blast
  then have "tbl_find 101 (documents (w_db reviewed_world)) = Some d" by (simp add: tbl_find_def)
  then show ?thesis using document_four_eyes [OF scenario_reachable(2), of 101 d] d(2) by simp
qed

text \<open>
  C7. Only an active carrier can be assigned. Along any run of a deployment whose carriers are in
  order to begin with, a carrier whose eligibility flag is set is active and has no reason for
  ineligibility on record.
\<close>

theorem eligible_carrier_active:
  assumes "rtranclp (step pd) w w'" and "wf_db (w_db w)"
    and "\<And>i c. (i, c) \<in> set (carriers (w_db w)) \<Longrightarrow> flag_sound c"
    and "tbl_find i (carriers (w_db w')) = Some c"
  shows "c_assignmentEligible c \<longrightarrow> c_status c = CA_ACTIVE \<and> c_ineligibilityReasons c = Some []"
proof -
  have "rows_in carriers flag_sound (w_db w')"
    by (rule flags.kept [OF assms(1,2)]) (rule rows_inI, rule assms(3))
  then have "flag_sound c" using assms(4) by (rule rows_in_find)
  then show ?thesis by (simp add: flag_sound_def)
qed

definition carrier_world :: world where
  "carrier_world = small_world\<lparr>w_db := small_db\<lparr>carriers :=
     [(40, (demo_carrier CA_ACTIVE True)\<lparr>c_ineligibilityReasons := Some []\<rparr>)]\<rparr>\<rparr>"

definition blocked_world :: world where
  "blocked_world = serve [(7, CarrierRequest (BlockCarrier 40 ''fraud''))] carrier_world"

lemma blocked_world_carrier:
  "\<exists>c. tbl_find 40 (carriers (w_db blocked_world)) = Some c \<and> c_status c = CA_BLOCKED"
  by (simp add: blocked_world_def evaluation carrier_world_def demo_carrier_def blockCarrier_def transitionStatus_def
      require_carrier_def recalculate_run recalculated_carriers is_space_def)

theorem eligible_carrier_active_witness:
  "\<exists>c. tbl_find 40 (carriers (w_db blocked_world)) = Some c \<and> c_status c = CA_BLOCKED \<and> \<not> c_assignmentEligible c"
proof -
  obtain c where c: "tbl_find 40 (carriers (w_db blocked_world)) = Some c" "c_status c = CA_BLOCKED"
    using blocked_world_carrier by blast
  have wf: "wf_db (w_db carrier_world)"
    using small_fresh by (simp add: carrier_world_def small_db_def blank_db_def wf_db_def table_ok_def)
  have ok: "flag_sound r" if "(i, r) \<in> set (carriers (w_db carrier_world))" for i r
    using that by (simp add: carrier_world_def flag_sound_def demo_carrier_def)
  show ?thesis
    using eligible_carrier_active [OF serve_steps wf ok c(1) [unfolded blocked_world_def]] c by auto
qed

text \<open>
  C8. Numbers identify. In every state of a deployment each load bears a number the sequence of
  its organization has handed out, and no two loads of an organization bear the same.
\<close>

theorem load_numbers_unique:
  assumes "reachable pd w" and "tbl_find i (loads (w_db w)) = Some l"
  shows "(\<exists>n. 0 < n \<and> n \<le> sequence_current (w_db w) (l_organizationId l) SEQ_LOAD \<and>
       l_loadNumber l = format SEQ_LOAD n) \<and>
     (\<forall>j m. tbl_find j (loads (w_db w)) = Some m \<and> l_organizationId m = l_organizationId l \<and>
       l_loadNumber m = l_loadNumber l \<longrightarrow> j = i)"
proof -
  have n: "loads_numbered (w_db w)" using assms(1) by (rule load_numbers.holds)
  have mem: "(j, m) \<in> set (loads (w_db w))" if "tbl_find j (loads (w_db w)) = Some m" for j m
    using that by (rule tbl_find_in_set)
  have "\<exists>n. 0 < n \<and> n \<le> sequence_current (w_db w) (l_organizationId l) SEQ_LOAD \<and> l_loadNumber l = format SEQ_LOAD n"
    using n mem [OF assms(2)] unfolding loads_numbered_def numbered_def by blast
  moreover have "j = i" if "tbl_find j (loads (w_db w)) = Some m" "l_organizationId m = l_organizationId l"
      "l_loadNumber m = l_loadNumber l" for j m
    using n mem [OF assms(2)] mem [OF that(1)] that(2,3) unfolding loads_numbered_def numbered_def by blast
  ultimately show ?thesis by blast
qed

theorem load_numbers_unique_witness:
  "\<exists>l n. tbl_find 100 (loads (w_db billed_world)) = Some l \<and> l_loadNumber l = format SEQ_LOAD n \<and>
     n \<le> sequence_current (w_db billed_world) (l_organizationId l) SEQ_LOAD"
proof -
  obtain l where "loads (w_db billed_world) = [(100, l)]" using billed_world_load by blast
  then have l: "tbl_find 100 (loads (w_db billed_world)) = Some l" by (simp add: tbl_find_def)
  then show ?thesis using load_numbers_unique [OF scenario_reachable(1) l] by blast
qed



text \<open>
  The clock of a stop runs forward. In every state of a deployment a stop that is pending has
  neither arrival nor departure, one that has been reached has an arrival only, and a completed one
  has both, the departure no earlier than the arrival.
\<close>

theorem stop_timeline:
  assumes "reachable pd w" and "tbl_find i (stops (w_db w)) = Some p"
  shows "(case s_status p of
       SS_PENDING \<Rightarrow> s_actualArrival p = None \<and> s_actualDeparture p = None
     | SS_ARRIVED \<Rightarrow> s_actualArrival p \<noteq> None \<and> s_actualDeparture p = None
     | SS_COMPLETED \<Rightarrow> (\<exists>a d. s_actualArrival p = Some a \<and> s_actualDeparture p = Some d \<and> a \<le> d))"
proof -
  have "stop_timely p" using timeline.holds [OF assms(1)] assms(2) by (rule rows_in_find)
  then show ?thesis by simp
qed

theorem stop_timeline_witness:
  "\<exists>p. tbl_find 101 (stops (w_db billed_world)) = Some p \<and> s_actualArrival p = None \<and> s_actualDeparture p = None"
proof -
  obtain p q where p: "stops (w_db billed_world) = [(101, p), (102, q)]" "s_status p = SS_PENDING"
    using billed_world_stops by blast
  then have "tbl_find 101 (stops (w_db billed_world)) = Some p" by (simp add: tbl_find_def)
  then show ?thesis using stop_timeline [OF scenario_reachable(1), of 101 p] p(2) by simp
qed



section \<open>Failure\<close>



text \<open>
  A queue that cannot be reached does not undo a payment: marking a carrier payment paid
  commits first and then fails, so that the caller sees an error for a payment that is recorded.
\<close>

theorem paid_despite_queue_failure:
  assumes "markPaid_tx org i d u (w_db w) = Inr (r, s')" and "\<not> w_queue_up w"
  shows "markPaid org i d u w = (Inl (QueueError ''connection lost''), w\<lparr>w_db := s'\<rparr>)"
  using assms by (cases r) (simp add: markPaid_def withTenantTransaction_def then_enqueue_def add_jobs_def)

definition approved_world :: world where
  "approved_world = \<lparr>w_db = demo_db\<lparr>carrier_payments := [(80, pending_payment
     \<lparr>cp_status := CP_APPROVED, cp_approvedByUserId := Some 8\<rparr>)]\<rparr>, w_jobs = [], w_queue_up = False\<rparr>"

theorem paid_despite_queue_failure_witness:
  "\<exists>s' p. markPaid 1 80 None 7 approved_world = (Inl (QueueError ''connection lost''), approved_world\<lparr>w_db := s'\<rparr>) \<and>
     tbl_find 80 (carrier_payments s') = Some p \<and> cp_status p = CP_PAID"
proof -
  have "\<exists>r s' p. markPaid_tx 1 80 None 7 (w_db approved_world) = Inr (r, s') \<and>
      tbl_find 80 (carrier_payments s') = Some p \<and> cp_status p = CP_PAID"
    by (simp add: tx_run approved_world_def markPaid_tx_def require_carrier_payment_def tbl_find_def demo_db_def
        blank_db_def demo_type_def pending_payment_def new_carrier_payment_def mark_paid_def Let_def findDocumentType_def
        tbl_first_def create_generated_def tbl_ins_def)
  moreover have "\<not> w_queue_up approved_world" by (simp add: approved_world_def)
  ultimately show ?thesis using paid_despite_queue_failure [of 1 80 None 7 approved_world] by blast
qed

end
